(* ===== verification/Prelude.thy ===== *)
theory Prelude
  imports Main "HOL-Library.Word"
begin

text \<open>
  Shared vocabulary of the development: the machine integers of the BPF C code, C strings in
  fixed size buffers, little endian encodings, bounded array accesses, and the lemma
  collections the component theories fill and use:
  \<^item> \<open>hook_defs\<close>: the defining equations of the small helpers that every hook unfolds;
  \<^item> \<open>frames\<close>: which parts of the recorder state an operation leaves alone;
  \<^item> \<open>codec\<close>: lengths and round trips of the wire formats.
\<close>

unbundle bit_operations_syntax

named_theorems hook_defs
named_theorems frames
named_theorems codec

type_synonym u8 = "8 word"
type_synonym u16 = "16 word"
type_synonym u32 = "32 word"
type_synonym u64 = "64 word"

section \<open>Lists as arrays\<close>

text \<open>Reading an array element that may be out of range.\<close>

definition nth_opt :: "'a list \<Rightarrow> nat \<Rightarrow> 'a option" where
  "nth_opt xs i = (if i < length xs then Some (xs ! i) else None)"

lemma nth_opt_Some [simp]: "i < length xs \<Longrightarrow> nth_opt xs i = Some (xs ! i)"
  by (simp add: nth_opt_def)

lemma nth_opt_None [simp]: "length xs \<le> i \<Longrightarrow> nth_opt xs i = None"
  by (simp add: nth_opt_def)

text \<open>
  \<open>write_at buf off bs\<close> stores the bytes \<open>bs\<close> at offset \<open>off\<close> of the buffer; \<open>None\<close> is an
  access outside of the buffer.
\<close>

definition write_at :: "'a list \<Rightarrow> nat \<Rightarrow> 'a list \<Rightarrow> 'a list option" where
  "write_at buf off bs =
     (if off + length bs \<le> length buf
      then Some (take off buf @ bs @ drop (off + length bs) buf) else None)"

lemma write_at_Some:
  "off + length bs \<le> length buf \<Longrightarrow>
     write_at buf off bs = Some (take off buf @ bs @ drop (off + length bs) buf)"
  by (simp add: write_at_def)

lemma write_at_length: "write_at buf off bs = Some buf' \<Longrightarrow> length buf' = length buf"
  by (auto simp: write_at_def split: if_splits)

lemma write_at_bound: "write_at buf off bs = Some buf' \<Longrightarrow> off + length bs \<le> length buf"
  by (auto simp: write_at_def split: if_splits)

lemma take_upt_drop: "i \<le> j \<Longrightarrow> j \<le> length xs \<Longrightarrow> take (j - i) (drop i xs) @ drop j xs = drop i xs"
  by (metis append_take_drop_id drop_drop le_add_diff_inverse2)

text \<open>What a write leaves behind: the bytes written followed by the old tail.\<close>

lemma write_at_drop:
  assumes "write_at buf off bs = Some buf'"
  shows "drop off buf' = bs @ drop (off + length bs) buf"
proof -
  have "off \<le> length buf" using write_at_bound [OF assms] by simp
  with assms show ?thesis by (auto simp: write_at_def split: if_splits)
qed

section \<open>C strings\<close>

text \<open>The string held by a buffer: the bytes before the first NUL byte.\<close>

definition cstr :: "u8 list \<Rightarrow> u8 list" where
  "cstr bs = takeWhile (\<lambda>b. b \<noteq> 0) bs"

lemma cstr_Nil [simp]: "cstr [] = []"
  by (simp add: cstr_def)

lemma cstr_Cons: "cstr (b # bs) = (if b = 0 then [] else b # cstr bs)"
  by (simp add: cstr_def)

lemma cstr_Cons_0 [simp]: "cstr (0 # bs) = []"
  by (simp add: cstr_def)

lemma cstr_no_NUL: "0 \<notin> set (cstr bs)"
  by (auto simp: cstr_def dest: set_takeWhileD)

lemma cstr_length: "length (cstr bs) \<le> length bs"
  by (simp add: cstr_def length_takeWhile_le)

lemma cstr_append_NUL: "0 \<notin> set bs \<Longrightarrow> cstr (bs @ 0 # cs) = bs"
  by (induction bs) (auto simp: cstr_Cons)

lemma cstr_id: "0 \<notin> set bs \<Longrightarrow> cstr bs = bs"
  by (induction bs) (auto simp: cstr_Cons)

lemma cstr_length_less: "0 \<in> set bs \<Longrightarrow> length (cstr bs) < length bs"
  by (induction bs) (auto simp: cstr_Cons)

lemma prefix_before_NUL:
  assumes "0 \<notin> set pre"
  shows "(\<exists>rest. name @ 0 # zs = pre @ rest) \<longleftrightarrow> (\<exists>rest. name = pre @ (rest :: u8 list))"
proof
  assume "\<exists>rest. name @ 0 # zs = pre @ rest"
  then obtain us where "name = pre @ us \<or> (\<exists>rest. name @ us = pre \<and> 0 # zs = us @ rest)"
    by (auto simp: append_eq_append_conv2)
  then show "\<exists>rest. name = pre @ rest"
    using assms by (cases us) auto
qed auto

text \<open>The bytes of a string literal.\<close>

definition bytes_of :: "string \<Rightarrow> u8 list" where
  "bytes_of s = map of_char s"

text \<open>A name in a zeroed buffer of \<open>n\<close> bytes.\<close>

definition pad :: "nat \<Rightarrow> u8 list \<Rightarrow> u8 list" where
  "pad n bs = bs @ replicate (n - length bs) 0"

lemma length_pad [simp]: "length bs \<le> n \<Longrightarrow> length (pad n bs) = n"
  by (simp add: pad_def)

lemma cstr_pad: "0 \<notin> set bs \<Longrightarrow> cstr (pad n bs) = bs"
  by (cases "n - length bs") (auto simp: pad_def cstr_append_NUL cstr_id)

section \<open>Little endian encoding\<close>

text \<open>
  The two targets of the program, x86 and arm64, store integers with the least significant
  byte first. \<open>le_bytes n w\<close> is the memory image of an \<open>n\<close> byte integer, \<open>le_word\<close> reads one.
\<close>

definition le_bytes :: "nat \<Rightarrow> 'a::len word \<Rightarrow> u8 list" where
  "le_bytes n w = map (\<lambda>i. ucast (drop_bit (8 * i) w)) [0..<n]"

fun le_word :: "u8 list \<Rightarrow> 'a::len word" where
  "le_word [] = 0"
| "le_word (b # bs) = ucast b OR push_bit 8 (le_word bs)"

lemma length_le_bytes [simp, codec]: "length (le_bytes n w) = n"
  by (simp add: le_bytes_def)

lemma le_bytes_Suc:
  "le_bytes (Suc n) w = ucast w # le_bytes n (drop_bit 8 w)"
proof -
  have "[0..<Suc n] = 0 # map Suc [0..<n]"
    by (simp add: map_Suc_upt upt_conv_Cons del: upt_Suc)
  then show ?thesis
    by (simp add: le_bytes_def o_def algebra_simps)
qed

lemma le_bytes_0 [simp]: "le_bytes 0 w = []"
  by (simp add: le_bytes_def)

lemma bit_le_word_le_bytes:
  fixes w :: "'a::len word"
  shows "bit (le_word (le_bytes n w) :: 'a word) i \<longleftrightarrow> i < 8 * n \<and> bit w i"
proof (induction n arbitrary: w i)
  case 0
  then show ?case by simp
next
  case (Suc n)
  show ?case
  proof (cases "i < LENGTH('a)")
    case False
    then show ?thesis by (meson bit_imp_le_length not_le)
  next
    case True
    then show ?thesis
      by (auto simp: le_bytes_Suc bit_or_iff bit_push_bit_iff bit_ucast_iff Suc.IH bit_drop_bit_eq
          not_le)
  qed
qed

lemma le_word_le_bytes:
  fixes w :: "'a::len word"
  assumes "LENGTH('a) \<le> 8 * n"
  shows "le_word (le_bytes n w) = w"
proof (rule bit_word_eqI)
  fix i assume "i < LENGTH('a)"
  then show "bit (le_word (le_bytes n w) :: 'a word) i = bit w i"
    using assms by (simp add: bit_le_word_le_bytes)
qed

lemma le_word_le_bytes_std [simp, codec]:
  "le_word (le_bytes 4 (x :: u32)) = x"
  "le_word (le_bytes 8 (y :: u64)) = y"
  by (simp_all add: le_word_le_bytes)

section \<open>Words\<close>

lemma unat_and_mask_less: "unat (w AND 15 :: u64) < 16"
proof -
  have "w AND 15 \<le> (15 :: u64)" by (rule word_and_le1)
  then show ?thesis by (simp add: word_le_nat_alt)
qed

end
