(* ===== verification/Bpf_Maps.thy ===== *)
theory Bpf_Maps
  imports Prelude
begin

text \<open>
  The BPF map interface of the kernel. A map is a partial function. Looking a key up and
  deleting it are determined by the documentation of \<^verbatim>\<open>bpf-helpers(7)\<close>; storing a value is
  not: a full hash map refuses a new key, a full LRU map evicts some other keys, and either
  may run out of memory. The store operation is therefore a parameter of every definition
  that uses it, and the locales below state what the documentation promises of it:
  \<^item> \<open>bpf_map\<close>: what holds of every hash shaped map;
  \<^item> \<open>bpf_hash_map\<close>: \<^verbatim>\<open>BPF_MAP_TYPE_HASH\<close>, other keys are never touched;
  \<^item> \<open>bpf_lru_map\<close>: \<^verbatim>\<open>BPF_MAP_TYPE_LRU_HASH\<close>, a new key is always accepted.
  Two bounded implementations, \<open>hash_update\<close> and \<open>lru_update\<close>, interpret them.
\<close>

datatype upd_flag = BPF_ANY | BPF_NOEXIST

definition ENOENT :: int where "ENOENT = 2"
definition E2BIG :: int where "E2BIG = 7"
definition EEXIST :: int where "EEXIST = 17"

lemmas errno_defs = ENOENT_def E2BIG_def EEXIST_def

type_synonym ('k, 'v) map_update =
  "('k \<rightharpoonup> 'v) \<Rightarrow> 'k \<Rightarrow> 'v \<Rightarrow> upd_flag \<Rightarrow> int \<times> ('k \<rightharpoonup> 'v)"

definition bpf_map_delete_elem :: "('k \<rightharpoonup> 'v) \<Rightarrow> 'k \<Rightarrow> int \<times> ('k \<rightharpoonup> 'v)" where
  "bpf_map_delete_elem m k = (if m k = None then (- ENOENT, m) else (0, m(k := None)))"

lemma delete_result [simp]: "snd (bpf_map_delete_elem m k) = m(k := None)"
  by (auto simp: bpf_map_delete_elem_def)

lemma delete_status [simp]: "fst (bpf_map_delete_elem m k) = 0 \<longleftrightarrow> m k \<noteq> None"
  by (auto simp: bpf_map_delete_elem_def ENOENT_def)

section \<open>The contract of the store operation\<close>

locale bpf_map =
  fixes upd :: "('k, 'v) map_update"
  assumes noexist_present: "m k \<noteq> None \<Longrightarrow> upd m k v BPF_NOEXIST = (- EEXIST, m)"
    and absent_no_eexist: "m k = None \<Longrightarrow> fst (upd m k v f) \<noteq> - EEXIST"
    and stored: "fst (upd m k v f) = 0 \<Longrightarrow> snd (upd m k v f) k = Some v"
    and refused: "fst (upd m k v f) \<noteq> 0 \<Longrightarrow> snd (upd m k v f) k = m k"
    and others: "k' \<noteq> k \<Longrightarrow> snd (upd m k v f) k' = m k' \<or> snd (upd m k v f) k' = None"
begin

text \<open>A store never invents a value: every entry afterwards was there or is the new one.\<close>

lemma upd_ran: "snd (upd m k v f) k' = Some x \<Longrightarrow> m k' = Some x \<or> (k' = k \<and> x = v)"
  using others [of k' k m v f] stored [of m k v f] refused [of m k v f]
  by (cases "k' = k"; cases "fst (upd m k v f) = 0") auto

lemma noexist_success: "fst (upd m k v BPF_NOEXIST) = 0 \<Longrightarrow> m k = None"
  using noexist_present [of m k v] by (cases "m k") (auto simp: EEXIST_def)

lemma noexist_keeps_value: "m k = Some x \<Longrightarrow> snd (upd m k v BPF_NOEXIST) k = Some x"
  using noexist_present [of m k v] by simp

lemma upd_dom: "dom (snd (upd m k v f)) \<subseteq> insert k (dom m)"
  using upd_ran by fastforce

lemma upd_ball:
  assumes "\<And>k' x. m k' = Some x \<Longrightarrow> P k' x" and "P k v" and "snd (upd m k v f) k' = Some x"
  shows "P k' x"
  using assms upd_ran by blast

end

locale bpf_hash_map = bpf_map +
  assumes keeps: "k' \<noteq> k \<Longrightarrow> snd (upd m k v f) k' = m k'"
begin

lemma refused_id: "fst (upd m k v f) \<noteq> 0 \<Longrightarrow> snd (upd m k v f) = m"
  by (rule ext) (metis keeps refused)

lemma stored_eq: "fst (upd m k v f) = 0 \<Longrightarrow> snd (upd m k v f) = m(k \<mapsto> v)"
  by (rule ext) (metis fun_upd_apply keeps stored)

end

locale bpf_lru_map = bpf_map +
  assumes accepts: "m k = None \<Longrightarrow> fst (upd m k v f) = 0"
    and overwrites: "fst (upd m k v BPF_ANY) = 0"
begin

lemma noexist_status: "fst (upd m k v BPF_NOEXIST) = 0 \<longleftrightarrow> m k = None"
  using accepts noexist_success by blast

lemma present_after: "snd (upd m k v f) k \<noteq> None"
proof (cases "fst (upd m k v f) = 0")
  case True
  then show ?thesis by (simp add: stored)
next
  case False
  with accepts have "m k \<noteq> None" by blast
  with False show ?thesis by (simp add: refused)
qed

end

section \<open>Bounded implementations\<close>

text \<open>A hash map of \<open>n\<close> entries refuses a new key once it is full.\<close>

definition hash_update :: "nat \<Rightarrow> ('k, 'v) map_update" where
  "hash_update n m k v f =
     (if m k \<noteq> None \<and> f = BPF_NOEXIST then (- EEXIST, m)
      else if m k = None \<and> n \<le> card (dom m) then (- E2BIG, m)
      else (0, m(k \<mapsto> v)))"

text \<open>
  An LRU map of \<open>n\<close> entries makes room for a new key. The kernel recycles a batch of the
  least recently used entries; the implementation recycles all of them.
\<close>

definition lru_update :: "nat \<Rightarrow> ('k, 'v) map_update" where
  "lru_update n m k v f =
     (if m k \<noteq> None \<and> f = BPF_NOEXIST then (- EEXIST, m)
      else if m k = None \<and> n \<le> card (dom m) then (0, [k \<mapsto> v])
      else (0, m(k \<mapsto> v)))"

interpretation hash: bpf_hash_map "hash_update n"
  by unfold_locales (auto simp: hash_update_def errno_defs split: if_splits)

interpretation lru: bpf_lru_map "lru_update n"
  by unfold_locales (auto simp: lru_update_def errno_defs split: if_splits)

lemma hash_update_full:
  "m k = None \<Longrightarrow> n \<le> card (dom m) \<Longrightarrow> hash_update n m k v f = (- E2BIG, m)"
  by (simp add: hash_update_def)

lemma hash_update_bounded:
  assumes "finite (dom m)" "card (dom m) \<le> n"
  shows "card (dom (snd (hash_update n m k v f))) \<le> n"
  using assms by (auto simp: hash_update_def card_insert_if)

lemma lru_update_bounded:
  assumes "finite (dom m)" "card (dom m) \<le> n" "0 < n"
  shows "card (dom (snd (lru_update n m k v f))) \<le> n"
  using assms by (auto simp: lru_update_def card_insert_if)

end
