(* ===== verification/Recorder_Types.thy ===== *)
theory Recorder_Types
  imports Bpf_Maps
begin

text \<open>
  The data of the recorder program \<^verbatim>\<open>recorder.bpf.c\<close>: its constants, its structures, its
  global variables and maps, and the two parameters every operation takes:
  \<^item> \<open>task\<close>: what the kernel reports of the current task and CPU;
  \<^item> \<open>kernel\<close>: the kernel memory the program reads and the helper functions it calls.
  The locale \<open>bpf_kernel\<close> states the documented behaviour of these helpers.
\<close>

section \<open>Constants\<close>

abbreviation (input) MAX_ENTRIES :: nat where "MAX_ENTRIES \<equiv> 8 * 1024"
abbreviation (input) MAX_SYSCALLS :: nat where "MAX_SYSCALLS \<equiv> 1024"
abbreviation (input) MAX_CHILD_PIDS :: nat where "MAX_CHILD_PIDS \<equiv> 1024"
abbreviation (input) MAX_TRACKED_KEYS :: nat where "MAX_TRACKED_KEYS \<equiv> 32 * 1024"
abbreviation (input) MAX_COMM_LEN :: nat where "MAX_COMM_LEN \<equiv> 1024"
abbreviation (input) TASK_COMM_LEN :: nat where "TASK_COMM_LEN \<equiv> 16"
abbreviation (input) PATH_MAX :: nat where "PATH_MAX \<equiv> 4096"

abbreviation (input) EVENT_TYPE_NEWPID :: u8 where "EVENT_TYPE_NEWPID \<equiv> 0"
abbreviation (input) EVENT_TYPE_EXIT :: u8 where "EVENT_TYPE_EXIT \<equiv> 1"
abbreviation (input) EVENT_TYPE_APPARMOR_FILE :: u8 where "EVENT_TYPE_APPARMOR_FILE \<equiv> 2"
abbreviation (input) EVENT_TYPE_APPARMOR_SOCKET :: u8 where "EVENT_TYPE_APPARMOR_SOCKET \<equiv> 3"
abbreviation (input) EVENT_TYPE_APPARMOR_CAP :: u8 where "EVENT_TYPE_APPARMOR_CAP \<equiv> 4"
abbreviation (input) EVENT_TYPE_CLEAR_MNTNS :: u8 where "EVENT_TYPE_CLEAR_MNTNS \<equiv> 5"
abbreviation (input) EVENT_TYPE_EXECVE_ENTER :: u8 where "EVENT_TYPE_EXECVE_ENTER \<equiv> 6"

abbreviation (input) FLAG_READ :: u64 where "FLAG_READ \<equiv> 0x1"
abbreviation (input) FLAG_WRITE :: u64 where "FLAG_WRITE \<equiv> 0x2"
abbreviation (input) FLAG_EXEC :: u64 where "FLAG_EXEC \<equiv> 0x4"
abbreviation (input) FLAG_SPAWN :: u64 where "FLAG_SPAWN \<equiv> 0x8"

abbreviation (input) FMODE_READ :: u32 where "FMODE_READ \<equiv> 0x1"
abbreviation (input) FMODE_WRITE :: u32 where "FMODE_WRITE \<equiv> 0x2"
abbreviation (input) FMODE_EXEC :: u32 where "FMODE_EXEC \<equiv> 0x20"

abbreviation (input) PROT_READ :: u64 where "PROT_READ \<equiv> 0x1"
abbreviation (input) PROT_WRITE :: u64 where "PROT_WRITE \<equiv> 0x2"
abbreviation (input) PROT_EXEC :: u64 where "PROT_EXEC \<equiv> 0x4"

text \<open>The file type constants are octal in the source: \<^verbatim>\<open>0170000\<close> is \<open>0xF000\<close>.\<close>

abbreviation (input) S_IFMT :: u16 where "S_IFMT \<equiv> 0xF000"
abbreviation (input) S_IFIFO :: u16 where "S_IFIFO \<equiv> 0x1000"
abbreviation (input) S_IFCHR :: u16 where "S_IFCHR \<equiv> 0x2000"
abbreviation (input) S_IFDIR :: u16 where "S_IFDIR \<equiv> 0x4000"
abbreviation (input) S_IFBLK :: u16 where "S_IFBLK \<equiv> 0x6000"
abbreviation (input) S_IFSOCK :: u16 where "S_IFSOCK \<equiv> 0xC000"

abbreviation (input) CAP_OPT_NOAUDIT :: u64 where "CAP_OPT_NOAUDIT \<equiv> 0b10"
abbreviation (input) OVERLAYFS_SUPER_MAGIC :: u64 where "OVERLAYFS_SUPER_MAGIC \<equiv> 0x794c7630"
abbreviation (input) AF_UNIX :: u64 where "AF_UNIX \<equiv> 1"
abbreviation (input) AF_INET :: u64 where "AF_INET \<equiv> 2"
abbreviation (input) AF_INET6 :: u64 where "AF_INET6 \<equiv> 10"

datatype arch = X86 | Arm64 | Other_arch

text \<open>The syscall numbers per target; \<open>- 1\<close> is compared as an unsigned 32 bit value.\<close>

fun NR_EXECVE :: "arch \<Rightarrow> u32" where
  "NR_EXECVE X86 = 59" | "NR_EXECVE Arm64 = 221" | "NR_EXECVE Other_arch = - 1"
fun NR_EXECVEAT :: "arch \<Rightarrow> u32" where
  "NR_EXECVEAT X86 = 322" | "NR_EXECVEAT Arm64 = 281" | "NR_EXECVEAT Other_arch = - 1"
fun NR_PRCTL :: "arch \<Rightarrow> u32" where
  "NR_PRCTL X86 = 157" | "NR_PRCTL Arm64 = 167" | "NR_PRCTL Other_arch = - 1"
fun NR_SECCOMP :: "arch \<Rightarrow> u32" where
  "NR_SECCOMP X86 = 317" | "NR_SECCOMP Arm64 = 277" | "NR_SECCOMP Other_arch = - 1"

abbreviation (input) PR_GET_PDEATHSIG :: u64 where "PR_GET_PDEATHSIG \<equiv> 2"
abbreviation (input) PR_SET_SECCOMP :: u64 where "PR_SET_SECCOMP \<equiv> 22"
abbreviation (input) SECCOMP_SET_MODE_STRICT :: u64 where "SECCOMP_SET_MODE_STRICT \<equiv> 0"
abbreviation (input) SECCOMP_SET_MODE_FILTER :: u64 where "SECCOMP_SET_MODE_FILTER \<equiv> 1"
abbreviation (input) SECCOMP_MODE_STRICT :: u64 where "SECCOMP_MODE_STRICT \<equiv> 1"
abbreviation (input) SECCOMP_MODE_FILTER :: u64 where "SECCOMP_MODE_FILTER \<equiv> 2"

abbreviation (input) MAX_INIT_COMMS :: nat where "MAX_INIT_COMMS \<equiv> 4"
abbreviation (input) INIT_EXE_PREFIX_LEN :: nat where "INIT_EXE_PREFIX_LEN \<equiv> 32"
abbreviation (input) TS_COMPAT :: u32 where "TS_COMPAT \<equiv> 0x0002"
abbreviation (input) TIF_32BIT :: nat where "TIF_32BIT \<equiv> 22"

abbreviation (input) LOST_RINGBUF :: nat where "LOST_RINGBUF \<equiv> 0"
abbreviation (input) LOST_SYSCALLS_MAP_FULL :: nat where "LOST_SYSCALLS_MAP_FULL \<equiv> 1"
abbreviation (input) LOST_FILE_EVENT_BUSY :: nat where "LOST_FILE_EVENT_BUSY \<equiv> 2"
abbreviation (input) LOST_COMPAT_SYSCALL :: nat where "LOST_COMPAT_SYSCALL \<equiv> 3"

abbreviation (input) MAX_ARGS :: nat where "MAX_ARGS \<equiv> 20"
abbreviation (input) MAX_ENV :: nat where "MAX_ENV \<equiv> 50"
abbreviation (input) MAX_FILENAME_LEN :: nat where "MAX_FILENAME_LEN \<equiv> 128"
abbreviation (input) MAX_ARG_LEN :: nat where "MAX_ARG_LEN \<equiv> 64"
abbreviation (input) MAX_ENV_LEN :: nat where "MAX_ENV_LEN \<equiv> 64"

section \<open>Structures\<close>

record pid_key =
  pk_pid :: u32
  pk_pad :: u32
  pk_key :: u64

record event_header =
  ev_pid :: u32
  ev_mntns :: u32
  ev_key :: u64
  ev_type :: u8
  ev_flags :: u64

record event_data =
  ed_hdr :: event_header
  ed_data :: "u8 list"

record exec_event_data =
  x_hdr :: event_header
  x_filename :: "u8 list"
  x_args :: "u8 list list"
  x_env :: "u8 list list"
  x_args_len :: u32
  x_env_len :: u32

record file_event_state =
  fe_inode :: u64
  fe_flags :: u64
  fe_dev :: u32
  fe_overlay :: u32

text \<open>The kernel structures a hook gets passed, reduced to the fields the program reads.\<close>

record path =
  p_mnt :: u64
  p_dentry :: u64

record kfile =
  f_path :: path
  f_inode_mode :: u16
  f_mode :: u32

record syscall_trace_enter =
  sc_args :: "u64 list"
  sc_readable :: "nat \<Rightarrow> bool"

record raw_sys_enter =
  se_id :: u64
  se_args :: "u64 list"

section \<open>Global variables\<close>

text \<open>The constants the userspace sets before the program is loaded, and the target.\<close>

record config =
  target :: arch
  filter_name :: "u8 list"
  use_cgroup_id :: bool
  use_mntns_seq :: bool
  capture_exec_args :: bool
  init_comms :: "u8 list list"
  init_exe_prefix :: "u8 list"

text \<open>
  The maps. A hash shaped map is a partial function, an array map a list, a per CPU array map
  a list per CPU. The ring buffer is the list of the records submitted to it.
\<close>

record rstate =
  is_recording :: "bool list"
  is_recording_cached :: bool
  exclude_mntns :: "u32 \<rightharpoonup> u8"
  recorded_syscalls :: "u64 \<rightharpoonup> u8 list"
  exclude_keys :: "u64 \<rightharpoonup> u8"
  active_pids :: "pid_key \<rightharpoonup> u8"
  seccomp_initialized :: "u64 \<rightharpoonup> u8"
  apparmor_initialized :: "u64 \<rightharpoonup> u8"
  recorded_caps :: "u64 \<rightharpoonup> u64"
  recorded_sockets :: "u64 \<rightharpoonup> u64"
  child_pids :: "u32 \<rightharpoonup> bool"
  events :: "u8 list list"
  lost_events :: "nat \<Rightarrow> u64 list"
  file_event_scratch :: "nat \<Rightarrow> event_data list"
  last_file_event :: "u32 \<rightharpoonup> file_event_state"
  file_event_busy :: "nat \<Rightarrow> u32 list"
  buffer_heap_map :: "nat \<Rightarrow> u8 list list"

section \<open>The environment\<close>

record task =
  t_cpu :: nat
  t_pid_tgid :: u64
  t_mntns_inum :: u32
  t_mntns_seq :: u64
  t_mntns_ns_id :: u64
  t_cgroup_id :: u64
  t_comm :: "u8 list"
  t_real_parent_tgid :: u32
  t_signal_live :: u32
  t_thread_status :: u32
  t_thread_flags :: u64
  t_exe_name :: u64
  t_fs_root :: path

definition current_pid :: "task \<Rightarrow> u32" where
  "current_pid t = ucast (drop_bit 32 (t_pid_tgid t))"

definition current_tid :: "task \<Rightarrow> u32" where
  "current_tid t = ucast (t_pid_tgid t)"

text \<open>
  The helpers. \<open>rb_room q n\<close> tells whether a record of \<open>n\<close> bytes can be added to the ring
  buffer \<open>q\<close>, \<open>rb_stale q n\<close> is what the reserved memory holds before it is written. The
  string helpers give the bytes they store, the terminating NUL byte included, or \<open>None\<close> for
  a negative result; \<open>user_str_fault\<close> is what a failing read leaves in its buffer. \<open>bpf_d_path\<close> gives its result and the buffer it leaves.
\<close>

record kernel =
  seq_exists :: bool
  ns_id_exists :: bool
  upd_recorded_syscalls :: "(u64, u8 list) map_update"
  upd_active_pids :: "(pid_key, u8) map_update"
  upd_seccomp_initialized :: "(u64, u8) map_update"
  upd_apparmor_initialized :: "(u64, u8) map_update"
  upd_recorded_caps :: "(u64, u64) map_update"
  upd_recorded_sockets :: "(u64, u64) map_update"
  upd_child_pids :: "(u32, bool) map_update"
  upd_last_file_event :: "(u32, file_event_state) map_update"
  rb_room :: "u8 list list \<Rightarrow> nat \<Rightarrow> bool"
  rb_stale :: "u8 list list \<Rightarrow> nat \<Rightarrow> u8 list"
  probe_read :: "u64 \<Rightarrow> nat \<Rightarrow> u8 list"
  bpf_probe_read_kernel_str :: "u64 \<Rightarrow> nat \<Rightarrow> u8 list option"
  bpf_probe_read_user :: "u64 \<Rightarrow> u64 option"
  bpf_probe_read_user_str :: "u64 \<Rightarrow> nat \<Rightarrow> u8 list option"
  user_str_fault :: "u64 \<Rightarrow> u8 list \<Rightarrow> u8 list"
  bpf_d_path :: "path \<Rightarrow> u8 list \<Rightarrow> int \<times> u8 list"
  d_parent :: "u64 \<Rightarrow> u64"
  d_name :: "u64 \<Rightarrow> u64 \<times> u32"
  d_hash_pprev :: "u64 \<Rightarrow> u64"
  d_inode :: "u64 \<Rightarrow> u64"
  i_ino :: "u64 \<Rightarrow> u64"
  i_sb :: "u64 \<Rightarrow> u64"
  s_dev :: "u64 \<Rightarrow> u32"
  s_magic :: "u64 \<Rightarrow> u64"
  mnt_root :: "u64 \<Rightarrow> u64"
  mnt_parent :: "u64 \<Rightarrow> u64"
  mnt_mountpoint :: "u64 \<Rightarrow> u64"
  mount_mnt_offset :: u64
  buffer_heap_addr :: "nat \<Rightarrow> u64"

text \<open>A string of at most \<open>n\<close> bytes with its NUL byte at the end and nowhere else.\<close>

definition c_string_of_size :: "nat \<Rightarrow> u8 list \<Rightarrow> bool" where
  "c_string_of_size n bs \<longleftrightarrow> bs \<noteq> [] \<and> length bs \<le> n \<and> last bs = 0 \<and> 0 \<notin> set (butlast bs)"

locale bpf_kernel =
  fixes K :: kernel
  assumes map_recorded_syscalls: "bpf_hash_map (upd_recorded_syscalls K)"
    and map_active_pids: "bpf_map (upd_active_pids K)"
    and map_seccomp_initialized: "bpf_map (upd_seccomp_initialized K)"
    and map_apparmor_initialized: "bpf_map (upd_apparmor_initialized K)"
    and map_recorded_caps: "bpf_map (upd_recorded_caps K)"
    and map_recorded_sockets: "bpf_map (upd_recorded_sockets K)"
    and map_child_pids: "bpf_map (upd_child_pids K)"
    and map_last_file_event: "bpf_map (upd_last_file_event K)"
    and reserve_size: "length (rb_stale K q n) = n"
    and probe_read_size: "length (probe_read K p n) = n"
    and kernel_str: "0 < n \<Longrightarrow> bpf_probe_read_kernel_str K p n = Some bs \<Longrightarrow> c_string_of_size n bs"
    and user_str: "0 < n \<Longrightarrow> bpf_probe_read_user_str K p n = Some bs \<Longrightarrow> c_string_of_size n bs"
    and user_fault_size: "length (user_str_fault K p buf) = length buf"
    and d_path_size: "bpf_d_path K pa buf = (r, buf') \<Longrightarrow> length buf' = length buf"
    and d_path_fits: "bpf_d_path K pa buf = (r, buf') \<Longrightarrow> r \<le> int (length buf)"
    and d_path_str: "bpf_d_path K pa buf = (r, buf') \<Longrightarrow> 0 \<le> r \<Longrightarrow>
      c_string_of_size (nat r) (take (nat r) buf')"

sublocale bpf_kernel \<subseteq> m_syscalls: bpf_hash_map "upd_recorded_syscalls K"
  by (rule map_recorded_syscalls)

sublocale bpf_kernel \<subseteq> m_active: bpf_map "upd_active_pids K"
  by (rule map_active_pids)

sublocale bpf_kernel \<subseteq> m_seccomp: bpf_map "upd_seccomp_initialized K"
  by (rule map_seccomp_initialized)

sublocale bpf_kernel \<subseteq> m_apparmor: bpf_map "upd_apparmor_initialized K"
  by (rule map_apparmor_initialized)

sublocale bpf_kernel \<subseteq> m_caps: bpf_map "upd_recorded_caps K"
  by (rule map_recorded_caps)

sublocale bpf_kernel \<subseteq> m_sockets: bpf_map "upd_recorded_sockets K"
  by (rule map_recorded_sockets)

sublocale bpf_kernel \<subseteq> m_child: bpf_map "upd_child_pids K"
  by (rule map_child_pids)

sublocale bpf_kernel \<subseteq> m_last: bpf_map "upd_last_file_event K"
  by (rule map_last_file_event)

section \<open>A reference environment\<close>

text \<open>
  A kernel with bounded maps, a ring buffer of 16 MiB and readable, empty memory. It shows
  that the contract of the helpers can be met, and witnesses start from it.
\<close>

definition ref_kernel :: kernel where
  "ref_kernel =
     \<lparr>seq_exists = False, ns_id_exists = True,
      upd_recorded_syscalls = hash_update MAX_ENTRIES,
      upd_active_pids = lru_update MAX_ENTRIES,
      upd_seccomp_initialized = lru_update MAX_TRACKED_KEYS,
      upd_apparmor_initialized = lru_update MAX_TRACKED_KEYS,
      upd_recorded_caps = lru_update MAX_ENTRIES,
      upd_recorded_sockets = lru_update MAX_ENTRIES,
      upd_child_pids = lru_update MAX_CHILD_PIDS,
      upd_last_file_event = lru_update MAX_ENTRIES,
      rb_room = (\<lambda>q n. sum_list (map length q) + n \<le> 2 ^ 24),
      rb_stale = (\<lambda>q n. replicate n 0xAA),
      probe_read = (\<lambda>p n. replicate n 0),
      bpf_probe_read_kernel_str = (\<lambda>p n. Some [0]),
      bpf_probe_read_user = (\<lambda>p. Some 0),
      bpf_probe_read_user_str = (\<lambda>p n. Some [0]),
      user_str_fault = (\<lambda>p buf. replicate (length buf) 0),
      bpf_d_path = (\<lambda>p buf. if length buf < 2 then (- 36, buf) else (2, 0x2F # 0 # drop 2 buf)),
      d_parent = (\<lambda>d. d), d_name = (\<lambda>d. (0, 0)), d_hash_pprev = (\<lambda>d. 1),
      d_inode = (\<lambda>d. d), i_ino = (\<lambda>i. i), i_sb = (\<lambda>i. 0), s_dev = (\<lambda>s. 0),
      s_magic = (\<lambda>s. 0), mnt_root = (\<lambda>m. 0), mnt_parent = (\<lambda>m. m),
      mnt_mountpoint = (\<lambda>m. 0), mount_mnt_offset = 32,
      buffer_heap_addr = (\<lambda>cpu. 0x1000)\<rparr>"

interpretation ref: bpf_kernel ref_kernel
  by unfold_locales
    (auto simp: ref_kernel_def c_string_of_size_def hash.noexist_present hash.absent_no_eexist
      hash.stored hash.refused hash.keeps lru.noexist_present lru.absent_no_eexist lru.stored
      lru.refused lru.others split: if_splits)

definition ref_task :: task where
  "ref_task =
     \<lparr>t_cpu = 0, t_pid_tgid = 0x64000000C8, t_mntns_inum = 7, t_mntns_seq = 0,
      t_mntns_ns_id = 70, t_cgroup_id = 700, t_comm = replicate TASK_COMM_LEN 0,
      t_real_parent_tgid = 1, t_signal_live = 0, t_thread_status = 0, t_thread_flags = 0,
      t_exe_name = 0, t_fs_root = \<lparr>p_mnt = 0, p_dentry = 0\<rparr>\<rparr>"

definition ref_config :: config where
  "ref_config =
     \<lparr>target = X86, filter_name = replicate MAX_COMM_LEN 0, use_cgroup_id = True,
      use_mntns_seq = False, capture_exec_args = False,
      init_comms = replicate MAX_INIT_COMMS (replicate TASK_COMM_LEN 0),
      init_exe_prefix = replicate INIT_EXE_PREFIX_LEN 0\<rparr>"

text \<open>The state of the program once it is loaded, and once a recording got started.\<close>

definition init_state :: rstate where
  "init_state =
     \<lparr>is_recording = [False], is_recording_cached = False, exclude_mntns = Map.empty,
      recorded_syscalls = Map.empty, exclude_keys = Map.empty, active_pids = Map.empty,
      seccomp_initialized = Map.empty, apparmor_initialized = Map.empty,
      recorded_caps = Map.empty, recorded_sockets = Map.empty, child_pids = Map.empty,
      events = [], lost_events = (\<lambda>_. replicate 4 0),
      file_event_scratch = (\<lambda>_. [\<lparr>ed_hdr = \<lparr>ev_pid = 0, ev_mntns = 0, ev_key = 0,
          ev_type = 0, ev_flags = 0\<rparr>, ed_data = replicate PATH_MAX 0\<rparr>]),
      last_file_event = Map.empty, file_event_busy = (\<lambda>_. [0]),
      buffer_heap_map = (\<lambda>_. [replicate (4096 + 256) 0])\<rparr>"

definition recording_state :: rstate where
  "recording_state = init_state\<lparr>is_recording := [True], is_recording_cached := True\<rparr>"

end
