(* ===== verification/Filters.thy ===== *)
theory Filters
  imports Recorder_Types
begin

text \<open>
  Which calls are recorded and under which key: \<^verbatim>\<open>get_mntns_id\<close>, \<^verbatim>\<open>get_key\<close>, \<^verbatim>\<open>unique_keys\<close>,
  \<^verbatim>\<open>get_mntns\<close>, the program name filter, and the recognition of container init processes and
  of 32 bit tasks. The byte loops of the source are recursions over the loop indexes; their
  meaning as comparisons of C strings is proved below.
\<close>

section \<open>Recording keys\<close>

definition get_mntns_id :: "kernel \<Rightarrow> task \<Rightarrow> u32 \<Rightarrow> u64" where
  "get_mntns_id K t mntns =
     (if seq_exists K then t_mntns_seq t
      else if ns_id_exists K then t_mntns_ns_id t
      else ucast mntns)"

definition get_key :: "config \<Rightarrow> kernel \<Rightarrow> task \<Rightarrow> u32 \<Rightarrow> u64" where
  "get_key C K t mntns =
     (if use_cgroup_id C then t_cgroup_id t
      else if use_mntns_seq C then get_mntns_id K t mntns
      else ucast mntns)"

definition unique_keys :: "config \<Rightarrow> bool" where
  "unique_keys C \<longleftrightarrow> use_cgroup_id C \<or> use_mntns_seq C"

section \<open>The program name filter\<close>

definition has_filter :: "config \<Rightarrow> bool" where
  "has_filter C \<longleftrightarrow> filter_name C ! 0 \<noteq> 0"

text \<open>
  The comparison loop shared by the filter and the init process names: a difference fails, the
  end of the name succeeds.
\<close>

primrec comm_loop :: "u8 list \<Rightarrow> u8 list \<Rightarrow> nat list \<Rightarrow> bool" where
  "comm_loop comm name [] = True"
| "comm_loop comm name (i # is) =
     (if comm ! i \<noteq> name ! i then False
      else if comm ! i = 0 then True
      else comm_loop comm name is)"

definition matches_filter :: "config \<Rightarrow> u8 list \<Rightarrow> bool" where
  "matches_filter C comm = comm_loop comm (filter_name C) [0..<TASK_COMM_LEN - 1]"

definition get_mntns :: "config \<Rightarrow> kernel \<Rightarrow> task \<Rightarrow> rstate \<Rightarrow> u32" where
  "get_mntns C K t s =
     (let mntns = t_mntns_inum t in
      if mntns = 0 then 0
      else if exclude_mntns s mntns \<noteq> None then 0
      else if unique_keys C \<and> exclude_keys s (get_key C K t mntns) \<noteq> None then 0
      else if has_filter C \<and> child_pids s (current_pid t) = None \<and> \<not> matches_filter C (t_comm t)
      then 0
      else mntns)"

section \<open>Tasks of the 32 bit ABI\<close>

fun is_compat_task :: "arch \<Rightarrow> task \<Rightarrow> bool" where
  "is_compat_task X86 t \<longleftrightarrow> t_thread_status t AND TS_COMPAT \<noteq> 0"
| "is_compat_task Arm64 t \<longleftrightarrow> t_thread_flags t AND push_bit TIF_32BIT 1 \<noteq> 0"
| "is_compat_task Other_arch t \<longleftrightarrow> False"

section \<open>Container init processes\<close>

primrec is_number_loop :: "u8 list \<Rightarrow> nat list \<Rightarrow> bool" where
  "is_number_loop comm [] = True"
| "is_number_loop comm (i # is) =
     (if comm ! i = 0 then True
      else if comm ! i < 48 \<or> comm ! i > 57 then False
      else is_number_loop comm is)"

definition is_number :: "u8 list \<Rightarrow> bool" where
  "is_number comm = (if comm ! 0 = 0 then False else is_number_loop comm [0..<TASK_COMM_LEN])"

primrec exe_prefix_loop :: "u8 list \<Rightarrow> u8 list \<Rightarrow> nat list \<Rightarrow> bool" where
  "exe_prefix_loop exe pre [] = True"
| "exe_prefix_loop exe pre (i # is) =
     (if pre ! i = 0 then True
      else if exe ! i \<noteq> pre ! i then False
      else exe_prefix_loop exe pre is)"

text \<open>The buffer \<^verbatim>\<open>exe\<close> starts zeroed and gets the bytes of the name written to its start.\<close>

definition exe_has_init_prefix :: "config \<Rightarrow> kernel \<Rightarrow> task \<Rightarrow> bool" where
  "exe_has_init_prefix C K t =
     (if init_exe_prefix C ! 0 = 0 then False
      else if t_exe_name t = 0 then False
      else case bpf_probe_read_kernel_str K (t_exe_name t) INIT_EXE_PREFIX_LEN of
             None \<Rightarrow> False
           | Some bs \<Rightarrow>
               exe_prefix_loop (bs @ drop (length bs) (replicate INIT_EXE_PREFIX_LEN 0))
                 (init_exe_prefix C) [0..<INIT_EXE_PREFIX_LEN])"

primrec init_comm_loop :: "config \<Rightarrow> u8 list \<Rightarrow> nat list \<Rightarrow> bool" where
  "init_comm_loop C comm [] = False"
| "init_comm_loop C comm (n # ns) =
     (if init_comms C ! n ! 0 = 0 then False
      else if comm_loop comm (init_comms C ! n) [0..<TASK_COMM_LEN] then True
      else init_comm_loop C comm ns)"

definition is_container_init :: "config \<Rightarrow> kernel \<Rightarrow> task \<Rightarrow> bool" where
  "is_container_init C K t =
     (let comm = t_comm t in
      if init_comm_loop C comm [0..<MAX_INIT_COMMS] then True
      else is_number comm \<and> exe_has_init_prefix C K t)"

section \<open>Well formed parameters\<close>

text \<open>
  The array sizes of the global variables, and the promise of \<^verbatim>\<open>bpf_get_current_comm\<close> that the
  name of a task fills the buffer and is terminated.
\<close>

definition config_ok :: "config \<Rightarrow> bool" where
  "config_ok C \<longleftrightarrow> length (filter_name C) = MAX_COMM_LEN \<and>
     length (init_comms C) = MAX_INIT_COMMS \<and>
     (\<forall>c \<in> set (init_comms C). length c = TASK_COMM_LEN) \<and>
     length (init_exe_prefix C) = INIT_EXE_PREFIX_LEN"

definition task_ok :: "task \<Rightarrow> bool" where
  "task_ok t \<longleftrightarrow> length (t_comm t) = TASK_COMM_LEN \<and> last (t_comm t) = 0"

section \<open>What the loops compute\<close>

text \<open>The loops run over a contiguous range of indexes, so they compare suffixes of the arrays.\<close>

lemma comm_loop_range:
  assumes "n \<le> length comm" "n \<le> length name"
  shows "comm_loop comm name [i..<n] \<longleftrightarrow>
    cstr (drop i (take n comm)) = cstr (drop i (take n name))"
  using assms
proof (induction "n - i" arbitrary: i)
  case 0
  then show ?case by simp
next
  case (Suc d)
  then have "i < n" and "d = n - Suc i" by auto
  then have comm: "drop i (take n comm) = comm ! i # drop (Suc i) (take n comm)"
    and name: "drop i (take n name) = name ! i # drop (Suc i) (take n name)"
    using Suc.prems by (simp_all add: Cons_nth_drop_Suc [symmetric])
  have "[i..<n] = i # [Suc i..<n]" using \<open>i < n\<close> by (simp add: upt_conv_Cons)
  then show ?case
    using Suc.hyps(1) [OF \<open>d = n - Suc i\<close> Suc.prems] by (auto simp: comm name cstr_Cons)
qed

lemma comm_loop_eq:
  assumes "n \<le> length comm" "n \<le> length name"
  shows "comm_loop comm name [0..<n] \<longleftrightarrow> cstr (take n comm) = cstr (take n name)"
  using comm_loop_range [OF assms, of 0] by simp

lemma is_number_range:
  assumes "n \<le> length comm"
  shows "is_number_loop comm [i..<n] \<longleftrightarrow> (\<forall>b \<in> set (cstr (drop i (take n comm))). 48 \<le> b \<and> b \<le> 57)"
  using assms
proof (induction "n - i" arbitrary: i)
  case 0
  then show ?case by simp
next
  case (Suc d)
  then have "i < n" and "d = n - Suc i" by auto
  then have comm: "drop i (take n comm) = comm ! i # drop (Suc i) (take n comm)"
    using Suc.prems by (simp add: Cons_nth_drop_Suc [symmetric])
  have "[i..<n] = i # [Suc i..<n]" using \<open>i < n\<close> by (simp add: upt_conv_Cons)
  then show ?case
    using Suc.hyps(1) [OF \<open>d = n - Suc i\<close> Suc.prems] by (auto simp: comm cstr_Cons not_less)
qed

lemma exe_prefix_range:
  assumes "n \<le> length exe" "n \<le> length pre"
  shows "exe_prefix_loop exe pre [i..<n] \<longleftrightarrow>
    (\<exists>rest. drop i (take n exe) = cstr (drop i (take n pre)) @ rest)"
  using assms
proof (induction "n - i" arbitrary: i)
  case 0
  then show ?case by simp
next
  case (Suc d)
  then have "i < n" and "d = n - Suc i" by auto
  then have exe: "drop i (take n exe) = exe ! i # drop (Suc i) (take n exe)"
    and pre: "drop i (take n pre) = pre ! i # drop (Suc i) (take n pre)"
    using Suc.prems by (simp_all add: Cons_nth_drop_Suc [symmetric])
  have "[i..<n] = i # [Suc i..<n]" using \<open>i < n\<close> by (simp add: upt_conv_Cons)
  then show ?case
    using Suc.hyps(1) [OF \<open>d = n - Suc i\<close> Suc.prems] by (auto simp: exe pre cstr_Cons)
qed

lemma task_ok_comm:
  assumes "task_ok t"
  shows "cstr (take 15 (t_comm t)) = cstr (t_comm t)" "length (cstr (t_comm t)) \<le> 15"
    "take TASK_COMM_LEN (t_comm t) = t_comm t"
proof -
  have len: "length (t_comm t) = 16" and last: "last (t_comm t) = 0"
    using assms by (auto simp: task_ok_def)
  then have "t_comm t \<noteq> []" by auto
  then have "t_comm t = butlast (t_comm t) @ [0]"
    using last by (metis append_butlast_last_id)
  moreover have "butlast (t_comm t) = take 15 (t_comm t)"
    by (simp add: butlast_conv_take len)
  ultimately have split: "t_comm t = take 15 (t_comm t) @ [0]" by simp
  have *: "cstr (xs @ [0]) = cstr xs" for xs :: "u8 list"
    by (induction xs) (auto simp: cstr_Cons)
  show cs: "cstr (take 15 (t_comm t)) = cstr (t_comm t)"
    by (subst (2) split) (simp only: *)
  show "length (cstr (t_comm t)) \<le> 15"
    using cstr_length [of "take 15 (t_comm t)"] cs by simp
  show "take TASK_COMM_LEN (t_comm t) = t_comm t" using len by simp
qed

lemma cstr_take: "cstr (take n bs) = take n (cstr bs)"
  by (induction bs arbitrary: n) (auto simp: cstr_Cons take_Cons split: nat.splits)

lemma matches_filter_cstr:
  assumes "config_ok C" "task_ok t"
  shows "matches_filter C (t_comm t) \<longleftrightarrow> cstr (t_comm t) = take 15 (cstr (filter_name C))"
proof -
  have "matches_filter C (t_comm t) \<longleftrightarrow>
      cstr (take 15 (t_comm t)) = cstr (take 15 (filter_name C))"
    using assms unfolding matches_filter_def
    by (subst comm_loop_eq) (auto simp: config_ok_def task_ok_def)
  then show ?thesis using task_ok_comm [OF assms(2)] by (simp add: cstr_take)
qed

lemma get_mntns_cases:
  "get_mntns C K t s = 0 \<or> get_mntns C K t s = t_mntns_inum t"
  by (auto simp: get_mntns_def Let_def)

lemma get_mntns_nonzero:
  "get_mntns C K t s \<noteq> 0 \<Longrightarrow> get_mntns C K t s = t_mntns_inum t"
  using get_mntns_cases by blast

text \<open>
  A call is taken into account exactly if the task has a mount namespace that is not
  excluded, its key is not excluded where keys are never reused, and, where a program name is
  given, the process is tracked or has that name as far as a task name can hold it.
 
\<close>

theorem get_mntns_spec:
  assumes "config_ok C" "task_ok t"
  shows "get_mntns C K t s =
    (if t_mntns_inum t \<notin> dom (exclude_mntns s) \<and>
        (unique_keys C \<longrightarrow> get_key C K t (t_mntns_inum t) \<notin> dom (exclude_keys s)) \<and>
        (cstr (filter_name C) = [] \<or> current_pid t \<in> dom (child_pids s) \<or>
         cstr (t_comm t) = take 15 (cstr (filter_name C)))
     then t_mntns_inum t else 0)"
proof -
  have "has_filter C \<longleftrightarrow> cstr (filter_name C) \<noteq> []"
    using assms(1) by (cases "filter_name C") (auto simp: has_filter_def config_ok_def cstr_Cons)
  then show ?thesis
    by (auto simp: get_mntns_def Let_def matches_filter_cstr [OF assms] domIff)
qed

theorem get_mntns_spec_witness:
  "config_ok (ref_config\<lparr>filter_name := pad 1024 (bytes_of ''nginx'')\<rparr>) \<and>
   task_ok (ref_task\<lparr>t_comm := pad 16 (bytes_of ''nginx'')\<rparr>) \<and>
   get_mntns (ref_config\<lparr>filter_name := pad 1024 (bytes_of ''nginx'')\<rparr>) ref_kernel
     (ref_task\<lparr>t_comm := pad 16 (bytes_of ''nginx'')\<rparr>) recording_state = 7"
proof -
  let ?C = "ref_config\<lparr>filter_name := pad 1024 (bytes_of ''nginx'')\<rparr>"
  let ?t = "ref_task\<lparr>t_comm := pad 16 (bytes_of ''nginx'')\<rparr>"
  have len: "length (bytes_of ''nginx'') = 5" by (simp add: bytes_of_def)
  have nz: "0 \<notin> set (bytes_of ''nginx'')" by (simp add: bytes_of_def)
  have C: "config_ok ?C" by (simp add: config_ok_def ref_config_def len)
  have t: "task_ok ?t" by (simp add: task_ok_def pad_def len)
  show ?thesis
    using C t get_mntns_spec [OF C t, of ref_kernel recording_state]
    by (simp add: recording_state_def init_state_def cstr_pad [OF nz] len ref_task_def)
qed

end
