(* ===== verification/Events.thy ===== *)
theory Events
  imports Filters
begin

text \<open>
  The ring buffer and its wire format: \<^verbatim>\<open>count_lost\<close> and \<^verbatim>\<open>submit_event\<close> of the BPF program, the
  packed layout of \<^verbatim>\<open>event_header_t\<close>, and the decoder of the userspace, \<^verbatim>\<open>bpfEvent.unmarshal\<close>.
  The locale \<open>event_sink\<close> is the contract the hooks rely on: an event is either appended to
  the ring buffer or counted as lost, and nothing else changes.
\<close>

section \<open>Lost events\<close>

definition count_lost :: "nat \<Rightarrow> task \<Rightarrow> rstate \<Rightarrow> rstate" where
  "count_lost reason t s =
     (case nth_opt (lost_events s (t_cpu t)) reason of
        None \<Rightarrow> s
      | Some lost \<Rightarrow>
          s\<lparr>lost_events :=
              (lost_events s)(t_cpu t := (lost_events s (t_cpu t))[reason := lost + 1])\<rparr>)"

section \<open>The packed event header\<close>

abbreviation (input) sizeof_event_header :: nat where "sizeof_event_header \<equiv> 25"

definition wire_header :: "event_header \<Rightarrow> u8 list" where
  "wire_header h =
     le_bytes 4 (ev_pid h) @ le_bytes 4 (ev_mntns h) @ le_bytes 8 (ev_key h) @ [ev_type h] @
     le_bytes 8 (ev_flags h)"

definition submit_event ::
  "kernel \<Rightarrow> task \<Rightarrow> u8 \<Rightarrow> u32 \<Rightarrow> u64 \<Rightarrow> u64 \<Rightarrow> rstate \<Rightarrow> int \<times> rstate" where
  "submit_event K t typ mntns key flags s =
     (if \<not> rb_room K (events s) sizeof_event_header then (- 1, count_lost LOST_RINGBUF t s)
      else (0, s\<lparr>events := events s @
                  [wire_header \<lparr>ev_pid = current_pid t, ev_mntns = mntns, ev_key = key,
                                ev_type = typ, ev_flags = flags\<rparr>]\<rparr>))"

section \<open>The decoder of the userspace\<close>

record bpfEvent =
  Pid :: u32
  Mntns :: u32
  Key :: u64
  Type :: u8
  Flags :: u64
  Data :: "u8 list"

abbreviation (input) bpfEventHeaderSize :: nat where "bpfEventHeaderSize \<equiv> 25"

text \<open>The Go slice \<^verbatim>\<open>raw[i:j]\<close>, taken within the bounds of the slice only.\<close>

definition go_slice :: "u8 list \<Rightarrow> nat \<Rightarrow> nat \<Rightarrow> u8 list" where
  "go_slice raw i j = take (j - i) (drop i raw)"

definition unmarshalHeader :: "u8 list \<Rightarrow> u32 \<times> u32 \<times> u64 \<times> u8 \<times> u64" where
  "unmarshalHeader raw =
     (le_word (go_slice raw 0 4), le_word (go_slice raw 4 8), le_word (go_slice raw 8 16),
      raw ! 16, le_word (go_slice raw 17 25))"

definition unmarshal :: "u8 list \<Rightarrow> bpfEvent option" where
  "unmarshal raw =
     (if length raw < bpfEventHeaderSize then None
      else (case unmarshalHeader raw of (pid, mntns, key, typ, flags) \<Rightarrow>
        Some \<lparr>Pid = pid, Mntns = mntns, Key = key, Type = typ, Flags = flags,
              Data = drop bpfEventHeaderSize raw\<rparr>))"

section \<open>Layout and frame lemmas\<close>

lemma length_wire_header [simp, codec]: "length (wire_header h) = 25"
  by (simp add: wire_header_def)

lemma unmarshalHeader_wire [simp, codec]:
  "unmarshalHeader (wire_header h @ rest) =
     (ev_pid h, ev_mntns h, ev_key h, ev_type h, ev_flags h)"
  by (simp add: unmarshalHeader_def wire_header_def go_slice_def nth_append)

lemma wire_header_inject [simp]: "wire_header h = wire_header h' \<longleftrightarrow> h = h'"
proof
  assume "wire_header h = wire_header h'"
  then have "unmarshalHeader (wire_header h @ []) = unmarshalHeader (wire_header h' @ [])" by simp
  then show "h = h'" by (simp only: unmarshalHeader_wire) simp
qed simp

text \<open>
  The header fields, and nothing else, reach the userspace: decoding a record that starts with
  a packed header gives the fields of the header and the bytes after it.
\<close>

theorem unmarshal_wire:
  "unmarshal (wire_header h @ bs) =
     Some \<lparr>Pid = ev_pid h, Mntns = ev_mntns h, Key = ev_key h, Type = ev_type h,
           Flags = ev_flags h, Data = bs\<rparr>"
  by (simp add: unmarshal_def)

text \<open>The counter of one reason on one CPU goes up by one, the others stay.\<close>

definition lost_bump :: "nat \<Rightarrow> nat \<Rightarrow> (nat \<Rightarrow> u64 list) \<Rightarrow> nat \<Rightarrow> u64 list" where
  "lost_bump reason cpu l = l(cpu := (l cpu)[reason := l cpu ! reason + 1])"

lemma lost_bump_nth:
  "i < length (l c) \<Longrightarrow>
     lost_bump reason cpu l c ! i = l c ! i + (if c = cpu \<and> i = reason then 1 else 0)"
  by (auto simp: lost_bump_def nth_list_update)

lemma length_lost_bump [simp]: "length (lost_bump reason cpu l c) = length (l c)"
  by (simp add: lost_bump_def)

lemma count_lost_eq [frames]:
  "count_lost r t s = s\<lparr>lost_events := lost_bump r (t_cpu t) (lost_events s)\<rparr>"
proof (cases "r < length (lost_events s (t_cpu t))")
  case True
  then show ?thesis by (simp add: count_lost_def lost_bump_def)
next
  case False
  then show ?thesis by (simp add: count_lost_def lost_bump_def list_update_beyond)
qed

lemma count_lost_sel [simp]:
  "is_recording (count_lost r t s) = is_recording s"
  "is_recording_cached (count_lost r t s) = is_recording_cached s"
  "exclude_mntns (count_lost r t s) = exclude_mntns s"
  "recorded_syscalls (count_lost r t s) = recorded_syscalls s"
  "exclude_keys (count_lost r t s) = exclude_keys s"
  "active_pids (count_lost r t s) = active_pids s"
  "seccomp_initialized (count_lost r t s) = seccomp_initialized s"
  "apparmor_initialized (count_lost r t s) = apparmor_initialized s"
  "recorded_caps (count_lost r t s) = recorded_caps s"
  "recorded_sockets (count_lost r t s) = recorded_sockets s"
  "child_pids (count_lost r t s) = child_pids s"
  "events (count_lost r t s) = events s"
  "lost_events (count_lost r t s) = lost_bump r (t_cpu t) (lost_events s)"
  "file_event_scratch (count_lost r t s) = file_event_scratch s"
  "last_file_event (count_lost r t s) = last_file_event s"
  "file_event_busy (count_lost r t s) = file_event_busy s"
  "buffer_heap_map (count_lost r t s) = buffer_heap_map s"
  by (simp_all add: count_lost_eq)

section \<open>The contract of a ring buffer producer\<close>

text \<open>
  \<open>send\<close> tries to add the record \<open>rec\<close>: status 0 and the record appended, or a negative
  status and the loss counted for \<open>reason\<close>.
\<close>

locale event_sink =
  fixes send :: "rstate \<Rightarrow> int \<times> rstate"
    and t :: task
    and rec :: "u8 list"
    and reason :: nat
  assumes sent: "fst (send s) = 0 \<Longrightarrow> snd (send s) = s\<lparr>events := events s @ [rec]\<rparr>"
    and lost: "fst (send s) \<noteq> 0 \<Longrightarrow> snd (send s) = count_lost reason t s"
begin

lemma events_cases: "events (snd (send s)) = events s \<or> events (snd (send s)) = events s @ [rec]"
  using sent lost by (cases "fst (send s) = 0") simp_all

lemma events_sent: "fst (send s) = 0 \<Longrightarrow> events (snd (send s)) = events s @ [rec]"
  using sent by simp

lemma events_mono: "set (events s) \<subseteq> set (events (snd (send s)))"
  using events_cases [of s] by auto

lemma events_new: "e \<in> set (events (snd (send s))) \<Longrightarrow> e \<in> set (events s) \<or> e = rec"
  using events_cases [of s] by auto

text \<open>No record goes missing silently: it is in the ring buffer or in the loss counter.\<close>

lemma sent_or_counted:
  "(events (snd (send s)) = events s @ [rec] \<and> lost_events (snd (send s)) = lost_events s) \<or>
   (events (snd (send s)) = events s \<and>
    lost_events (snd (send s)) = lost_bump reason (t_cpu t) (lost_events s))"
  using sent lost by (cases "fst (send s) = 0") simp_all

lemma sel:
  "is_recording (snd (send s)) = is_recording s"
  "is_recording_cached (snd (send s)) = is_recording_cached s"
  "exclude_mntns (snd (send s)) = exclude_mntns s"
  "recorded_syscalls (snd (send s)) = recorded_syscalls s"
  "exclude_keys (snd (send s)) = exclude_keys s"
  "active_pids (snd (send s)) = active_pids s"
  "seccomp_initialized (snd (send s)) = seccomp_initialized s"
  "apparmor_initialized (snd (send s)) = apparmor_initialized s"
  "recorded_caps (snd (send s)) = recorded_caps s"
  "recorded_sockets (snd (send s)) = recorded_sockets s"
  "child_pids (snd (send s)) = child_pids s"
  "file_event_scratch (snd (send s)) = file_event_scratch s"
  "last_file_event (snd (send s)) = last_file_event s"
  "file_event_busy (snd (send s)) = file_event_busy s"
  "buffer_heap_map (snd (send s)) = buffer_heap_map s"
  using sent lost by (cases "fst (send s) = 0"; simp)+

end

lemma submit_event_sent:
  "rb_room K (events s) sizeof_event_header \<Longrightarrow>
     submit_event K t typ mntns key flags s =
       (0, s\<lparr>events := events s @ [wire_header \<lparr>ev_pid = current_pid t, ev_mntns = mntns,
              ev_key = key, ev_type = typ, ev_flags = flags\<rparr>]\<rparr>)"
  by (simp only: submit_event_def not_True_eq_False if_False)

lemma submit_event_lost:
  "\<not> rb_room K (events s) sizeof_event_header \<Longrightarrow>
     submit_event K t typ mntns key flags s = (- 1, count_lost LOST_RINGBUF t s)"
  by (simp only: submit_event_def not_False_eq_True if_True)

lemma submit_status: "fst (submit_event K t typ mntns key flags s) = 0 \<longleftrightarrow>
    rb_room K (events s) sizeof_event_header"
  by (simp add: submit_event_def)

interpretation submit: event_sink "submit_event K t typ mntns key flags" t
  "wire_header \<lparr>ev_pid = current_pid t, ev_mntns = mntns, ev_key = key, ev_type = typ,
                 ev_flags = flags\<rparr>" LOST_RINGBUF
  by unfold_locales (simp_all add: submit_status submit_event_sent submit_event_lost)

lemmas submit_sel [simp] = submit.sel

end
