(* ===== verification/Path_Resolution.thy ===== *)
theory Path_Resolution
  imports Recorder_Types
begin

text \<open>
  The path resolution of \<^verbatim>\<open>bpf_d_path_tetragon.h\<close>, used by the hooks that cannot call
  \<^verbatim>\<open>bpf_d_path\<close>: a walk from a dentry up to the root of the process that writes the path from
  the end of a buffer towards its start. Pointers into the buffer are addresses; the buffer is
  the list \<open>mem\<close> of the bytes at the address \<open>buf\<close>. A C \<^verbatim>\<open>int\<close> is a 32 bit word, read with
  \<open>sint\<close> where its sign matters. The result \<open>None\<close> is an access outside of a buffer, and the
  lemmas below show that it does not occur.
\<close>

abbreviation (input) ENAMETOOLONG :: int where "ENAMETOOLONG \<equiv> 36"
abbreviation (input) UNRESOLVED_PATH_COMPONENTS :: int where "UNRESOLVED_PATH_COMPONENTS \<equiv> 0x02"
abbreviation (input) PROBE_CWD_READ_ITERATIONS :: nat where "PROBE_CWD_READ_ITERATIONS \<equiv> 128"
abbreviation (input) MAX_BUF_LEN :: nat where "MAX_BUF_LEN \<equiv> 4096"

section \<open>Dentries and mounts\<close>

definition real_mount :: "kernel \<Rightarrow> u64 \<Rightarrow> u64" where
  "real_mount K mnt = mnt - mount_mnt_offset K"

definition IS_ROOT :: "kernel \<Rightarrow> u64 \<Rightarrow> bool" where
  "IS_ROOT K dentry \<longleftrightarrow> dentry = d_parent K dentry"

definition hlist_bl_unhashed :: "kernel \<Rightarrow> u64 \<Rightarrow> bool" where
  "hlist_bl_unhashed K dentry \<longleftrightarrow> d_hash_pprev K dentry = 0"

definition d_unhashed :: "kernel \<Rightarrow> u64 \<Rightarrow> bool" where
  "d_unhashed K dentry = hlist_bl_unhashed K dentry"

definition d_unlinked :: "kernel \<Rightarrow> u64 \<Rightarrow> bool" where
  "d_unlinked K dentry \<longleftrightarrow> d_unhashed K dentry \<and> \<not> IS_ROOT K dentry"

section \<open>Writing to the buffer\<close>

text \<open>The result is the status, the buffer, \<^verbatim>\<open>*bufptr\<close> and \<^verbatim>\<open>*buflen\<close>.\<close>

definition prepend_name ::
  "kernel \<Rightarrow> u64 \<Rightarrow> u8 list \<Rightarrow> u64 \<Rightarrow> u32 \<Rightarrow> u64 \<Rightarrow> u32 \<Rightarrow> (int \<times> u8 list \<times> u64 \<times> u32) option" where
  "prepend_name K buf mem bufptr buflen name namelen =
     (let buffer_offset = bufptr - buf;
          cut = (namelen \<ge> buflen);
          name' = (if cut then name + ucast (namelen - buflen) else name);
          namelen' = (if cut then buflen else namelen);
          write_slash = (if cut then 0 else 1);
          buflen' = buflen - (namelen' + write_slash)
      in if ucast (namelen' + write_slash) > buffer_offset
         then Some (- ENAMETOOLONG, mem, bufptr, buflen')
         else let offset = buffer_offset - ucast (namelen' + write_slash)
              in if offset \<ge> 4096 then Some (- ENAMETOOLONG, mem, bufptr, buflen')
                 else case (if write_slash \<noteq> 0 then write_at mem (unat offset) [0x2F] else Some mem) of
                   None \<Rightarrow> None
                 | Some mem1 \<Rightarrow>
                     (case write_at mem1 (unat (offset + ucast write_slash))
                             (probe_read K name' (unat (namelen' AND 0xff))) of
                        None \<Rightarrow> None
                      | Some mem2 \<Rightarrow>
                          Some (if write_slash \<noteq> 0 then 0 else - ENAMETOOLONG, mem2,
                                buf + offset, buflen')))"

definition prepend ::
  "u64 \<Rightarrow> u8 list \<Rightarrow> u64 \<Rightarrow> u32 \<Rightarrow> u8 list \<Rightarrow> u32 \<Rightarrow> (int \<times> u8 list \<times> u64 \<times> u32) option" where
  "prepend buf mem buffer buflen str namelen =
     (if sint namelen < 0 \<or> sint namelen > 4096 then Some (- ENAMETOOLONG, mem, buffer, buflen)
      else let buflen' = buflen - namelen in
        if sint buflen' < 0 then Some (- ENAMETOOLONG, mem, buffer, buflen')
        else let buffer' = buffer - ucast namelen in
          case write_at mem (unat (buffer' - buf)) (take (unat namelen) str) of
            None \<Rightarrow> None
          | Some mem' \<Rightarrow> Some (0, mem', buffer', buflen'))"

section \<open>The walk\<close>

record cwd_read_data =
  cw_root_dentry :: u64
  cw_root_mnt :: u64
  cw_bf :: u64
  cw_dentry :: u64
  cw_vfsmnt :: u64
  cw_mnt :: u64
  cw_bptr :: u64
  cw_blen :: u32
  cw_resolved :: bool

definition cwd_read ::
  "kernel \<Rightarrow> cwd_read_data \<Rightarrow> u8 list \<Rightarrow> (int \<times> cwd_read_data \<times> u8 list) option" where
  "cwd_read K data mem =
     (let dentry = cw_dentry data; vfsmnt = cw_vfsmnt data; mnt = cw_mnt data in
      if \<not> (dentry \<noteq> cw_root_dentry data \<or> vfsmnt \<noteq> cw_root_mnt data)
      then Some (1, data\<lparr>cw_resolved := True\<rparr>, mem)
      else if dentry = mnt_root K vfsmnt \<or> IS_ROOT K dentry then
        (let parent = mnt_parent K mnt in
         if mnt \<noteq> parent
         then Some (0, data\<lparr>cw_dentry := mnt_mountpoint K mnt, cw_mnt := parent,
                            cw_vfsmnt := parent + mount_mnt_offset K\<rparr>, mem)
         else Some (1, data\<lparr>cw_resolved := True\<rparr>, mem))
      else
        (let parent = d_parent K dentry; d_name = d_name K dentry in
         case prepend_name K (cw_bf data) mem (cw_bptr data) (cw_blen data) (fst d_name) (snd d_name) of
           None \<Rightarrow> None
         | Some (error, mem', bptr, blen) \<Rightarrow>
             (let data' = data\<lparr>cw_bptr := bptr, cw_blen := blen\<rparr> in
              if error \<noteq> 0 then Some (1, data', mem')
              else Some (0, data'\<lparr>cw_dentry := parent\<rparr>, mem'))))"

text \<open>\<^verbatim>\<open>bpf_loop\<close> calls its callback up to \<open>n\<close> times and stops once it returns 1.\<close>

fun cwd_loop ::
  "kernel \<Rightarrow> nat \<Rightarrow> cwd_read_data \<Rightarrow> u8 list \<Rightarrow> (cwd_read_data \<times> u8 list) option" where
  "cwd_loop K 0 data mem = Some (data, mem)"
| "cwd_loop K (Suc n) data mem =
     (case cwd_read K data mem of
        None \<Rightarrow> None
      | Some (ret, data', mem') \<Rightarrow> if ret \<noteq> 0 then Some (data', mem') else cwd_loop K n data' mem')"

definition prepend_path ::
  "kernel \<Rightarrow> path \<Rightarrow> path \<Rightarrow> u64 \<Rightarrow> u8 list \<Rightarrow> u64 \<Rightarrow> u32 \<Rightarrow> (int \<times> u8 list \<times> u64 \<times> u32) option" where
  "prepend_path K path root bf mem buffer buflen =
     (let data = \<lparr>cw_root_dentry = p_dentry root, cw_root_mnt = p_mnt root, cw_bf = bf,
                  cw_dentry = p_dentry path, cw_vfsmnt = p_mnt path,
                  cw_mnt = real_mount K (p_mnt path), cw_bptr = buffer, cw_blen = buflen,
                  cw_resolved = False\<rparr>
      in case cwd_loop K PROBE_CWD_READ_ITERATIONS data mem of
           None \<Rightarrow> None
         | Some (data', mem') \<Rightarrow>
             if cw_bptr data' = buffer then Some (0, mem', buffer, 0)
             else Some (if \<not> cw_resolved data' then UNRESOLVED_PATH_COMPONENTS else 0, mem',
                        cw_bptr data', cw_blen data'))"

definition deleted_suffix :: "u8 list" where
  "deleted_suffix = bytes_of '' (deleted)''"

definition path_with_deleted ::
  "kernel \<Rightarrow> path \<Rightarrow> path \<Rightarrow> u64 \<Rightarrow> u8 list \<Rightarrow> u64 \<Rightarrow> u32 \<Rightarrow> (int \<times> u8 list \<times> u64 \<times> u32) option" where
  "path_with_deleted K path root bf mem buf buflen =
     (if d_unlinked K (p_dentry path)
      then case prepend bf mem buf buflen deleted_suffix 10 of
             None \<Rightarrow> None
           | Some (error, mem', buf', buflen') \<Rightarrow>
               if error \<noteq> 0 then Some (error, mem', buf', buflen')
               else prepend_path K path root bf mem' buf' buflen'
      else prepend_path K path root bf mem buf buflen)"

text \<open>The function \<^verbatim>\<open>__d_path_local\<close>: the walk starts at the end of the buffer.\<close>

definition d_path_local_from ::
  "kernel \<Rightarrow> task \<Rightarrow> path \<Rightarrow> u64 \<Rightarrow> u8 list \<Rightarrow> u32 \<Rightarrow> (int \<times> u8 list \<times> u64 \<times> u32) option" where
  "d_path_local_from K t path buf mem buflen =
     path_with_deleted K path (t_fs_root t) buf mem (buf + ucast buflen) buflen"

text \<open>The result of \<open>d_path_local\<close>: the error, the buffer, the returned pointer and \<^verbatim>\<open>*buflen\<close>.\<close>

definition d_path_local ::
  "kernel \<Rightarrow> task \<Rightarrow> path \<Rightarrow> u8 list \<Rightarrow> (int \<times> u8 list \<times> u64 \<times> u32) option" where
  "d_path_local K t path mem =
     (case d_path_local_from K t path (buffer_heap_addr K (t_cpu t)) mem 4096 of
        None \<Rightarrow> None
      | Some (error, mem', buffer, buflen) \<Rightarrow>
          Some (error, mem', buffer, if sint buflen > 0 then 4096 - buflen else buflen))"

text \<open>
  \<open>bpf_d_path_tetragon\<close> of \<^verbatim>\<open>recorder.bpf.c\<close> copies the path into the event: the length with the
  NUL byte, or \<open>- 1\<close> if there is no buffer, and the new contents of the event and the buffer.
\<close>

definition bpf_d_path_tetragon ::
  "kernel \<Rightarrow> task \<Rightarrow> path \<Rightarrow> u8 list \<Rightarrow> rstate \<Rightarrow> (int \<times> u8 list \<times> rstate) option" where
  "bpf_d_path_tetragon K t path buf s =
     (case nth_opt (buffer_heap_map s (t_cpu t)) 0 of
        None \<Rightarrow> Some (- 1, buf, s)
      | Some mem \<Rightarrow>
          (case d_path_local K t path mem of
             None \<Rightarrow> None
           | Some (error, mem', fullpath, sz) \<Rightarrow>
               (let s' = s\<lparr>buffer_heap_map :=
                            (buffer_heap_map s)(t_cpu t := (buffer_heap_map s (t_cpu t))[0 := mem'])\<rparr>;
                    sz' = sz AND 0xfff;
                    off = unat (fullpath - buffer_heap_addr K (t_cpu t))
                in if off + unat sz' > length mem' then None
                   else case write_at buf 0 (take (unat sz') (drop off mem')) of
                     None \<Rightarrow> None
                   | Some buf1 \<Rightarrow>
                       (case write_at buf1 (unat sz') [0] of
                          None \<Rightarrow> None
                        | Some buf2 \<Rightarrow> Some (int (unat sz') + 1, buf2, s')))))"

end
