(* ===== verification/Path_Correct.thy ===== *)
theory Path_Correct
  imports Path_Resolution
begin

text \<open>
  Correctness of the path resolution: it never leaves its buffers, it yields the path the
  walk through dentries and mounts visits, and what it does where that path does not fit.
\<close>

section \<open>Word arithmetic\<close>

lemma unat_u32_of_nat: "k < 2 ^ 32 \<Longrightarrow> unat (of_nat k :: u32) = k"
  by (simp add: unsigned_of_nat take_bit_nat_eq_self)

lemma unat_u64_of_nat: "k < 2 ^ 32 \<Longrightarrow> unat (of_nat k :: u64) = k"
  by (simp add: unsigned_of_nat take_bit_nat_eq_self)

lemma ucast_u64_of_nat: "k < 2 ^ 32 \<Longrightarrow> ucast (of_nat k :: u32) = (of_nat k :: u64)"
  by (simp add: word_unat_eq_iff unsigned_ucast_eq unat_u32_of_nat unat_u64_of_nat take_bit_nat_eq_self)

lemma and_0xff_small: "k \<le> 255 \<Longrightarrow> of_nat k AND 0xff = (of_nat k :: u32)"
proof -
  assume k: "k \<le> 255"
  have "(of_nat k :: u32) AND 0xff = take_bit 8 (of_nat k)"
    by (simp add: take_bit_eq_mask mask_eq_exp_minus_1)
  also have "\<dots> = of_nat k"
    using k by (simp add: word_unat_eq_iff unsigned_take_bit_eq unat_u32_of_nat take_bit_nat_eq_self)
  finally show ?thesis .
qed

lemma unat_and_0xff: "unat ((w :: u32) AND 0xff) \<le> unat w"
  by (simp add: word_le_nat_alt [symmetric] word_and_le2)

lemmas offset_simps = unat_u32_of_nat unat_u64_of_nat ucast_u64_of_nat word_le_nat_alt word_less_nat_alt

section \<open>Prepending a name\<close>

text \<open>
  The walk keeps \<open>bufptr\<close> and \<open>buflen\<close> in step: with \<open>b\<close> bytes left, the pointer is \<open>b\<close>
  bytes into the buffer.
\<close>

lemma prepend_name_fits:
  assumes K: "bpf_kernel K" and b: "b \<le> MAX_BUF_LEN" "MAX_BUF_LEN \<le> length mem"
    and n: "unat namelen < b" "unat namelen \<le> 255"
  shows "prepend_name K buf mem (buf + of_nat b) (of_nat b) name namelen =
    Some (0, take (b - Suc (unat namelen)) mem @ 0x2F # probe_read K name (unat namelen) @ drop b mem,
          buf + of_nat (b - Suc (unat namelen)), of_nat (b - Suc (unat namelen)))"
proof -
  define k where "k = unat namelen"
  have namelen: "namelen = of_nat k" by (simp add: k_def)
  have k: "k < b" "k \<le> 255" using n by (simp_all add: k_def)
  have "namelen + 1 = of_nat (Suc k)" by (simp add: namelen)
  moreover have "(of_nat b :: u32) - of_nat (Suc k) = of_nat (b - Suc k)"
    "(of_nat b :: u64) - of_nat (Suc k) = of_nat (b - Suc k)"
    using k by (simp_all only: of_nat_diff Suc_leI)
  moreover have "(of_nat (b - Suc k) :: u64) + 1 = of_nat (b - k)"
    using k by (metis Suc_diff_Suc of_nat_Suc add.commute)
  moreover have "length (probe_read K name k) = k" by (rule bpf_kernel.probe_read_size [OF K])
  ultimately show ?thesis
    using k b unfolding prepend_name_def k_def [symmetric]
    by (simp add: Let_def namelen offset_simps write_at_def and_0xff_small del: of_nat_Suc of_nat_diff)
      arith
qed

lemma prepend_name_cut:
  assumes K: "bpf_kernel K" and b: "b \<le> MAX_BUF_LEN" "MAX_BUF_LEN \<le> length mem"
    and n: "b \<le> unat namelen"
  shows "\<exists>mem'. prepend_name K buf mem (buf + of_nat b) (of_nat b) name namelen =
    Some (- ENAMETOOLONG, mem', buf, 0) \<and> length mem' = length mem"
proof -
  let ?bytes = "probe_read K (name + ucast (namelen - of_nat b)) (unat ((of_nat b :: u32) AND 0xff))"
  have "length ?bytes \<le> b"
    using unat_and_0xff [of "of_nat b"] b(1) by (simp add: bpf_kernel.probe_read_size [OF K] offset_simps)
  then show ?thesis
    using n b unfolding prepend_name_def
    by (simp add: Let_def offset_simps write_at_def)
qed

section \<open>The walk as a list of names\<close>

text \<open>
  The names a walk of at most \<open>n\<close> steps visits, the last component first, and whether it got
  to the root of the process or of the mount tree.
\<close>

definition name_of :: "kernel \<Rightarrow> u64 \<Rightarrow> u8 list" where
  "name_of K dentry = probe_read K (fst (d_name K dentry)) (unat (snd (d_name K dentry)))"

fun walk :: "kernel \<Rightarrow> path \<Rightarrow> nat \<Rightarrow> u64 \<Rightarrow> u64 \<Rightarrow> u64 \<Rightarrow> u8 list list \<times> bool" where
  "walk K root 0 d v m = ([], False)"
| "walk K root (Suc n) d v m =
     (if d = p_dentry root \<and> v = p_mnt root then ([], True)
      else if d = mnt_root K v \<or> d_parent K d = d then
        (if mnt_parent K m = m then ([], True)
         else walk K root n (mnt_mountpoint K m) (mnt_parent K m + mount_mnt_offset K) (mnt_parent K m))
      else (name_of K d # fst (walk K root n (d_parent K d) v m),
            snd (walk K root n (d_parent K d) v m)))"

definition path_string :: "u8 list list \<Rightarrow> u8 list" where
  "path_string ns = concat (map (\<lambda>n. 0x2F # n) (rev ns))"

lemma path_string_simps [simp]:
  "path_string [] = []" "path_string (n # ns) = path_string ns @ 0x2F # n"
  by (simp_all add: path_string_def)

text \<open>The kernel limits the length of a name to 255 bytes.\<close>

definition names_ok :: "u8 list list \<Rightarrow> bool" where
  "names_ok ns \<longleftrightarrow> (\<forall>n \<in> set ns. length n \<le> 255)"

lemma names_ok_simps [simp]:
  "names_ok []" "names_ok (n # ns) \<longleftrightarrow> length n \<le> 255 \<and> names_ok ns" "names_ok (rev ns) = names_ok ns"
  "names_ok (ns @ ns') \<longleftrightarrow> names_ok ns \<and> names_ok ns'"
  by (auto simp: names_ok_def)

lemma length_name_of: "bpf_kernel K \<Longrightarrow> length (name_of K d) = unat (snd (d_name K d))"
  by (simp add: name_of_def bpf_kernel.probe_read_size)

abbreviation (input) cwd_at :: "path \<Rightarrow> u64 \<Rightarrow> nat \<Rightarrow> u64 \<Rightarrow> u64 \<Rightarrow> u64 \<Rightarrow> cwd_read_data" where
  "cwd_at root bf b d v m \<equiv>
     \<lparr>cw_root_dentry = p_dentry root, cw_root_mnt = p_mnt root, cw_bf = bf, cw_dentry = d,
      cw_vfsmnt = v, cw_mnt = m, cw_bptr = bf + of_nat b, cw_blen = of_nat b,
      cw_resolved = False\<rparr>"

text \<open>A round at a dentry that is neither the root nor that of a mount.\<close>

lemma cwd_read_name:
  assumes "bpf_kernel K" "b \<le> MAX_BUF_LEN" "MAX_BUF_LEN \<le> length mem"
    and "\<not> (d = p_dentry root \<and> v = p_mnt root)" "\<not> (d = mnt_root K v \<or> d_parent K d = d)"
  shows "length (name_of K d) < b \<Longrightarrow> names_ok [name_of K d] \<Longrightarrow>
      cwd_read K (cwd_at root bf b d v m) mem =
        Some (0, cwd_at root bf (b - Suc (length (name_of K d))) (d_parent K d) v m,
              take (b - Suc (length (name_of K d))) mem @ 0x2F # name_of K d @ drop b mem)"
    and "\<not> length (name_of K d) < b \<Longrightarrow>
      \<exists>mem'. cwd_read K (cwd_at root bf b d v m) mem = Some (1, cwd_at root bf 0 d v m, mem') \<and> length mem' = length mem"
proof -
  have len: "length (name_of K d) = unat (snd (d_name K d))" by (rule length_name_of [OF assms(1)])
  have step: "cwd_read K (cwd_at root bf b d v m) mem =
      (case prepend_name K bf mem (bf + of_nat b) (of_nat b) (fst (d_name K d)) (snd (d_name K d)) of
         None \<Rightarrow> None
       | Some (error, mem', bptr, blen) \<Rightarrow>
           (let data' = (cwd_at root bf b d v m)\<lparr>cw_bptr := bptr, cw_blen := blen\<rparr> in
            if error \<noteq> 0 then Some (1, data', mem')
            else Some (0, data'\<lparr>cw_dentry := d_parent K d\<rparr>, mem')))"
    using assms(4,5) by (auto simp: cwd_read_def IS_ROOT_def Let_def)
  show "length (name_of K d) < b \<Longrightarrow> names_ok [name_of K d] \<Longrightarrow>
      cwd_read K (cwd_at root bf b d v m) mem =
        Some (0, cwd_at root bf (b - Suc (length (name_of K d))) (d_parent K d) v m,
              take (b - Suc (length (name_of K d))) mem @ 0x2F # name_of K d @ drop b mem)"
    using prepend_name_fits [OF assms(1-3), of "snd (d_name K d)"] len by (simp add: step name_of_def)
  show "\<not> length (name_of K d) < b \<Longrightarrow>
      \<exists>mem'. cwd_read K (cwd_at root bf b d v m) mem = Some (1, cwd_at root bf 0 d v m, mem') \<and> length mem' = length mem"
    using prepend_name_cut [OF assms(1-3), of "snd (d_name K d)" bf "fst (d_name K d)"] len by (auto simp: step not_less)
qed

lemma cwd_loop_walk:
  assumes "bpf_kernel K" "b \<le> MAX_BUF_LEN" "MAX_BUF_LEN \<le> length mem"
    and "walk K root n d v m = (ns, r)" "names_ok ns"
  shows "\<exists>data mem'. cwd_loop K n (cwd_at root bf b d v m) mem = Some (data, mem') \<and>
    length mem' = length mem \<and>
    cw_bptr data = bf + of_nat (b - length (path_string ns)) \<and>
    cw_blen data = of_nat (b - length (path_string ns)) \<and>
    (length (path_string ns) \<le> b \<longrightarrow> cw_resolved data = r \<and>
       mem' = take (b - length (path_string ns)) mem @ path_string ns @ drop b mem)"
  using assms(2-)
proof (induction n arbitrary: d v m b mem ns)
  case 0
  then show ?case by simp
next
  case (Suc n)
  show ?case
  proof (cases "d = p_dentry root \<and> v = p_mnt root")
    case True
    then show ?thesis using Suc.prems by (simp add: cwd_read_def Let_def)
  next
    case no_root: False
    show ?thesis
    proof (cases "d = mnt_root K v \<or> d_parent K d = d")
      case True
      then show ?thesis
        using no_root Suc.prems Suc.IH [OF Suc.prems(1,2)]
        by (cases "mnt_parent K m = m") (auto simp: cwd_read_def IS_ROOT_def Let_def)
    next
      case False
      obtain ns' where w: "walk K root n (d_parent K d) v m = (ns', r)" and ns: "ns = name_of K d # ns'"
        using Suc.prems(3) no_root False by (cases "walk K root n (d_parent K d) v m") auto
      note read = cwd_read_name [OF assms(1) Suc.prems(1,2) no_root False, of bf m]
      show ?thesis
      proof (cases "length (name_of K d) < b")
        case True
        define b' where "b' = b - Suc (length (name_of K d))"
        define mem1 where "mem1 = take b' mem @ 0x2F # name_of K d @ drop b mem"
        have b': "b' \<le> MAX_BUF_LEN" "MAX_BUF_LEN \<le> length mem1" "length mem1 = length mem"
          using Suc.prems(1,2) True by (auto simp: b'_def mem1_def)
        have "cwd_read K (cwd_at root bf b d v m) mem = Some (0, cwd_at root bf b' (d_parent K d) v m, mem1)"
          using read(1) [OF True] Suc.prems(4) by (simp add: ns b'_def mem1_def)
        moreover obtain data mem' where
          ih: "cwd_loop K n (cwd_at root bf b' (d_parent K d) v m) mem1 = Some (data, mem')"
            "length mem' = length mem1" "cw_bptr data = bf + of_nat (b' - length (path_string ns'))"
            "cw_blen data = of_nat (b' - length (path_string ns'))"
            "length (path_string ns') \<le> b' \<longrightarrow> cw_resolved data = r \<and>
               mem' = take (b' - length (path_string ns')) mem1 @ path_string ns' @ drop b' mem1"
          using Suc.IH [OF b'(1,2) w] Suc.prems(4) by (auto simp: ns)
        moreover have "b - length (path_string ns) = b' - length (path_string ns')" by (simp add: ns b'_def)
        moreover have "take (b' - k) mem1 = take (b' - k) mem" "drop b' mem1 = 0x2F # name_of K d @ drop b mem" for k
          using Suc.prems(1,2) by (simp_all add: mem1_def b'_def)
        moreover have "length (path_string ns) \<le> b \<longleftrightarrow> length (path_string ns') \<le> b'" using True by (auto simp: ns b'_def)
        ultimately show ?thesis using b'(3) by (simp add: ns)
      next
        case False
        then show ?thesis using read(2) by (auto simp: ns)
      qed
    qed
  qed
qed

section \<open>The resolved path\<close>

text \<open>What the resolution of \<open>path\<close> is about: the names on its way and the mark of deleted files.\<close>

definition path_names :: "kernel \<Rightarrow> task \<Rightarrow> path \<Rightarrow> u8 list list" where
  "path_names K t path =
     fst (walk K (t_fs_root t) PROBE_CWD_READ_ITERATIONS (p_dentry path) (p_mnt path)
            (p_mnt path - mount_mnt_offset K))"

definition path_complete :: "kernel \<Rightarrow> task \<Rightarrow> path \<Rightarrow> bool" where
  "path_complete K t path =
     snd (walk K (t_fs_root t) PROBE_CWD_READ_ITERATIONS (p_dentry path) (p_mnt path)
            (p_mnt path - mount_mnt_offset K))"

definition path_suffix :: "kernel \<Rightarrow> path \<Rightarrow> u8 list" where
  "path_suffix K path = (if d_unlinked K (p_dentry path) then deleted_suffix else [])"

definition path_text :: "kernel \<Rightarrow> task \<Rightarrow> path \<Rightarrow> u8 list" where
  "path_text K t path = path_string (path_names K t path) @ path_suffix K path"

lemma path_string_empty: "path_string ns = [] \<longleftrightarrow> ns = []"
  by (cases ns) simp_all

lemma length_deleted_suffix: "length deleted_suffix = 10"
  by (simp add: deleted_suffix_def bytes_of_def)

lemma prepend_path_names:
  assumes "bpf_kernel K" "names_ok (path_names K t path)" "b \<le> MAX_BUF_LEN" "MAX_BUF_LEN \<le> length mem"
    and ps: "ps = path_string (path_names K t path)"
  shows "\<exists>err mem'. prepend_path K path (t_fs_root t) bf mem (bf + of_nat b) (of_nat b) =
      Some (err, mem', bf + of_nat (b - length ps),
            if b - length ps = b then 0 else of_nat (b - length ps)) \<and>
    length mem' = length mem \<and>
    (length ps \<le> b \<longrightarrow> mem' = take (b - length ps) mem @ ps @ drop b mem \<and>
       err = (if ps \<noteq> [] \<and> \<not> path_complete K t path then UNRESOLVED_PATH_COMPONENTS else 0))"
proof -
  have "walk K (t_fs_root t) PROBE_CWD_READ_ITERATIONS (p_dentry path) (p_mnt path)
      (real_mount K (p_mnt path)) = (path_names K t path, path_complete K t path)"
    by (simp add: path_names_def path_complete_def real_mount_def)
  from cwd_loop_walk [OF assms(1,3,4) this assms(2)] obtain data mem' where
    loop: "cwd_loop K PROBE_CWD_READ_ITERATIONS (cwd_at (t_fs_root t) bf b (p_dentry path) (p_mnt path)
        (real_mount K (p_mnt path))) mem = Some (data, mem')"
    and data: "length mem' = length mem" "cw_bptr data = bf + of_nat (b - length ps)"
      "cw_blen data = of_nat (b - length ps)"
      "length ps \<le> b \<longrightarrow> cw_resolved data = path_complete K t path \<and>
         mem' = take (b - length ps) mem @ ps @ drop b mem"
    unfolding ps by blast
  have "(bf + of_nat (b - length ps) = bf + of_nat b) \<longleftrightarrow> b - length ps = b"
  proof -
    have "unat (of_nat (b - length ps) :: u64) = b - length ps" "unat (of_nat b :: u64) = b"
      using assms(3) by (simp_all add: unat_u64_of_nat)
    then show ?thesis by (metis add_left_cancel)
  qed
  moreover have "length ps \<le> b \<Longrightarrow> b - length ps = b \<longleftrightarrow> ps = []" by (cases ps) auto
  ultimately show ?thesis
    using loop data assms(3) by (auto simp: prepend_path_def Let_def)
qed

lemma sint_u32_of_nat: "k \<le> MAX_BUF_LEN \<Longrightarrow> sint (of_nat k :: u32) = int k"
  by (simp add: signed_of_nat signed_take_bit_int_eq_self)

lemma prepend_deleted:
  assumes "MAX_BUF_LEN \<le> length mem"
  shows "prepend bf mem (bf + of_nat MAX_BUF_LEN) (of_nat MAX_BUF_LEN) deleted_suffix 10 =
    Some (0, take 4086 mem @ deleted_suffix @ drop MAX_BUF_LEN mem, bf + of_nat 4086, of_nat 4086)"
proof -
  have "sint (4086 :: u32) = 4086" by (simp add: signed_take_bit_int_eq_self)
  moreover have "sint (10 :: u32) = 10" by (simp add: signed_take_bit_int_eq_self)
  moreover have "unat (10 :: u32) = 10" "unat (4086 :: u64) = 4086" "bf + 4096 - ucast (10 :: u32) = bf + 4086"
    by simp_all
  ultimately show ?thesis
    using assms by (simp add: prepend_def Let_def write_at_def length_deleted_suffix)
qed

text \<open>The local variables \<^verbatim>\<open>res\<close> and \<^verbatim>\<open>buflen\<close> after the walk, and the text in the buffer.\<close>

lemma d_path_local_from_text:
  assumes "bpf_kernel K" "names_ok (path_names K t path)" "MAX_BUF_LEN \<le> length mem"
  shows "\<exists>err mem'. d_path_local_from K t path bf mem (of_nat MAX_BUF_LEN) =
      Some (err, mem', bf + of_nat (MAX_BUF_LEN - length (path_text K t path)),
            if path_names K t path = [] then 0 else of_nat (MAX_BUF_LEN - length (path_text K t path))) \<and>
    length mem' = length mem \<and>
    (length (path_text K t path) \<le> MAX_BUF_LEN \<longrightarrow>
       take (length (path_text K t path)) (drop (MAX_BUF_LEN - length (path_text K t path)) mem')
         = path_text K t path)"
proof -
  define ps where "ps = path_string (path_names K t path)"
  define b where "b = MAX_BUF_LEN - length (path_suffix K path)"
  define mem1 where "mem1 = take b mem @ path_suffix K path @ drop MAX_BUF_LEN mem"
  have suf: "length (path_suffix K path) \<le> 10" by (simp add: path_suffix_def length_deleted_suffix)
  then have b: "b \<le> MAX_BUF_LEN" "MAX_BUF_LEN \<le> length mem1" "length mem1 = length mem" "0 < b"
    "drop b mem1 = path_suffix K path @ drop MAX_BUF_LEN mem"
    using assms(3) by (simp_all add: b_def mem1_def)
  have start: "d_path_local_from K t path bf mem (of_nat MAX_BUF_LEN) =
      prepend_path K path (t_fs_root t) bf mem1 (bf + of_nat b) (of_nat b)"
    using prepend_deleted [OF assms(3), of bf]
    by (simp add: d_path_local_from_def path_with_deleted_def mem1_def b_def path_suffix_def length_deleted_suffix)
  from prepend_path_names [OF assms(1,2) b(1,2) ps_def, of bf] b(3)
  obtain err mem' where
    r: "prepend_path K path (t_fs_root t) bf mem1 (bf + of_nat b) (of_nat b) =
      Some (err, mem', bf + of_nat (b - length ps), if b - length ps = b then 0 else of_nat (b - length ps))"
    and m: "length mem' = length mem" "length ps \<le> b \<longrightarrow> mem' = take (b - length ps) mem1 @ ps @ drop b mem1"
    by auto
  have nil: "b - length ps = b \<longleftrightarrow> path_names K t path = []"
    using b(4) by (cases ps) (auto simp: ps_def path_string_empty)
  have spelled: "path_text K t path = ps @ path_suffix K path" by (simp add: path_text_def ps_def)
  then have "MAX_BUF_LEN - length (path_text K t path) = b - length ps"
    "length (path_text K t path) \<le> MAX_BUF_LEN \<longleftrightarrow> length ps \<le> b"
    using suf by (auto simp: b_def)
  then show ?thesis using start r m b(1-3,5) nil spelled by (auto simp: min_def)
qed

text \<open>The path the event gets: the text if it is shorter than the buffer, otherwise nothing.\<close>

definition resolved_path :: "kernel \<Rightarrow> task \<Rightarrow> path \<Rightarrow> u8 list" where
  "resolved_path K t path =
     (if path_names K t path = [] \<or> MAX_BUF_LEN \<le> length (path_text K t path) then []
      else path_text K t path)"

lemma resolved_path_length: "length (resolved_path K t path) < MAX_BUF_LEN"
  by (simp add: resolved_path_def)

lemma d_path_local_resolved:
  assumes "bpf_kernel K" "names_ok (path_names K t path)" "MAX_BUF_LEN \<le> length mem"
  shows "\<exists>err mem' off. d_path_local K t path mem =
      Some (err, mem', buffer_heap_addr K (t_cpu t) + of_nat off, of_nat (length (resolved_path K t path))) \<and>
    length mem' = length mem \<and> off + length (resolved_path K t path) \<le> MAX_BUF_LEN \<and>
    take (length (resolved_path K t path)) (drop off mem') = resolved_path K t path"
proof -
  define n where "n = length (path_text K t path)"
  from d_path_local_from_text [OF assms, of "buffer_heap_addr K (t_cpu t)"]
  obtain err mem' where
    r: "d_path_local_from K t path (buffer_heap_addr K (t_cpu t)) mem (of_nat MAX_BUF_LEN) =
      Some (err, mem', buffer_heap_addr K (t_cpu t) + of_nat (MAX_BUF_LEN - n),
            if path_names K t path = [] then 0 else of_nat (MAX_BUF_LEN - n))"
    and m: "length mem' = length mem"
      "n \<le> MAX_BUF_LEN \<longrightarrow> take n (drop (MAX_BUF_LEN - n) mem') = path_text K t path"
    unfolding n_def by blast
  have s: "sint (of_nat (MAX_BUF_LEN - n) :: u32) = int (MAX_BUF_LEN - n)"
    by (rule sint_u32_of_nat) simp
  have sz: "n < MAX_BUF_LEN \<Longrightarrow> (4096 :: u32) - of_nat (MAX_BUF_LEN - n) = of_nat n"
    by (simp add: of_nat_diff)
  have "d_path_local K t path mem =
      Some (err, mem', buffer_heap_addr K (t_cpu t) + of_nat (MAX_BUF_LEN - n),
            of_nat (length (resolved_path K t path)))"
    using r s sz by (auto simp: d_path_local_def resolved_path_def n_def [symmetric] simp del: of_nat_diff)
  moreover have "MAX_BUF_LEN - n + length (resolved_path K t path) \<le> MAX_BUF_LEN"
    "take (length (resolved_path K t path)) (drop (MAX_BUF_LEN - n) mem') = resolved_path K t path"
    using m by (auto simp: resolved_path_def n_def [symmetric])
  ultimately show ?thesis using m(1) by blast
qed

lemma and_0xfff_small: "k < MAX_BUF_LEN \<Longrightarrow> unat (of_nat k AND 0xfff :: u32) = k"
proof -
  assume k: "k < MAX_BUF_LEN"
  have "(of_nat k :: u32) AND 0xfff = take_bit 12 (of_nat k)"
    by (simp add: take_bit_eq_mask mask_eq_exp_minus_1)
  then show ?thesis
    using k by (simp add: unsigned_take_bit_eq unat_u32_of_nat take_bit_nat_eq_self)
qed

lemma bpf_d_path_tetragon_resolved:
  assumes "bpf_kernel K" "names_ok (path_names K t path)" "length buf = PATH_MAX"
    and heap: "nth_opt (buffer_heap_map s (t_cpu t)) 0 = Some mem" "MAX_BUF_LEN \<le> length mem"
  shows "\<exists>heap'. bpf_d_path_tetragon K t path buf s =
    Some (int (length (resolved_path K t path)) + 1,
          resolved_path K t path @ 0 # drop (Suc (length (resolved_path K t path))) buf,
          s\<lparr>buffer_heap_map := heap'\<rparr>)"
proof -
  define rp where "rp = resolved_path K t path"
  have n: "length rp < MAX_BUF_LEN" by (simp add: rp_def resolved_path_def)
  obtain err mem' off where
    r: "d_path_local K t path mem =
        Some (err, mem', buffer_heap_addr K (t_cpu t) + of_nat off, of_nat (length rp))"
    and m: "length mem' = length mem" "off + length rp \<le> MAX_BUF_LEN"
      "take (length rp) (drop off mem') = rp"
    using d_path_local_resolved [OF assms(1,2) heap(2)] unfolding rp_def by blast
  have "unat (of_nat off :: u64) = off" using m(2) by (simp add: unat_u64_of_nat)
  moreover have "write_at buf 0 rp = Some (rp @ drop (length rp) buf)"
    "write_at (rp @ drop (length rp) buf) (length rp) [0] = Some (rp @ 0 # drop (Suc (length rp)) buf)"
    using assms(3) n by (simp_all add: write_at_def)
  ultimately show ?thesis
    using r m heap n
    by (simp add: bpf_d_path_tetragon_def Let_def and_0xfff_small rp_def [symmetric]) blast
qed

section \<open>Paths in the file system\<close>

text \<open>
  The path of a dentry within a mount, as the kernel defines it: the names from the root of
  the process, or from the root of the mount tree, down to the dentry. A mount root stands for
  its mount point in the parent mount. \<open>k\<close> counts the moves towards the root.
\<close>

inductive resolves :: "kernel \<Rightarrow> path \<Rightarrow> nat \<Rightarrow> u64 \<Rightarrow> u64 \<Rightarrow> u64 \<Rightarrow> u8 list list \<Rightarrow> bool"
  for K root where
  process_root: "d = p_dentry root \<Longrightarrow> v = p_mnt root \<Longrightarrow> resolves K root 0 d v m []"
| tree_root: "\<not> (d = p_dentry root \<and> v = p_mnt root) \<Longrightarrow> d = mnt_root K v \<or> d_parent K d = d \<Longrightarrow>
    mnt_parent K m = m \<Longrightarrow> resolves K root 0 d v m []"
| mount_point: "\<not> (d = p_dentry root \<and> v = p_mnt root) \<Longrightarrow> d = mnt_root K v \<or> d_parent K d = d \<Longrightarrow>
    mnt_parent K m \<noteq> m \<Longrightarrow>
    resolves K root k (mnt_mountpoint K m) (mnt_parent K m + mount_mnt_offset K) (mnt_parent K m) ns \<Longrightarrow>
    resolves K root (Suc k) d v m ns"
| component: "\<not> (d = p_dentry root \<and> v = p_mnt root) \<Longrightarrow> \<not> (d = mnt_root K v \<or> d_parent K d = d) \<Longrightarrow>
    resolves K root k (d_parent K d) v m ns \<Longrightarrow> resolves K root (Suc k) d v m (ns @ [name_of K d])"

lemma resolves_walk:
  "resolves K root k d v m ns \<Longrightarrow> k < n \<Longrightarrow> walk K root n d v m = (rev ns, True)"
proof (induction arbitrary: n rule: resolves.induct)
  case (mount_point d v m k ns)
  then show ?case by (cases n) auto
next
  case (component d v k m ns)
  then show ?case by (cases n) auto
next
  case (process_root d v m)
  then show ?case by (cases n) auto
next
  case (tree_root d v m)
  then show ?case by (cases n) auto
qed

lemma walk_resolves: "walk K root n d v m = (ns, True) \<Longrightarrow> \<exists>k<n. resolves K root k d v m (rev ns)"
proof (induction n arbitrary: d v m ns)
  case (Suc n)
  consider "d = p_dentry root \<and> v = p_mnt root"
    | (top) "\<not> (d = p_dentry root \<and> v = p_mnt root)" "d = mnt_root K v \<or> d_parent K d = d"
    | (comp) "\<not> (d = p_dentry root \<and> v = p_mnt root)" "\<not> (d = mnt_root K v \<or> d_parent K d = d)"
    by blast
  then show ?case
  proof cases
    case 1
    then show ?thesis using Suc.prems by (auto intro: resolves.process_root)
  next
    case top
    show ?thesis
    proof (cases "mnt_parent K m = m")
      case True
      then show ?thesis using resolves.tree_root [OF top True] top Suc.prems by auto
    next
      case False
      then have "walk K root n (mnt_mountpoint K m) (mnt_parent K m + mount_mnt_offset K)
          (mnt_parent K m) = (ns, True)"
        using top Suc.prems by auto
      from Suc.IH [OF this] obtain k where "k < n" "resolves K root k (mnt_mountpoint K m)
          (mnt_parent K m + mount_mnt_offset K) (mnt_parent K m) (rev ns)"
        by blast
      then show ?thesis using resolves.mount_point [OF top False] by auto
    qed
  next
    case comp
    then obtain ns' where w: "walk K root n (d_parent K d) v m = (ns', True)" "ns = name_of K d # ns'"
      using Suc.prems by (cases "walk K root n (d_parent K d) v m") auto
    then obtain k where "k < n" "resolves K root k (d_parent K d) v m (rev ns')"
      using Suc.IH by blast
    then show ?thesis using resolves.component [OF comp] w(2) by auto
  qed
qed simp

lemma path_names_resolves:
  assumes "resolves K (t_fs_root t) k (p_dentry path) (p_mnt path) (real_mount K (p_mnt path)) ns"
    and "k < PROBE_CWD_READ_ITERATIONS"
  shows "path_names K t path = rev ns" "path_complete K t path"
  using resolves_walk [OF assms] by (simp_all add: path_names_def path_complete_def real_mount_def)

lemma resolved_path_resolves:
  assumes "resolves K (t_fs_root t) k (p_dentry path) (p_mnt path) (real_mount K (p_mnt path)) ns"
    and "k < PROBE_CWD_READ_ITERATIONS" "ns \<noteq> []" "names_ok ns"
    and "q = concat (map (\<lambda>n. 0x2F # n) ns) @
           (if d_unlinked K (p_dentry path) then deleted_suffix else [])"
    and "length q < MAX_BUF_LEN"
  shows "resolved_path K t path = q" "names_ok (path_names K t path)"
proof -
  have "path_text K t path = q"
    using path_names_resolves [OF assms(1,2)]
    by (simp add: path_text_def path_suffix_def path_string_def assms(5))
  then show "resolved_path K t path = q" "names_ok (path_names K t path)"
    using path_names_resolves [OF assms(1,2)] assms(3,4,6) by (simp_all add: resolved_path_def)
qed

text \<open>
  (C3) The path resolution is right. For a file at \<open>ns\<close> below the root of the process, less than
  128 moves away from it, whose path is shorter than 4096 bytes, the event gets exactly this
  path, each component after a slash, followed by \<^verbatim>\<open> (deleted)\<close> for an unlinked file and the NUL
  byte, and the returned length counts both.
\<close>

theorem d_path_resolves:
  assumes "bpf_kernel K" "names_ok ns" "length buf = PATH_MAX"
    and "nth_opt (buffer_heap_map s (t_cpu t)) 0 = Some mem" "MAX_BUF_LEN \<le> length mem"
    and "resolves K (t_fs_root t) k (p_dentry path) (p_mnt path) (real_mount K (p_mnt path)) ns"
    and "k < PROBE_CWD_READ_ITERATIONS" "ns \<noteq> []"
    and txt_eq: "text = concat (map (\<lambda>n. 0x2F # n) ns) @
           (if d_unlinked K (p_dentry path) then deleted_suffix else [])"
    and "length text < MAX_BUF_LEN"
  shows "\<exists>heap'. bpf_d_path_tetragon K t path buf s =
    Some (int (length text) + 1, text @ 0 # drop (Suc (length text)) buf, s\<lparr>buffer_heap_map := heap'\<rparr>)"
  using bpf_d_path_tetragon_resolved [OF assms(1) _ assms(3-5)]
    resolved_path_resolves [OF assms(6-8,2,9,10)] by metis

text \<open>
  A file system with the path \<^verbatim>\<open>/etc/motd\<close>: the dentries 16, 17 and 18 in the mount 64. The last
  one is about to be created and has no inode yet.
\<close>

definition motd_kernel :: kernel where
  "motd_kernel = ref_kernel\<lparr>
     d_parent := (\<lambda>d. if d = 18 then 17 else if d = 17 then 16 else d),
     d_name := (\<lambda>d. if d = 18 then (1, 4) else if d = 17 then (2, 3) else (0, 0)),
     probe_read := (\<lambda>p n. take n ((if p = 1 then bytes_of ''motd'' else if p = 2 then bytes_of ''etc''
                                   else []) @ replicate n 0)),
     d_inode := (\<lambda>d. if d = 18 then 0 else d), mnt_root := (\<lambda>m. 16)\<rparr>"

definition motd_task :: task where
  "motd_task = ref_task\<lparr>t_fs_root := \<lparr>p_mnt = 64, p_dentry = 16\<rparr>\<rparr>"

lemma motd_kernel_ok: "bpf_kernel motd_kernel" "names_ok [bytes_of ''etc'', bytes_of ''motd'']"
  using ref.bpf_kernel_axioms
  by (auto simp: motd_kernel_def bpf_kernel_def bytes_of_def min_def)

lemma motd_names: "name_of motd_kernel 18 = bytes_of ''motd''" "name_of motd_kernel 17 = bytes_of ''etc''"
  by (simp_all add: name_of_def motd_kernel_def bytes_of_def)

lemma motd_resolves:
  "resolves motd_kernel \<lparr>p_mnt = 64, p_dentry = 16\<rparr> 2 18 64 32 [bytes_of ''etc'', bytes_of ''motd'']"
proof -
  have "resolves motd_kernel \<lparr>p_mnt = 64, p_dentry = 16\<rparr> 0 16 64 32 []"
    by (rule resolves.process_root) simp_all
  then have "resolves motd_kernel \<lparr>p_mnt = 64, p_dentry = 16\<rparr> (Suc 0) 17 64 32
      ([] @ [name_of motd_kernel 17])"
    by (intro resolves.component) (simp_all add: motd_kernel_def)
  then have "resolves motd_kernel \<lparr>p_mnt = 64, p_dentry = 16\<rparr> (Suc (Suc 0)) 18 64 32
      (([] @ [name_of motd_kernel 17]) @ [name_of motd_kernel 18])"
    by (intro resolves.component) (simp_all add: motd_kernel_def)
  then show ?thesis by (simp add: motd_names numeral_2_eq_2)
qed

theorem d_path_resolves_witness:
  "\<exists>heap'. bpf_d_path_tetragon motd_kernel motd_task \<lparr>p_mnt = 64, p_dentry = 18\<rparr>
       (replicate PATH_MAX 0) init_state =
     Some (10, bytes_of ''/etc/motd'' @ 0 # drop 10 (replicate PATH_MAX 0),
           init_state\<lparr>buffer_heap_map := heap'\<rparr>)"
proof -
  have "\<not> d_unlinked motd_kernel 18"
    by (simp add: d_unlinked_def d_unhashed_def hlist_bl_unhashed_def motd_kernel_def ref_kernel_def)
  moreover have "mount_mnt_offset motd_kernel = 32" by (simp add: motd_kernel_def ref_kernel_def)
  ultimately show ?thesis
    using d_path_resolves [OF motd_kernel_ok, of "replicate PATH_MAX 0" init_state motd_task
        "replicate (4096 + 256) 0" 2 "\<lparr>p_mnt = 64, p_dentry = 18\<rparr>"
        "bytes_of ''/etc/motd''"] motd_resolves
    by (simp add: init_state_def motd_task_def ref_task_def real_mount_def bytes_of_def)
qed

text \<open>
  A path of 4096 bytes or more is not cut to the part that fits: the event gets the empty
  path, whatever the walk has stored in the buffer.
\<close>

theorem d_path_long_discarded:
  assumes "bpf_kernel K" "names_ok (path_names K t path)" "length buf = PATH_MAX"
    and "nth_opt (buffer_heap_map s (t_cpu t)) 0 = Some mem" "MAX_BUF_LEN \<le> length mem"
    and "MAX_BUF_LEN \<le> length (path_text K t path)"
  shows "\<exists>heap'. bpf_d_path_tetragon K t path buf s =
    Some (1, 0 # drop 1 buf, s\<lparr>buffer_heap_map := heap'\<rparr>)"
  using bpf_d_path_tetragon_resolved [OF assms(1-5)] assms(6)
  by (simp add: resolved_path_def)

text \<open>A directory 17 levels deep, every name of 255 bytes, about to be created.\<close>

definition deep_kernel :: kernel where
  "deep_kernel = ref_kernel\<lparr>d_parent := (\<lambda>d. if d = 0 then 0 else d - 1), d_name := (\<lambda>d. (0, 255)),
     d_inode := (\<lambda>d. if d = 17 then 0 else d), mnt_root := (\<lambda>m. 0)\<rparr>"

lemma deep_kernel_ok: "bpf_kernel deep_kernel"
  using ref.bpf_kernel_axioms by (auto simp: deep_kernel_def bpf_kernel_def)

lemma deep_resolves:
  "k \<le> 17 \<Longrightarrow> \<exists>ns. resolves deep_kernel \<lparr>p_mnt = 64, p_dentry = 0\<rparr> k (of_nat k) 64 32 ns \<and>
     length (path_string (rev ns)) = 256 * k \<and> names_ok ns"
proof (induction k)
  case 0
  then show ?case by (auto intro!: exI [of _ "[]"] resolves.process_root)
next
  case (Suc k)
  then obtain ns where ns: "resolves deep_kernel \<lparr>p_mnt = 64, p_dentry = 0\<rparr> k (of_nat k) 64 32 ns"
    "length (path_string (rev ns)) = 256 * k" "names_ok ns"
    by auto
  have u: "unat (of_nat (Suc k) :: u64) = Suc k" using Suc.prems by (simp add: unat_u64_of_nat del: of_nat_Suc)
  have nz: "(of_nat (Suc k) :: u64) \<noteq> 0" using u by (metis unsigned_0 nat.distinct(1))
  moreover have "d_parent deep_kernel (of_nat (Suc k)) = of_nat k" using nz by (simp add: deep_kernel_def)
  moreover have "(of_nat k :: u64) \<noteq> of_nat (Suc k)"
    using u Suc.prems by (metis unat_u64_of_nat n_not_Suc_n numeral_le_iff le_less_trans
        Suc_leD less_imp_le_nat of_nat_Suc add_cancel_right_left zero_neq_one)
  moreover have "mnt_root deep_kernel 64 = 0" by (simp add: deep_kernel_def)
  ultimately have "resolves deep_kernel \<lparr>p_mnt = 64, p_dentry = 0\<rparr> (Suc k) (of_nat (Suc k)) 64 32
      (ns @ [name_of deep_kernel (of_nat (Suc k))])"
    using ns(1) by (intro resolves.component) (simp_all del: of_nat_Suc)
  moreover have "length (name_of deep_kernel (of_nat (Suc k))) = 255"
    by (simp add: length_name_of deep_kernel_ok) (simp add: deep_kernel_def)
  ultimately show ?case using ns(2,3) by (auto simp del: of_nat_Suc)
qed

lemma deep_path_long:
  "names_ok (path_names deep_kernel (ref_task\<lparr>t_fs_root := \<lparr>p_mnt = 64, p_dentry = 0\<rparr>\<rparr>)
     \<lparr>p_mnt = 64, p_dentry = 17\<rparr>)"
  "MAX_BUF_LEN \<le> length (path_text deep_kernel (ref_task\<lparr>t_fs_root := \<lparr>p_mnt = 64, p_dentry = 0\<rparr>\<rparr>)
     \<lparr>p_mnt = 64, p_dentry = 17\<rparr>)"
proof -
  let ?t = "ref_task\<lparr>t_fs_root := \<lparr>p_mnt = 64, p_dentry = 0\<rparr>\<rparr>" and ?p = "\<lparr>p_mnt = 64, p_dentry = 17\<rparr>"
  obtain ns where ns: "resolves deep_kernel \<lparr>p_mnt = 64, p_dentry = 0\<rparr> 17 17 64 32 ns"
    "length (path_string (rev ns)) = 256 * 17" "names_ok ns"
    using deep_resolves [of 17] by auto
  have "real_mount deep_kernel 64 = 32" by (simp add: real_mount_def deep_kernel_def ref_kernel_def)
  then have "path_names deep_kernel ?t ?p = rev ns"
    using path_names_resolves [of deep_kernel ?t 17 ?p ns] ns(1) by simp
  then show "names_ok (path_names deep_kernel ?t ?p)" "MAX_BUF_LEN \<le> length (path_text deep_kernel ?t ?p)"
    using ns(2,3) by (simp_all add: path_text_def)
qed

theorem d_path_long_discarded_witness:
  "\<exists>heap'. bpf_d_path_tetragon deep_kernel (ref_task\<lparr>t_fs_root := \<lparr>p_mnt = 64, p_dentry = 0\<rparr>\<rparr>)
       \<lparr>p_mnt = 64, p_dentry = 17\<rparr> (replicate PATH_MAX 1) init_state =
     Some (1, 0 # drop 1 (replicate PATH_MAX 1), init_state\<lparr>buffer_heap_map := heap'\<rparr>)"
  using d_path_long_discarded [OF deep_kernel_ok deep_path_long(1) _ _ _ deep_path_long(2), of "replicate PATH_MAX 1" init_state
      "replicate (4096 + 256) 0"]
  by (simp add: init_state_def ref_task_def)

end
