(* ===== verification/Path_Safety.thy ===== *)
theory Path_Safety
  imports Path_Correct
begin

text \<open>
  Memory safety of the path resolution for any kernel memory: whatever the dentries, their
  names and the lengths of their names hold, no access leaves a buffer, the program returns,
  and the length it returns fits the event. The invariant is that \<^verbatim>\<open>bptr\<close> and \<^verbatim>\<open>blen\<close> stay in
  step, \<^verbatim>\<open>blen\<close> bytes into the buffer.
\<close>

definition in_step :: "u64 \<Rightarrow> nat \<Rightarrow> nat \<Rightarrow> u64 \<Rightarrow> u32 \<Rightarrow> bool" where
  "in_step bf b b' bufptr buflen \<longleftrightarrow> b' \<le> b \<and> bufptr = bf + of_nat b' \<and> buflen = of_nat b'"

lemma prepend_name_safe:
  assumes K: "bpf_kernel K" and b: "b \<le> MAX_BUF_LEN" "MAX_BUF_LEN \<le> length mem"
  shows "\<exists>err mem' p l b'. prepend_name K bf mem (bf + of_nat b) (of_nat b) name namelen =
    Some (err, mem', p, l) \<and> in_step bf b b' p l \<and> length mem' = length mem"
proof (cases "b \<le> unat namelen")
  case True
  then obtain mem' where "prepend_name K bf mem (bf + of_nat b) (of_nat b) name namelen =
      Some (- ENAMETOOLONG, mem', bf, 0)" "length mem' = length mem"
    using prepend_name_cut [OF K b True] by blast
  moreover have "in_step bf b 0 bf 0" by (simp add: in_step_def)
  ultimately show ?thesis by blast
next
  case False
  define k where "k = unat namelen"
  define b' where "b' = b - Suc k"
  have namelen: "namelen = of_nat k" by (simp add: k_def)
  have k: "k < b" using False by (simp add: k_def)
  let ?bytes = "probe_read K name (unat (namelen AND 0xff))"
  have len: "length ?bytes \<le> k"
    using unat_and_0xff [of namelen] by (simp add: bpf_kernel.probe_read_size [OF K] k_def)
  have "namelen + 1 = of_nat (Suc k)" by (simp add: namelen)
  moreover have "(of_nat b :: u32) - of_nat (Suc k) = of_nat b'" "(of_nat b :: u64) - of_nat (Suc k) = of_nat b'"
    using k by (simp_all only: of_nat_diff Suc_leI b'_def)
  moreover have "(of_nat b' :: u64) + 1 = of_nat (Suc b')" by simp
  moreover have "unat (of_nat b' :: u64) = b'" "unat (of_nat (Suc b') :: u64) = Suc b'"
    using b k by (auto intro!: unat_u64_of_nat simp: b'_def simp del: of_nat_Suc of_nat_diff)
  moreover have "Suc b' + length ?bytes \<le> length mem" using len b k by (simp add: b'_def)
  ultimately have "\<exists>mem'. prepend_name K bf mem (bf + of_nat b) (of_nat b) name namelen =
      Some (0, mem', bf + of_nat b', of_nat b') \<and> length mem' = length mem"
    using k b unfolding prepend_name_def namelen [symmetric]
    by (auto simp add: Let_def namelen offset_simps write_at_def b'_def
        simp del: of_nat_Suc of_nat_diff)
  moreover have "in_step bf b b' (bf + of_nat b') (of_nat b')" by (simp add: in_step_def b'_def)
  ultimately show ?thesis by blast
qed

lemma cwd_read_safe:
  assumes "bpf_kernel K" "b \<le> MAX_BUF_LEN" "MAX_BUF_LEN \<le> length mem"
    and "cw_bptr data = cw_bf data + of_nat b" "cw_blen data = of_nat b"
  shows "\<exists>ret data' mem' b'. cwd_read K data mem = Some (ret, data', mem') \<and> length mem' = length mem \<and>
    cw_bf data' = cw_bf data \<and> in_step (cw_bf data) b b' (cw_bptr data') (cw_blen data')"
proof -
  obtain err mem' p l b' where
    r: "prepend_name K (cw_bf data) mem (cw_bptr data) (cw_blen data) (fst (d_name K (cw_dentry data)))
        (snd (d_name K (cw_dentry data))) = Some (err, mem', p, l)"
    and p: "in_step (cw_bf data) b b' p l" "length mem' = length mem"
    using prepend_name_safe [OF assms(1-3), of "cw_bf data" "fst (d_name K (cw_dentry data))"
        "snd (d_name K (cw_dentry data))"] unfolding assms(4,5) by blast
  have "in_step (cw_bf data) b b (cw_bptr data) (cw_blen data)" using assms(4,5) by (simp add: in_step_def)
  with p show ?thesis by (auto simp: cwd_read_def Let_def r)
qed

lemma cwd_loop_safe:
  assumes "bpf_kernel K"
  shows "b \<le> MAX_BUF_LEN \<Longrightarrow> MAX_BUF_LEN \<le> length mem \<Longrightarrow>
    cw_bptr data = cw_bf data + of_nat b \<Longrightarrow> cw_blen data = of_nat b \<Longrightarrow>
    \<exists>data' mem' b'. cwd_loop K n data mem = Some (data', mem') \<and> length mem' = length mem \<and>
      in_step (cw_bf data) b b' (cw_bptr data') (cw_blen data')"
proof (induction n arbitrary: b mem data)
  case 0
  then show ?case by (auto simp: in_step_def)
next
  case (Suc n)
  from cwd_read_safe [OF assms Suc.prems] obtain ret data' mem' b' where
    r: "cwd_read K data mem = Some (ret, data', mem')" "length mem' = length mem"
      "cw_bf data' = cw_bf data" "in_step (cw_bf data) b b' (cw_bptr data') (cw_blen data')"
    by blast
  then have "b' \<le> MAX_BUF_LEN" "b' \<le> b" "MAX_BUF_LEN \<le> length mem'"
      "cw_bptr data' = cw_bf data' + of_nat b'" "cw_blen data' = of_nat b'"
    using Suc.prems(1,2) by (simp_all add: in_step_def)
  note b' = this
  show ?case
  proof (cases "ret = 0")
    case True
    obtain data'' mem'' b'' where
      "cwd_loop K n data' mem' = Some (data'', mem'')" "length mem'' = length mem'"
      "in_step (cw_bf data') b' b'' (cw_bptr data'') (cw_blen data'')"
      using Suc.IH [OF b'(1,3-5)] by blast
    moreover from this(3) have "in_step (cw_bf data) b b'' (cw_bptr data'') (cw_blen data'')"
      using r(3) b'(2) by (simp add: in_step_def)
    ultimately show ?thesis using r True by auto
  next
    case False
    then show ?thesis using r by auto
  qed
qed

text \<open>After the walk \<^verbatim>\<open>buflen\<close> is in step, or 0 if nothing got prepended.\<close>

lemma prepend_path_safe:
  assumes "bpf_kernel K" "b \<le> MAX_BUF_LEN" "MAX_BUF_LEN \<le> length mem"
  shows "\<exists>err mem' b' l. prepend_path K path root bf mem (bf + of_nat b) (of_nat b) =
    Some (err, mem', bf + of_nat b', l) \<and> length mem' = length mem \<and> b' \<le> b \<and> (l = of_nat b' \<or> l = 0)"
proof -
  let ?data = "cwd_at root bf b (p_dentry path) (p_mnt path) (real_mount K (p_mnt path))"
  obtain data' mem' b' where
    "cwd_loop K PROBE_CWD_READ_ITERATIONS ?data mem = Some (data', mem')" "length mem' = length mem"
    "in_step bf b b' (cw_bptr data') (cw_blen data')"
    using cwd_loop_safe [OF assms, of ?data PROBE_CWD_READ_ITERATIONS] by auto
  then show ?thesis
    unfolding prepend_path_def Let_def by (fastforce simp: in_step_def)
qed

lemma d_path_local_safe:
  assumes "bpf_kernel K" "MAX_BUF_LEN \<le> length mem"
  shows "\<exists>err mem' off sz. d_path_local K t path mem =
    Some (err, mem', buffer_heap_addr K (t_cpu t) + of_nat off, of_nat sz) \<and>
    length mem' = length mem \<and> off \<le> MAX_BUF_LEN \<and> sz < MAX_BUF_LEN \<and> off + sz \<le> MAX_BUF_LEN"
proof -
  let ?bf = "buffer_heap_addr K (t_cpu t)"
  obtain b mem1 where b: "b \<le> MAX_BUF_LEN" "length mem1 = length mem" and
    from_b: "d_path_local_from K t path ?bf mem (of_nat MAX_BUF_LEN) =
      prepend_path K path (t_fs_root t) ?bf mem1 (?bf + of_nat b) (of_nat b)"
  proof (cases "d_unlinked K (p_dentry path)")
    case True
    show ?thesis
      using that [of 4086 "take 4086 mem @ deleted_suffix @ drop MAX_BUF_LEN mem"]
        prepend_deleted [OF assms(2), of ?bf] True assms(2)
      by (simp add: d_path_local_from_def path_with_deleted_def length_deleted_suffix)
  next
    case False
    then show ?thesis
      using that [of MAX_BUF_LEN mem] by (simp add: d_path_local_from_def path_with_deleted_def)
  qed
  obtain err mem' b' l where
    r: "prepend_path K path (t_fs_root t) ?bf mem1 (?bf + of_nat b) (of_nat b) =
        Some (err, mem', ?bf + of_nat b', l)"
      "length mem' = length mem" "b' \<le> b" "l = of_nat b' \<or> l = 0"
    using prepend_path_safe [OF assms(1) b(1), of mem1 path "t_fs_root t" ?bf] b assms(2) by auto
  have s: "sint (of_nat b' :: u32) = int b'" "(4096 :: u32) - of_nat b' = of_nat (MAX_BUF_LEN - b')"
    using b(1) r(3) by (simp_all add: sint_u32_of_nat of_nat_diff)
  define sz where "sz = (if l = 0 \<or> b' = 0 then 0 else MAX_BUF_LEN - b')"
  have "d_path_local K t path mem = Some (err, mem', ?bf + of_nat b', of_nat sz)"
    using from_b r s by (auto simp: d_path_local_def sz_def simp del: of_nat_diff)
  moreover have "b' \<le> MAX_BUF_LEN" "sz < MAX_BUF_LEN" "b' + sz \<le> MAX_BUF_LEN"
    using b(1) r(3) by (auto simp: sz_def)
  ultimately show ?thesis using r(2) by blast
qed

lemma bpf_d_path_tetragon_safe:
  assumes "bpf_kernel K" "length buf = PATH_MAX"
    and heap: "nth_opt (buffer_heap_map s (t_cpu t)) 0 = Some mem" "MAX_BUF_LEN \<le> length mem"
  shows "\<exists>n buf' heap'. bpf_d_path_tetragon K t path buf s =
      Some (int n, buf', s\<lparr>buffer_heap_map := heap'\<rparr>) \<and>
    0 < n \<and> n \<le> PATH_MAX \<and> length buf' = PATH_MAX \<and> buf' ! (n - 1) = 0 \<and>
    (\<exists>mem'. heap' = (buffer_heap_map s)(t_cpu t := (buffer_heap_map s (t_cpu t))[0 := mem']) \<and>
       length mem' = length mem)"
proof -
  obtain err mem' off sz where
    r: "d_path_local K t path mem = Some (err, mem', buffer_heap_addr K (t_cpu t) + of_nat off, of_nat sz)"
      "length mem' = length mem" "sz < MAX_BUF_LEN" "off + sz \<le> MAX_BUF_LEN"
    using d_path_local_safe [OF assms(1) heap(2), of t path] by blast
  define buf' where "buf' = take sz (drop off mem') @ 0 # drop (Suc sz) buf"
  have "unat (of_nat off :: u64) = off" using r(4) by (simp add: unat_u64_of_nat)
  moreover have len: "length (take sz (drop off mem')) = sz" using r heap(2) by simp
  moreover have "write_at buf 0 (take sz (drop off mem')) = Some (take sz (drop off mem') @ drop sz buf)"
    "write_at (take sz (drop off mem') @ drop sz buf) sz [0] = Some buf'"
    using assms(2) r(3) len by (simp_all add: write_at_def buf'_def)
  ultimately have "bpf_d_path_tetragon K t path buf s = Some (int (Suc sz), buf',
      s\<lparr>buffer_heap_map := (buffer_heap_map s)(t_cpu t := (buffer_heap_map s (t_cpu t))[0 := mem'])\<rparr>)"
    using r heap by (simp add: bpf_d_path_tetragon_def Let_def and_0xfff_small)
  moreover have "length buf' = PATH_MAX" "buf' ! sz = 0"
    using len assms(2) r(3) by (simp_all add: buf'_def nth_append)
  ultimately show ?thesis
    using r(2,3) by (intro exI [of _ "Suc sz"]) auto
qed

text \<open>
  (C15) The path resolution is memory safe for any content of the kernel memory it reads: no
  name, name length, dentry or mount makes it access memory outside of the scratch buffer or
  the event, it always returns, the length is between 1 and 4096, and the event holds a NUL
  terminated string of that length.
\<close>

theorem d_path_safe:
  assumes "bpf_kernel K" "length buf = PATH_MAX"
    and "nth_opt (buffer_heap_map s (t_cpu t)) 0 = Some mem" "MAX_BUF_LEN \<le> length mem"
  shows "\<exists>n buf' heap'. bpf_d_path_tetragon K t path buf s =
      Some (int n, buf', s\<lparr>buffer_heap_map := heap'\<rparr>) \<and>
    0 < n \<and> n \<le> PATH_MAX \<and> length buf' = PATH_MAX \<and> buf' ! (n - 1) = 0 \<and>
    (\<forall>c. map length (heap' c) = map length (buffer_heap_map s c))"
proof -
  from bpf_d_path_tetragon_safe [OF assms, of path] obtain n buf' heap' mem' where
    r: "bpf_d_path_tetragon K t path buf s = Some (int n, buf', s\<lparr>buffer_heap_map := heap'\<rparr>)"
      "0 < n" "n \<le> PATH_MAX" "length buf' = PATH_MAX" "buf' ! (n - 1) = 0"
    and heap': "heap' = (buffer_heap_map s)(t_cpu t := (buffer_heap_map s (t_cpu t))[0 := mem'])"
      "length mem' = length mem"
    by blast
  have "0 < length (buffer_heap_map s (t_cpu t))" "buffer_heap_map s (t_cpu t) ! 0 = mem"
    using assms(3) by (auto simp: nth_opt_def split: if_splits)
  then have "(map length (buffer_heap_map s (t_cpu t)))[0 := length mem] =
      map length (buffer_heap_map s (t_cpu t))"
    by (metis length_map list_update_id nth_map)
  then have "map length (heap' c) = map length (buffer_heap_map s c)" for c
    by (simp add: heap' map_update)
  with r show ?thesis by blast
qed

text \<open>A memory in which every name claims to be \<open>2\<^sup>32 - 1\<close> bytes long.\<close>

theorem d_path_safe_witness:
  "\<exists>n buf' heap'. bpf_d_path_tetragon (ref_kernel\<lparr>d_name := \<lambda>d. (0, - 1), d_parent := \<lambda>d. d + 1\<rparr>)
       ref_task \<lparr>p_mnt = 64, p_dentry = 18\<rparr> (replicate PATH_MAX 1) init_state =
     Some (int n, buf', init_state\<lparr>buffer_heap_map := heap'\<rparr>) \<and>
     0 < n \<and> n \<le> PATH_MAX \<and> length buf' = PATH_MAX"
proof -
  let ?K = "ref_kernel\<lparr>d_name := \<lambda>d. (0, - 1), d_parent := \<lambda>d. d + 1\<rparr>"
  have "bpf_kernel ?K" using ref.bpf_kernel_axioms by (simp add: bpf_kernel_def)
  then show ?thesis
    using d_path_safe [of ?K "replicate PATH_MAX 1" init_state ref_task "replicate (4096 + 256) 0"
        "\<lparr>p_mnt = 64, p_dentry = 18\<rparr>"]
    by (fastforce simp: init_state_def)
qed

end
