(* ===== verification/File_Events.thy ===== *)
theory File_Events
  imports Events Path_Safety
begin

text \<open>
  The file events of \<^verbatim>\<open>recorder.bpf.c\<close>: \<^verbatim>\<open>register_fs_event\<close> and the LSM hooks that call it. The
  event is assembled in the per CPU scratch buffer, repeated accesses of a thread are
  discarded, and the path is sent with a trailing slash if it is one of a directory. As in
  \<open>Path_Resolution\<close>, the result \<open>None\<close> is an access outside of a buffer.
\<close>

section \<open>Sending a file event\<close>

definition make_path :: "u64 \<Rightarrow> path \<Rightarrow> path" where
  "make_path dentry path = \<lparr>p_mnt = p_mnt path, p_dentry = dentry\<rparr>"

definition FORWARD_SLASH :: "u8 list" where
  "FORWARD_SLASH = [0x2F, 0]"

abbreviation (input) sizeof_event_data :: nat where "sizeof_event_data \<equiv> 25 + PATH_MAX"

definition wire_event_data :: "event_data \<Rightarrow> u8 list" where
  "wire_event_data ev = wire_header (ed_hdr ev) @ ed_data ev"

definition put_scratch :: "task \<Rightarrow> event_data \<Rightarrow> rstate \<Rightarrow> rstate" where
  "put_scratch t ev s =
     s\<lparr>file_event_scratch :=
         (file_event_scratch s)(t_cpu t := (file_event_scratch s (t_cpu t))[0 := ev])\<rparr>"

definition same_file :: "file_event_state option \<Rightarrow> u64 \<Rightarrow> u32 \<Rightarrow> bool \<Rightarrow> bool" where
  "same_file prev inode dev overlay =
     (case prev of
        None \<Rightarrow> False
      | Some l \<Rightarrow> inode \<noteq> 0 \<and> inode = fe_inode l \<and>
                  (dev = fe_dev l \<or> (fe_overlay l \<noteq> 0 \<and> \<not> overlay)))"

definition repeated :: "file_event_state option \<Rightarrow> u64 \<Rightarrow> u64 \<Rightarrow> u32 \<Rightarrow> bool \<Rightarrow> bool" where
  "repeated prev flags inode dev overlay \<longleftrightarrow>
     same_file prev inode dev overlay \<and> flags OR fe_flags (the prev) = fe_flags (the prev)"

text \<open>The path by \<^verbatim>\<open>bpf_d_path\<close> or the replacement: its length, the event data, the state.\<close>

definition event_path ::
  "kernel \<Rightarrow> task \<Rightarrow> path \<Rightarrow> bool \<Rightarrow> u8 list \<Rightarrow> rstate \<Rightarrow> (int \<times> u8 list \<times> rstate) option" where
  "event_path K t filename custom_bpf_d_path data s =
     (if custom_bpf_d_path then bpf_d_path_tetragon K t filename data s
      else let r = bpf_d_path K filename data in Some (fst r, snd r, s))"

text \<open>The slash after a directory; the inner \<open>None\<close> is a path too close to \<^verbatim>\<open>PATH_MAX\<close>.\<close>

definition fixup_directory :: "u16 \<Rightarrow> int \<Rightarrow> u8 list \<Rightarrow> (int \<times> u8 list) option option" where
  "fixup_directory i_mode pathlen data =
     (if i_mode AND S_IFMT = S_IFDIR
      then let idx = (word_of_int (pathlen - 1) :: u16)
           in if unat idx < PATH_MAX - length FORWARD_SLASH
              then case write_at data (unat idx) FORWARD_SLASH of
                     None \<Rightarrow> None
                   | Some data' \<Rightarrow> Some (Some (pathlen + 1, data'))
              else Some None
      else Some (Some (pathlen, data)))"

definition record_size :: "int \<Rightarrow> nat" where
  "record_size pathlen =
     (let sz = unat (word_of_int (25 + pathlen) AND 0x1fff :: u64)
      in if sz > sizeof_event_data then sizeof_event_data else sz)"

definition remember_file ::
  "kernel \<Rightarrow> task \<Rightarrow> u64 \<Rightarrow> u64 \<Rightarrow> u32 \<Rightarrow> bool \<Rightarrow> rstate \<Rightarrow> rstate" where
  "remember_file K t flags inode dev overlay s =
     (let tid = current_tid t; prev = last_file_event s tid; ov = (if overlay then 1 else 0)
      in if inode = 0 then s
         else case prev of
           Some l \<Rightarrow>
             s\<lparr>last_file_event := (last_file_event s)(tid \<mapsto>
                 \<lparr>fe_inode = inode,
                  fe_flags = (if same_file prev inode dev overlay then flags OR fe_flags l else flags),
                  fe_dev = dev, fe_overlay = ov\<rparr>)\<rparr>
         | None \<Rightarrow>
             s\<lparr>last_file_event := snd (upd_last_file_event K (last_file_event s) tid
                 \<lparr>fe_inode = inode, fe_flags = flags, fe_dev = dev, fe_overlay = ov\<rparr> BPF_ANY)\<rparr>)"

definition register_fs_event_locked ::
  "config \<Rightarrow> kernel \<Rightarrow> task \<Rightarrow> path \<Rightarrow> u16 \<Rightarrow> u64 \<Rightarrow> bool \<Rightarrow> u32 \<Rightarrow> u32 \<Rightarrow> u64 \<Rightarrow> u32 \<Rightarrow> bool \<Rightarrow>
   event_data \<Rightarrow> rstate \<Rightarrow> rstate option" where
  "register_fs_event_locked C K t filename i_mode flags custom_bpf_d_path mntns pid inode dev overlay
     event s =
     (if repeated (last_file_event s (current_tid t)) flags inode dev overlay then Some s
      else case event_path K t filename custom_bpf_d_path (ed_data event) s of
        None \<Rightarrow> None
      | Some (pathlen, data, s1) \<Rightarrow>
          if pathlen < 0 then Some (put_scratch t (event\<lparr>ed_data := data\<rparr>) s1)
          else case fixup_directory i_mode pathlen data of
            None \<Rightarrow> None
          | Some None \<Rightarrow> Some (put_scratch t (event\<lparr>ed_data := data\<rparr>) s1)
          | Some (Some (pathlen', data')) \<Rightarrow>
              (let event' = \<lparr>ed_hdr = \<lparr>ev_pid = pid, ev_mntns = mntns, ev_key = get_key C K t mntns,
                                       ev_type = EVENT_TYPE_APPARMOR_FILE, ev_flags = flags\<rparr>,
                             ed_data = data'\<rparr>;
                   s2 = put_scratch t event' s1;
                   sz = record_size pathlen'
               in if \<not> rb_room K (events s2) sz then Some (count_lost LOST_RINGBUF t s2)
                  else Some (remember_file K t flags inode dev overlay
                         (s2\<lparr>events := events s2 @ [take sz (wire_event_data event')]\<rparr>))))"

definition busy_add :: "task \<Rightarrow> u32 \<Rightarrow> rstate \<Rightarrow> rstate" where
  "busy_add t n s =
     s\<lparr>file_event_busy :=
         (file_event_busy s)(t_cpu t := (file_event_busy s (t_cpu t))[0 := file_event_busy s (t_cpu t) ! 0 + n])\<rparr>"

definition register_fs_event ::
  "config \<Rightarrow> kernel \<Rightarrow> task \<Rightarrow> path \<Rightarrow> u16 \<Rightarrow> u64 \<Rightarrow> bool \<Rightarrow> rstate \<Rightarrow> (int \<times> rstate) option" where
  "register_fs_event C K t filename i_mode flags custom_bpf_d_path s =
     (if i_mode AND S_IFMT = S_IFIFO then Some (0, s)
      else let mntns = get_mntns C K t s in
        if mntns = 0 then Some (0, s)
        else let inode = d_inode K (p_dentry filename);
                 inode_number = i_ino K inode;
                 dev = s_dev K (i_sb K inode);
                 overlay = (s_magic K (i_sb K inode) = OVERLAYFS_SUPER_MAGIC);
                 pid = current_pid t
             in case (nth_opt (file_event_busy s (t_cpu t)) 0, nth_opt (file_event_scratch s (t_cpu t)) 0) of
                  (Some busy, Some event) \<Rightarrow>
                    (let s1 = busy_add t 1 s in
                     if file_event_busy s1 (t_cpu t) ! 0 \<noteq> 1
                     then Some (0, count_lost LOST_FILE_EVENT_BUSY t (busy_add t (- 1) s1))
                     else map_option (\<lambda>s2. (0, busy_add t (- 1) s2))
                            (register_fs_event_locked C K t filename i_mode flags custom_bpf_d_path
                               mntns pid inode_number dev overlay event s1))
                | _ \<Rightarrow> Some (0, s))"

definition register_file_event ::
  "config \<Rightarrow> kernel \<Rightarrow> task \<Rightarrow> kfile option \<Rightarrow> u64 \<Rightarrow> rstate \<Rightarrow> (int \<times> rstate) option" where
  "register_file_event C K t file flags s =
     (case file of
        None \<Rightarrow> Some (0, s)
      | Some f \<Rightarrow> register_fs_event C K t (f_path f) (f_inode_mode f) flags False s)"

section \<open>The hooks\<close>

text \<open>A field of the null pointer reads as 0.\<close>

definition file_open ::
  "config \<Rightarrow> kernel \<Rightarrow> task \<Rightarrow> kfile option \<Rightarrow> rstate \<Rightarrow> (int \<times> rstate) option" where
  "file_open C K t file s =
     (if \<not> is_recording_cached s then Some (0, s)
      else let mode = (case file of None \<Rightarrow> 0 | Some f \<Rightarrow> f_mode f);
               flags = 0;
               flags = (if mode AND FMODE_READ \<noteq> 0 then flags OR FLAG_READ else flags);
               flags = (if mode AND FMODE_WRITE \<noteq> 0 then flags OR FLAG_WRITE else flags);
               flags = (if mode AND FMODE_EXEC \<noteq> 0 then flags OR FLAG_EXEC else flags)
           in register_file_event C K t file flags s)"

definition file_lock ::
  "config \<Rightarrow> kernel \<Rightarrow> task \<Rightarrow> kfile option \<Rightarrow> rstate \<Rightarrow> (int \<times> rstate) option" where
  "file_lock C K t file s =
     (if \<not> is_recording_cached s then Some (0, s) else register_file_event C K t file FLAG_WRITE s)"

definition mmap_file ::
  "config \<Rightarrow> kernel \<Rightarrow> task \<Rightarrow> kfile option \<Rightarrow> u64 \<Rightarrow> rstate \<Rightarrow> (int \<times> rstate) option" where
  "mmap_file C K t file prot s =
     (if \<not> is_recording_cached s then Some (0, s)
      else let flags = 0;
               flags = (if prot AND PROT_READ \<noteq> 0 then flags OR FLAG_READ else flags);
               flags = (if prot AND PROT_WRITE \<noteq> 0 then flags OR FLAG_WRITE else flags);
               flags = (if prot AND PROT_EXEC \<noteq> 0 then flags OR FLAG_EXEC else flags)
           in register_file_event C K t file flags s)"

definition bprm_check_security ::
  "config \<Rightarrow> kernel \<Rightarrow> task \<Rightarrow> kfile option \<Rightarrow> rstate \<Rightarrow> (int \<times> rstate) option" where
  "bprm_check_security C K t file s =
     (if \<not> is_recording_cached s then Some (0, s) else register_file_event C K t file FLAG_SPAWN s)"

definition path_mkdir ::
  "config \<Rightarrow> kernel \<Rightarrow> task \<Rightarrow> path \<Rightarrow> u64 \<Rightarrow> u16 \<Rightarrow> rstate \<Rightarrow> (int \<times> rstate) option" where
  "path_mkdir C K t dir dentry mode s =
     (if \<not> is_recording_cached s then Some (0, s)
      else register_fs_event C K t (make_path dentry dir) (mode OR S_IFDIR) (FLAG_READ OR FLAG_WRITE)
             True s)"

definition path_mknod ::
  "config \<Rightarrow> kernel \<Rightarrow> task \<Rightarrow> path \<Rightarrow> u64 \<Rightarrow> u16 \<Rightarrow> rstate \<Rightarrow> (int \<times> rstate) option" where
  "path_mknod C K t dir dentry mode s =
     (if \<not> is_recording_cached s then Some (0, s)
      else let filetype = mode AND S_IFMT;
               not_a_regular_file = (filetype = S_IFCHR \<or> filetype = S_IFBLK \<or>
                                     filetype = S_IFIFO \<or> filetype = S_IFSOCK);
               file_flags = (ucast FLAG_WRITE :: u16);
               file_flags = (if not_a_regular_file then file_flags OR ucast FLAG_READ else file_flags)
           in register_fs_event C K t (make_path dentry dir) 0 (ucast file_flags) True s)"

definition path_unlink ::
  "config \<Rightarrow> kernel \<Rightarrow> task \<Rightarrow> path \<Rightarrow> u64 \<Rightarrow> rstate \<Rightarrow> (int \<times> rstate) option" where
  "path_unlink C K t dir dentry s =
     (if \<not> is_recording_cached s then Some (0, s)
      else register_fs_event C K t (make_path dentry dir) 0 (FLAG_READ OR FLAG_WRITE) True s)"

end
