(* ===== verification/Busy_Lock.thy ===== *)
theory Busy_Lock
  imports File_Events
begin

text \<open>
  The per CPU scratch buffer of the file events is shared by all tasks that run the LSM hooks on
  one CPU and can be preempted by each other at any point. \<^verbatim>\<open>register_fs_event\<close> guards it with the
  counter \<^verbatim>\<open>file_event_busy\<close>, which is only changed by atomic additions. This theory models the
  interleaved execution: every task is at one of the four points of the protocol, and a step
  moves one task.
\<close>

section \<open>The interleaved program\<close>

datatype busy_pc =
    Outside
  | Incremented
  | Owner
  | Backing_off

record busy_state =
  pc :: "nat \<Rightarrow> busy_pc"
  busy :: u32
  busy_lost :: nat

definition busy_init :: busy_state where
  "busy_init = \<lparr>pc = (\<lambda>_. Outside), busy = 0, busy_lost = 0\<rparr>"

text \<open>
  The first step is \<^verbatim>\<open>__sync_fetch_and_add(busy, 1)\<close>, the next two are the outcomes of reading
  the counter, and the last two the additions of \<open>- 1\<close> at the end of the critical section and
  on the way out of a task that found the buffer in use, which counts its event as lost.
\<close>

inductive busy_step :: "nat \<Rightarrow> busy_state \<Rightarrow> busy_state \<Rightarrow> bool" where
  increment: "pc s i = Outside \<Longrightarrow>
    busy_step i s (s\<lparr>pc := (pc s)(i := Incremented), busy := busy s + 1\<rparr>)"
| acquire: "pc s i = Incremented \<Longrightarrow> busy s = 1 \<Longrightarrow> busy_step i s (s\<lparr>pc := (pc s)(i := Owner)\<rparr>)"
| in_use: "pc s i = Incremented \<Longrightarrow> busy s \<noteq> 1 \<Longrightarrow> busy_step i s (s\<lparr>pc := (pc s)(i := Backing_off)\<rparr>)"
| release: "pc s i = Owner \<Longrightarrow> busy_step i s (s\<lparr>pc := (pc s)(i := Outside), busy := busy s + (- 1)\<rparr>)"
| back_off: "pc s i = Backing_off \<Longrightarrow>
    busy_step i s (s\<lparr>pc := (pc s)(i := Outside), busy := busy s + (- 1), busy_lost := busy_lost s + 1\<rparr>)"

inductive_cases busy_stepE: "busy_step i s s'"

inductive busy_reach :: "nat \<Rightarrow> busy_state \<Rightarrow> bool" for n where
  start: "busy_reach n busy_init"
| step: "busy_reach n s \<Longrightarrow> i < n \<Longrightarrow> busy_step i s s' \<Longrightarrow> busy_reach n s'"

section \<open>Mutual exclusion\<close>

definition inside :: "nat \<Rightarrow> (nat \<Rightarrow> busy_pc) \<Rightarrow> nat set" where
  "inside n p = {i. i < n \<and> p i \<noteq> Outside}"

text \<open>
  The invariant: the counter is the number of the tasks inside the protocol, there is at most
  one owner, and tasks that do not exist stay outside.
\<close>

definition busy_inv :: "nat \<Rightarrow> busy_state \<Rightarrow> bool" where
  "busy_inv n s \<longleftrightarrow> busy s = of_nat (card (inside n (pc s))) \<and>
     (\<forall>i j. pc s i = Owner \<longrightarrow> pc s j = Owner \<longrightarrow> i = j) \<and> (\<forall>i \<ge> n. pc s i = Outside)"

lemma finite_inside [simp]: "finite (inside n p)"
  by (simp add: inside_def)

lemma card_inside: "card (inside n p) \<le> n"
  using card_mono [of "{..<n}" "inside n p"] by (auto simp: inside_def)

lemma inside_upd [simp]:
  "i < n \<Longrightarrow> inside n (p(i := q)) = (if q = Outside then inside n p - {i} else insert i (inside n p))"
  by (auto simp: inside_def)

lemma inside_mem: "i < n \<Longrightarrow> i \<in> inside n p \<longleftrightarrow> p i \<noteq> Outside"
  by (simp add: inside_def)

lemma card_leave:
  "i \<in> inside n p \<Longrightarrow> of_nat (card (inside n p)) + (- 1 :: u32) = of_nat (card (inside n p - {i}))"
  by (cases "card (inside n p)") auto

lemma busy_inv_step:
  assumes inv: "busy_inv n s" and n: "n < 2 ^ 32" and i: "i < n" and step: "busy_step i s s'"
  shows "busy_inv n s'"
  using step
proof cases
  case increment
  then have "i \<notin> inside n (pc s)" using i by (simp add: inside_mem)
  then show ?thesis using inv i increment by (auto simp: busy_inv_def)
next
  case acquire
  then have mem: "i \<in> inside n (pc s)" using i by (simp add: inside_mem)
  have "card (inside n (pc s)) < 2 ^ 32" using card_inside [of n "pc s"] n by linarith
  then have "unat (busy s) = card (inside n (pc s))"
    using inv by (simp add: busy_inv_def unsigned_of_nat take_bit_nat_eq_self)
  then have "card (inside n (pc s)) = 1" using acquire by simp
  then obtain k where "inside n (pc s) = {k}" by (rule card_1_singletonE)
  then have k: "inside n (pc s) = {i}" using mem by simp
  have "pc s j \<noteq> Owner" for j
  proof
    assume o: "pc s j = Owner"
    then have "j \<in> inside n (pc s)" using inv by (simp add: busy_inv_def inside_def) (metis busy_pc.distinct(3) not_le)
    then show False using o k acquire by simp
  qed
  then show ?thesis using inv i mem acquire by (auto simp: busy_inv_def insert_absorb)
next
  case in_use
  then have "i \<in> inside n (pc s)" using i by (simp add: inside_mem)
  then show ?thesis using inv i in_use by (auto simp: busy_inv_def insert_absorb)
next
  case release
  then have "i \<in> inside n (pc s)" using i by (simp add: inside_mem)
  then show ?thesis
    using inv i release card_leave [of i n "pc s"] by (auto simp: busy_inv_def)
next
  case back_off
  then have "i \<in> inside n (pc s)" using i by (simp add: inside_mem)
  then show ?thesis
    using inv i back_off card_leave [of i n "pc s"] by (auto simp: busy_inv_def)
qed

lemma busy_inv_reach: "busy_reach n s \<Longrightarrow> n < 2 ^ 32 \<Longrightarrow> busy_inv n s"
proof (induction rule: busy_reach.induct)
  case start
  then show ?case by (simp add: busy_inv_def busy_init_def inside_def)
next
  case (step s i s')
  then show ?case using busy_inv_step by blast
qed

text \<open>
  (C18) At most one task at a time writes the scratch buffer of a CPU, however the tasks that run
  the file hooks there preempt each other: in every reachable state of \<^verbatim>\<open>n\<close> tasks, fewer than
  the counter can hold, two tasks past the test of \<^verbatim>\<open>register_fs_event\<close> are the same task, the
  counter is the number of the tasks inside the protocol, and it is zero again, so that the
  next event is not lost, exactly when all of them have left.
\<close>

theorem scratch_mutual_exclusion:
  assumes "busy_reach n s" and "n < 2 ^ 32"
  shows "(pc s i = Owner \<longrightarrow> pc s j = Owner \<longrightarrow> i = j)
    \<and> unat (busy s) = card (inside n (pc s))
    \<and> (busy s = 0 \<longleftrightarrow> (\<forall>k. pc s k = Outside))"
proof -
  have inv: "busy_inv n s" using assms by (rule busy_inv_reach)
  have "card (inside n (pc s)) < 2 ^ 32" using card_inside [of n "pc s"] assms(2) by linarith
  then have u: "unat (busy s) = card (inside n (pc s))"
    using inv by (simp add: busy_inv_def unsigned_of_nat take_bit_nat_eq_self)
  have "busy s = 0 \<longleftrightarrow> inside n (pc s) = {}" using u by (simp flip: unat_eq_zero)
  also have "\<dots> \<longleftrightarrow> (\<forall>k. pc s k = Outside)"
    using inv by (auto simp: busy_inv_def inside_def) (metis not_le)
  finally show ?thesis using inv u by (simp add: busy_inv_def)
qed

text \<open>
  The schedule of the witness: task 0 takes the buffer, task 1 preempts it and finds the buffer
  in use.
\<close>

definition preempted :: "busy_pc \<Rightarrow> busy_pc \<Rightarrow> u32 \<Rightarrow> busy_state" where
  "preempted p q b =
     \<lparr>pc = (\<lambda>k. if k = 0 then p else if k = 1 then q else Outside), busy = b, busy_lost = 0\<rparr>"

lemma preempted_simps:
  "pc (preempted p q b) 0 = p" "pc (preempted p q b) 1 = q" "busy (preempted p q b) = b"
  "busy_init = preempted Outside Outside 0"
  "(preempted p q b)\<lparr>pc := (pc (preempted p q b))(0 := x)\<rparr> = preempted x q b"
  "(preempted p q b)\<lparr>pc := (pc (preempted p q b))(1 := x)\<rparr> = preempted p x b"
  "(preempted p q b)\<lparr>busy := c\<rparr> = preempted p q c"
  by (auto simp: preempted_def busy_init_def fun_eq_iff)

lemma preempted_reach: "busy_reach 2 (preempted Owner Backing_off 2)"
proof -
  have "busy_reach 2 (preempted Incremented Outside 1)"
    using busy_reach.step [OF busy_reach.start [of 2] _ busy_step.increment [of busy_init 0]]
    by (simp add: preempted_simps del: One_nat_def)
  from busy_reach.step [OF this _ busy_step.acquire [of _ 0]]
  have "busy_reach 2 (preempted Owner Outside 1)"
    by (simp add: preempted_simps del: One_nat_def)
  from busy_reach.step [OF this _ busy_step.increment [of _ 1]]
  have "busy_reach 2 (preempted Owner Incremented 2)"
    by (simp add: preempted_simps del: One_nat_def)
  from busy_reach.step [OF this _ busy_step.in_use [of _ 1]]
  show ?thesis by (simp add: preempted_simps del: One_nat_def)
qed

lemma scratch_mutual_exclusion_witness:
  "busy_reach 2 (preempted Owner Backing_off 2) \<and> unat (busy (preempted Owner Backing_off 2)) = 2
    \<and> card (inside 2 (pc (preempted Owner Backing_off 2))) = 2"
  using scratch_mutual_exclusion [OF preempted_reach, of 0 0] preempted_reach
  by (simp add: preempted_def)

section \<open>Progress\<close>

text \<open>How many steps a task still takes until it left the protocol.\<close>

fun steps_left :: "busy_pc \<Rightarrow> nat" where
  "steps_left Outside = 0"
| "steps_left Incremented = 2"
| "steps_left Owner = 1"
| "steps_left Backing_off = 1"

text \<open>A step of a task that is inside the protocol.\<close>

definition leave_step :: "nat \<Rightarrow> busy_state \<Rightarrow> busy_state \<Rightarrow> bool" where
  "leave_step n s s' \<longleftrightarrow> (\<exists>i < n. pc s i \<noteq> Outside \<and> busy_step i s s')"

definition work_left :: "nat \<Rightarrow> busy_state \<Rightarrow> nat" where
  "work_left n s = (\<Sum>i<n. steps_left (pc s i))"

lemma work_upd:
  assumes "i < n"
  shows "work_left n (s\<lparr>pc := (pc s)(i := q)\<rparr>) + steps_left (pc s i) = work_left n s + steps_left q"
proof -
  have "work_left n (s\<lparr>pc := (pc s)(i := q)\<rparr>) = steps_left q + (\<Sum>j\<in>{..<n} - {i}. steps_left (pc s j))"
    unfolding work_left_def using assms by (subst sum.remove [of _ i]) (auto intro!: sum.cong)
  moreover have "work_left n s = steps_left (pc s i) + (\<Sum>j\<in>{..<n} - {i}. steps_left (pc s j))"
    unfolding work_left_def using assms by (subst sum.remove [of _ i]) auto
  ultimately show ?thesis by simp
qed

lemma work_sel [simp]: "work_left n (s\<lparr>busy := b\<rparr>) = work_left n s" "work_left n (s\<lparr>busy_lost := l\<rparr>) = work_left n s"
  by (simp_all add: work_left_def)

lemma leave_step_work: "leave_step n s s' \<Longrightarrow> work_left n s = Suc (work_left n s')"
  unfolding leave_step_def
proof (elim exE conjE)
  fix i
  assume i: "i < n" "pc s i \<noteq> Outside" "busy_step i s s'"
  from i(3) show "work_left n s = Suc (work_left n s')"
  proof cases
    case acquire
    then show ?thesis using work_upd [OF i(1), of s Owner] by simp
  next
    case in_use
    then show ?thesis using work_upd [OF i(1), of s Backing_off] by simp
  next
    case release
    then show ?thesis using work_upd [OF i(1), of s Outside] by simp
  next
    case back_off
    then show ?thesis using work_upd [OF i(1), of s Outside] by simp
  qed (use i(2) in simp)
qed

lemma leave_enabled:
  assumes "i < n" "pc s i \<noteq> Outside"
  shows "\<exists>s'. leave_step n s s'"
proof -
  have "\<exists>s'. busy_step i s s'"
  proof (cases "pc s i")
    case Incremented
    then show ?thesis using busy_step.acquire [OF Incremented] busy_step.in_use [OF Incremented] by blast
  next
    case Owner
    then show ?thesis using busy_step.release by blast
  next
    case Backing_off
    then show ?thesis using busy_step.back_off by blast
  qed (use assms(2) in simp)
  then show ?thesis using assms by (auto simp: leave_step_def)
qed

lemma work_bound: "work_left n s \<le> 2 * n"
proof -
  have "steps_left p \<le> 2" for p by (cases p) simp_all
  then have "work_left n s \<le> (\<Sum>i<n. 2)" unfolding work_left_def by (intro sum_mono)
  then show ?thesis by simp
qed

lemma leave_steps:
  "(leave_step n ^^ m) s s' \<Longrightarrow> busy_reach n s \<Longrightarrow> busy_reach n s' \<and> work_left n s = work_left n s' + m"
proof (induction m arbitrary: s')
  case (Suc m)
  then obtain s1 where s1: "(leave_step n ^^ m) s s1" "leave_step n s1 s'" by auto
  then have IH: "busy_reach n s1" "work_left n s = work_left n s1 + m" using Suc by auto
  then show ?case using leave_step_work [OF s1(2)] s1(2) busy_reach.step by (auto simp: leave_step_def)
qed simp

text \<open>
  The scratch buffer is always released. From every reachable state, the tasks that are inside
  the protocol leave it after at most two more steps each: there is no run of more than twice as
  many such steps as there are tasks, whatever the order, and a run that cannot be continued ends
  with the counter at zero, so that the next event finds the buffer free. No task waits for another.
\<close>

theorem scratch_released:
  assumes "busy_reach n s" "n < 2 ^ 32" "(leave_step n ^^ m) s s'"
  shows "m \<le> 2 * n \<and> ((\<nexists>s''. leave_step n s' s'') \<longleftrightarrow> busy s' = 0)"
proof -
  have r: "busy_reach n s'" "work_left n s = work_left n s' + m" using leave_steps [OF assms(3,1)] by auto
  have inv: "busy_inv n s'" by (rule busy_inv_reach [OF r(1) assms(2)])
  have "card (inside n (pc s')) < 2 ^ 32" using card_inside [of n "pc s'"] assms(2) by linarith
  then have "unat (busy s') = card (inside n (pc s'))"
    using inv by (simp add: busy_inv_def unsigned_of_nat take_bit_nat_eq_self)
  then have "busy s' = 0 \<longleftrightarrow> inside n (pc s') = {}" by (simp flip: unat_eq_zero)
  moreover have "(\<nexists>s''. leave_step n s' s'') \<longleftrightarrow> inside n (pc s') = {}"
    using leave_enabled [of _ n s'] by (auto simp: inside_def leave_step_def)
  ultimately show ?thesis using r(2) work_bound [of n s] by simp
qed

theorem scratch_released_witness:
  "busy (preempted Owner Backing_off 2) \<noteq> 0 \<and> (\<exists>s'. leave_step 2 (preempted Owner Backing_off 2) s')"
  using scratch_released [OF preempted_reach, of 0 "preempted Owner Backing_off 2"] by (simp add: preempted_def)

end
