(* ===== verification/Container_Keys.thy ===== *)
theory Container_Keys
  imports Prelude
begin

text \<open>
  The table of \<^verbatim>\<open>containerkeys.go\<close> that tells which container a recording key belongs to, kept in
  both directions. The specification is the map from keys to containers alone. Every operation
  refines an operation of that map, and the two directions never disagree. The lock of the table
  makes every operation one step.
\<close>

section \<open>The table\<close>

record containerKeys =
  byKey :: "u64 \<rightharpoonup> string"
  byContainer :: "string \<rightharpoonup> u64 set"
  maxPerContainer :: nat

definition newContainerKeys :: "nat \<Rightarrow> containerKeys" where
  "newContainerKeys n = \<lparr>byKey = Map.empty, byContainer = Map.empty, maxPerContainer = n\<rparr>"

text \<open>Reading a missing entry of a Go map of maps gives the empty map.\<close>

definition owned :: "string \<Rightarrow> containerKeys \<Rightarrow> u64 set" where
  "owned containerID c = (case byContainer c containerID of None \<Rightarrow> {} | Some keys \<Rightarrow> keys)"

definition removeKeyFrom :: "string \<Rightarrow> u64 \<Rightarrow> containerKeys \<Rightarrow> containerKeys" where
  "removeKeyFrom containerID key c =
     (let keys = owned containerID c - {key}
      in if keys = {} then c\<lparr>byContainer := (byContainer c)(containerID := None)\<rparr>
         else c\<lparr>byContainer := (byContainer c)(containerID \<mapsto> keys)\<rparr>)"

definition Insert :: "u64 \<Rightarrow> string \<Rightarrow> containerKeys \<Rightarrow> bool \<times> containerKeys" where
  "Insert key containerID c =
     (if key \<in> owned containerID c then (True, c)
      else if card (owned containerID c) \<ge> maxPerContainer c then (False, c)
      else let keys = owned containerID c;
               c1 = (case byKey c key of
                       None \<Rightarrow> c
                     | Some oldID \<Rightarrow> if oldID \<noteq> containerID then removeKeyFrom oldID key c else c)
           in (True, c1\<lparr>byKey := (byKey c1)(key \<mapsto> containerID),
                        byContainer := (byContainer c1)(containerID \<mapsto> insert key keys)\<rparr>))"

definition Get :: "u64 \<Rightarrow> containerKeys \<Rightarrow> string option" where
  "Get key c = byKey c key"

definition keysOf :: "string list \<Rightarrow> containerKeys \<Rightarrow> u64 list" where
  "keysOf containerIDs c =
     remdups_adj (sort (concat (map (\<lambda>containerID. sorted_list_of_set (owned containerID c)) containerIDs)))"

definition Keys :: "string \<Rightarrow> containerKeys \<Rightarrow> u64 list" where
  "Keys containerID c = sorted_list_of_set (owned containerID c)"

definition Delete :: "u64 \<Rightarrow> containerKeys \<Rightarrow> containerKeys" where
  "Delete key c =
     (case byKey c key of
        None \<Rightarrow> c
      | Some containerID \<Rightarrow>
          (let c1 = removeKeyFrom containerID key c in c1\<lparr>byKey := (byKey c1)(key := None)\<rparr>))"

definition DeleteContainer :: "string \<Rightarrow> containerKeys \<Rightarrow> containerKeys" where
  "DeleteContainer containerID c =
     c\<lparr>byKey := (\<lambda>key. if key \<in> owned containerID c then None else byKey c key),
       byContainer := (byContainer c)(containerID := None)\<rparr>"

definition ClearKeys :: "containerKeys \<Rightarrow> containerKeys" where
  "ClearKeys c = c\<lparr>byKey := Map.empty, byContainer := Map.empty\<rparr>"

section \<open>The specification\<close>

datatype keys_op =
    Insert_op u64 string
  | Delete_op u64
  | DeleteContainer_op string
  | Clear_op

fun run_op :: "keys_op \<Rightarrow> containerKeys \<Rightarrow> containerKeys" where
  "run_op (Insert_op key containerID) c = snd (Insert key containerID c)"
| "run_op (Delete_op key) c = Delete key c"
| "run_op (DeleteContainer_op containerID) c = DeleteContainer containerID c"
| "run_op Clear_op c = ClearKeys c"

text \<open>On the map from keys to containers, inserting is bounded by the keys the container owns.\<close>

fun spec_op :: "nat \<Rightarrow> keys_op \<Rightarrow> (u64 \<rightharpoonup> string) \<Rightarrow> (u64 \<rightharpoonup> string)" where
  "spec_op n (Insert_op key containerID) m =
     (if m key \<noteq> Some containerID \<and> card {k. m k = Some containerID} \<ge> n then m else m(key \<mapsto> containerID))"
| "spec_op n (Delete_op key) m = m(key := None)"
| "spec_op n (DeleteContainer_op containerID) m = (\<lambda>k. if m k = Some containerID then None else m k)"
| "spec_op n Clear_op m = Map.empty"

text \<open>Both directions agree, no container is kept without a key, and none exceeds the bound.\<close>

definition keys_ok :: "containerKeys \<Rightarrow> bool" where
  "keys_ok c \<longleftrightarrow> (\<forall>i. owned i c = {k. byKey c k = Some i}) \<and> (\<forall>i. byContainer c i \<noteq> Some {}) \<and>
     (\<forall>i. card (owned i c) \<le> maxPerContainer c)"

lemma owned_upd [simp]:
  "owned i (c\<lparr>byContainer := (byContainer c')(j := v)\<rparr>) = (if i = j then (case v of None \<Rightarrow> {} | Some ks \<Rightarrow> ks) else owned i c')"
  "owned i (c\<lparr>byKey := m\<rparr>) = owned i c" "owned i (c\<lparr>byContainer := Map.empty\<rparr>) = {}"
  by (simp_all add: owned_def)

lemma owned_remove [simp]:
  "owned i (removeKeyFrom j key c) = (if i = j then owned j c - {key} else owned i c)"
  by (auto simp: removeKeyFrom_def Let_def)

lemma remove_sel [simp]:
  "byKey (removeKeyFrom j key c) = byKey c" "maxPerContainer (removeKeyFrom j key c) = maxPerContainer c"
  "byContainer (removeKeyFrom j key c) i = Some {} \<longleftrightarrow> i \<noteq> j \<and> byContainer c i = Some {}"
  by (auto simp: removeKeyFrom_def Let_def)

section \<open>Refinement\<close>

lemma insert_byKey:
  assumes "keys_ok c"
  shows "byKey (snd (Insert key i c)) =
    (if byKey c key \<noteq> Some i \<and> card {k. byKey c k = Some i} \<ge> maxPerContainer c then byKey c else (byKey c)(key \<mapsto> i))"
proof -
  have own: "owned i c = {k. byKey c k = Some i}" using assms by (simp add: keys_ok_def)
  then show ?thesis by (auto simp: Insert_def Let_def own split: option.split)
qed

lemma insert_ok:
  assumes ok: "keys_ok c"
  shows "keys_ok (snd (Insert key i c))"
proof (cases "key \<in> owned i c \<or> card (owned i c) \<ge> maxPerContainer c")
  case True
  then show ?thesis using ok by (auto simp: Insert_def)
next
  case False
  let ?c = "snd (Insert key i c)"
  have own: "owned j c = {k. byKey c k = Some j}" for j using ok by (simp add: keys_ok_def)
  have new: "owned j ?c = (if j = i then insert key (owned i c) else owned j c - {key})" for j
    using False by (auto simp: Insert_def Let_def own split: option.split)
  have keys: "byKey ?c = (byKey c)(key \<mapsto> i)" using False insert_byKey [OF ok, of key i] own by auto
  have "owned j ?c = {k. byKey ?c k = Some j}" for j
    unfolding new keys own by auto
  moreover have "byContainer ?c j \<noteq> Some {}" for j
    using False ok by (auto simp: Insert_def Let_def keys_ok_def split: option.split)
  moreover have "maxPerContainer ?c = maxPerContainer c"
    by (auto simp: Insert_def Let_def split: option.split)
  moreover have "card (owned j ?c) \<le> maxPerContainer c" for j
  proof (cases "j = i")
    case True
    then show ?thesis using False by (simp add: new card_insert_if)
  next
    case False
    have "card (owned j ?c) \<le> card (owned j c)" using False by (simp add: new card_mono)
    then show ?thesis using ok by (meson keys_ok_def order_trans)
  qed
  ultimately show ?thesis by (simp add: keys_ok_def)
qed

lemma delete_ok:
  assumes ok: "keys_ok c"
  shows "keys_ok (Delete key c)"
proof (cases "byKey c key")
  case None
  then show ?thesis using ok by (simp add: Delete_def)
next
  case (Some i)
  have own: "owned j c = {k. byKey c k = Some j}" for j using ok by (simp add: keys_ok_def)
  have "card (owned j (Delete key c)) \<le> card (owned j c)" for j
    by (rule card_mono) (auto simp: Delete_def Some Let_def split: if_splits)
  then have "card (owned j (Delete key c)) \<le> maxPerContainer c" for j
    using ok by (meson keys_ok_def order_trans)
  then show ?thesis
    using ok Some by (auto simp: keys_ok_def Delete_def Let_def own)
qed

lemma delete_container_ok: "keys_ok c \<Longrightarrow> keys_ok (DeleteContainer i c)"
  by (auto simp: keys_ok_def DeleteContainer_def)

lemma clear_ok: "keys_ok (ClearKeys c)"
  by (simp add: keys_ok_def ClearKeys_def owned_def)

lemma run_op_ok: "keys_ok c \<Longrightarrow> keys_ok (run_op p c)"
  by (cases p) (simp_all add: insert_ok delete_ok delete_container_ok clear_ok)

lemma run_op_byKey: "keys_ok c \<Longrightarrow> byKey (run_op p c) = spec_op (maxPerContainer c) p (byKey c)"
proof (cases p)
  case (Insert_op key i)
  then show "keys_ok c \<Longrightarrow> ?thesis" using insert_byKey by simp
next
  case (Delete_op key)
  then show ?thesis by (auto simp: Delete_def Let_def split: option.split)
next
  case (DeleteContainer_op i)
  then show "keys_ok c \<Longrightarrow> ?thesis" by (simp add: DeleteContainer_def keys_ok_def)
next
  case Clear_op
  then show ?thesis by (simp add: ClearKeys_def)
qed

lemma run_op_max: "maxPerContainer (run_op p c) = maxPerContainer c"
  by (cases p) (auto simp: Insert_def Delete_def DeleteContainer_def ClearKeys_def Let_def split: option.split)

lemma fold_ops: "keys_ok c \<Longrightarrow> keys_ok (fold run_op ps c) \<and>
    byKey (fold run_op ps c) = fold (spec_op (maxPerContainer c)) ps (byKey c) \<and>
    maxPerContainer (fold run_op ps c) = maxPerContainer c"
  by (induction ps arbitrary: c) (simp_all add: run_op_ok run_op_byKey run_op_max)

lemma distinct_compact: "sorted (xs :: 'a :: linorder list) \<Longrightarrow> distinct (remdups_adj xs)"
proof (induction xs rule: remdups_adj.induct)
  case (3 x y xs)
  then show ?case by (cases "x = y") (auto dest: order_antisym)
qed simp_all

lemma new_ok: "keys_ok (newContainerKeys n)"
  by (simp add: keys_ok_def newContainerKeys_def owned_def)

text \<open>
  (C22) The table of the container keys refines a map from keys to containers. After any sequence of
  operations on a new table, the container of a key is the one the map has, the keys of a list of
  containers are exactly those the map gives to one of them, sorted and without duplicates, a key
  belongs to one container only, and no container owns more keys than the bound.
\<close>

theorem container_keys_refine:
  "let c = fold run_op ps (newContainerKeys n); m = fold (spec_op n) ps Map.empty
   in (\<forall>key. Get key c = m key) \<and>
      (\<forall>ids. set (keysOf ids c) = {k. \<exists>i. m k = Some i \<and> i \<in> set ids} \<and> sorted (keysOf ids c) \<and> distinct (keysOf ids c)) \<and>
      (\<forall>i. length (Keys i c) \<le> n \<and> set (Keys i c) = {k. m k = Some i})"
proof -
  let ?c = "fold run_op ps (newContainerKeys n)" and ?m = "fold (spec_op n) ps Map.empty"
  have f: "keys_ok ?c" "byKey ?c = ?m" "maxPerContainer ?c = n"
    using fold_ops [OF new_ok, of ps n] by (simp_all add: newContainerKeys_def)
  have own: "owned i ?c = {k. ?m k = Some i}" for i using f(1,2) by (simp add: keys_ok_def)
  have le: "card (owned i ?c) \<le> n" for i using f(1,3) unfolding keys_ok_def by metis
  have "set (keysOf ids ?c) = {k. \<exists>i. ?m k = Some i \<and> i \<in> set ids}" for ids
    by (auto simp: keysOf_def own)
  moreover have "sorted (keysOf ids ?c)" "distinct (keysOf ids ?c)" for ids
    by (simp_all add: keysOf_def sorted_remdups_adj distinct_compact)
  moreover have "length (Keys i ?c) \<le> n" "set (Keys i ?c) = {k. ?m k = Some i}" for i
    using le [of i] by (simp_all add: Keys_def own)
  ultimately show ?thesis by (simp add: Let_def Get_def f(2))
qed

end
