(* ===== verification/Container_Start.thy ===== *)
theory Container_Start
  imports Events
begin

text \<open>
  What happens when a container starts: \<^verbatim>\<open>clear_seccomp\<close> and \<^verbatim>\<open>clear_apparmor\<close> drop what was
  recorded for a key during the setup by the container runtime, and \<^verbatim>\<open>is_exec_syscall\<close> and
  \<^verbatim>\<open>is_seccomp_install\<close> recognise the syscalls that end the setup.
\<close>

definition clear_seccomp :: "config \<Rightarrow> kernel \<Rightarrow> u64 \<Rightarrow> rstate \<Rightarrow> u32 \<times> rstate" where
  "clear_seccomp C K key s =
     (let u = (if unique_keys C
               then upd_seccomp_initialized K (seccomp_initialized s) key 1 BPF_NOEXIST
               else (0, seccomp_initialized s));
          s1 = s\<lparr>seccomp_initialized := snd u\<rparr>
      in if unique_keys C \<and> fst u \<noteq> 0 then (0, s1)
         else (0, s1\<lparr>recorded_syscalls :=
                       snd (bpf_map_delete_elem (recorded_syscalls s1) key)\<rparr>))"

definition clear_apparmor ::
  "config \<Rightarrow> kernel \<Rightarrow> task \<Rightarrow> u32 \<Rightarrow> u64 \<Rightarrow> rstate \<Rightarrow> u32 \<times> rstate" where
  "clear_apparmor C K t mntns key s =
     (let u = (if unique_keys C
               then upd_apparmor_initialized K (apparmor_initialized s) key 1 BPF_NOEXIST
               else (0, apparmor_initialized s));
          s1 = s\<lparr>apparmor_initialized := snd u\<rparr>
      in if unique_keys C \<and> fst u \<noteq> 0 then (0, s1)
         else let r = submit_event K t EVENT_TYPE_CLEAR_MNTNS mntns key 0 s1; s2 = snd r
              in if fst r \<noteq> 0
                 then (- 1, if unique_keys C
                            then s2\<lparr>apparmor_initialized :=
                                     snd (bpf_map_delete_elem (apparmor_initialized s2) key)\<rparr>
                            else s2)
                 else (0, s2\<lparr>recorded_caps := snd (bpf_map_delete_elem (recorded_caps s2) key),
                             recorded_sockets :=
                               snd (bpf_map_delete_elem (recorded_sockets s2) key)\<rparr>))"

definition is_exec_syscall :: "config \<Rightarrow> u32 \<Rightarrow> bool" where
  "is_exec_syscall C syscall_id \<longleftrightarrow>
     syscall_id = NR_EXECVE (target C) \<or> syscall_id = NR_EXECVEAT (target C)"

definition is_seccomp_install :: "config \<Rightarrow> u32 \<Rightarrow> u64 list \<Rightarrow> bool" where
  "is_seccomp_install C syscall_id args =
     (if syscall_id = NR_SECCOMP (target C) then
        (let operation = args ! 0 in
         if operation = SECCOMP_SET_MODE_STRICT then args ! 1 = 0 \<and> args ! 2 = 0
         else operation = SECCOMP_SET_MODE_FILTER \<and> args ! 2 \<noteq> 0)
      else if syscall_id = NR_PRCTL (target C) then
        (let option = args ! 0 in
         if option = PR_SET_SECCOMP then
           args ! 1 = SECCOMP_MODE_STRICT \<or> (args ! 1 = SECCOMP_MODE_FILTER \<and> args ! 2 \<noteq> 0)
         else option = PR_GET_PDEATHSIG)
      else False)"

section \<open>Frame lemmas\<close>

lemma clear_seccomp_frame [frames]:
  "snd (clear_seccomp C K key s) =
     s\<lparr>seccomp_initialized := seccomp_initialized (snd (clear_seccomp C K key s)),
       recorded_syscalls := recorded_syscalls (snd (clear_seccomp C K key s))\<rparr>"
  by (simp add: clear_seccomp_def Let_def)

lemma clear_seccomp_syscalls:
  "recorded_syscalls (snd (clear_seccomp C K key s)) = recorded_syscalls s \<or>
   recorded_syscalls (snd (clear_seccomp C K key s)) = (recorded_syscalls s)(key := None)"
  by (simp add: clear_seccomp_def Let_def)

lemma clear_apparmor_sel [simp]:
  "is_recording (snd (clear_apparmor C K t mntns key s)) = is_recording s"
  "is_recording_cached (snd (clear_apparmor C K t mntns key s)) = is_recording_cached s"
  "exclude_mntns (snd (clear_apparmor C K t mntns key s)) = exclude_mntns s"
  "recorded_syscalls (snd (clear_apparmor C K t mntns key s)) = recorded_syscalls s"
  "exclude_keys (snd (clear_apparmor C K t mntns key s)) = exclude_keys s"
  "active_pids (snd (clear_apparmor C K t mntns key s)) = active_pids s"
  "seccomp_initialized (snd (clear_apparmor C K t mntns key s)) = seccomp_initialized s"
  "child_pids (snd (clear_apparmor C K t mntns key s)) = child_pids s"
  "file_event_scratch (snd (clear_apparmor C K t mntns key s)) = file_event_scratch s"
  "last_file_event (snd (clear_apparmor C K t mntns key s)) = last_file_event s"
  "file_event_busy (snd (clear_apparmor C K t mntns key s)) = file_event_busy s"
  "buffer_heap_map (snd (clear_apparmor C K t mntns key s)) = buffer_heap_map s"
  by (simp_all add: clear_apparmor_def Let_def)

section \<open>Only the first start of a container clears\<close>

text \<open>The effect of \<open>clear_seccomp\<close> on a key that is never reused, in terms of the maps.\<close>

lemma clear_seccomp_known:
  assumes "bpf_kernel K" "unique_keys C" "key \<in> dom (seccomp_initialized s)"
  shows "clear_seccomp C K key s = (0, s)"
proof -
  have "upd_seccomp_initialized K (seccomp_initialized s) key 1 BPF_NOEXIST =
      (- EEXIST, seccomp_initialized s)"
    using bpf_map.noexist_present [OF bpf_kernel.map_seccomp_initialized [OF assms(1)]] assms(3)
    by auto
  then show ?thesis using assms(2) by (simp add: clear_seccomp_def Let_def EEXIST_def)
qed

lemma clear_seccomp_new:
  assumes "unique_keys C"
    and "fst (upd_seccomp_initialized K (seccomp_initialized s) key 1 BPF_NOEXIST) = 0"
  shows "recorded_syscalls (snd (clear_seccomp C K key s)) = (recorded_syscalls s)(key := None)"
    and "bpf_kernel K \<Longrightarrow> key \<in> dom (seccomp_initialized (snd (clear_seccomp C K key s)))"
proof -
  show "recorded_syscalls (snd (clear_seccomp C K key s)) = (recorded_syscalls s)(key := None)"
    using assms by (simp add: clear_seccomp_def Let_def)
  assume "bpf_kernel K"
  then show "key \<in> dom (seccomp_initialized (snd (clear_seccomp C K key s)))"
    using assms bpf_map.stored [OF bpf_kernel.map_seccomp_initialized]
    by (simp add: clear_seccomp_def Let_def domIff)
qed

text \<open>
  With keys that are never reused, the syscalls recorded for a key are dropped at most once:
  clearing twice is the same as clearing once, so the exec of a second process into the
  running container keeps what was recorded since its start.
\<close>

theorem clear_seccomp_once:
  assumes "bpf_kernel K" "unique_keys C"
    and "fst (upd_seccomp_initialized K (seccomp_initialized s) key 1 BPF_NOEXIST) = 0"
  shows "recorded_syscalls (snd (clear_seccomp C K key s)) key = None \<and>
    clear_seccomp C K key ((snd (clear_seccomp C K key s))\<lparr>recorded_syscalls := later\<rparr>) =
      (0, (snd (clear_seccomp C K key s))\<lparr>recorded_syscalls := later\<rparr>)"
proof
  note new = clear_seccomp_new [OF assms(2,3)]
  show "recorded_syscalls (snd (clear_seccomp C K key s)) key = None" using new(1) by simp
  show "clear_seccomp C K key ((snd (clear_seccomp C K key s))\<lparr>recorded_syscalls := later\<rparr>) =
      (0, (snd (clear_seccomp C K key s))\<lparr>recorded_syscalls := later\<rparr>)"
    using new(2) [OF assms(1)] by (intro clear_seccomp_known [OF assms(1,2)]) simp
qed

theorem clear_seccomp_once_witness:
  "let s = recording_state\<lparr>recorded_syscalls := [5 \<mapsto> [0, 1, 1]]\<rparr>;
       later = [5 \<mapsto> [1, 0, 0]];
       s' = snd (clear_seccomp ref_config ref_kernel 5 s)
   in recorded_syscalls s' 5 = None \<and>
      recorded_syscalls (snd (clear_seccomp ref_config ref_kernel 5 (s'\<lparr>recorded_syscalls := later\<rparr>))) 5
        = Some [1, 0, 0]"
proof -
  let ?s = "recording_state\<lparr>recorded_syscalls := [5 \<mapsto> [0, 1, 1]]\<rparr>"
  have u: "unique_keys ref_config" by (simp add: unique_keys_def ref_config_def)
  have f: "fst (upd_seccomp_initialized ref_kernel (seccomp_initialized ?s) 5 1 BPF_NOEXIST) = 0"
    by (simp add: ref_kernel_def lru_update_def recording_state_def init_state_def)
  show ?thesis
    using clear_seccomp_once [OF ref.bpf_kernel_axioms u f, of "[5 \<mapsto> [1, 0, 0]]"]
    by (simp add: Let_def)
qed

text \<open>
  Clearing the AppArmor data is all or nothing. Either the key was cleared before and nothing
  changes, or the clear event reaches the ring buffer and every capability and socket of the
  key is going to be reported again, or the event is counted as lost, the marks of the key
  stay, and the key is still to be cleared by the next exec. (C14)
\<close>

theorem clear_apparmor_atomic:
  assumes "bpf_kernel K" "bpf_lru_map (upd_apparmor_initialized K)" "unique_keys C"
  shows "let s' = snd (clear_apparmor C K t mntns key s) in
     if key \<in> dom (apparmor_initialized s) then s' = s
     else if rb_room K (events s) sizeof_event_header
     then events s' = events s @
           [wire_header \<lparr>ev_pid = current_pid t, ev_mntns = mntns, ev_key = key,
                         ev_type = EVENT_TYPE_CLEAR_MNTNS, ev_flags = 0\<rparr>] \<and>
       lost_events s' = lost_events s \<and>
       recorded_caps s' = (recorded_caps s)(key := None) \<and>
       recorded_sockets s' = (recorded_sockets s)(key := None) \<and>
       key \<in> dom (apparmor_initialized s')
     else events s' = events s \<and> lost_events s' = lost_bump LOST_RINGBUF (t_cpu t) (lost_events s) \<and>
       recorded_caps s' = recorded_caps s \<and> recorded_sockets s' = recorded_sockets s \<and>
       key \<notin> dom (apparmor_initialized s')"
proof (cases "key \<in> dom (apparmor_initialized s)")
  case True
  then have "upd_apparmor_initialized K (apparmor_initialized s) key 1 BPF_NOEXIST =
      (- EEXIST, apparmor_initialized s)"
    using bpf_map.noexist_present [OF bpf_kernel.map_apparmor_initialized [OF assms(1)]] by auto
  then show ?thesis
    using True assms(3) by (simp add: clear_apparmor_def Let_def EEXIST_def)
next
  case False
  let ?u = "upd_apparmor_initialized K (apparmor_initialized s) key 1 BPF_NOEXIST"
  let ?s1 = "s\<lparr>apparmor_initialized := snd ?u\<rparr>"
  have u: "fst ?u = 0" using False bpf_lru_map.accepts [OF assms(2)] by (auto simp: domIff)
  then have ini: "key \<in> dom (snd ?u)"
    using bpf_map.stored [OF bpf_kernel.map_apparmor_initialized [OF assms(1)]] by (simp add: domIff)
  show ?thesis
  proof (cases "rb_room K (events s) sizeof_event_header")
    case True
    then show ?thesis
      using False assms(3) u ini by (simp add: clear_apparmor_def submit_event_sent)
  next
    case no_room: False
    then show ?thesis
      using False assms(3) u by (simp add: clear_apparmor_def Let_def submit_event_lost)
  qed
qed

theorem clear_apparmor_atomic_witness:
  "let s' = snd (clear_apparmor ref_config ref_kernel ref_task 7 700
             (recording_state\<lparr>recorded_caps := [700 \<mapsto> 3]\<rparr>))
   in length (events s') = 1 \<and> recorded_caps s' 700 = None"
proof -
  let ?s = "recording_state\<lparr>recorded_caps := [700 \<mapsto> 3]\<rparr>"
  have u: "unique_keys ref_config" by (simp add: unique_keys_def ref_config_def)
  have l: "bpf_lru_map (upd_apparmor_initialized ref_kernel)"
    by (simp add: ref_kernel_def lru.bpf_lru_map_axioms)
  have "rb_room ref_kernel (events ?s) sizeof_event_header" "700 \<notin> dom (apparmor_initialized ?s)"
    by (simp_all add: ref_kernel_def recording_state_def init_state_def)
  then show ?thesis
    using clear_apparmor_atomic [OF ref.bpf_kernel_axioms l u, of ref_task 7 700 ?s]
    by (simp add: Let_def recording_state_def init_state_def)
qed

end
