(* ===== verification/Syscalls.thy ===== *)
theory Syscalls
  imports Container_Start
begin

text \<open>
  The syscall recording: \<^verbatim>\<open>sys_enter\<close>, with its three stages as functions of their own, and
  \<^verbatim>\<open>sys_enter_getgid\<close>, which refreshes the flag all hooks look at. The map from keys to byte
  arrays implements a map from keys to sets of syscall numbers, and \<^verbatim>\<open>sys_enter\<close> adds the
  syscall to the set of its key.
\<close>

section \<open>The hooks\<close>

definition active_key :: "task \<Rightarrow> u64 \<Rightarrow> pid_key" where
  "active_key t key = \<lparr>pk_pid = current_pid t, pk_pad = 0, pk_key = key\<rparr>"

text \<open>The first stage reports a process that is new under its key.\<close>

definition report_pid :: "kernel \<Rightarrow> task \<Rightarrow> u32 \<Rightarrow> u64 \<Rightarrow> rstate \<Rightarrow> bool \<times> rstate" where
  "report_pid K t mntns key s =
     (let active = active_key t key in
      if active_pids s active \<noteq> None then (False, s)
      else let u = upd_active_pids K (active_pids s) active 1 BPF_NOEXIST;
               s1 = s\<lparr>active_pids := snd u\<rparr>
           in if fst u \<noteq> 0 then (False, s1)
              else let r = submit_event K t EVENT_TYPE_NEWPID mntns key 0 s1; s2 = snd r
                   in if fst r \<noteq> 0
                      then (False, s2\<lparr>active_pids := snd (bpf_map_delete_elem (active_pids s2) active)\<rparr>)
                      else (True, s2))"

text \<open>The second stage drops the data of the container setup.\<close>

definition container_start ::
  "config \<Rightarrow> kernel \<Rightarrow> task \<Rightarrow> u32 \<Rightarrow> u64 list \<Rightarrow> u32 \<Rightarrow> u64 \<Rightarrow> rstate \<Rightarrow> rstate" where
  "container_start C K t syscall_id args mntns key s =
     (if (is_exec_syscall C syscall_id \<or> is_seccomp_install C syscall_id args) \<and> is_container_init C K t
      then if is_exec_syscall C syscall_id then snd (clear_apparmor C K t mntns key s)
           else snd (clear_seccomp C K key s)
      else s)"

text \<open>The third stage marks the syscall.\<close>

definition mark_syscall :: "u64 \<Rightarrow> u32 \<Rightarrow> u8 list \<Rightarrow> rstate \<Rightarrow> rstate" where
  "mark_syscall key syscall_id value s =
     s\<lparr>recorded_syscalls := (recorded_syscalls s)(key \<mapsto> value[unat syscall_id := 1])\<rparr>"

definition record_syscall ::
  "kernel \<Rightarrow> task \<Rightarrow> u32 \<Rightarrow> u64 \<Rightarrow> u32 \<Rightarrow> bool \<Rightarrow> rstate \<Rightarrow> rstate" where
  "record_syscall K t mntns key syscall_id reported s =
     (case recorded_syscalls s key of
        Some value \<Rightarrow> mark_syscall key syscall_id value s
      | None \<Rightarrow>
          (let u = upd_recorded_syscalls K (recorded_syscalls s) key (replicate MAX_SYSCALLS 0) BPF_NOEXIST;
               err = fst u;
               s1 = s\<lparr>recorded_syscalls := snd u\<rparr>
           in if err \<noteq> 0 \<and> err \<noteq> - EEXIST then count_lost LOST_SYSCALLS_MAP_FULL t s1
              else let s2 = (if err = 0 \<and> \<not> reported
                             then snd (submit_event K t EVENT_TYPE_NEWPID mntns key 0 s1) else s1)
                   in case recorded_syscalls s2 key of
                        None \<Rightarrow> s2
                      | Some value \<Rightarrow> mark_syscall key syscall_id value s2))"

definition sys_enter :: "config \<Rightarrow> kernel \<Rightarrow> task \<Rightarrow> raw_sys_enter \<Rightarrow> rstate \<Rightarrow> int \<times> rstate" where
  "sys_enter C K t ctx s =
     (if \<not> is_recording_cached s then (0, s)
      else let syscall_id = (ucast (se_id ctx) :: u32) in
        if syscall_id < 0 \<or> syscall_id \<ge> 1024 then (0, s)
        else let mntns = get_mntns C K t s in
          if mntns = 0 then (0, s)
          else let key = get_key C K t mntns;
                   p = report_pid K t mntns key s;
                   s1 = snd p
               in if is_compat_task (target C) t then (0, count_lost LOST_COMPAT_SYSCALL t s1)
                  else (0, record_syscall K t mntns key syscall_id (fst p)
                             (container_start C K t syscall_id (se_args ctx) mntns key s1)))"

definition sys_enter_getgid :: "rstate \<Rightarrow> int \<times> rstate" where
  "sys_enter_getgid s =
     (0, s\<lparr>is_recording_cached := (case nth_opt (is_recording s) 0 of None \<Rightarrow> False | Some value \<Rightarrow> value)\<rparr>)"

section \<open>Sets of syscalls\<close>

text \<open>What the map holds for a key, and the shape of the arrays it holds.\<close>

definition syscalls_of :: "rstate \<Rightarrow> u64 \<Rightarrow> nat set" where
  "syscalls_of s key = {i. i < MAX_SYSCALLS \<and> (\<exists>v. recorded_syscalls s key = Some v \<and> v ! i = 1)}"

definition syscalls_ok :: "rstate \<Rightarrow> bool" where
  "syscalls_ok s \<longleftrightarrow> (\<forall>key v. recorded_syscalls s key = Some v \<longrightarrow> length v = MAX_SYSCALLS \<and> set v \<subseteq> {0, 1})"

text \<open>
  A syscall is recorded if the task is, it uses the native ABI, and its number fits the array.
\<close>

definition syscall_relevant :: "config \<Rightarrow> kernel \<Rightarrow> task \<Rightarrow> raw_sys_enter \<Rightarrow> rstate \<Rightarrow> bool" where
  "syscall_relevant C K t ctx s \<longleftrightarrow>
     is_recording_cached s \<and> (ucast (se_id ctx) :: u32) < 1024 \<and> get_mntns C K t s \<noteq> 0 \<and>
     \<not> is_compat_task (target C) t"

text \<open>Whether the syscall drops what was recorded for its key, for the state after the first stage.\<close>

definition clears_syscalls :: "config \<Rightarrow> kernel \<Rightarrow> task \<Rightarrow> raw_sys_enter \<Rightarrow> u64 \<Rightarrow> rstate \<Rightarrow> bool" where
  "clears_syscalls C K t ctx key s \<longleftrightarrow>
     is_seccomp_install C (ucast (se_id ctx)) (se_args ctx) \<and> \<not> is_exec_syscall C (ucast (se_id ctx)) \<and>
     is_container_init C K t \<and>
     (unique_keys C \<longrightarrow> fst (upd_seccomp_initialized K (seccomp_initialized s) key 1 BPF_NOEXIST) = 0)"

lemma report_pid_sel [simp]:
  "is_recording (snd (report_pid K t mntns key s)) = is_recording s"
  "is_recording_cached (snd (report_pid K t mntns key s)) = is_recording_cached s"
  "exclude_mntns (snd (report_pid K t mntns key s)) = exclude_mntns s"
  "recorded_syscalls (snd (report_pid K t mntns key s)) = recorded_syscalls s"
  "exclude_keys (snd (report_pid K t mntns key s)) = exclude_keys s"
  "seccomp_initialized (snd (report_pid K t mntns key s)) = seccomp_initialized s"
  "apparmor_initialized (snd (report_pid K t mntns key s)) = apparmor_initialized s"
  "recorded_caps (snd (report_pid K t mntns key s)) = recorded_caps s"
  "recorded_sockets (snd (report_pid K t mntns key s)) = recorded_sockets s"
  "child_pids (snd (report_pid K t mntns key s)) = child_pids s"
  "file_event_scratch (snd (report_pid K t mntns key s)) = file_event_scratch s"
  "last_file_event (snd (report_pid K t mntns key s)) = last_file_event s"
  "file_event_busy (snd (report_pid K t mntns key s)) = file_event_busy s"
  "buffer_heap_map (snd (report_pid K t mntns key s)) = buffer_heap_map s"
  by (simp_all add: report_pid_def Let_def)

lemma container_start_syscalls:
  "recorded_syscalls (container_start C K t (ucast (se_id ctx)) (se_args ctx) mntns key s) =
     (if clears_syscalls C K t ctx key s then (recorded_syscalls s)(key := None) else recorded_syscalls s)"
  by (auto simp: container_start_def clears_syscalls_def clear_seccomp_def Let_def)

lemma mark_syscall_sets:
  assumes "length v = MAX_SYSCALLS" "unat n < MAX_SYSCALLS" "recorded_syscalls s key = Some v"
  shows "syscalls_of (mark_syscall key n v s) k =
    (if k = key then insert (unat n) (syscalls_of s key) else syscalls_of s k)"
  using assms by (auto simp: syscalls_of_def mark_syscall_def nth_list_update)

lemma mark_syscall_ok:
  assumes "syscalls_ok s" "length v = MAX_SYSCALLS" "set v \<subseteq> {0, 1}"
  shows "syscalls_ok (mark_syscall key n v s)"
  using assms set_update_subset_insert [of v "unat n" 1] by (auto simp: syscalls_ok_def mark_syscall_def)

lemma syscalls_frame:
  "recorded_syscalls s' = recorded_syscalls s \<Longrightarrow> syscalls_of s' = syscalls_of s"
  "recorded_syscalls s' = recorded_syscalls s \<Longrightarrow> syscalls_ok s' = syscalls_ok s"
  by (simp_all add: syscalls_of_def syscalls_ok_def fun_eq_iff)

text \<open>The map accepts a new key or is full, and then nothing is stored.\<close>

definition syscalls_room :: "kernel \<Rightarrow> u64 \<Rightarrow> rstate \<Rightarrow> bool" where
  "syscalls_room K key s \<longleftrightarrow> recorded_syscalls s key \<noteq> None \<or>
     fst (upd_recorded_syscalls K (recorded_syscalls s) key (replicate MAX_SYSCALLS 0) BPF_NOEXIST) = 0"

lemma record_syscall_sets:
  assumes K: "bpf_kernel K" and ok: "syscalls_ok s" and n: "unat n < MAX_SYSCALLS"
  shows "syscalls_ok (record_syscall K t mntns key n r s) \<and>
    (\<forall>k. syscalls_of (record_syscall K t mntns key n r s) k =
      (if k = key \<and> syscalls_room K key s then insert (unat n) (syscalls_of s key) else syscalls_of s k))"
proof (cases "recorded_syscalls s key")
  case (Some v)
  then have "length v = MAX_SYSCALLS" "set v \<subseteq> {0, 1}" using ok by (auto simp: syscalls_ok_def)
  then show ?thesis
    using Some ok n mark_syscall_ok mark_syscall_sets
    by (simp add: record_syscall_def syscalls_room_def)
next
  case None
  define u where "u = upd_recorded_syscalls K (recorded_syscalls s) key (replicate MAX_SYSCALLS 0) BPF_NOEXIST"
  have hash: "bpf_hash_map (upd_recorded_syscalls K)" by (rule bpf_kernel.map_recorded_syscalls [OF K])
  have eexist: "fst u \<noteq> - EEXIST"
    unfolding u_def using bpf_map.absent_no_eexist [OF bpf_hash_map.axioms(1) [OF hash]] None by blast
  show ?thesis
  proof (cases "fst u = 0")
    case True
    let ?new = "s\<lparr>recorded_syscalls := (recorded_syscalls s)(key \<mapsto> replicate MAX_SYSCALLS 0)\<rparr>"
    have "snd u = (recorded_syscalls s)(key \<mapsto> replicate MAX_SYSCALLS 0)"
      using bpf_hash_map.stored_eq [OF hash] True by (simp add: u_def)
    define s2 where "s2 = (if r then ?new else snd (submit_event K t EVENT_TYPE_NEWPID mntns key 0 ?new))"
    have s2: "recorded_syscalls s2 = recorded_syscalls ?new"
      "record_syscall K t mntns key n r s = mark_syscall key n (replicate MAX_SYSCALLS 0) s2"
      using True None \<open>snd u = _\<close> by (auto simp: record_syscall_def Let_def u_def [symmetric] s2_def)
    have "syscalls_ok ?new" "syscalls_of ?new = syscalls_of s"
      using ok None by (auto simp: syscalls_ok_def syscalls_of_def fun_eq_iff)
    then have new: "syscalls_ok s2" "syscalls_of s2 = syscalls_of s"
      using syscalls_frame [OF s2(1)] by simp_all
    have "recorded_syscalls s2 key = Some (replicate MAX_SYSCALLS 0)" using s2(1) by simp
    from mark_syscall_sets [OF _ n this] mark_syscall_ok [OF new(1), of "replicate MAX_SYSCALLS 0" key n]
    have "syscalls_ok (record_syscall K t mntns key n r s)"
      "syscalls_of (record_syscall K t mntns key n r s) k =
         (if k = key then insert (unat n) (syscalls_of s key) else syscalls_of s k)" for k
      by (simp_all only: s2(2) new(2) length_replicate) (auto simp: set_replicate_conv_if)
    moreover have "syscalls_room K key s" using True by (simp add: syscalls_room_def u_def)
    ultimately show ?thesis by simp
  next
    case False
    have "snd u = recorded_syscalls s" using bpf_hash_map.refused_id [OF hash] False by (simp add: u_def)
    then have "record_syscall K t mntns key n r s = count_lost LOST_SYSCALLS_MAP_FULL t s"
      using False None eexist by (simp add: record_syscall_def Let_def u_def [symmetric])
    moreover have "\<not> syscalls_room K key s" using None False by (simp add: syscalls_room_def u_def)
    ultimately show ?thesis using ok syscalls_frame [of "count_lost LOST_SYSCALLS_MAP_FULL t s" s] by simp
  qed
qed

section \<open>Recording refines adding to a set\<close>

text \<open>The key of the task and the state \<open>sys_enter\<close> records in.\<close>

definition task_key :: "config \<Rightarrow> kernel \<Rightarrow> task \<Rightarrow> u64" where
  "task_key C K t = get_key C K t (t_mntns_inum t)"

definition stage2 :: "config \<Rightarrow> kernel \<Rightarrow> task \<Rightarrow> raw_sys_enter \<Rightarrow> rstate \<Rightarrow> rstate" where
  "stage2 C K t ctx s =
     container_start C K t (ucast (se_id ctx)) (se_args ctx) (t_mntns_inum t) (task_key C K t)
       (snd (report_pid K t (t_mntns_inum t) (task_key C K t) s))"

lemma sys_enter_relevant:
  assumes "syscall_relevant C K t ctx s"
  shows "sys_enter C K t ctx s =
    (0, record_syscall K t (t_mntns_inum t) (task_key C K t) (ucast (se_id ctx))
          (fst (report_pid K t (t_mntns_inum t) (task_key C K t) s)) (stage2 C K t ctx s))"
proof -
  have "get_mntns C K t s = t_mntns_inum t"
    using assms get_mntns_nonzero by (simp add: syscall_relevant_def)
  moreover have "\<not> 1024 \<le> (ucast (se_id ctx) :: u32)"
    using assms by (simp add: syscall_relevant_def not_le)
  ultimately show ?thesis
    using assms by (simp add: sys_enter_def syscall_relevant_def Let_def stage2_def task_key_def)
qed

lemma stage2_syscalls:
  "recorded_syscalls (stage2 C K t ctx s) =
     (if clears_syscalls C K t ctx (task_key C K t) s then (recorded_syscalls s)(task_key C K t := None)
      else recorded_syscalls s)"
  by (auto simp: stage2_def container_start_syscalls clears_syscalls_def)

lemma stage2_ok:
  assumes "syscalls_ok s"
  shows "syscalls_ok (stage2 C K t ctx s)"
    "syscalls_of (stage2 C K t ctx s) k =
       (if k = task_key C K t \<and> clears_syscalls C K t ctx (task_key C K t) s then {} else syscalls_of s k)"
  using assms by (auto simp: syscalls_ok_def syscalls_of_def stage2_syscalls split: if_splits)

text \<open>A syscall that is not recorded leaves the sets alone.\<close>

lemma sys_enter_irrelevant:
  "\<not> syscall_relevant C K t ctx s \<Longrightarrow> recorded_syscalls (snd (sys_enter C K t ctx s)) = recorded_syscalls s"
  by (auto simp: sys_enter_def syscall_relevant_def Let_def not_less)

text \<open>
  (C1) \<open>sys_enter\<close> adds a syscall to the set of its key and does nothing else to the sets. The
  byte arrays stay well formed, and for every key the recorded set after the hook is the one
  before, with the syscall added for the key of the task if the syscall is one to record and
  the map has room, after what the container runtime did before the start of the container
  was dropped.
\<close>

theorem sys_enter_refines:
  assumes "bpf_kernel K" "syscalls_ok s"
  shows "let s' = snd (sys_enter C K t ctx s); key = task_key C K t;
             cleared = clears_syscalls C K t ctx key s
    in syscalls_ok s' \<and>
       (\<forall>k. syscalls_of s' k =
         (if k = key \<and> syscall_relevant C K t ctx s
          then (if syscalls_room K key (stage2 C K t ctx s) then {unat (ucast (se_id ctx) :: u32)} else {}) \<union>
               (if cleared then {} else syscalls_of s k)
          else syscalls_of s k))"
proof (cases "syscall_relevant C K t ctx s")
  case True
  have n: "unat (ucast (se_id ctx) :: u32) < MAX_SYSCALLS"
    using True by (simp add: syscall_relevant_def word_less_nat_alt)
  show ?thesis
    using record_syscall_sets [OF assms(1) stage2_ok(1) [OF assms(2)] n] True
    by (simp add: Let_def sys_enter_relevant [OF True] stage2_ok [OF assms(2)])
next
  case False
  then show ?thesis
    using assms(2) by (simp add: Let_def syscalls_frame [OF sys_enter_irrelevant [OF False]])
qed

theorem sys_enter_refines_witness:
  "let ctx = \<lparr>se_id = 39, se_args = [0, 0, 0, 0, 0, 0]\<rparr>;
       s' = snd (sys_enter ref_config ref_kernel ref_task ctx recording_state)
   in syscalls_ok s' \<and> syscalls_of s' 700 = {39} \<and> syscalls_of s' 701 = {}"
proof -
  let ?ctx = "\<lparr>se_id = 39, se_args = [0, 0, 0, 0, 0, 0]\<rparr>"
  have key: "task_key ref_config ref_kernel ref_task = 700"
    by (simp add: task_key_def get_key_def ref_config_def ref_task_def)
  have rel: "syscall_relevant ref_config ref_kernel ref_task ?ctx recording_state"
    by (simp add: syscall_relevant_def get_mntns_def ref_task_def recording_state_def init_state_def
        unique_keys_def ref_config_def has_filter_def)
  have none: "recorded_syscalls recording_state = Map.empty"
    by (simp add: recording_state_def init_state_def)
  have clr: "\<not> clears_syscalls ref_config ref_kernel ref_task ?ctx k s" for k s
    by (simp add: clears_syscalls_def is_seccomp_install_def ref_config_def)
  then have st: "recorded_syscalls (stage2 ref_config ref_kernel ref_task ?ctx recording_state) = Map.empty"
    by (simp add: stage2_syscalls none)
  have room: "syscalls_room ref_kernel 700 (stage2 ref_config ref_kernel ref_task ?ctx recording_state)"
    by (simp add: syscalls_room_def st) (simp add: ref_kernel_def hash_update_def)
  have "syscalls_ok recording_state" "syscalls_of recording_state k = {}" for k
    by (simp_all add: syscalls_ok_def syscalls_of_def none)
  then show ?thesis
    using sys_enter_refines [OF ref.bpf_kernel_axioms, of recording_state ref_config ref_task ?ctx] clr room rel key
    by (simp add: Let_def)
qed

lemma report_pid_lost:
  "lost_events (snd (report_pid K t mntns key s)) \<in>
     {lost_events s, lost_bump LOST_RINGBUF (t_cpu t) (lost_events s)}"
proof -
  have "lost_events (snd (submit_event K t EVENT_TYPE_NEWPID mntns key 0 s')) \<in>
      {lost_events s', lost_bump LOST_RINGBUF (t_cpu t) (lost_events s')}" for s'
    using submit.sent_or_counted [of K t EVENT_TYPE_NEWPID mntns key 0 s'] by auto
  from this [of "s\<lparr>active_pids := snd (upd_active_pids K (active_pids s) (active_key t key) 1 BPF_NOEXIST)\<rparr>"]
  show ?thesis by (simp add: report_pid_def Let_def)
qed

lemma container_start_lost:
  "lost_events (container_start C K t n args mntns key s) \<in>
     {lost_events s, lost_bump LOST_RINGBUF (t_cpu t) (lost_events s)}"
proof -
  have "lost_events (snd (submit_event K t EVENT_TYPE_CLEAR_MNTNS mntns key 0 s')) \<in>
      {lost_events s', lost_bump LOST_RINGBUF (t_cpu t) (lost_events s')}" for s'
    using submit.sent_or_counted [of K t EVENT_TYPE_CLEAR_MNTNS mntns key 0 s'] by auto
  from this [of "s\<lparr>apparmor_initialized := snd (upd_apparmor_initialized K (apparmor_initialized s) key 1 BPF_NOEXIST)\<rparr>"]
    this [of s]
  show ?thesis by (simp add: container_start_def clear_apparmor_def clear_seccomp_def Let_def)
qed

lemma stage2_lost:
  "length (lost_events (stage2 C K t ctx s) c) = length (lost_events s c)"
  "0 < i \<Longrightarrow> i < length (lost_events s c) \<Longrightarrow> lost_events (stage2 C K t ctx s) c ! i = lost_events s c ! i"
  using report_pid_lost [of K t "t_mntns_inum t" "task_key C K t" s]
    container_start_lost [of C K t "ucast (se_id ctx)" "se_args ctx" "t_mntns_inum t" "task_key C K t"
      "snd (report_pid K t (t_mntns_inum t) (task_key C K t) s)"]
  by (auto simp: stage2_def lost_bump_nth)

text \<open>
  No syscall of a recorded process goes missing silently: it is in the set of its key
  afterwards, or the map was full and the loss is counted for exactly this reason.
\<close>

theorem syscall_recorded_or_counted:
  assumes K: "bpf_kernel K" and "syscalls_ok s" and rel: "syscall_relevant C K t ctx s"
    and len: "length (lost_events s (t_cpu t)) = 4"
  shows "let s' = snd (sys_enter C K t ctx s) in
     unat (ucast (se_id ctx) :: u32) \<in> syscalls_of s' (task_key C K t) \<or>
     lost_events s' (t_cpu t) ! LOST_SYSCALLS_MAP_FULL = lost_events s (t_cpu t) ! LOST_SYSCALLS_MAP_FULL + 1"
proof (cases "syscalls_room K (task_key C K t) (stage2 C K t ctx s)")
  case True
  have "unat (ucast (se_id ctx) :: u32) < MAX_SYSCALLS"
    using rel by (simp add: syscall_relevant_def word_less_nat_alt)
  then show ?thesis
    using record_syscall_sets [OF K stage2_ok(1) [OF assms(2)]] True
    by (simp add: Let_def sys_enter_relevant [OF rel])
next
  case False
  let ?s2 = "stage2 C K t ctx s"
  have "recorded_syscalls ?s2 (task_key C K t) = None"
    and full: "fst (upd_recorded_syscalls K (recorded_syscalls ?s2) (task_key C K t) (replicate MAX_SYSCALLS 0) BPF_NOEXIST) \<noteq> 0"
    using False by (auto simp: syscalls_room_def)
  moreover from this(1) have "fst (upd_recorded_syscalls K (recorded_syscalls ?s2) (task_key C K t)
      (replicate MAX_SYSCALLS 0) BPF_NOEXIST) \<noteq> - EEXIST"
    using bpf_map.absent_no_eexist [OF bpf_hash_map.axioms(1) [OF bpf_kernel.map_recorded_syscalls [OF K]]] by blast
  ultimately have "lost_events (snd (sys_enter C K t ctx s)) =
      lost_bump LOST_SYSCALLS_MAP_FULL (t_cpu t) (lost_events ?s2)"
    by (simp add: sys_enter_relevant [OF rel] record_syscall_def Let_def)
  then show ?thesis using stage2_lost [where s = s and c = "t_cpu t"] len by (simp add: Let_def lost_bump_nth)
qed

text \<open>A kernel whose syscalls map is full.\<close>

theorem syscall_recorded_or_counted_witness:
  "let ctx = \<lparr>se_id = 39, se_args = [0, 0, 0, 0, 0, 0]\<rparr>;
       s' = snd (sys_enter ref_config (ref_kernel\<lparr>upd_recorded_syscalls := hash_update 0\<rparr>) ref_task ctx recording_state)
   in 39 \<in> syscalls_of s' 700 \<or> lost_events s' 0 ! LOST_SYSCALLS_MAP_FULL = 1"
proof -
  let ?ctx = "\<lparr>se_id = 39, se_args = [0, 0, 0, 0, 0, 0]\<rparr>"
  let ?K = "ref_kernel\<lparr>upd_recorded_syscalls := hash_update 0\<rparr>"
  have K: "bpf_kernel ?K" using ref.bpf_kernel_axioms by (simp add: bpf_kernel_def hash.bpf_hash_map_axioms)
  have key: "task_key ref_config ?K ref_task = 700"
    by (simp add: task_key_def get_key_def ref_config_def ref_task_def)
  have rel: "syscall_relevant ref_config ?K ref_task ?ctx recording_state"
    by (simp add: syscall_relevant_def get_mntns_def ref_task_def recording_state_def init_state_def
        unique_keys_def ref_config_def has_filter_def)
  have "syscalls_ok recording_state" "lost_events recording_state 0 = [0, 0, 0, 0]" "t_cpu ref_task = 0"
    by (simp_all add: syscalls_ok_def recording_state_def init_state_def ref_task_def numeral_eq_Suc)
  then show ?thesis
    using syscall_recorded_or_counted [OF K _ rel] key by (simp add: Let_def)
qed

text \<open>
  The numbers of 32 bit syscalls are never taken for native ones: the hook leaves the
  recorded sets alone for a task of the 32 bit ABI and counts the syscall as lost.
\<close>

theorem compat_syscall_not_recorded:
  assumes "is_recording_cached s" "(ucast (se_id ctx) :: u32) < 1024" "get_mntns C K t s \<noteq> 0"
    and "is_compat_task (target C) t" and "length (lost_events s (t_cpu t)) = 4"
  shows "let s' = snd (sys_enter C K t ctx s) in recorded_syscalls s' = recorded_syscalls s \<and>
     lost_events s' (t_cpu t) ! LOST_COMPAT_SYSCALL = lost_events s (t_cpu t) ! LOST_COMPAT_SYSCALL + 1"
proof -
  let ?p = "snd (report_pid K t (get_mntns C K t s) (get_key C K t (get_mntns C K t s)) s)"
  have "snd (sys_enter C K t ctx s) = count_lost LOST_COMPAT_SYSCALL t ?p"
    using assms(1-4) by (simp add: sys_enter_def Let_def not_le [symmetric])
  moreover have "lost_events ?p \<in> {lost_events s, lost_bump LOST_RINGBUF (t_cpu t) (lost_events s)}"
    by (rule report_pid_lost)
  ultimately show ?thesis using assms(5) by (auto simp: Let_def lost_bump_nth)
qed

theorem compat_syscall_not_recorded_witness:
  "let ctx = \<lparr>se_id = 11, se_args = [0, 0, 0, 0, 0, 0]\<rparr>; t = ref_task\<lparr>t_thread_status := 2\<rparr>;
       s' = snd (sys_enter ref_config ref_kernel t ctx recording_state)
   in recorded_syscalls s' = Map.empty \<and> lost_events s' 0 ! LOST_COMPAT_SYSCALL = 1"
proof -
  let ?ctx = "\<lparr>se_id = 11, se_args = [0, 0, 0, 0, 0, 0]\<rparr>" and ?t = "ref_task\<lparr>t_thread_status := 2\<rparr>"
  have "get_mntns ref_config ref_kernel ?t recording_state \<noteq> 0" "is_compat_task (target ref_config) ?t"
    "t_cpu ?t = 0"
    by (simp_all add: get_mntns_def ref_task_def recording_state_def init_state_def
        unique_keys_def ref_config_def has_filter_def)
  moreover have "is_recording_cached recording_state" "lost_events recording_state 0 = [0, 0, 0, 0]"
    "recorded_syscalls recording_state = Map.empty"
    by (simp_all add: recording_state_def init_state_def numeral_eq_Suc)
  ultimately show ?thesis
    using compat_syscall_not_recorded [of recording_state ?ctx ref_config ref_kernel ?t] by (simp add: Let_def)
qed

end
