(* ===== verification/Exec_Events.thy ===== *)
theory Exec_Events
  imports Events
begin

text \<open>
  The exec events for the process cache: \<^verbatim>\<open>submit_exec_event\<close> with the two tracepoints that
  call it, and the userspace side of \<^verbatim>\<open>bpfprocesscache.go\<close>, the decoder and the handler that
  turns an event into a command line and an environment.
\<close>

section \<open>The record\<close>

abbreviation (input) sizeof_exec_event :: nat where
  "sizeof_exec_event \<equiv> 25 + MAX_FILENAME_LEN + MAX_ARGS * MAX_ARG_LEN + MAX_ENV * MAX_ENV_LEN + 4 + 4"

text \<open>The rows of an array of character arrays, and the packed structure in a piece of memory.\<close>

definition rows_at :: "u8 list \<Rightarrow> nat \<Rightarrow> nat \<Rightarrow> nat \<Rightarrow> u8 list list" where
  "rows_at raw off n len = map (\<lambda>i. take len (drop (off + i * len) raw)) [0..<n]"

abbreviation (input) args_off :: nat where "args_off \<equiv> 25 + MAX_FILENAME_LEN"
abbreviation (input) env_off :: nat where "env_off \<equiv> args_off + MAX_ARGS * MAX_ARG_LEN"
abbreviation (input) lens_off :: nat where "lens_off \<equiv> env_off + MAX_ENV * MAX_ENV_LEN"

definition exec_at :: "event_header \<Rightarrow> u8 list \<Rightarrow> exec_event_data" where
  "exec_at hdr raw =
     \<lparr>x_hdr = hdr, x_filename = take MAX_FILENAME_LEN (drop 25 raw),
      x_args = rows_at raw args_off MAX_ARGS MAX_ARG_LEN, x_env = rows_at raw env_off MAX_ENV MAX_ENV_LEN,
      x_args_len = 0, x_env_len = 0\<rparr>"

definition wire_exec :: "exec_event_data \<Rightarrow> u8 list" where
  "wire_exec ev = wire_header (x_hdr ev) @ x_filename ev @ concat (x_args ev) @ concat (x_env ev) @
     le_bytes 4 (x_args_len ev) @ le_bytes 4 (x_env_len ev)"

section \<open>The hooks\<close>

text \<open>A string is stored at the start of its buffer, the bytes after it stay.\<close>

definition store_user_str :: "kernel \<Rightarrow> u64 \<Rightarrow> u8 list \<Rightarrow> bool \<times> u8 list" where
  "store_user_str K p buf =
     (case bpf_probe_read_user_str K p (length buf) of
        None \<Rightarrow> (False, user_str_fault K p buf)
      | Some bs \<Rightarrow> (True, bs @ drop (length bs) buf))"

text \<open>The loop over \<^verbatim>\<open>argv\<close> and the one over \<^verbatim>\<open>envp\<close>: the rows and the count.\<close>

primrec read_strings :: "kernel \<Rightarrow> u64 \<Rightarrow> nat list \<Rightarrow> u8 list list \<Rightarrow> u32 \<Rightarrow> u8 list list \<times> u32" where
  "read_strings K argv [] rows count = (rows, count)"
| "read_strings K argv (i # is) rows count =
     (case bpf_probe_read_user K (argv + of_nat (8 * i)) of
        None \<Rightarrow> (rows, count)
      | Some ptr \<Rightarrow>
          if ptr = 0 then (rows, count)
          else let r = store_user_str K ptr (rows ! i); rows' = rows[i := snd r]
               in if \<not> fst r then (rows', count) else read_strings K argv is rows' (count + 1))"

definition submit_exec_event ::
  "config \<Rightarrow> kernel \<Rightarrow> task \<Rightarrow> u64 \<Rightarrow> u64 \<Rightarrow> u64 \<Rightarrow> u32 \<Rightarrow> rstate \<Rightarrow> rstate" where
  "submit_exec_event C K t filename argv envp mntns s =
     (if \<not> rb_room K (events s) sizeof_exec_event then count_lost LOST_RINGBUF t s
      else let hdr = \<lparr>ev_pid = current_pid t, ev_mntns = mntns, ev_key = get_key C K t mntns,
                      ev_type = EVENT_TYPE_EXECVE_ENTER, ev_flags = 0\<rparr>;
               ev = exec_at hdr (rb_stale K (events s) sizeof_exec_event);
               ev = ev\<lparr>x_filename := snd (store_user_str K filename (x_filename ev))\<rparr>;
               a = read_strings K argv [0..<MAX_ARGS] (x_args ev) 0;
               ev = ev\<lparr>x_args := fst a, x_args_len := snd a\<rparr>;
               e = read_strings K envp [0..<MAX_ENV] (x_env ev) 0;
               ev = ev\<lparr>x_env := fst e, x_env_len := snd e\<rparr>
           in s\<lparr>events := events s @ [wire_exec ev]\<rparr>)"

text \<open>The tracepoint context is read directly, an argument is always there.\<close>

definition sys_enter_execve ::
  "config \<Rightarrow> kernel \<Rightarrow> task \<Rightarrow> syscall_trace_enter \<Rightarrow> rstate \<Rightarrow> int \<times> rstate" where
  "sys_enter_execve C K t ctx s =
     (if \<not> is_recording_cached s then (0, s)
      else if \<not> capture_exec_args C then (0, s)
      else let mntns = get_mntns C K t s in
        if mntns = 0 then (0, s)
        else (0, submit_exec_event C K t (sc_args ctx ! 0) (sc_args ctx ! 1) (sc_args ctx ! 2) mntns s))"

definition sys_enter_execveat ::
  "config \<Rightarrow> kernel \<Rightarrow> task \<Rightarrow> syscall_trace_enter \<Rightarrow> rstate \<Rightarrow> int \<times> rstate" where
  "sys_enter_execveat C K t ctx s =
     (if \<not> is_recording_cached s then (0, s)
      else if \<not> capture_exec_args C then (0, s)
      else let mntns = get_mntns C K t s in
        if mntns = 0 then (0, s)
        else (0, submit_exec_event C K t (sc_args ctx ! 1) (sc_args ctx ! 2) (sc_args ctx ! 3) mntns s))"

section \<open>The process cache\<close>

record bpfExecEvent =
  X_Pid :: u32
  X_Mntns :: u32
  X_Key :: u64
  X_Type :: u8
  X_Flags :: u64
  Filename :: "u8 list"
  Args :: "u8 list list"
  Env :: "u8 list list"
  ArgsLen :: u32
  EnvLen :: u32

abbreviation (input) bpfExecEventSize :: nat where "bpfExecEventSize \<equiv> 25 + 128 + 20 * 64 + 50 * 64 + 4 + 4"

definition unmarshal_exec :: "u8 list \<Rightarrow> bpfExecEvent option" where
  "unmarshal_exec raw =
     (if length raw < bpfExecEventSize then None
      else case unmarshalHeader raw of (pid, mntns, key, typ, flags) \<Rightarrow>
        Some \<lparr>X_Pid = pid, X_Mntns = mntns, X_Key = key, X_Type = typ, X_Flags = flags,
              Filename = go_slice raw 25 153,
              Args = map (\<lambda>i. go_slice raw (153 + 64 * i) (153 + 64 * i + 64)) [0..<20],
              Env = map (\<lambda>i. go_slice raw (1433 + 64 * i) (1433 + 64 * i + 64)) [0..<50],
              ArgsLen = le_word (go_slice raw 4633 4637), EnvLen = le_word (go_slice raw 4637 4641)\<rparr>)"

record BpfProcessInfo =
  pi_Pid :: u32
  CmdLine :: "u8 list"
  pi_Env :: "u8 list \<rightharpoonup> u8 list"

text \<open>\<^verbatim>\<open>strings.ReplaceAll(s, "\u0000", "")\<close>, \<^verbatim>\<open>strings.SplitN(s, "=", 2)\<close>, \<^verbatim>\<open>strings.Trim(s, "\"")\<close>.\<close>

definition drop_NUL :: "u8 list \<Rightarrow> u8 list" where
  "drop_NUL bs = filter (\<lambda>b. b \<noteq> 0) bs"

definition split_eq :: "u8 list \<Rightarrow> (u8 list \<times> u8 list) option" where
  "split_eq bs =
     (if 61 \<in> set bs then Some (takeWhile (\<lambda>b. b \<noteq> 61) bs, tl (dropWhile (\<lambda>b. b \<noteq> 61) bs)) else None)"

definition trim_quotes :: "u8 list \<Rightarrow> u8 list" where
  "trim_quotes bs = rev (dropWhile (\<lambda>b. b = 34) (rev (dropWhile (\<lambda>b. b = 34) bs)))"

definition env_entry :: "(u8 list \<rightharpoonup> u8 list) \<Rightarrow> u8 list \<Rightarrow> (u8 list \<rightharpoonup> u8 list)" where
  "env_entry m envVar =
     (case split_eq envVar of
        None \<Rightarrow> m
      | Some (k, v) \<Rightarrow> m(trim_quotes (drop_NUL k) \<mapsto> trim_quotes (drop_NUL v)))"

text \<open>The handler; the result is the entry stored in the cache under the process.\<close>

definition handleExecEvent :: "u8 list \<Rightarrow> BpfProcessInfo option" where
  "handleExecEvent raw =
     (if length raw \<ge> 25 \<and> raw ! 16 \<noteq> EVENT_TYPE_EXECVE_ENTER then None
      else case unmarshal_exec raw of
        None \<Rightarrow> None
      | Some ev \<Rightarrow>
          (let argsLen = min (unat (ArgsLen ev)) MAX_ARGS; envLen = min (unat (EnvLen ev)) MAX_ENV
           in Some \<lparr>pi_Pid = X_Pid ev,
                    CmdLine = concat (map (\<lambda>i. drop_NUL (Args ev ! i) @ [0x20]) [0..<argsLen]),
                    pi_Env = foldl (\<lambda>m i. env_entry m (Env ev ! i)) Map.empty [0..<envLen]\<rparr>))"

section \<open>The wire format\<close>

definition exec_ok :: "exec_event_data \<Rightarrow> bool" where
  "exec_ok ev \<longleftrightarrow> length (x_filename ev) = MAX_FILENAME_LEN \<and>
     length (x_args ev) = MAX_ARGS \<and> (\<forall>r \<in> set (x_args ev). length r = MAX_ARG_LEN) \<and>
     length (x_env ev) = MAX_ENV \<and> (\<forall>r \<in> set (x_env ev). length r = MAX_ENV_LEN)"

lemma length_concat_rows: "\<forall>r \<in> set rs. length r = n \<Longrightarrow> length (concat rs) = n * length rs"
  by (induction rs) auto

lemma slice_concat:
  "\<forall>r \<in> set rs. length r = n \<Longrightarrow> i < length rs \<Longrightarrow> take n (drop (n * i) (concat rs @ ys)) = rs ! i"
proof (induction rs arbitrary: i)
  case (Cons r rs)
  then show ?case by (cases i) auto
qed simp

lemma slice_concat_at:
  assumes "\<forall>r \<in> set rs. length r = n" "i < length rs" "length xs = off"
  shows "go_slice (xs @ concat rs @ ys) (off + n * i) (off + n * i + n) = rs ! i"
proof -
  have "drop (off + n * i) (xs @ concat rs @ ys) = drop (n * i) (concat rs @ ys)"
    using assms(3) by simp
  then show ?thesis using slice_concat [OF assms(1,2), of ys] by (simp add: go_slice_def)
qed

lemma rows_map_nth:
  assumes "length rs = n"
  shows "(\<And>i. i < n \<Longrightarrow> f i = rs ! i) \<Longrightarrow> map f [0..<n] = rs"
  using assms by (auto intro: nth_equalityI)

lemma length_wire_exec [codec]: "exec_ok ev \<Longrightarrow> length (wire_exec ev) = sizeof_exec_event"
  using length_concat_rows [of "x_args ev" MAX_ARG_LEN] length_concat_rows [of "x_env ev" MAX_ENV_LEN]
  by (simp add: wire_exec_def exec_ok_def)

lemma unmarshal_wire_exec [codec]:
  assumes ok: "exec_ok ev"
  shows "unmarshal_exec (wire_exec ev) =
    Some \<lparr>X_Pid = ev_pid (x_hdr ev), X_Mntns = ev_mntns (x_hdr ev), X_Key = ev_key (x_hdr ev),
          X_Type = ev_type (x_hdr ev), X_Flags = ev_flags (x_hdr ev), Filename = x_filename ev,
          Args = x_args ev, Env = x_env ev, ArgsLen = x_args_len ev, EnvLen = x_env_len ev\<rparr>"
proof -
  define h f a e where "h = wire_header (x_hdr ev)" and "f = x_filename ev" and "a = x_args ev" and "e = x_env ev"
  define al el where "al = le_bytes 4 (x_args_len ev)" and "el = le_bytes 4 (x_env_len ev)"
  have w: "wire_exec ev = h @ f @ concat a @ concat e @ al @ el"
    by (simp add: wire_exec_def h_def f_def a_def e_def al_def el_def)
  have lens: "length h = 25" "length f = 128" "length a = 20" "length e = 50" "length al = 4" "length el = 4"
    and rows: "\<forall>r \<in> set a. length r = 64" "\<forall>r \<in> set e. length r = 64"
    using ok by (auto simp: exec_ok_def h_def f_def a_def e_def al_def el_def)
  have ca: "length (concat a) = 1280" "length (concat e) = 3200"
    using length_concat_rows [OF rows(1)] length_concat_rows [OF rows(2)] lens by simp_all
  have "go_slice (wire_exec ev) 25 153 = f" using lens by (simp add: w go_slice_def)
  moreover have "map (\<lambda>i. go_slice (wire_exec ev) (153 + 64 * i) (153 + 64 * i + 64)) [0..<20] = a"
  proof (rule rows_map_nth [OF lens(3)])
    fix i :: nat assume "i < 20"
    then show "go_slice (wire_exec ev) (153 + 64 * i) (153 + 64 * i + 64) = a ! i"
      using slice_concat_at [OF rows(1), of i "h @ f" 153 "concat e @ al @ el"] lens by (simp add: w)
  qed
  moreover have "map (\<lambda>i. go_slice (wire_exec ev) (1433 + 64 * i) (1433 + 64 * i + 64)) [0..<50] = e"
  proof (rule rows_map_nth [OF lens(4)])
    fix i :: nat assume "i < 50"
    then show "go_slice (wire_exec ev) (1433 + 64 * i) (1433 + 64 * i + 64) = e ! i"
      using slice_concat_at [OF rows(2), of i "h @ f @ concat a" 1433 "al @ el"] lens ca by (simp add: w)
  qed
  moreover have "go_slice (wire_exec ev) 4633 4637 = al" "go_slice (wire_exec ev) 4637 4641 = el"
    using lens ca by (simp_all add: w go_slice_def)
  moreover have "unmarshalHeader (wire_exec ev) = (ev_pid (x_hdr ev), ev_mntns (x_hdr ev), ev_key (x_hdr ev),
      ev_type (x_hdr ev), ev_flags (x_hdr ev))"
    by (simp add: w h_def)
  ultimately show ?thesis
    using length_wire_exec [OF ok] by (simp add: unmarshal_exec_def al_def el_def f_def a_def e_def)
qed

section \<open>The strings of a process\<close>

text \<open>
  The strings an argument vector holds as far as they can be read, each of at most 63 bytes,
  up to the null pointer, the first failing read, or the end of the rows.
\<close>

primrec user_strings :: "kernel \<Rightarrow> u64 \<Rightarrow> nat list \<Rightarrow> u8 list list" where
  "user_strings K argv [] = []"
| "user_strings K argv (i # is) =
     (case bpf_probe_read_user K (argv + of_nat (8 * i)) of
        None \<Rightarrow> []
      | Some ptr \<Rightarrow>
          if ptr = 0 then []
          else case bpf_probe_read_user_str K ptr MAX_ARG_LEN of
                 None \<Rightarrow> []
               | Some bs \<Rightarrow> butlast bs # user_strings K argv is)"

lemma length_user_strings: "length (user_strings K argv is) \<le> length is"
  by (induction "is") (auto split: option.splits)

lemma user_str_butlast:
  assumes "bpf_kernel K" "bpf_probe_read_user_str K p MAX_ARG_LEN = Some bs"
  shows "0 \<notin> set (butlast bs)" "length (butlast bs) < MAX_ARG_LEN"
proof -
  have "c_string_of_size MAX_ARG_LEN bs" using bpf_kernel.user_str [OF assms(1) _ assms(2)] by simp
  then show "0 \<notin> set (butlast bs)" "length (butlast bs) < MAX_ARG_LEN"
    by (cases bs, auto simp: c_string_of_size_def)
qed

lemma user_strings_no_NUL:
  assumes "bpf_kernel K"
  shows "bs \<in> set (user_strings K argv is) \<Longrightarrow> 0 \<notin> set bs \<and> length bs < MAX_ARG_LEN"
proof (induction "is")
  case (Cons i "is")
  then obtain ptr bs' where "bpf_probe_read_user_str K ptr MAX_ARG_LEN = Some bs'"
    "bs = butlast bs' \<or> bs \<in> set (user_strings K argv is)"
    by (auto split: option.splits if_splits)
  then show ?case using user_str_butlast [OF assms] Cons.IH by blast
qed simp

text \<open>The row of a string: the string, its NUL byte, and what the memory held before.\<close>

definition str_row :: "u8 list \<Rightarrow> u8 list \<Rightarrow> u8 list" where
  "str_row bs old = bs @ 0 # drop (Suc (length bs)) old"

lemma store_user_str_ok:
  assumes "bpf_kernel K" "length old = MAX_ARG_LEN"
  shows "length (snd (store_user_str K p old)) = MAX_ARG_LEN"
    and "bpf_probe_read_user_str K p MAX_ARG_LEN = Some bs \<Longrightarrow>
      store_user_str K p old = (True, str_row (butlast bs) old)"
    and "bpf_probe_read_user_str K p MAX_ARG_LEN = None \<Longrightarrow> \<not> fst (store_user_str K p old)"
proof -
  have str: "bs = butlast bs @ [0]" "length bs \<le> MAX_ARG_LEN" "bs \<noteq> []"
    if "bpf_probe_read_user_str K p MAX_ARG_LEN = Some bs" for bs
    using bpf_kernel.user_str [OF assms(1) _ that] append_butlast_last_id [of bs]
    by (auto simp: c_string_of_size_def)
  show "length (snd (store_user_str K p old)) = MAX_ARG_LEN"
    using assms(2) bpf_kernel.user_fault_size [OF assms(1)] str(2)
    by (auto simp: store_user_str_def split: option.splits)
  show "bpf_probe_read_user_str K p MAX_ARG_LEN = Some bs \<Longrightarrow>
      store_user_str K p old = (True, str_row (butlast bs) old)"
    using assms(2) str [of bs] by (simp add: store_user_str_def str_row_def)
  show "bpf_probe_read_user_str K p MAX_ARG_LEN = None \<Longrightarrow> \<not> fst (store_user_str K p old)"
    using assms(2) by (simp add: store_user_str_def)
qed

lemma read_strings_rows:
  assumes K: "bpf_kernel K"
  shows "n \<le> length rows \<Longrightarrow> \<forall>r \<in> set rows. length r = MAX_ARG_LEN \<Longrightarrow> i \<le> n \<Longrightarrow>
    (let us = user_strings K argv [i..<n]; res = read_strings K argv [i..<n] rows count in
     snd res = count + of_nat (length us) \<and> length (fst res) = length rows \<and>
     (\<forall>r \<in> set (fst res). length r = MAX_ARG_LEN) \<and> (\<forall>j < i. fst res ! j = rows ! j) \<and>
     (\<forall>j < length us. fst res ! (i + j) = str_row (us ! j) (rows ! (i + j))))"
proof (induction "n - i" arbitrary: i rows count)
  case 0
  then show ?case by simp
next
  case (Suc d)
  then have i: "i < n" "d = n - Suc i" by auto
  then have upt: "[i..<n] = i # [Suc i..<n]" by (simp add: upt_conv_Cons)
  show ?case
  proof (cases "\<exists>ptr bs. bpf_probe_read_user K (argv + of_nat (8 * i)) = Some ptr \<and> ptr \<noteq> 0 \<and>
      bpf_probe_read_user_str K ptr MAX_ARG_LEN = Some bs")
    case True
    then obtain ptr bs where p: "bpf_probe_read_user K (argv + of_nat (8 * i)) = Some ptr" "ptr \<noteq> 0"
      "bpf_probe_read_user_str K ptr MAX_ARG_LEN = Some bs" by blast
    have len: "length (rows ! i) = MAX_ARG_LEN" using Suc.prems(1,2) i(1) by auto
    define rows' where "rows' = rows[i := str_row (butlast bs) (rows ! i)]"
    have st: "store_user_str K ptr (rows ! i) = (True, str_row (butlast bs) (rows ! i))"
      by (rule store_user_str_ok(2) [OF K len p(3)])
    have rows': "length rows' = length rows" "\<forall>r \<in> set rows'. length r = MAX_ARG_LEN"
      using store_user_str_ok(1) [OF K len, of ptr] st Suc.prems(2) set_update_subset_insert
      unfolding rows'_def by (fastforce)+
    have step: "read_strings K argv [i..<n] rows count = read_strings K argv [Suc i..<n] rows' (count + 1)"
      using p st by (simp add: upt rows'_def)
    have us: "user_strings K argv [i..<n] = butlast bs # user_strings K argv [Suc i..<n]"
      using p by (simp add: upt)
    define res where "res = read_strings K argv [Suc i..<n] rows' (count + 1)"
    have ih: "snd res = count + 1 + of_nat (length (user_strings K argv [Suc i..<n]))" "length (fst res) = length rows"
      "\<forall>r \<in> set (fst res). length r = MAX_ARG_LEN" "\<forall>j < Suc i. fst res ! j = rows' ! j"
      "\<forall>j < length (user_strings K argv [Suc i..<n]).
         fst res ! (Suc i + j) = str_row (user_strings K argv [Suc i..<n] ! j) (rows' ! (Suc i + j))"
      using Suc.hyps(1) [OF i(2), of rows' "count + 1"] Suc.prems(1) i(1) rows' by (simp_all add: Let_def res_def)
    have "\<forall>j < i. fst res ! j = rows ! j" using ih(4) by (simp add: rows'_def)
    moreover have "fst res ! (i + j) = str_row ((butlast bs # user_strings K argv [Suc i..<n]) ! j) (rows ! (i + j))"
      if "j < Suc (length (user_strings K argv [Suc i..<n]))" for j
      using that ih(4,5) i(1) Suc.prems(1) by (cases j) (auto simp: rows'_def)
    ultimately show ?thesis
      using ih by (simp add: Let_def step us res_def [symmetric])
  next
    case False
    then have us: "user_strings K argv [i..<n] = []" by (auto simp: upt split: option.splits)
    have len: "length (rows ! i) = MAX_ARG_LEN" using Suc.prems(1,2) i(1) by auto
    have "read_strings K argv [i..<n] rows count = (rows, count) \<or>
        (\<exists>ptr. read_strings K argv [i..<n] rows count = (rows[i := snd (store_user_str K ptr (rows ! i))], count))"
      using False store_user_str_ok(3) [OF K len] by (auto simp: upt Let_def split: option.splits)
    then show ?thesis
      using us Suc.prems(2) store_user_str_ok(1) [OF K len] set_update_subset_insert
      by (fastforce simp: Let_def)
  qed
qed

section \<open>From the exec to the process cache\<close>

lemma rows_at_ok:
  assumes "off + n * len \<le> length raw"
  shows "length (rows_at raw off n len) = n" "\<forall>r \<in> set (rows_at raw off n len). length r = len"
proof -
  have "length (take len (drop (off + i * len) raw)) = len" if "i < n" for i
  proof -
    have "Suc i * len \<le> n * len" using that by (intro mult_le_mono1) simp
    then show ?thesis using assms by simp
  qed
  then show "\<forall>r \<in> set (rows_at raw off n len). length r = len" by (simp add: rows_at_def)
qed (simp add: rows_at_def)

definition exec_record :: "config \<Rightarrow> kernel \<Rightarrow> task \<Rightarrow> u64 \<Rightarrow> u64 \<Rightarrow> u64 \<Rightarrow> u32 \<Rightarrow> rstate \<Rightarrow> exec_event_data" where
  "exec_record C K t filename argv envp mntns s =
     (let hdr = \<lparr>ev_pid = current_pid t, ev_mntns = mntns, ev_key = get_key C K t mntns,
                 ev_type = EVENT_TYPE_EXECVE_ENTER, ev_flags = 0\<rparr>;
          ev = exec_at hdr (rb_stale K (events s) sizeof_exec_event);
          a = read_strings K argv [0..<MAX_ARGS] (x_args ev) 0;
          e = read_strings K envp [0..<MAX_ENV] (x_env ev) 0
      in ev\<lparr>x_filename := snd (store_user_str K filename (x_filename ev)),
            x_args := fst a, x_args_len := snd a, x_env := fst e, x_env_len := snd e\<rparr>)"

lemma submit_exec_event_sent:
  "rb_room K (events s) sizeof_exec_event \<Longrightarrow>
     submit_exec_event C K t filename argv envp mntns s =
       s\<lparr>events := events s @ [wire_exec (exec_record C K t filename argv envp mntns s)]\<rparr>"
  by (simp add: submit_exec_event_def exec_record_def Let_def)

text \<open>The stale rows of the reserved memory.\<close>

definition stale_args :: "kernel \<Rightarrow> rstate \<Rightarrow> u8 list list" where
  "stale_args K s = rows_at (rb_stale K (events s) sizeof_exec_event) args_off MAX_ARGS MAX_ARG_LEN"

definition stale_env :: "kernel \<Rightarrow> rstate \<Rightarrow> u8 list list" where
  "stale_env K s = rows_at (rb_stale K (events s) sizeof_exec_event) env_off MAX_ENV MAX_ENV_LEN"

lemma exec_record_rows:
  fixes C t filename argv envp mntns s
  assumes K: "bpf_kernel K"
  defines "ev \<equiv> exec_record C K t filename argv envp mntns s"
    and "as \<equiv> user_strings K argv [0..<MAX_ARGS]" and "es \<equiv> user_strings K envp [0..<MAX_ENV]"
  shows "exec_ok ev" "x_args_len ev = of_nat (length as)" "x_env_len ev = of_nat (length es)"
    "\<And>j. j < length as \<Longrightarrow> x_args ev ! j = str_row (as ! j) (stale_args K s ! j)"
    "\<And>j. j < length es \<Longrightarrow> x_env ev ! j = str_row (es ! j) (stale_env K s ! j)"
proof -
  let ?raw = "rb_stale K (events s) sizeof_exec_event"
  have raw: "length ?raw = sizeof_exec_event" by (rule bpf_kernel.reserve_size [OF K])
  have sa: "length (stale_args K s) = MAX_ARGS" "\<forall>r \<in> set (stale_args K s). length r = MAX_ARG_LEN"
    unfolding stale_args_def using rows_at_ok [of args_off MAX_ARGS MAX_ARG_LEN ?raw] raw by auto
  have se: "length (stale_env K s) = MAX_ENV" "\<forall>r \<in> set (stale_env K s). length r = MAX_ARG_LEN"
    unfolding stale_env_def using rows_at_ok [of env_off MAX_ENV MAX_ENV_LEN ?raw] raw by auto
  have fn: "length (snd (store_user_str K filename (take MAX_FILENAME_LEN (drop 25 ?raw)))) = MAX_FILENAME_LEN"
    using raw bpf_kernel.user_fault_size [OF K] bpf_kernel.user_str [OF K, of MAX_FILENAME_LEN filename]
    by (auto simp: store_user_str_def c_string_of_size_def split: option.splits)
  note a = read_strings_rows [OF K, of MAX_ARGS "stale_args K s" 0 argv 0]
    and e = read_strings_rows [OF K, of MAX_ENV "stale_env K s" 0 envp 0]
  have ev: "x_args ev = fst (read_strings K argv [0..<MAX_ARGS] (stale_args K s) 0)"
    "x_env ev = fst (read_strings K envp [0..<MAX_ENV] (stale_env K s) 0)"
    "x_args_len ev = snd (read_strings K argv [0..<MAX_ARGS] (stale_args K s) 0)"
    "x_env_len ev = snd (read_strings K envp [0..<MAX_ENV] (stale_env K s) 0)"
    "x_filename ev = snd (store_user_str K filename (take MAX_FILENAME_LEN (drop 25 ?raw)))"
    by (simp_all add: ev_def exec_record_def Let_def exec_at_def stale_args_def stale_env_def)
  show "exec_ok ev" using a e sa se fn by (simp add: exec_ok_def ev Let_def)
  show "x_args_len ev = of_nat (length as)" "x_env_len ev = of_nat (length es)"
    using a e sa se by (simp_all add: ev Let_def as_def es_def)
  show "\<And>j. j < length as \<Longrightarrow> x_args ev ! j = str_row (as ! j) (stale_args K s ! j)"
    "\<And>j. j < length es \<Longrightarrow> x_env ev ! j = str_row (es ! j) (stale_env K s ! j)"
    using a e sa se by (simp_all add: ev Let_def as_def es_def)
qed

text \<open>The two tracepoints only differ in the position of the arguments.\<close>

fun exec_hook :: "bool \<Rightarrow> config \<Rightarrow> kernel \<Rightarrow> task \<Rightarrow> syscall_trace_enter \<Rightarrow> rstate \<Rightarrow> int \<times> rstate" where
  "exec_hook False C K t ctx s = sys_enter_execve C K t ctx s"
| "exec_hook True C K t ctx s = sys_enter_execveat C K t ctx s"

lemma exec_hook_sent:
  assumes "is_recording_cached s" "capture_exec_args C" "get_mntns C K t s \<noteq> 0"
    and "rb_room K (events s) sizeof_exec_event"
  shows "exec_hook at C K t ctx s = (0, s\<lparr>events := events s @ [wire_exec (exec_record C K t
      (sc_args ctx ! of_bool at) (sc_args ctx ! Suc (of_bool at)) (sc_args ctx ! Suc (Suc (of_bool at)))
      (t_mntns_inum t) s)]\<rparr>)"
proof -
  have "get_mntns C K t s = t_mntns_inum t" using assms(3) by (rule get_mntns_nonzero)
  then show ?thesis
    using assms by (cases at) (simp_all add: sys_enter_execve_def sys_enter_execveat_def submit_exec_event_sent
        numeral_2_eq_2 numeral_3_eq_3)
qed

lemma exec_record_hdr [simp]:
  "x_hdr (exec_record C K t filename argv envp mntns s) =
     \<lparr>ev_pid = current_pid t, ev_mntns = mntns, ev_key = get_key C K t mntns,
      ev_type = EVENT_TYPE_EXECVE_ENTER, ev_flags = 0\<rparr>"
  by (simp add: exec_record_def Let_def exec_at_def)

lemma cstr_rows:
  assumes K: "bpf_kernel K" and len: "length as \<le> length rows"
    and rows: "\<And>j. j < length as \<Longrightarrow> rows ! j = str_row (as ! j) (old ! j)"
    and as: "as = user_strings K argv is"
  shows "map cstr (take (length as) rows) = as"
proof (rule nth_equalityI)
  fix j assume "j < length (map cstr (take (length as) rows))"
  then have j: "j < length as" using len by simp
  then have "0 \<notin> set (as ! j)" using user_strings_no_NUL [OF K] as by (metis nth_mem)
  then show "map cstr (take (length as) rows) ! j = as ! j"
    using j len rows [OF j] by (simp add: str_row_def cstr_append_NUL)
qed (use len in simp)


text \<open>
  A process with the argument vector at address 8, whose only argument is \<^verbatim>\<open>ls\<close>, and a ring
  buffer whose memory was used before.
\<close>

definition ls_kernel :: kernel where
  "ls_kernel = ref_kernel\<lparr>
     bpf_probe_read_user := (\<lambda>p. if p = 8 then Some 100 else Some 0),
     bpf_probe_read_user_str := (\<lambda>p n. if n < 3 then None else Some (bytes_of ''ls'' @ [0]))\<rparr>"

lemma ls_kernel_ok: "bpf_kernel ls_kernel"
  using ref.bpf_kernel_axioms
  by (auto simp: ls_kernel_def bpf_kernel_def c_string_of_size_def bytes_of_def)

lemma ls_args: "user_strings ls_kernel 8 [0..<MAX_ARGS] = [bytes_of ''ls'']"
  by (simp add: upt_conv_Cons) (simp add: ls_kernel_def bytes_of_def)

abbreviation (input) exec_config :: config where
  "exec_config \<equiv> ref_config\<lparr>capture_exec_args := True\<rparr>"

lemma ls_hyps:
  "is_recording_cached recording_state" "capture_exec_args exec_config"
  "get_mntns exec_config ls_kernel ref_task recording_state \<noteq> 0"
  "rb_room ls_kernel (events recording_state) sizeof_exec_event"
  by (simp_all add: recording_state_def init_state_def get_mntns_def ref_task_def unique_keys_def
      ref_config_def has_filter_def ls_kernel_def ref_kernel_def)


text \<open>
  The command line of the process cache holds what the ring buffer memory held before.
  The record is not zeroed, a string is not padded, and the userspace removes the NUL bytes of
  the whole row instead of cutting at the first one: after each argument, the rest of its row
  as some earlier event left it becomes part of the command line.
\<close>

theorem cmdline_keeps_stale_bytes:
  assumes K: "bpf_kernel K" and rec: "is_recording_cached s" "capture_exec_args C" "get_mntns C K t s \<noteq> 0"
    and room: "rb_room K (events s) sizeof_exec_event"
  shows "let args = user_strings K (sc_args ctx ! Suc (of_bool at)) [0..<MAX_ARGS]
    in \<exists>raw info. exec_hook at C K t ctx s = (0, s\<lparr>events := events s @ [raw]\<rparr>) \<and>
       handleExecEvent raw = Some info \<and> pi_Pid info = current_pid t \<and>
       CmdLine info = concat (map (\<lambda>i. args ! i @ drop_NUL (drop (Suc (length (args ! i))) (stale_args K s ! i)) @ [0x20])
         [0..<length args])"
proof -
  let ?argv = "sc_args ctx ! Suc (of_bool at)" and ?envp = "sc_args ctx ! Suc (Suc (of_bool at))"
  let ?ev = "exec_record C K t (sc_args ctx ! of_bool at) ?argv ?envp (t_mntns_inum t) s"
  define args where "args = user_strings K ?argv [0..<MAX_ARGS]"
  note ok = exec_record_rows [OF K, where C = C and t = t and filename = "sc_args ctx ! of_bool at" and argv = ?argv
      and envp = ?envp and mntns = "t_mntns_inum t" and s = s,
      folded args_def]
  have len: "length args \<le> MAX_ARGS"
    using length_user_strings [of K ?argv "[0..<MAX_ARGS]"] by (simp add: args_def)
  then have n: "min (unat (x_args_len ?ev)) MAX_ARGS = length args"
    using ok(2) by (simp add: unsigned_of_nat take_bit_nat_eq_self)
  have ty: "wire_exec ?ev ! 16 = EVENT_TYPE_EXECVE_ENTER"
    by (simp add: wire_exec_def wire_header_def nth_append)
  have row: "drop_NUL (x_args ?ev ! i) = args ! i @ drop_NUL (drop (Suc (length (args ! i))) (stale_args K s ! i))"
    if "i < length args" for i
  proof -
    have "0 \<notin> set (args ! i)"
      using user_strings_no_NUL [OF K, of "args ! i" ?argv "[0..<MAX_ARGS]"] that unfolding args_def [symmetric] by simp
    then have "filter (\<lambda>b. b \<noteq> 0) (args ! i) = args ! i" by (intro filter_True) blast
    then show ?thesis using ok(4) [OF that] by (simp add: str_row_def drop_NUL_def)
  qed
  define ev where "ev = ?ev"
  define cmd where "cmd = concat (map (\<lambda>i. args ! i @ drop_NUL (drop (Suc (length (args ! i))) (stale_args K s ! i)) @ [0x20])
      [0..<length args])"
  have "concat (map (\<lambda>i. drop_NUL (x_args ev ! i) @ [0x20]) [0..<length args]) = cmd"
    unfolding cmd_def ev_def using row by (intro arg_cong [where f = concat] map_cong refl) simp
  moreover have "x_hdr ev = \<lparr>ev_pid = current_pid t, ev_mntns = t_mntns_inum t, ev_key = get_key C K t (t_mntns_inum t),
      ev_type = EVENT_TYPE_EXECVE_ENTER, ev_flags = 0\<rparr>"
    by (simp add: ev_def)
  ultimately show ?thesis
    unfolding Let_def args_def [symmetric] cmd_def [symmetric]
    using exec_hook_sent [OF rec room, of at ctx] unmarshal_wire_exec [OF ok(1)] n ty
    unfolding ev_def [symmetric]
    by (intro exI [of _ "wire_exec ev"]) (simp add: handleExecEvent_def)
qed

theorem cmdline_keeps_stale_bytes_witness:
  "\<exists>raw info. sys_enter_execve exec_config ls_kernel ref_task \<lparr>sc_args = [1, 8, 0], sc_readable = \<lambda>_. True\<rparr> recording_state
       = (0, recording_state\<lparr>events := events recording_state @ [raw]\<rparr>) \<and>
     handleExecEvent raw = Some info \<and> CmdLine info = bytes_of ''ls'' @ replicate 61 0xAA @ [0x20]"
proof -
  have "stale_args ls_kernel recording_state ! 0 = replicate 64 0xAA"
    by (simp add: stale_args_def rows_at_def ls_kernel_def ref_kernel_def)
  then have "drop_NUL (drop (Suc (length (bytes_of ''ls''))) (stale_args ls_kernel recording_state ! 0)) = replicate 61 0xAA"
    by (simp add: drop_NUL_def bytes_of_def)
  then show ?thesis
    using cmdline_keeps_stale_bytes [OF ls_kernel_ok ls_hyps, of "\<lparr>sc_args = [1, 8, 0], sc_readable = \<lambda>_. True\<rparr>" False]
    by (simp add: Let_def ls_args) blast
qed

end
