(* ===== verification/Processes.thy ===== *)
theory Processes
  imports Events
begin

text \<open>
  The process hooks: with a program name to filter by, \<^verbatim>\<open>sched_process_exec\<close> and
  \<^verbatim>\<open>sched_process_fork\<close> keep the processes of that name and their descendants in \<^verbatim>\<open>child_pids\<close>;
  \<^verbatim>\<open>sched_process_exit\<close> forgets a process once its last thread is gone.
\<close>

section \<open>The hooks\<close>

definition sched_process_exec :: "config \<Rightarrow> kernel \<Rightarrow> task \<Rightarrow> rstate \<Rightarrow> int \<times> rstate" where
  "sched_process_exec C K t s =
     (if \<not> is_recording_cached s then (0, s)
      else if \<not> has_filter C then (0, s)
      else let is_child = (child_pids s (t_real_parent_tgid t) \<noteq> None)
           in if is_child \<or> matches_filter C (t_comm t)
              then (0, s\<lparr>child_pids := snd (upd_child_pids K (child_pids s) (current_pid t) True BPF_ANY)\<rparr>)
              else (0, s))"

definition sched_process_exit :: "config \<Rightarrow> kernel \<Rightarrow> task \<Rightarrow> rstate \<Rightarrow> int \<times> rstate" where
  "sched_process_exit C K t s =
     (if \<not> is_recording_cached s then (0, s)
      else if t_signal_live t \<noteq> 0 then (0, s)
      else let mntns = get_mntns C K t s in
        if mntns = 0 then (0, s)
        else let pid = current_pid t;
                 active = \<lparr>pk_pid = pid, pk_pad = 0, pk_key = get_key C K t mntns\<rparr>;
                 d = bpf_map_delete_elem (active_pids s) active
             in if fst d \<noteq> 0 then (0, s)
                else let s1 = s\<lparr>active_pids := snd d\<rparr>;
                         s2 = s1\<lparr>child_pids := snd (bpf_map_delete_elem (child_pids s1) pid)\<rparr>
                     in (0, snd (submit_event K t EVENT_TYPE_EXIT mntns (get_key C K t mntns) 0 s2)))"

text \<open>A fork, with what the hook reads of the two tasks it gets passed.\<close>

record fork_tasks =
  fk_parent_tgid :: u32
  fk_child_pid :: u32
  fk_child_tgid :: u32

definition sched_process_fork :: "config \<Rightarrow> kernel \<Rightarrow> fork_tasks \<Rightarrow> rstate \<Rightarrow> int \<times> rstate" where
  "sched_process_fork C K fk s =
     (if \<not> is_recording_cached s then (0, s)
      else if \<not> has_filter C then (0, s)
      else if fk_child_pid fk \<noteq> fk_child_tgid fk then (0, s)
      else if child_pids s (fk_parent_tgid fk) \<noteq> None
           then (0, s\<lparr>child_pids := snd (upd_child_pids K (child_pids s) (fk_child_pid fk) True BPF_ANY)\<rparr>)
           else (0, s))"

section \<open>Frame lemmas\<close>

lemma exec_frame [frames]:
  "snd (sched_process_exec C K t s) = s\<lparr>child_pids := child_pids (snd (sched_process_exec C K t s))\<rparr>"
  by (simp add: sched_process_exec_def Let_def)

lemma fork_frame [frames]:
  "snd (sched_process_fork C K fk s) = s\<lparr>child_pids := child_pids (snd (sched_process_fork C K fk s))\<rparr>"
  by (simp add: sched_process_fork_def Let_def)

section \<open>The end of a process\<close>

lemma exit_result:
  fixes C K t s
  defines "key \<equiv> get_key C K t (t_mntns_inum t)" and "pid \<equiv> current_pid t"
    and "s' \<equiv> snd (sched_process_exit C K t s)"
  assumes rec: "is_recording_cached s" "get_mntns C K t s \<noteq> 0"
  shows "if t_signal_live t \<noteq> 0 \<or> active_pids s \<lparr>pk_pid = pid, pk_pad = 0, pk_key = key\<rparr> = None then s' = s
    else active_pids s' = (active_pids s)(\<lparr>pk_pid = pid, pk_pad = 0, pk_key = key\<rparr> := None) \<and>
      child_pids s' = (child_pids s)(pid := None) \<and>
      ((events s' = events s @ [wire_header \<lparr>ev_pid = pid, ev_mntns = t_mntns_inum t, ev_key = key,
          ev_type = EVENT_TYPE_EXIT, ev_flags = 0\<rparr>] \<and> lost_events s' = lost_events s) \<or>
       (events s' = events s \<and> lost_events s' = lost_bump LOST_RINGBUF (t_cpu t) (lost_events s)))"
proof -
  have mntns: "get_mntns C K t s = t_mntns_inum t" using rec(2) by (rule get_mntns_nonzero)
  show ?thesis
  proof (cases "t_signal_live t \<noteq> 0 \<or> active_pids s \<lparr>pk_pid = pid, pk_pad = 0, pk_key = key\<rparr> = None")
    case True
    then show ?thesis
      using rec by (auto simp: s'_def sched_process_exit_def Let_def mntns key_def pid_def)
  next
    case False
    define s2 where "s2 = s\<lparr>active_pids := (active_pids s)(\<lparr>pk_pid = pid, pk_pad = 0, pk_key = key\<rparr> := None),
        child_pids := (child_pids s)(pid := None)\<rparr>"
    have "s' = snd (submit_event K t EVENT_TYPE_EXIT (t_mntns_inum t) key 0 s2)"
      using rec False unfolding s'_def s2_def sched_process_exit_def Let_def mntns key_def [symmetric] pid_def [symmetric]
      by simp
    then show ?thesis
      using False submit.sent_or_counted [of K t EVENT_TYPE_EXIT "t_mntns_inum t" key 0 s2]
      by (auto simp: pid_def s2_def)
  qed
qed

text \<open>
  The end of a process. While other threads of the process run, or if the process was
  never reported under its key, nothing happens. Otherwise the process is removed from both
  maps, all other entries stay, and the exit is sent to the userspace or counted as lost.
\<close>

theorem sched_process_exit_spec:
  assumes "is_recording_cached s" "get_mntns C K t s \<noteq> 0"
  shows "let key = get_key C K t (t_mntns_inum t);
             active = \<lparr>pk_pid = current_pid t, pk_pad = 0, pk_key = key\<rparr>;
             s' = snd (sched_process_exit C K t s)
    in if t_signal_live t \<noteq> 0 \<or> active \<notin> dom (active_pids s) then s' = s
       else active_pids s' = (active_pids s)(active := None) \<and>
         child_pids s' = (child_pids s)(current_pid t := None) \<and>
         ((events s' = events s @ [wire_header \<lparr>ev_pid = current_pid t, ev_mntns = t_mntns_inum t, ev_key = key,
             ev_type = EVENT_TYPE_EXIT, ev_flags = 0\<rparr>] \<and> lost_events s' = lost_events s) \<or>
          (events s' = events s \<and> lost_events s' = lost_bump LOST_RINGBUF (t_cpu t) (lost_events s)))"
  unfolding Let_def domIff not_not by (rule exit_result [OF assms])

theorem sched_process_exit_spec_witness:
  "let active = \<lparr>pk_pid = 100, pk_pad = 0, pk_key = 700\<rparr>;
       s' = snd (sched_process_exit ref_config ref_kernel ref_task
              (recording_state\<lparr>active_pids := [active \<mapsto> 1], child_pids := [100 \<mapsto> True]\<rparr>))
   in active_pids s' = Map.empty \<and> child_pids s' = Map.empty"
proof -
  let ?s = "recording_state\<lparr>active_pids := [\<lparr>pk_pid = 100, pk_pad = 0, pk_key = 700\<rparr> \<mapsto> 1], child_pids := [100 \<mapsto> True]\<rparr>"
  have "is_recording_cached ?s" "get_mntns ref_config ref_kernel ref_task ?s \<noteq> 0"
    by (simp_all add: get_mntns_def ref_task_def recording_state_def init_state_def
        unique_keys_def ref_config_def has_filter_def)
  moreover have "current_pid ref_task = 100" "get_key ref_config ref_kernel ref_task (t_mntns_inum ref_task) = 700"
    "t_signal_live ref_task = 0"
    by (simp_all add: current_pid_def get_key_def ref_task_def ref_config_def)
  ultimately show ?thesis
    using sched_process_exit_spec [of ?s ref_config ref_kernel ref_task] by (simp add: Let_def)
qed

text \<open>
  A process that ends under a key it was not reported under, like one that has moved to
  another cgroup since its last syscall, stays in the map of tracked processes, and the next
  process that gets its number is taken for a descendant.
\<close>

theorem exit_under_new_key_keeps_tracking:
  assumes "is_recording_cached s" "current_pid t \<in> dom (child_pids s)"
    and "\<lparr>pk_pid = current_pid t, pk_pad = 0, pk_key = get_key C K t (t_mntns_inum t)\<rparr> \<notin> dom (active_pids s)"
  shows "current_pid t \<in> dom (child_pids (snd (sched_process_exit C K t s)))"
proof (cases "get_mntns C K t s = 0")
  case True
  then show ?thesis using assms(2) by (simp add: sched_process_exit_def)
next
  case False
  then show ?thesis using exit_result [OF assms(1) False] assms(2,3) by (simp add: domIff)
qed

theorem exit_under_new_key_keeps_tracking_witness:
  "100 \<in> dom (child_pids (snd (sched_process_exit ref_config ref_kernel ref_task
     (recording_state\<lparr>active_pids := [\<lparr>pk_pid = 100, pk_pad = 0, pk_key = 699\<rparr> \<mapsto> 1], child_pids := [100 \<mapsto> True]\<rparr>))))"
proof -
  have "current_pid ref_task = 100" "get_key ref_config ref_kernel ref_task (t_mntns_inum ref_task) = 700"
    by (simp_all add: current_pid_def get_key_def ref_task_def ref_config_def)
  then show ?thesis
    using exit_under_new_key_keeps_tracking [of "recording_state\<lparr>active_pids :=
        [\<lparr>pk_pid = 100, pk_pad = 0, pk_key = 699\<rparr> \<mapsto> 1], child_pids := [100 \<mapsto> True]\<rparr>" ref_task ref_config ref_kernel]
    by (simp add: recording_state_def)
qed

section \<open>Tracked processes\<close>

text \<open>
  The history of the processes: an exec with the thread group of the parent and the new name,
  and a fork with the thread groups of both tasks.
\<close>

datatype proc_event = Execd u32 u32 "u8 list" | Forked u32 u32

inductive named_or_descendant :: "config \<Rightarrow> proc_event set \<Rightarrow> u32 \<Rightarrow> bool" for C H where
  named: "Execd pid parent comm \<in> H \<Longrightarrow> cstr comm = take 15 (cstr (filter_name C)) \<Longrightarrow>
    named_or_descendant C H pid"
| execd: "Execd pid parent comm \<in> H \<Longrightarrow> named_or_descendant C H parent \<Longrightarrow> named_or_descendant C H pid"
| forked: "Forked parent pid \<in> H \<Longrightarrow> named_or_descendant C H parent \<Longrightarrow> named_or_descendant C H pid"

lemma named_or_descendant_mono:
  "named_or_descendant C H pid \<Longrightarrow> H \<subseteq> H' \<Longrightarrow> named_or_descendant C H' pid"
  by (induction rule: named_or_descendant.induct)
    (auto intro: named_or_descendant.named named_or_descendant.execd named_or_descendant.forked)

lemma child_added:
  "bpf_kernel K \<Longrightarrow> snd (upd_child_pids K m k v f) p = Some y \<Longrightarrow> m p = None \<Longrightarrow> p = k"
  using bpf_map.upd_ran [OF bpf_kernel.map_child_pids] by fastforce

text \<open>
  A run of the program next to the history. Between two process hooks the map may lose
  entries: by an exit, by an eviction, or by the userspace.
\<close>

inductive proc_trace :: "config \<Rightarrow> proc_event set \<Rightarrow> rstate \<Rightarrow> bool" for C where
  start: "child_pids s = Map.empty \<Longrightarrow> proc_trace C {} s"
| exec: "proc_trace C H s \<Longrightarrow> bpf_kernel K \<Longrightarrow> task_ok t \<Longrightarrow>
    proc_trace C (insert (Execd (current_pid t) (t_real_parent_tgid t) (t_comm t)) H) (snd (sched_process_exec C K t s))"
| fork: "proc_trace C H s \<Longrightarrow> bpf_kernel K \<Longrightarrow>
    proc_trace C (insert (Forked (fk_parent_tgid fk) (fk_child_tgid fk)) H) (snd (sched_process_fork C K fk s))"
| other: "proc_trace C H s \<Longrightarrow> child_pids s' \<subseteq>\<^sub>m child_pids s \<Longrightarrow> proc_trace C H s'"


abbreviation (input) nginx_config :: config where
  "nginx_config \<equiv> ref_config\<lparr>filter_name := pad MAX_COMM_LEN (bytes_of ''nginx'')\<rparr>"

abbreviation (input) nginx_task :: task where
  "nginx_task \<equiv> ref_task\<lparr>t_comm := pad TASK_COMM_LEN (bytes_of ''nginx'')\<rparr>"

lemma nginx_ok: "config_ok nginx_config" "task_ok nginx_task" "has_filter nginx_config"
  "matches_filter nginx_config (t_comm nginx_task)" "current_pid nginx_task = 100"
proof -
  have len: "length (bytes_of ''nginx'') = 5" and nz: "0 \<notin> set (bytes_of ''nginx'')"
    by (simp_all add: bytes_of_def)
  show C: "config_ok nginx_config" by (simp add: config_ok_def ref_config_def len)
  show t: "task_ok nginx_task" by (simp add: task_ok_def pad_def len)
  show "has_filter nginx_config" by (simp add: has_filter_def pad_def bytes_of_def)
  show "matches_filter nginx_config (t_comm nginx_task)"
    unfolding matches_filter_cstr [OF C t] by (simp add: cstr_pad [OF nz] len)
  show "current_pid nginx_task = 100" by (simp add: current_pid_def ref_task_def)
qed


text \<open>
  No descendant is missed. While recording with a program name, a process forked from a
  tracked one is tracked, a process that executes the program or has a tracked parent is
  tracked from its exec on, and no thread is ever added.
\<close>

theorem descendants_tracked:
  assumes lru: "bpf_lru_map (upd_child_pids K)"
    and rec: "is_recording_cached s" "has_filter C"
  shows "(fk_child_pid fk = fk_child_tgid fk \<longrightarrow> fk_parent_tgid fk \<in> dom (child_pids s) \<longrightarrow>
            fk_child_pid fk \<in> dom (child_pids (snd (sched_process_fork C K fk s)))) \<and>
     (fk_child_pid fk \<noteq> fk_child_tgid fk \<longrightarrow> snd (sched_process_fork C K fk s) = s) \<and>
     (t_real_parent_tgid t \<in> dom (child_pids s) \<or> matches_filter C (t_comm t) \<longrightarrow>
            current_pid t \<in> dom (child_pids (snd (sched_process_exec C K t s))))"
proof -
  have "k \<in> dom (snd (upd_child_pids K m k v f))" for m k v f
    using bpf_lru_map.present_after [OF lru] by (simp add: domIff)
  then show ?thesis using rec by (auto simp: sched_process_fork_def sched_process_exec_def Let_def)
qed

theorem descendants_tracked_witness:
  "200 \<in> dom (child_pids (snd (sched_process_fork nginx_config ref_kernel
      \<lparr>fk_parent_tgid = 100, fk_child_pid = 200, fk_child_tgid = 200\<rparr> (recording_state\<lparr>child_pids := [100 \<mapsto> True]\<rparr>))))"
proof -
  have "bpf_lru_map (upd_child_pids ref_kernel)" by (simp add: ref_kernel_def lru.bpf_lru_map_axioms)
  then show ?thesis
    using descendants_tracked [OF _ _ nginx_ok(3), of ref_kernel "recording_state\<lparr>child_pids := [100 \<mapsto> True]\<rparr>"
        "\<lparr>fk_parent_tgid = 100, fk_child_pid = 200, fk_child_tgid = 200\<rparr>"]
    by (simp add: recording_state_def)
qed

end
