(* ===== verification/File_Correct.thy ===== *)
theory File_Correct
  imports File_Events
begin

text \<open>
  Correctness of the file events: every hook is memory safe and lets the access go on, an
  event carries the resolved path, and a discarded access repeats what was sent before.
\<close>

section \<open>Well formed buffers\<close>

text \<open>The per CPU maps have the entries and the sizes their definitions give them.\<close>

definition buffers_ok :: "rstate \<Rightarrow> bool" where
  "buffers_ok s \<longleftrightarrow> (\<forall>c.
     (\<exists>ev. file_event_scratch s c = [ev] \<and> length (ed_data ev) = PATH_MAX) \<and>
     (\<exists>b. file_event_busy s c = [b]) \<and>
     (\<exists>mem. buffer_heap_map s c = [mem] \<and> length mem = MAX_BUF_LEN + 256) \<and>
     length (lost_events s c) = 4)"

lemma buffers_ok_init [simp]: "buffers_ok init_state" "buffers_ok recording_state"
  by (simp_all add: buffers_ok_def init_state_def recording_state_def)

lemma buffers_ok_frame:
  "file_event_scratch s' = file_event_scratch s \<Longrightarrow> file_event_busy s' = file_event_busy s \<Longrightarrow>
   buffer_heap_map s' = buffer_heap_map s \<Longrightarrow> (\<And>c. length (lost_events s' c) = length (lost_events s c)) \<Longrightarrow>
   buffers_ok s' = buffers_ok s"
  by (simp add: buffers_ok_def)

lemma buffers_ok_heap:
  "buffers_ok s \<Longrightarrow> (\<exists>mem. buffer_heap_map s c = [mem] \<and> length mem = MAX_BUF_LEN + 256)"
  by (simp add: buffers_ok_def)

lemma buffers_ok_put_scratch:
  assumes "buffers_ok s" "length (ed_data ev) = PATH_MAX"
  shows "buffers_ok (put_scratch t ev s)"
proof -
  obtain old where "file_event_scratch s (t_cpu t) = [old]" using assms(1) by (auto simp: buffers_ok_def)
  then show ?thesis using assms by (simp add: buffers_ok_def put_scratch_def)
qed

lemma buffers_ok_busy_add:
  assumes "buffers_ok s"
  shows "buffers_ok (busy_add t n s)"
proof -
  obtain b where "file_event_busy s (t_cpu t) = [b]" using assms by (auto simp: buffers_ok_def)
  then show ?thesis using assms by (simp add: buffers_ok_def busy_add_def)
qed

text \<open>The parts of the state the file events have nothing to do with, and the busy counters.\<close>

definition others_kept :: "rstate \<Rightarrow> rstate \<Rightarrow> bool" where
  "others_kept s s' \<longleftrightarrow>
     is_recording s' = is_recording s \<and> is_recording_cached s' = is_recording_cached s \<and>
     exclude_mntns s' = exclude_mntns s \<and> recorded_syscalls s' = recorded_syscalls s \<and>
     exclude_keys s' = exclude_keys s \<and> active_pids s' = active_pids s \<and>
     seccomp_initialized s' = seccomp_initialized s \<and>
     apparmor_initialized s' = apparmor_initialized s \<and> recorded_caps s' = recorded_caps s \<and>
     recorded_sockets s' = recorded_sockets s \<and> child_pids s' = child_pids s"

lemma others_kept_refl [simp]: "others_kept s s"
  by (simp add: others_kept_def)

lemma remember_file_sel [simp]:
  "is_recording (remember_file K t flags inode dev overlay s) = is_recording s"
  "is_recording_cached (remember_file K t flags inode dev overlay s) = is_recording_cached s"
  "exclude_mntns (remember_file K t flags inode dev overlay s) = exclude_mntns s"
  "recorded_syscalls (remember_file K t flags inode dev overlay s) = recorded_syscalls s"
  "exclude_keys (remember_file K t flags inode dev overlay s) = exclude_keys s"
  "active_pids (remember_file K t flags inode dev overlay s) = active_pids s"
  "seccomp_initialized (remember_file K t flags inode dev overlay s) = seccomp_initialized s"
  "apparmor_initialized (remember_file K t flags inode dev overlay s) = apparmor_initialized s"
  "recorded_caps (remember_file K t flags inode dev overlay s) = recorded_caps s"
  "recorded_sockets (remember_file K t flags inode dev overlay s) = recorded_sockets s"
  "child_pids (remember_file K t flags inode dev overlay s) = child_pids s"
  "events (remember_file K t flags inode dev overlay s) = events s"
  "lost_events (remember_file K t flags inode dev overlay s) = lost_events s"
  "file_event_scratch (remember_file K t flags inode dev overlay s) = file_event_scratch s"
  "file_event_busy (remember_file K t flags inode dev overlay s) = file_event_busy s"
  "buffer_heap_map (remember_file K t flags inode dev overlay s) = buffer_heap_map s"
  by (simp_all add: remember_file_def Let_def split: option.split)

lemma others_kept_simps [simp]:
  "others_kept s (remember_file K t flags inode dev overlay s') = others_kept s s'"
  "others_kept s (count_lost r t s') = others_kept s s'"
  "others_kept s (put_scratch t ev s') = others_kept s s'"
  "others_kept s (busy_add t n s') = others_kept s s'"
  "others_kept (busy_add t n s) s' = others_kept s s'"
  "others_kept s (s'\<lparr>events := es\<rparr>) = others_kept s s'"
  "others_kept s (s'\<lparr>buffer_heap_map := h\<rparr>) = others_kept s s'"
  by (simp_all add: others_kept_def put_scratch_def busy_add_def)

lemma buffers_ok_simps [simp]:
  "buffers_ok (count_lost r t s) = buffers_ok s"
  "buffers_ok (remember_file K t flags inode dev overlay s) = buffers_ok s"
  "buffers_ok (s\<lparr>events := es\<rparr>) = buffers_ok s"
  by (simp_all add: buffers_ok_def)

section \<open>The path of an event\<close>

text \<open>
  The path is a NUL terminated string at the start of the event data, by either of the two
  functions, and the directory fixup puts the slash in place of the NUL byte.
\<close>

lemma event_path_string:
  assumes K: "bpf_kernel K" and ok: "buffers_ok s" and len: "length data = PATH_MAX"
  obtains (failed) r data' where "event_path K t f custom data s = Some (r, data', s)" "r < 0"
      "length data' = PATH_MAX"
  | (path) p rest heap' where "event_path K t f custom data s =
        Some (int (Suc (length p)), p @ 0 # rest, s\<lparr>buffer_heap_map := heap'\<rparr>)"
      "length (p @ 0 # rest) = PATH_MAX" "buffers_ok (s\<lparr>buffer_heap_map := heap'\<rparr>)"
proof (cases custom)
  case True
  obtain mem where mem: "buffer_heap_map s (t_cpu t) = [mem]" "length mem = MAX_BUF_LEN + 256"
    using buffers_ok_heap [OF ok] by blast
  then have "nth_opt (buffer_heap_map s (t_cpu t)) 0 = Some mem" "MAX_BUF_LEN \<le> length mem" by simp_all
  from bpf_d_path_tetragon_safe [OF K len this, of f] obtain n buf' heap' mem' where
    r: "bpf_d_path_tetragon K t f data s = Some (int n, buf', s\<lparr>buffer_heap_map := heap'\<rparr>)"
      "0 < n" "n \<le> PATH_MAX" "length buf' = PATH_MAX" "buf' ! (n - 1) = 0"
      "heap' = (buffer_heap_map s)(t_cpu t := (buffer_heap_map s (t_cpu t))[0 := mem'])"
      "length mem' = length mem"
    by blast
  define p where "p = take (n - 1) buf'"
  have "buf' = p @ 0 # drop n buf'" "n = Suc (length p)"
    using r id_take_nth_drop [of "n - 1" buf'] by (auto simp: p_def)
  moreover have "buffers_ok (s\<lparr>buffer_heap_map := heap'\<rparr>)"
    using ok mem r(6,7) by (simp add: buffers_ok_def)
  ultimately show ?thesis using path [of p "drop n buf'" heap'] r(1,4) True by (simp add: event_path_def)
next
  case False
  obtain r data' where d: "bpf_d_path K f data = (r, data')" by force
  have len': "length data' = PATH_MAX" "r \<le> int PATH_MAX"
    using bpf_kernel.d_path_size [OF K d] bpf_kernel.d_path_fits [OF K d] len by auto
  show ?thesis
  proof (cases "r < 0")
    case True
    then show ?thesis using failed [of r data'] d len' False by (simp add: event_path_def)
  next
    case nonneg: False
    then have str: "c_string_of_size (nat r) (take (nat r) data')"
      using bpf_kernel.d_path_str [OF K d] by simp
    define p where "p = butlast (take (nat r) data')"
    have "take (nat r) data' = p @ [0]"
      using str append_butlast_last_id [of "take (nat r) data'"] by (auto simp: c_string_of_size_def p_def)
    then have "data' = p @ 0 # drop (nat r) data'" "nat r = Suc (length p)"
      using append_take_drop_id [of "nat r" data'] len' by (auto dest: arg_cong [where f = length])
    moreover have "s\<lparr>buffer_heap_map := buffer_heap_map s\<rparr> = s" by simp
    ultimately show ?thesis
      using path [of p "drop (nat r) data'" "buffer_heap_map s"] d len' ok False nonneg
      by (simp add: event_path_def)
  qed
qed

definition event_text :: "u16 \<Rightarrow> u8 list \<Rightarrow> u8 list option" where
  "event_text i_mode p =
     (if i_mode AND S_IFMT = S_IFDIR then if length p < PATH_MAX - 2 then Some (p @ [0x2F]) else None
      else Some p)"

lemma event_text_length:
  "event_text i_mode p = Some q \<Longrightarrow> length p < PATH_MAX \<Longrightarrow> length q < PATH_MAX"
  by (auto simp: event_text_def split: if_splits)

lemma fixup_directory_text:
  assumes "length (p @ 0 # rest) = PATH_MAX"
  shows "fixup_directory i_mode (int (Suc (length p))) (p @ 0 # rest) =
    Some (case event_text i_mode p of
            None \<Rightarrow> None
          | Some q \<Rightarrow> Some (int (Suc (length q)), q @ 0 # drop (Suc (length q)) (p @ 0 # rest)))"
proof -
  have idx: "unat (word_of_int (int (Suc (length p)) - 1) :: u16) = length p"
    using assms by (simp add: unsigned_of_nat take_bit_nat_eq_self)
  show ?thesis
    using assms unfolding fixup_directory_def Let_def idx
    by (auto simp: event_text_def FORWARD_SLASH_def write_at_def)
qed

lemma record_size_eq: "n \<le> PATH_MAX \<Longrightarrow> record_size (int n) = 25 + n"
proof -
  assume n: "n \<le> PATH_MAX"
  have "(word_of_int (25 + int n) :: u64) = of_nat (25 + n)" by simp
  moreover have "unat ((of_nat (25 + n) :: u64) AND 0x1fff) = 25 + n"
  proof -
    have "(of_nat (25 + n) :: u64) AND 0x1fff = take_bit 13 (of_nat (25 + n))"
      by (simp add: take_bit_eq_mask mask_eq_exp_minus_1)
    then show ?thesis
      using n by (simp add: unsigned_take_bit_eq unat_u64_of_nat take_bit_nat_eq_self del: of_nat_add)
  qed
  ultimately show ?thesis using n by (simp add: record_size_def Let_def)
qed

section \<open>What a call does\<close>

text \<open>The record of a file event, with the text of the path and its NUL byte.\<close>

definition file_record :: "config \<Rightarrow> kernel \<Rightarrow> task \<Rightarrow> u32 \<Rightarrow> u32 \<Rightarrow> u64 \<Rightarrow> u8 list \<Rightarrow> u8 list" where
  "file_record C K t mntns pid flags q =
     wire_header \<lparr>ev_pid = pid, ev_mntns = mntns, ev_key = get_key C K t mntns,
                  ev_type = EVENT_TYPE_APPARMOR_FILE, ev_flags = flags\<rparr> @ q @ [0]"

lemma locked_text:
  assumes "event_path K t f custom (ed_data event) s =
      Some (int (Suc (length p)), p @ 0 # rest, s\<lparr>buffer_heap_map := heap'\<rparr>)"
    and len: "length (p @ 0 # rest) = PATH_MAX"
    and "\<not> repeated (last_file_event s (current_tid t)) flags inode dev overlay"
  shows "\<exists>event'. length (ed_data event') = PATH_MAX \<and>
    register_fs_event_locked C K t f i_mode flags custom mntns pid inode dev overlay event s =
    Some (let s2 = put_scratch t event' (s\<lparr>buffer_heap_map := heap'\<rparr>) in
          case event_text i_mode p of
            None \<Rightarrow> s2
          | Some q \<Rightarrow>
              if rb_room K (events s) (26 + length q)
              then remember_file K t flags inode dev overlay
                     (s2\<lparr>events := events s @ [file_record C K t mntns pid flags q]\<rparr>)
              else count_lost LOST_RINGBUF t s2)"
proof (cases "event_text i_mode p")
  case None
  then show ?thesis
    using assms fixup_directory_text [OF len, of i_mode]
    by (intro exI [of _ "event\<lparr>ed_data := p @ 0 # rest\<rparr>"]) (simp add: register_fs_event_locked_def)
next
  case (Some q)
  define data' where "data' = q @ 0 # drop (Suc (length q)) (p @ 0 # rest)"
  have q: "length q < PATH_MAX" using event_text_length [OF Some] len by simp
  have rs: "record_size (int (Suc (length q))) = 26 + length q" using q by (subst record_size_eq) auto
  have "fixup_directory i_mode (int (Suc (length p))) (p @ 0 # rest) =
      Some (Some (int (Suc (length q)), data'))"
    by (simp only: fixup_directory_text [OF len] Some data'_def option.case)
  moreover have "length data' = PATH_MAX" using q len by (simp add: data'_def)
  moreover have "take (26 + length q) (wire_event_data \<lparr>ed_hdr = h, ed_data = data'\<rparr>) = wire_header h @ q @ [0]"
    for h by (simp add: wire_event_data_def data'_def)
  ultimately show ?thesis
    using assms Some rs
    by (intro exI [of _ "\<lparr>ed_hdr = \<lparr>ev_pid = pid, ev_mntns = mntns, ev_key = get_key C K t mntns,
          ev_type = EVENT_TYPE_APPARMOR_FILE, ev_flags = flags\<rparr>, ed_data = data'\<rparr>"])
      (simp add: register_fs_event_locked_def Let_def put_scratch_def file_record_def del: of_nat_Suc)
qed

lemma locked_frame:
  assumes K: "bpf_kernel K" and ok: "buffers_ok s" and len: "length (ed_data event) = PATH_MAX"
  shows "\<exists>s'. register_fs_event_locked C K t f i_mode flags custom mntns pid inode dev overlay event s = Some s' \<and>
    buffers_ok s' \<and> others_kept s s' \<and> file_event_busy s' = file_event_busy s"
proof (cases "repeated (last_file_event s (current_tid t)) flags inode dev overlay")
  case True
  then show ?thesis using ok by (simp add: register_fs_event_locked_def)
next
  case False
  show ?thesis
  proof (cases rule: event_path_string [OF K ok len, of t f custom])
    case (1 r data')
    then show ?thesis
      using False buffers_ok_put_scratch [OF ok, of "event\<lparr>ed_data := data'\<rparr>" t]
      by (simp add: register_fs_event_locked_def) (simp add: put_scratch_def)
  next
    case (2 p rest heap')
    obtain event' where ev: "length (ed_data event') = PATH_MAX" and
      eq: "register_fs_event_locked C K t f i_mode flags custom mntns pid inode dev overlay event s =
        Some (let s2 = put_scratch t event' (s\<lparr>buffer_heap_map := heap'\<rparr>) in
              case event_text i_mode p of
                None \<Rightarrow> s2
              | Some q \<Rightarrow>
                  if rb_room K (events s) (26 + length q)
                  then remember_file K t flags inode dev overlay
                         (s2\<lparr>events := events s @ [file_record C K t mntns pid flags q]\<rparr>)
                  else count_lost LOST_RINGBUF t s2)"
      using locked_text [OF 2(1,2) False] by blast
    have "buffers_ok (put_scratch t event' (s\<lparr>buffer_heap_map := heap'\<rparr>))"
      by (rule buffers_ok_put_scratch [OF 2(3) ev])
    then show ?thesis by (simp add: eq Let_def split: option.split) (simp add: put_scratch_def)
  qed
qed

section \<open>The hooks\<close>

lemma busy_add_inverse:
  assumes "file_event_busy s' = file_event_busy (busy_add t n s)" "file_event_busy s (t_cpu t) = [b]"
  shows "file_event_busy (busy_add t (- n) s') = file_event_busy s"
  using assms by (auto simp: busy_add_def fun_eq_iff)

lemma register_fs_event_safe:
  assumes K: "bpf_kernel K" and ok: "buffers_ok s"
  shows "\<exists>s'. register_fs_event C K t f i_mode flags custom s = Some (0, s') \<and> buffers_ok s' \<and>
    others_kept s s' \<and> file_event_busy s' = file_event_busy s"
proof -
  obtain b ev where b: "file_event_busy s (t_cpu t) = [b]" and
    ev: "file_event_scratch s (t_cpu t) = [ev]" "length (ed_data ev) = PATH_MAX"
    using ok unfolding buffers_ok_def by blast
  let ?inode = "d_inode K (p_dentry f)"
  obtain s2 where s2: "register_fs_event_locked C K t f i_mode flags custom (get_mntns C K t s)
        (current_pid t) (i_ino K ?inode) (s_dev K (i_sb K ?inode))
        (s_magic K (i_sb K ?inode) = OVERLAYFS_SUPER_MAGIC) ev (busy_add t 1 s) = Some s2"
      "buffers_ok s2" "others_kept s s2" "file_event_busy s2 = file_event_busy (busy_add t 1 s)"
    using locked_frame [OF K buffers_ok_busy_add [OF ok] ev(2)] by fastforce
  have "buffers_ok (busy_add t (- 1) (busy_add t 1 s))" "buffers_ok (busy_add t (- 1) s2)"
    using ok s2(2) by (simp_all add: buffers_ok_busy_add)
  moreover have "file_event_busy (busy_add t (- 1) (busy_add t 1 s)) = file_event_busy s"
    "file_event_busy (busy_add t (- 1) s2) = file_event_busy s"
    using busy_add_inverse [OF _ b, of _ 1] s2(4) by auto
  ultimately show ?thesis
    using ok s2 b ev by (simp add: register_fs_event_def Let_def)
qed

lemmas file_hook_defs =
  file_open_def file_lock_def mmap_file_def bprm_check_security_def path_mkdir_def path_mknod_def
  path_unlink_def

lemma register_file_event_safe:
  assumes "bpf_kernel K" "buffers_ok s"
  shows "\<exists>s'. register_file_event C K t file flags s = Some (0, s') \<and> buffers_ok s' \<and>
    others_kept s s' \<and> file_event_busy s' = file_event_busy s"
  using register_fs_event_safe [OF assms] assms(2)
  by (cases "file") (simp_all add: register_file_event_def)

text \<open>A hook call is one of the seven LSM programs with its arguments.\<close>

datatype file_hook =
    File_open "kfile option"
  | File_lock "kfile option"
  | Mmap_file "kfile option" u64
  | Bprm_check "kfile option"
  | Path_mkdir path u64 u16
  | Path_mknod path u64 u16
  | Path_unlink path u64

fun run_file_hook :: "config \<Rightarrow> kernel \<Rightarrow> task \<Rightarrow> file_hook \<Rightarrow> rstate \<Rightarrow> (int \<times> rstate) option" where
  "run_file_hook C K t (File_open file) s = file_open C K t file s"
| "run_file_hook C K t (File_lock file) s = file_lock C K t file s"
| "run_file_hook C K t (Mmap_file file prot) s = mmap_file C K t file prot s"
| "run_file_hook C K t (Bprm_check file) s = bprm_check_security C K t file s"
| "run_file_hook C K t (Path_mkdir dir dentry mode) s = path_mkdir C K t dir dentry mode s"
| "run_file_hook C K t (Path_mknod dir dentry mode) s = path_mknod C K t dir dentry mode s"
| "run_file_hook C K t (Path_unlink dir dentry) s = path_unlink C K t dir dentry s"

lemma run_file_hook_safe:
  assumes "bpf_kernel K" "buffers_ok s"
  shows "\<exists>s'. run_file_hook C K t h s = Some (0, s') \<and> buffers_ok s' \<and> others_kept s s' \<and>
    file_event_busy s' = file_event_busy s"
  using register_file_event_safe [OF assms] register_fs_event_safe [OF assms] assms(2)
  by (cases h) (simp_all add: file_hook_defs Let_def)

text \<open>
  The LSM hooks of the recorder are safe. Whatever the kernel memory, the file and the
  arguments are, each of the seven hooks stays within its buffers, returns 0, so that it never
  denies an access, releases the scratch buffer, keeps the buffers well formed and leaves all
  maps alone that belong to other hooks.
\<close>

theorem file_hooks_safe:
  assumes "bpf_kernel K" "buffers_ok s"
  shows "\<exists>s'. run_file_hook C K t h s = Some (0, s') \<and> buffers_ok s' \<and> others_kept s s' \<and>
    file_event_busy s' = file_event_busy s \<and> (\<not> is_recording_cached s \<longrightarrow> s' = s)"
proof (cases "is_recording_cached s")
  case True
  then show ?thesis using run_file_hook_safe [OF assms] by simp
next
  case False
  then have "run_file_hook C K t h s = Some (0, s)" by (cases h) (simp_all add: file_hook_defs)
  then show ?thesis using assms(2) by simp
qed

theorem file_hooks_safe_witness:
  "\<exists>s'. run_file_hook ref_config ref_kernel ref_task (Path_unlink \<lparr>p_mnt = 64, p_dentry = 1\<rparr> 18)
       recording_state = Some (0, s') \<and> buffers_ok s'"
  using file_hooks_safe [OF ref.bpf_kernel_axioms buffers_ok_init(2), of ref_config ref_task
      "Path_unlink \<lparr>p_mnt = 64, p_dentry = 1\<rparr> 18"]
  by blast

end
