(* ===== verification/File_Outcomes.thy ===== *)
theory File_Outcomes
  imports File_Correct
begin

text \<open>
  What a file access leaves behind: the event of \<open>register_fs_event\<close> in every case, the events
  of the path hooks as the userspace decodes them, and the accesses discarded as repeated over
  any history of the program.
\<close>

section \<open>The outcome of an access\<close>

definition fs_relevant :: "config \<Rightarrow> kernel \<Rightarrow> task \<Rightarrow> u16 \<Rightarrow> rstate \<Rightarrow> bool" where
  "fs_relevant C K t i_mode s \<longleftrightarrow>
     i_mode AND S_IFMT \<noteq> S_IFIFO \<and> get_mntns C K t s \<noteq> 0 \<and> file_event_busy s (t_cpu t) = [0]"

abbreviation (input) inode_of :: "kernel \<Rightarrow> path \<Rightarrow> u64" where
  "inode_of K f \<equiv> i_ino K (d_inode K (p_dentry f))"
abbreviation (input) dev_of :: "kernel \<Rightarrow> path \<Rightarrow> u32" where
  "dev_of K f \<equiv> s_dev K (i_sb K (d_inode K (p_dentry f)))"
abbreviation (input) overlay_of :: "kernel \<Rightarrow> path \<Rightarrow> bool" where
  "overlay_of K f \<equiv> s_magic K (i_sb K (d_inode K (p_dentry f))) = OVERLAYFS_SUPER_MAGIC"

definition is_repeat :: "kernel \<Rightarrow> task \<Rightarrow> path \<Rightarrow> u64 \<Rightarrow> rstate \<Rightarrow> bool" where
  "is_repeat K t f flags s =
     repeated (last_file_event s (current_tid t)) flags (inode_of K f) (dev_of K f) (overlay_of K f)"

text \<open>The text of the event, if there is one.\<close>

definition fs_text :: "kernel \<Rightarrow> task \<Rightarrow> path \<Rightarrow> u16 \<Rightarrow> bool \<Rightarrow> rstate \<Rightarrow> u8 list option" where
  "fs_text K t f i_mode custom s =
     (case event_path K t f custom (ed_data (file_event_scratch s (t_cpu t) ! 0)) s of
        None \<Rightarrow> None
      | Some (n, data, _) \<Rightarrow> if n < 0 then None else event_text i_mode (take (nat n - 1) data))"

lemma busy_add_sel [simp]:
  "events (busy_add t n s) = events s" "lost_events (busy_add t n s) = lost_events s"
  "last_file_event (busy_add t n s) = last_file_event s"
  "file_event_scratch (busy_add t n s) = file_event_scratch s"
  "buffer_heap_map (busy_add t n s) = buffer_heap_map s"
  by (simp_all add: busy_add_def)

lemma put_scratch_sel [simp]:
  "events (put_scratch t ev s) = events s" "lost_events (put_scratch t ev s) = lost_events s"
  "last_file_event (put_scratch t ev s) = last_file_event s"
  by (simp_all add: put_scratch_def)

lemma remember_file_last:
  "last_file_event s' = last_file_event s \<Longrightarrow>
     last_file_event (remember_file K t flags inode dev overlay s') =
     last_file_event (remember_file K t flags inode dev overlay s)"
  by (simp add: remember_file_def Let_def split: option.split)

lemma fs_text_busy [simp]: "fs_text K t f i_mode custom (busy_add t n s) = fs_text K t f i_mode custom s"
  unfolding fs_text_def event_path_def bpf_d_path_tetragon_def
  by (simp add: Let_def split: option.splits)

text \<open>
  The state \<open>s'\<close> after an attempt to send the text: sent as the record \<open>mk q\<close> and the access
  remembered, counted as lost, or without a text nothing at all.
\<close>

definition sends ::
  "kernel \<Rightarrow> task \<Rightarrow> (u8 list \<Rightarrow> u8 list) \<Rightarrow> (u32 \<rightharpoonup> file_event_state) \<Rightarrow> u8 list option \<Rightarrow> rstate \<Rightarrow> rstate \<Rightarrow> bool" where
  "sends K t mk remembered text s s' =
     (case text of
        None \<Rightarrow> events s' = events s \<and> lost_events s' = lost_events s \<and> last_file_event s' = last_file_event s
      | Some q \<Rightarrow>
          if rb_room K (events s) (26 + length q)
          then events s' = events s @ [mk q] \<and> lost_events s' = lost_events s \<and> last_file_event s' = remembered
          else events s' = events s \<and> lost_events s' = lost_bump LOST_RINGBUF (t_cpu t) (lost_events s) \<and>
            last_file_event s' = last_file_event s)"

lemma sends_cong:
  "sends K t mk rem text s1 s2 \<Longrightarrow> events s1 = events s \<Longrightarrow> lost_events s1 = lost_events s \<Longrightarrow>
   last_file_event s1 = last_file_event s \<Longrightarrow> events s2 = events s' \<Longrightarrow> lost_events s2 = lost_events s' \<Longrightarrow>
   last_file_event s2 = last_file_event s' \<Longrightarrow> sends K t mk rem text s s'"
  by (auto simp: sends_def split: option.splits)

lemma locked_outcome:
  assumes K: "bpf_kernel K" and ok: "buffers_ok s" and ev: "file_event_scratch s (t_cpu t) = [event]"
    and fresh: "\<not> repeated (last_file_event s (current_tid t)) flags inode dev overlay"
  shows "\<exists>s'. register_fs_event_locked C K t f i_mode flags custom mntns pid inode dev overlay event s = Some s' \<and>
    sends K t (file_record C K t mntns pid flags)
      (last_file_event (remember_file K t flags inode dev overlay s)) (fs_text K t f i_mode custom s) s s'"
proof -
  have len: "length (ed_data event) = PATH_MAX"
    using ok ev unfolding buffers_ok_def by (metis list.inject)
  show ?thesis
  proof (cases rule: event_path_string [OF K ok len, of t f custom])
    case (1 r data')
    then show ?thesis using fresh ev by (simp add: register_fs_event_locked_def fs_text_def sends_def)
  next
    case (2 p rest heap')
    have q: "fs_text K t f i_mode custom s = event_text i_mode p" using 2(1) ev by (simp add: fs_text_def)
    obtain event' where
      "register_fs_event_locked C K t f i_mode flags custom mntns pid inode dev overlay event s =
        Some (let s2 = put_scratch t event' (s\<lparr>buffer_heap_map := heap'\<rparr>) in
              case event_text i_mode p of
                None \<Rightarrow> s2
              | Some q \<Rightarrow>
                  if rb_room K (events s) (26 + length q)
                  then remember_file K t flags inode dev overlay
                         (s2\<lparr>events := events s @ [file_record C K t mntns pid flags q]\<rparr>)
                  else count_lost LOST_RINGBUF t s2)"
      using locked_text [OF 2(1,2) fresh] by blast
    then show ?thesis
      by (auto simp: q sends_def Let_def split: option.splits intro!: remember_file_last)
  qed
qed

lemma register_fs_event_outcome:
  assumes K: "bpf_kernel K" and ok: "buffers_ok s" and rel: "fs_relevant C K t i_mode s"
  shows "\<exists>s'. register_fs_event C K t f i_mode flags custom s = Some (0, s') \<and>
    (if is_repeat K t f flags s then s' = s
     else sends K t (file_record C K t (get_mntns C K t s) (current_pid t) flags)
       (last_file_event (remember_file K t flags (inode_of K f) (dev_of K f) (overlay_of K f) s))
       (fs_text K t f i_mode custom s) s s')"
proof -
  obtain ev where ev: "file_event_scratch s (t_cpu t) = [ev]" using ok unfolding buffers_ok_def by blast
  let ?lock = "register_fs_event_locked C K t f i_mode flags custom (get_mntns C K t s) (current_pid t)
      (inode_of K f) (dev_of K f) (overlay_of K f) ev (busy_add t 1 s)"
  have eq: "register_fs_event C K t f i_mode flags custom s = map_option (\<lambda>s2. (0, busy_add t (- 1) s2)) ?lock"
    using rel ev by (simp add: register_fs_event_def fs_relevant_def Let_def busy_add_def)
  show ?thesis
  proof (cases "is_repeat K t f flags s")
    case True
    have "(file_event_busy s)(t_cpu t := [0]) = file_event_busy s"
      using rel by (simp add: fs_relevant_def fun_upd_idem)
    then have "busy_add t (- 1) (busy_add t 1 s) = s" using rel by (simp add: busy_add_def fs_relevant_def)
    then show ?thesis using True eq by (simp add: is_repeat_def register_fs_event_locked_def)
  next
    case False
    have last: "last_file_event (remember_file K t flags (inode_of K f) (dev_of K f) (overlay_of K f) (busy_add t 1 s)) =
        last_file_event (remember_file K t flags (inode_of K f) (dev_of K f) (overlay_of K f) s)"
      by (rule remember_file_last) simp
    have "file_event_scratch (busy_add t 1 s) (t_cpu t) = [ev]"
      "\<not> repeated (last_file_event (busy_add t 1 s) (current_tid t)) flags (inode_of K f) (dev_of K f) (overlay_of K f)"
      using False ev by (simp_all add: is_repeat_def)
    from locked_outcome [OF K buffers_ok_busy_add [OF ok] this, of C f i_mode custom "get_mntns C K t s" "current_pid t"]
    obtain s2 where s2: "?lock = Some s2"
      "sends K t (file_record C K t (get_mntns C K t s) (current_pid t) flags)
       (last_file_event (remember_file K t flags (inode_of K f) (dev_of K f) (overlay_of K f) s))
       (fs_text K t f i_mode custom s) (busy_add t 1 s) s2"
      unfolding last fs_text_busy by blast
    from sends_cong [OF s2(2), of s "busy_add t (- 1) s2"] show ?thesis using eq False s2(1) by simp
  qed
qed

lemma remembered_repeats:
  assumes K: "bpf_kernel K" and inode: "inode_of K f \<noteq> 0"
    and last: "last_file_event s' =
      last_file_event (remember_file K t flags (inode_of K f) (dev_of K f) (overlay_of K f) s)"
    and tid: "current_tid t \<in> dom (last_file_event s) \<union> dom (last_file_event s')"
  shows "is_repeat K t f flags s'"
proof (cases "last_file_event s (current_tid t)")
  case None
  then obtain l where "last_file_event s' (current_tid t) = Some l" using tid by auto
  then show ?thesis
    using None inode last bpf_map.upd_ran [OF bpf_kernel.map_last_file_event [OF K]]
    by (fastforce simp: remember_file_def Let_def is_repeat_def repeated_def same_file_def)
next
  case (Some l)
  then show ?thesis
    using inode last
    by (simp add: remember_file_def Let_def is_repeat_def repeated_def same_file_def flip: or.assoc)
qed


lemma ref_relevant: "fs_relevant ref_config ref_kernel ref_task 0 recording_state"
  by (simp add: fs_relevant_def get_mntns_def ref_task_def recording_state_def init_state_def
      unique_keys_def ref_config_def has_filter_def)

lemma ref_fs_text: "fs_text ref_kernel ref_task f 0 False recording_state = Some [0x2F]"
  by (simp add: fs_text_def event_path_def ref_kernel_def recording_state_def init_state_def event_text_def)


section \<open>Repeated accesses over the history of the program\<close>

text \<open>
  A history of the program as far as the file events go, with the set of the accesses that
  were sent: thread, inode number and flags. Between two accesses anything may happen to the
  rest of the state, the kernel memory may change, and the LRU map may drop entries.
\<close>

inductive fs_trace :: "config \<Rightarrow> rstate \<Rightarrow> (u32 \<times> u64 \<times> u64) set \<Rightarrow> bool" for C where
  start: "last_file_event s = Map.empty \<Longrightarrow> fs_trace C s {}"
| access: "fs_trace C s G \<Longrightarrow> bpf_kernel K \<Longrightarrow> buffers_ok s \<Longrightarrow> fs_relevant C K t i_mode s \<Longrightarrow>
    register_fs_event C K t f i_mode flags custom s = Some (r, s') \<Longrightarrow>
    G' = (if events s' = events s then G else insert (current_tid t, inode_of K f, flags) G) \<Longrightarrow>
    fs_trace C s' G'"
| other: "fs_trace C s G \<Longrightarrow> last_file_event s' \<subseteq>\<^sub>m last_file_event s \<Longrightarrow> fs_trace C s' G"

text \<open>Every flag the map holds for a file was sent for it by the thread.\<close>

definition flags_sent :: "(u32 \<times> u64 \<times> u64) set \<Rightarrow> (u32 \<rightharpoonup> file_event_state) \<Rightarrow> bool" where
  "flags_sent G m \<longleftrightarrow> (\<forall>tid l n. m tid = Some l \<longrightarrow> bit (fe_flags l) n \<longrightarrow>
     (\<exists>fl. (tid, fe_inode l, fl) \<in> G \<and> bit fl n))"

lemma flags_sent_remember:
  assumes K: "bpf_kernel K" and G: "flags_sent G (last_file_event s)"
  shows "flags_sent (insert (current_tid t, inode, flags) G)
    (last_file_event (remember_file K t flags inode dev overlay s))"
proof -
  let ?tid = "current_tid t"
  have old: "\<exists>fl. (tid, fe_inode l, fl) \<in> insert (?tid, inode, flags) G \<and> bit fl n"
    if "last_file_event s tid = Some l" "bit (fe_flags l) n" for tid l n
    using G that unfolding flags_sent_def by blast
  show ?thesis
  proof (cases "last_file_event s ?tid")
    case None
    have "last_file_event s tid = Some l \<or> tid = ?tid \<and> fe_inode l = inode \<and> fe_flags l = flags"
      if "last_file_event (remember_file K t flags inode dev overlay s) tid = Some l" for tid l
      using that None bpf_map.upd_ran [OF bpf_kernel.map_last_file_event [OF K]]
      by (fastforce simp: remember_file_def Let_def split: if_splits)
    then show ?thesis using old unfolding flags_sent_def by blast
  next
    case (Some l0)
    have new: "last_file_event s tid = Some l \<or> tid = ?tid \<and> fe_inode l = inode \<and>
        (\<forall>n. bit (fe_flags l) n \<longrightarrow> bit flags n \<or> fe_inode l0 = inode \<and> bit (fe_flags l0) n)"
      if "last_file_event (remember_file K t flags inode dev overlay s) tid = Some l" for tid l
      using that Some
      by (auto simp: remember_file_def Let_def same_file_def bit_or_iff split: if_splits)
    show ?thesis unfolding flags_sent_def
    proof (intro allI impI)
      fix tid l n
      assume l: "last_file_event (remember_file K t flags inode dev overlay s) tid = Some l"
        and n: "bit (fe_flags l) n"
      consider "last_file_event s tid = Some l" | "tid = ?tid" "fe_inode l = inode" "bit flags n"
        | "tid = ?tid" "fe_inode l = fe_inode l0" "bit (fe_flags l0) n"
        using new [OF l] n by metis
      then show "\<exists>fl. (tid, fe_inode l, fl) \<in> insert (?tid, inode, flags) G \<and> bit fl n"
        by cases (use old [of tid l n] old [OF Some, of n] n in auto)
    qed
  qed
qed

lemma fs_trace_flags_sent: "fs_trace C s G \<Longrightarrow> flags_sent G (last_file_event s)"
proof (induction rule: fs_trace.induct)
  case (start s)
  then show ?case by (simp add: flags_sent_def)
next
  case (access s G K t i_mode f flags custom r s' G')
  have "flags_sent (insert (current_tid t, inode_of K f, flags) G)
      (last_file_event (remember_file K t flags (inode_of K f) (dev_of K f) (overlay_of K f) s))"
    by (rule flags_sent_remember [OF access.hyps(2) access.IH])
  then show ?case
    using register_fs_event_outcome [OF access.hyps(2-4), of f flags custom] access.hyps(5,6) access.IH
    by (cases "is_repeat K t f flags s") (auto simp: sends_def split: if_splits option.splits)
next
  case (other s G s')
  then show ?case unfolding flags_sent_def map_le_def by (metis domI)
qed



section \<open>The path hooks end to end\<close>

text \<open>
  \<^verbatim>\<open>fileDataToString\<close> of the userspace strips one NUL byte off the data of a file event.
\<close>

definition fileDataToString :: "u8 list \<Rightarrow> u8 list" where
  "fileDataToString data = (if data \<noteq> [] \<and> last data = 0 then butlast data else data)"

lemma fileDataToString_text [simp]: "fileDataToString (q @ [0]) = q"
  by (simp add: fileDataToString_def)

lemma fs_text_custom:
  assumes "bpf_kernel K" "names_ok (path_names K t f)" "buffers_ok s"
  shows "fs_text K t f i_mode True s = event_text i_mode (resolved_path K t f)"
proof -
  obtain ev mem where ev: "file_event_scratch s (t_cpu t) = [ev]" "length (ed_data ev) = PATH_MAX"
    and mem: "buffer_heap_map s (t_cpu t) = [mem]" "length mem = MAX_BUF_LEN + 256"
    using assms(3) unfolding buffers_ok_def by blast
  then have heap: "nth_opt (buffer_heap_map s (t_cpu t)) 0 = Some mem" "MAX_BUF_LEN \<le> length mem" by simp_all
  from bpf_d_path_tetragon_resolved [OF assms(1,2) ev(2) heap] show ?thesis
    using ev by (auto simp: fs_text_def event_path_def)
qed

text \<open>
  Creating a directory is recorded from end to end. For a new directory at \<open>ns\<close> below the
  root of the process, whose path is shorter than 4094 bytes, the ring buffer gets one record,
  and the userspace decodes it to a file event of the process and its key, with read and write
  access to the path with a slash at its end.
\<close>

theorem mkdir_recorded:
  assumes K: "bpf_kernel K" "names_ok ns" and ok: "buffers_ok s" "is_recording_cached s"
    and rel: "fs_relevant C K t (mode OR S_IFDIR) s" and dir: "mode AND S_IFMT = 0"
    and new: "inode_of K (make_path dentry dir) = 0" and linked: "\<not> d_unlinked K dentry"
    and res: "resolves K (t_fs_root t) k dentry (p_mnt dir) (real_mount K (p_mnt dir)) ns"
      "k < PROBE_CWD_READ_ITERATIONS" "ns \<noteq> []"
    and txt_eq: "text = concat (map (\<lambda>n. 0x2F # n) ns)" and len: "length text < PATH_MAX - 2"
    and room: "rb_room K (events s) (27 + length text)"
  shows "\<exists>s' rec ev. path_mkdir C K t dir dentry mode s = Some (0, s') \<and> events s' = events s @ [rec] \<and>
    unmarshal rec = Some ev \<and> Pid ev = current_pid t \<and> Mntns ev = t_mntns_inum t \<and>
    Key ev = get_key C K t (t_mntns_inum t) \<and> Type ev = EVENT_TYPE_APPARMOR_FILE \<and>
    Flags ev = FLAG_READ OR FLAG_WRITE \<and> fileDataToString (Data ev) = text @ [0x2F]"
proof -
  let ?f = "make_path dentry dir"
  have f: "p_dentry ?f = dentry" "p_mnt ?f = p_mnt dir" by (simp_all add: make_path_def)
  have names: "path_names K t ?f = rev ns" using path_names_resolves [of K t k ?f ns] res f by simp
  then have ok_names: "names_ok (path_names K t ?f)" using K(2) by simp
  from names have "resolved_path K t ?f = text"
    using res(3) len linked by (simp add: resolved_path_def path_text_def path_string_def path_suffix_def f txt_eq)
  moreover have "(mode OR S_IFDIR) AND S_IFMT = S_IFDIR"
  proof -
    have "(mode OR S_IFDIR) AND S_IFMT = (mode AND S_IFMT) OR (S_IFDIR AND S_IFMT)"
      by (rule bit.conj_disj_distrib2)
    then show ?thesis by (simp add: dir)
  qed
  ultimately have q: "fs_text K t ?f (mode OR S_IFDIR) True s = Some (text @ [0x2F])"
    using len by (simp add: fs_text_custom [OF K(1) ok_names ok(1)] event_text_def)
  have fresh: "\<not> is_repeat K t ?f (FLAG_READ OR FLAG_WRITE) s"
    using new by (simp add: is_repeat_def repeated_def same_file_def split: option.splits)
  have mntns: "get_mntns C K t s = t_mntns_inum t"
    using rel get_mntns_nonzero by (simp add: fs_relevant_def)
  from register_fs_event_outcome [OF K(1) ok(1) rel, of ?f "FLAG_READ OR FLAG_WRITE" True] q fresh
  obtain s' where "register_fs_event C K t ?f (mode OR S_IFDIR) (FLAG_READ OR FLAG_WRITE) True s = Some (0, s')"
    "events s' = events s @ [file_record C K t (t_mntns_inum t) (current_pid t) (FLAG_READ OR FLAG_WRITE) (text @ [0x2F])]"
    using room unfolding mntns by (auto simp: sends_def)
  then show ?thesis
    using ok(2) fileDataToString_text [of "text @ [0x2F]"]
    by (auto simp: path_mkdir_def file_record_def unmarshal_def)
qed

theorem mkdir_recorded_witness:
  "\<exists>s' rec ev. path_mkdir ref_config motd_kernel motd_task \<lparr>p_mnt = 64, p_dentry = 17\<rparr> 18 0x1ED recording_state
       = Some (0, s') \<and> events s' = events recording_state @ [rec] \<and> unmarshal rec = Some ev \<and>
     Key ev = 700 \<and> Flags ev = 3 \<and> fileDataToString (Data ev) = bytes_of ''/etc/motd/''"
proof -
  have m: "get_mntns ref_config motd_kernel motd_task recording_state = 7"
    by (simp add: get_mntns_def motd_task_def ref_task_def recording_state_def init_state_def
        unique_keys_def ref_config_def has_filter_def)
  have rel: "fs_relevant ref_config motd_kernel motd_task (0x1ED OR S_IFDIR) recording_state"
    by (simp add: fs_relevant_def m) (simp add: recording_state_def init_state_def)
  have "\<not> d_unlinked motd_kernel 18" "real_mount motd_kernel 64 = 32" "t_fs_root motd_task = \<lparr>p_mnt = 64, p_dentry = 16\<rparr>"
    "inode_of motd_kernel (make_path 18 \<lparr>p_mnt = 64, p_dentry = 17\<rparr>) = 0" "is_recording_cached recording_state"
    "rb_room motd_kernel (events recording_state) 36" "t_mntns_inum motd_task = 7" "get_key ref_config motd_kernel motd_task 7 = 700"
    by (simp_all add: d_unlinked_def d_unhashed_def hlist_bl_unhashed_def motd_kernel_def ref_kernel_def
        real_mount_def motd_task_def make_path_def recording_state_def init_state_def get_key_def ref_config_def ref_task_def)
  then show ?thesis
    using mkdir_recorded [OF motd_kernel_ok buffers_ok_init(2) _ rel, of 18 "\<lparr>p_mnt = 64, p_dentry = 17\<rparr>" 2
        "bytes_of ''/etc/motd''"] motd_resolves
    by (simp add: bytes_of_def) blast
qed

text \<open>
  A directory whose path has 4096 bytes or more is recorded as read and write access to
  the root directory: its path is dropped, and the slash for a directory is all that is left.
\<close>

theorem mkdir_long_path_recorded_as_root:
  assumes K: "bpf_kernel K" "names_ok (path_names K t (make_path dentry dir))" and ok: "buffers_ok s" "is_recording_cached s"
    and rel: "fs_relevant C K t (mode OR S_IFDIR) s" and dir: "mode AND S_IFMT = 0"
    and new: "inode_of K (make_path dentry dir) = 0"
    and long: "MAX_BUF_LEN \<le> length (path_text K t (make_path dentry dir))"
    and room: "rb_room K (events s) 27"
  shows "\<exists>s' rec ev. path_mkdir C K t dir dentry mode s = Some (0, s') \<and> events s' = events s @ [rec] \<and>
    unmarshal rec = Some ev \<and> Type ev = EVENT_TYPE_APPARMOR_FILE \<and>
    Flags ev = FLAG_READ OR FLAG_WRITE \<and> fileDataToString (Data ev) = [0x2F]"
proof -
  let ?f = "make_path dentry dir"
  have "(mode OR S_IFDIR) AND S_IFMT = (mode AND S_IFMT) OR (S_IFDIR AND S_IFMT)"
    by (rule bit.conj_disj_distrib2)
  then have q: "fs_text K t ?f (mode OR S_IFDIR) True s = Some [0x2F]"
    using long by (simp add: fs_text_custom [OF K ok(1)] event_text_def resolved_path_def dir)
  have fresh: "\<not> is_repeat K t ?f (FLAG_READ OR FLAG_WRITE) s"
    using new by (simp add: is_repeat_def repeated_def same_file_def split: option.splits)
  from register_fs_event_outcome [OF K(1) ok(1) rel, of ?f "FLAG_READ OR FLAG_WRITE" True] q fresh
  obtain s' where "register_fs_event C K t ?f (mode OR S_IFDIR) (FLAG_READ OR FLAG_WRITE) True s = Some (0, s')"
    "events s' = events s @ [file_record C K t (get_mntns C K t s) (current_pid t) (FLAG_READ OR FLAG_WRITE) [0x2F]]"
    using room by (auto simp: sends_def)
  then show ?thesis
    using ok(2) fileDataToString_text [of "[0x2F]"]
    by (auto simp: path_mkdir_def file_record_def unmarshal_def)
qed

theorem mkdir_long_path_recorded_as_root_witness:
  "\<exists>s' rec ev. path_mkdir ref_config deep_kernel (ref_task\<lparr>t_fs_root := \<lparr>p_mnt = 64, p_dentry = 0\<rparr>\<rparr>)
       \<lparr>p_mnt = 64, p_dentry = 16\<rparr> 17 0x1ED recording_state = Some (0, s') \<and>
     events s' = events recording_state @ [rec] \<and> unmarshal rec = Some ev \<and> fileDataToString (Data ev) = bytes_of ''/''"
proof -
  let ?t = "ref_task\<lparr>t_fs_root := \<lparr>p_mnt = 64, p_dentry = 0\<rparr>\<rparr>"
  have m: "get_mntns ref_config deep_kernel ?t recording_state = 7"
    by (simp add: get_mntns_def ref_task_def recording_state_def init_state_def
        unique_keys_def ref_config_def has_filter_def)
  have rel: "fs_relevant ref_config deep_kernel ?t (0x1ED OR S_IFDIR) recording_state"
    by (simp add: fs_relevant_def m) (simp add: recording_state_def init_state_def)
  have "inode_of deep_kernel (make_path 17 \<lparr>p_mnt = 64, p_dentry = 16\<rparr>) = 0" "is_recording_cached recording_state"
    "make_path 17 \<lparr>p_mnt = 64, p_dentry = 16\<rparr> = \<lparr>p_mnt = 64, p_dentry = 17\<rparr>"
    "rb_room deep_kernel (events recording_state) 27"
    by (simp_all add: deep_kernel_def ref_kernel_def make_path_def recording_state_def init_state_def)
  then show ?thesis
    using mkdir_long_path_recorded_as_root [OF deep_kernel_ok _ buffers_ok_init(2) _ rel, of 17 "\<lparr>p_mnt = 64, p_dentry = 16\<rparr>"]
      deep_path_long
    by (simp add: bytes_of_def) blast
qed

end
