(* ===== verification/Reports.thy ===== *)
theory Reports
  imports Events
begin

text \<open>
  Capabilities and sockets are reported once per key: \<^verbatim>\<open>already_recorded\<close> and \<^verbatim>\<open>report_again\<close>
  keep a bitmask per key, \<^verbatim>\<open>sys_enter_socket\<close> and \<^verbatim>\<open>cap_capable\<close> use them. The locale
  \<open>once_reporter\<close> is the contract between the two; \<^verbatim>\<open>socketUse\<close> of the userspace shows that
  the grouping of the sockets loses nothing.
\<close>

section \<open>Bitmasks\<close>

definition already_recorded ::
  "(u64, u64) map_update \<Rightarrow> (u64 \<rightharpoonup> u64) \<Rightarrow> u64 \<Rightarrow> u64 \<Rightarrow> bool \<times> (u64 \<rightharpoonup> u64)" where
  "already_recorded upd m key b =
     (case m key of
        Some w \<Rightarrow> (w AND b \<noteq> 0, m(key \<mapsto> w OR b))
      | None \<Rightarrow>
          (let m' = snd (upd m key 0 BPF_NOEXIST) in
           case m' key of
             None \<Rightarrow> (False, m')
           | Some w \<Rightarrow> (w AND b \<noteq> 0, m'(key \<mapsto> w OR b))))"

definition report_again :: "(u64 \<rightharpoonup> u64) \<Rightarrow> u64 \<Rightarrow> u64 \<Rightarrow> (u64 \<rightharpoonup> u64)" where
  "report_again m key b =
     (case m key of None \<Rightarrow> m | Some w \<Rightarrow> m(key \<mapsto> w AND NOT b))"

section \<open>Sockets\<close>

definition core_read_arg :: "syscall_trace_enter \<Rightarrow> nat \<Rightarrow> u64 option" where
  "core_read_arg ctx i = (if sc_readable ctx i then nth_opt (sc_args ctx) i else None)"

definition socket_group :: "u64 \<Rightarrow> u64" where
  "socket_group domain =
     (if domain = AF_UNIX then 0
      else if domain = AF_INET then 1
      else if domain = AF_INET6 then 2
      else 3)"

definition socket_shift :: "u64 \<Rightarrow> u64 \<Rightarrow> nat" where
  "socket_shift domain typ = unat (socket_group domain * 16 + (typ AND 0xf))"

definition socket_flags :: "u64 \<Rightarrow> u64 \<Rightarrow> u64" where
  "socket_flags domain typ = push_bit 32 domain OR (typ AND 0xffffffff)"

definition sys_enter_socket ::
  "config \<Rightarrow> kernel \<Rightarrow> task \<Rightarrow> syscall_trace_enter \<Rightarrow> rstate \<Rightarrow> int \<times> rstate" where
  "sys_enter_socket C K t ctx s =
     (if \<not> is_recording_cached s then (0, s)
      else let mntns = get_mntns C K t s in
        if mntns = 0 then (0, s)
        else case core_read_arg ctx 0 of
          None \<Rightarrow> (0, s)
        | Some domain \<Rightarrow>
          (case core_read_arg ctx 1 of
             None \<Rightarrow> (0, s)
           | Some typ \<Rightarrow>
             (let b = push_bit (socket_shift domain typ) 1;
                  key = get_key C K t mntns;
                  seen = already_recorded (upd_recorded_sockets K) (recorded_sockets s) key b;
                  s1 = s\<lparr>recorded_sockets := snd seen\<rparr>
              in if fst seen then (0, s1)
                 else let r = submit_event K t EVENT_TYPE_APPARMOR_SOCKET mntns key
                                (socket_flags domain typ) s1;
                          s2 = snd r
                      in if fst r \<noteq> 0
                         then (0, s2\<lparr>recorded_sockets :=
                                      report_again (recorded_sockets s2) key b\<rparr>)
                         else (0, s2))))"

section \<open>Capabilities\<close>

definition cap_capable ::
  "config \<Rightarrow> kernel \<Rightarrow> task \<Rightarrow> u64 \<Rightarrow> u64 \<Rightarrow> rstate \<Rightarrow> int \<times> rstate" where
  "cap_capable C K t cap cap_opt s =
     (if \<not> is_recording_cached s then (0, s)
      else let mntns = get_mntns C K t s in
        if mntns = 0 then (0, s)
        else if cap_opt AND CAP_OPT_NOAUDIT \<noteq> 0 then (0, s)
        else if is_container_init C K t then (0, s)
        else if cap \<ge> 64 then (0, s)
        else let b = push_bit (unat cap) 1;
                 key = get_key C K t mntns;
                 seen = already_recorded (upd_recorded_caps K) (recorded_caps s) key b;
                 s1 = s\<lparr>recorded_caps := snd seen\<rparr>
             in if fst seen then (0, s1)
                else let r = submit_event K t EVENT_TYPE_APPARMOR_CAP mntns key cap s1; s2 = snd r
                     in if fst r \<noteq> 0
                        then (0, s2\<lparr>recorded_caps := report_again (recorded_caps s2) key b\<rparr>)
                        else (0, s2))"

section \<open>The contract of the bitmasks\<close>

text \<open>
  \<open>reported m key n\<close>: the thing with number \<open>n\<close> was reported for \<open>key\<close> and is not to be
  reported again.
\<close>

definition reported :: "(u64 \<rightharpoonup> u64) \<Rightarrow> u64 \<Rightarrow> nat \<Rightarrow> bool" where
  "reported m key n \<longleftrightarrow> (\<exists>w. m key = Some w \<and> bit w n)"

locale once_reporter =
  fixes mark :: "(u64 \<rightharpoonup> u64) \<Rightarrow> u64 \<Rightarrow> u64 \<Rightarrow> bool \<times> (u64 \<rightharpoonup> u64)"
    and unmark :: "(u64 \<rightharpoonup> u64) \<Rightarrow> u64 \<Rightarrow> u64 \<Rightarrow> (u64 \<rightharpoonup> u64)"
  assumes mark_seen: "n < 64 \<Longrightarrow> fst (mark m k (push_bit n 1)) \<longleftrightarrow> reported m k n"
    and mark_again: "n < 64 \<Longrightarrow> reported m k n \<Longrightarrow> snd (mark m k (push_bit n 1)) = m"
    and mark_only: "n < 64 \<Longrightarrow> reported (snd (mark m k (push_bit n 1))) k' n' \<Longrightarrow>
      reported m k' n' \<or> (k' = k \<and> n' = n)"
    and unmark_gone: "n < 64 \<Longrightarrow> \<not> reported (unmark m k (push_bit n 1)) k n"
    and unmark_only: "n < 64 \<Longrightarrow> reported (unmark m k (push_bit n 1)) k' n' \<Longrightarrow> reported m k' n'"
    and unmark_others: "n < 64 \<Longrightarrow> k' \<noteq> k \<or> n' \<noteq> n \<Longrightarrow> reported m k' n' \<Longrightarrow>
      reported (unmark m k (push_bit n 1)) k' n'"
begin

text \<open>A report that got lost leaves at most the marks there were.\<close>

lemma lost_report:
  assumes "n < 64" "reported (unmark (snd (mark m k (push_bit n 1))) k (push_bit n 1)) k' n'"
  shows "reported m k' n' \<and> (k', n') \<noteq> (k, n)"
  using assms mark_only unmark_gone unmark_only by blast

end

lemma reported_upd: "reported (m(k \<mapsto> w)) k' n \<longleftrightarrow> (if k' = k then bit w n else reported m k' n)"
  by (simp add: reported_def)

lemma and_exp_bit: "(w :: u64) AND 2 ^ n = 0 \<longleftrightarrow> \<not> bit w n"
  using bit_iff_and_push_bit_not_eq_0 [of w n] by simp

lemma bit_exp_64: "bit (2 ^ n :: u64) i \<longleftrightarrow> i = n \<and> n < 64"
  by (auto simp: bit_exp_iff)

lemma or_exp_same: "bit (w :: u64) n \<Longrightarrow> w OR 2 ^ n = w"
  by (rule bit_word_eqI) (auto simp: bit_or_iff bit_exp_64)

lemmas exp_bits = and_exp_bit bit_exp_64 or_exp_same bit_or_iff bit_and_iff bit_not_iff

lemma mask_once_reporter:
  assumes "bpf_map upd"
  shows "once_reporter (already_recorded upd) report_again"
proof
  fix n :: nat and m k
  assume n: "n < 64"
  define m' where "m' = snd (upd m k 0 BPF_NOEXIST)"
  have new: "m' k' = Some x \<Longrightarrow> m k' = Some x \<or> k' = k \<and> x = 0" for k' x
    unfolding m'_def using bpf_map.upd_ran [OF assms] by blast
  have mark: "already_recorded upd m k (2 ^ n) =
      (if m k \<noteq> None then (reported m k n, m(k \<mapsto> the (m k) OR 2 ^ n))
       else if m' k = None then (False, m') else (False, m'(k \<mapsto> 2 ^ n)))"
    using new [of k] n
    by (auto simp: already_recorded_def m'_def reported_def Let_def exp_bits split: option.splits)
  show "fst (already_recorded upd m k (push_bit n 1)) \<longleftrightarrow> reported m k n"
    by (auto simp: mark reported_def)
  show "snd (already_recorded upd m k (push_bit n 1)) = m" if "reported m k n"
    using that by (auto simp: mark reported_def exp_bits)
  show "reported m k' n' \<or> (k' = k \<and> n' = n)"
    if "reported (snd (already_recorded upd m k (push_bit n 1))) k' n'" for k' n'
    using that new [of k']
    by (auto simp: mark reported_def exp_bits split: if_splits)
next
  fix n :: nat and m k
  assume n: "n < 64"
  show "\<not> reported (report_again m k (push_bit n 1)) k n"
    using n by (auto simp: report_again_def reported_def exp_bits
        split: option.splits)
  show "reported m k' n'" if "reported (report_again m k (push_bit n 1)) k' n'" for k' n'
    using that by (auto simp: report_again_def reported_def exp_bits split: option.splits if_splits)
  show "reported (report_again m k (push_bit n 1)) k' n'"
    if "k' \<noteq> k \<or> n' \<noteq> n" "reported m k' n'" for k' n'
    using that by (auto simp: report_again_def reported_def exp_bits
        bit_imp_le_length split: option.splits dest: bit_imp_le_length)
qed

sublocale bpf_kernel \<subseteq> caps_once: once_reporter "already_recorded (upd_recorded_caps K)" report_again
  by (rule mask_once_reporter [OF map_recorded_caps])

sublocale bpf_kernel \<subseteq> sockets_once: once_reporter "already_recorded (upd_recorded_sockets K)" report_again
  by (rule mask_once_reporter [OF map_recorded_sockets])

section \<open>Capabilities are reported once\<close>

text \<open>The checks \<open>cap_capable\<close> acts on, and what it does to the state then.\<close>

definition cap_relevant :: "config \<Rightarrow> kernel \<Rightarrow> task \<Rightarrow> u64 \<Rightarrow> u64 \<Rightarrow> rstate \<Rightarrow> bool" where
  "cap_relevant C K t cap cap_opt s \<longleftrightarrow>
     is_recording_cached s \<and> get_mntns C K t s \<noteq> 0 \<and> cap_opt AND CAP_OPT_NOAUDIT = 0 \<and>
     \<not> is_container_init C K t \<and> cap < 64"

abbreviation (input) cap_event :: "task \<Rightarrow> u32 \<Rightarrow> u64 \<Rightarrow> u64 \<Rightarrow> u8 list" where
  "cap_event t mntns key cap \<equiv>
     wire_header \<lparr>ev_pid = current_pid t, ev_mntns = mntns, ev_key = key,
                  ev_type = EVENT_TYPE_APPARMOR_CAP, ev_flags = cap\<rparr>"

lemma cap_capable_irrelevant:
  "\<not> cap_relevant C K t cap cap_opt s \<Longrightarrow> cap_capable C K t cap cap_opt s = (0, s)"
  by (auto simp: cap_relevant_def cap_capable_def Let_def not_less)

lemma cap_relevant_64: "cap_relevant C K t cap cap_opt s \<Longrightarrow> unat cap < 64"
  by (simp add: cap_relevant_def word_less_nat_alt)

context bpf_kernel
begin

lemma cap_capable_relevant:
  assumes "cap_relevant C K t cap cap_opt s"
  defines "key \<equiv> get_key C K t (get_mntns C K t s)"
  defines "m \<equiv> snd (already_recorded (upd_recorded_caps K) (recorded_caps s) key (push_bit (unat cap) 1))"
  shows "cap_capable C K t cap cap_opt s =
    (0, if reported (recorded_caps s) key (unat cap) then s
        else if rb_room K (events s) sizeof_event_header
        then s\<lparr>recorded_caps := m,
               events := events s @ [cap_event t (get_mntns C K t s) key cap]\<rparr>
        else s\<lparr>recorded_caps := report_again m key (push_bit (unat cap) 1),
               lost_events := lost_bump LOST_RINGBUF (t_cpu t) (lost_events s)\<rparr>)"
proof -
  note n = cap_relevant_64 [OF assms(1)]
  let ?r = "already_recorded (upd_recorded_caps K) (recorded_caps s) key (push_bit (unat cap) 1)"
  have seen: "fst ?r \<longleftrightarrow> reported (recorded_caps s) key (unat cap)"
    by (rule caps_once.mark_seen [OF n])
  have rel: "is_recording_cached s" "get_mntns C K t s \<noteq> 0" "\<not> (cap_opt AND CAP_OPT_NOAUDIT \<noteq> 0)"
    "\<not> is_container_init C K t" "\<not> cap \<ge> 64"
    using assms(1) by (auto simp: cap_relevant_def)
  have same: "m = recorded_caps s" if "reported (recorded_caps s) key (unat cap)"
    unfolding m_def using that by (rule caps_once.mark_again [OF n])
  show ?thesis
    by (simp only: cap_capable_def Let_def rel if_True if_False not_True_eq_False key_def [symmetric]
        seen m_def [symmetric])
      (auto simp: same submit_event_sent submit_event_lost count_lost_eq)
qed

text \<open>Which marks there are after a check, in terms of the marks before.\<close>

lemma cap_capable_marks:
  assumes "reported (recorded_caps (snd (cap_capable C K t cap cap_opt s))) k n"
  shows "reported (recorded_caps s) k n \<or>
    (cap_relevant C K t cap cap_opt s \<and> rb_room K (events s) sizeof_event_header \<and>
     k = get_key C K t (get_mntns C K t s) \<and> n = unat cap)"
proof (cases "cap_relevant C K t cap cap_opt s")
  case False
  then show ?thesis using assms by (simp add: cap_capable_irrelevant)
next
  case True
  note n = cap_relevant_64 [OF True] and eq = cap_capable_relevant [OF True]
  let ?key = "get_key C K t (get_mntns C K t s)"
  consider (known) "reported (recorded_caps s) ?key (unat cap)"
    | (sent) "\<not> reported (recorded_caps s) ?key (unat cap)" "rb_room K (events s) sizeof_event_header"
    | (lost) "\<not> reported (recorded_caps s) ?key (unat cap)" "\<not> rb_room K (events s) sizeof_event_header"
    by blast
  then show ?thesis
  proof cases
    case known
    then show ?thesis using assms by (simp add: eq)
  next
    case sent
    then show ?thesis using caps_once.mark_only [OF n, of "recorded_caps s" ?key k n] assms True
      by (simp add: eq)
  next
    case lost
    then show ?thesis using caps_once.lost_report [OF n, of "recorded_caps s" ?key k n] assms
      by (simp add: eq)
  qed
qed

end

text \<open>
  The check of a capability by a recorded workload: a capability reported before changes
  nothing; a new one is sent, and no other one gets marked as reported; if the ring buffer has
  no room the loss is counted and the capability stays unmarked, so that its next use is
  reported.
\<close>

theorem cap_capable_spec:
  assumes "bpf_kernel K" "cap_relevant C K t cap cap_opt s"
  shows "let s' = snd (cap_capable C K t cap cap_opt s);
       mntns = get_mntns C K t s; key = get_key C K t mntns
     in if reported (recorded_caps s) key (unat cap) then s' = s
        else if rb_room K (events s) sizeof_event_header
        then events s' = events s @ [cap_event t mntns key cap] \<and> lost_events s' = lost_events s \<and>
          (\<forall>k n. reported (recorded_caps s') k n \<longrightarrow>
             reported (recorded_caps s) k n \<or> (k, n) = (key, unat cap))
        else events s' = events s \<and>
          lost_events s' = lost_bump LOST_RINGBUF (t_cpu t) (lost_events s) \<and>
          \<not> reported (recorded_caps s') key (unat cap) \<and>
          (\<forall>k n. reported (recorded_caps s') k n \<longrightarrow> reported (recorded_caps s) k n)"
proof -
  note eq = bpf_kernel.cap_capable_relevant [OF assms]
    and marks = bpf_kernel.cap_capable_marks [OF assms(1), of C t cap cap_opt s]
    and gone = once_reporter.unmark_gone [OF mask_once_reporter [OF bpf_kernel.map_recorded_caps
          [OF assms(1)]], OF cap_relevant_64 [OF assms(2)]]
  have "\<forall>k n. reported (recorded_caps (snd (cap_capable C K t cap cap_opt s))) k n \<longrightarrow>
      reported (recorded_caps s) k n \<or> (rb_room K (events s) sizeof_event_header \<and>
        (k, n) = (get_key C K t (get_mntns C K t s), unat cap))"
    using marks by blast
  then show ?thesis
    using gone by (cases "reported (recorded_caps s) (get_key C K t (get_mntns C K t s)) (unat cap)";
        cases "rb_room K (events s) sizeof_event_header") (simp_all add: Let_def eq)
qed

theorem cap_capable_spec_witness:
  "let s' = snd (cap_capable ref_config ref_kernel ref_task 21 0 recording_state)
   in cap_relevant ref_config ref_kernel ref_task 21 0 recording_state \<and> length (events s') = 1"
proof -
  have r: "cap_relevant ref_config ref_kernel ref_task 21 0 recording_state"
    by (simp add: cap_relevant_def recording_state_def init_state_def get_mntns_def ref_task_def
        unique_keys_def ref_config_def has_filter_def is_container_init_def is_number_def Let_def upt_conv_Cons)
  have "\<not> reported (recorded_caps recording_state) k n" for k n
    by (simp add: reported_def recording_state_def init_state_def)
  moreover have "rb_room ref_kernel (events recording_state) sizeof_event_header"
    by (simp add: ref_kernel_def recording_state_def init_state_def)
  ultimately show ?thesis
    using cap_capable_spec [OF ref.bpf_kernel_axioms r] r
    by (simp add: Let_def recording_state_def init_state_def)
qed

section \<open>Sockets are reported once per kind\<close>

lemma socket_group_less: "unat (socket_group d) < 4"
  by (simp add: socket_group_def)

lemma socket_shift_eq: "socket_shift d t = unat (socket_group d) * 16 + unat (t AND 0xf)"
proof -
  have a: "unat (t AND 0xf) < 16" by (rule unat_and_mask_less)
  have "unat (socket_group d * 16) = unat (socket_group d) * 16"
    using socket_group_less [of d] by (simp add: unat_word_ariths)
  moreover have "unat (socket_group d) * 16 + unat (t AND 0xf) < 2 ^ 64"
    using a socket_group_less [of d] by simp
  ultimately show ?thesis
    by (simp add: socket_shift_def unat_word_ariths)
qed

lemma socket_shift_64: "socket_shift d t < 64"
  using socket_group_less [of d] unat_and_mask_less [of t] by (simp add: socket_shift_eq)

lemma socket_shift_inject:
  "socket_shift d t = socket_shift d' t' \<longleftrightarrow>
     socket_group d = socket_group d' \<and> t AND 0xf = t' AND 0xf"
proof
  assume eq: "socket_shift d t = socket_shift d' t'"
  have "socket_shift d t div 16 = unat (socket_group d)" "socket_shift d t mod 16 = unat (t AND 0xf)"
    for d t
    using unat_and_mask_less [of t] by (simp_all add: socket_shift_eq)
  with eq show "socket_group d = socket_group d' \<and> t AND 0xf = t' AND 0xf"
    by (metis word_unat_eq_iff)
qed (simp add: socket_shift_eq)

text \<open>The calls \<open>sys_enter_socket\<close> acts on, and what it does to the state then.\<close>

definition socket_relevant ::
  "config \<Rightarrow> kernel \<Rightarrow> task \<Rightarrow> syscall_trace_enter \<Rightarrow> rstate \<Rightarrow> (u64 \<times> u64) option" where
  "socket_relevant C K t ctx s =
     (if is_recording_cached s \<and> get_mntns C K t s \<noteq> 0
      then case (core_read_arg ctx 0, core_read_arg ctx 1) of
             (Some domain, Some typ) \<Rightarrow> Some (domain, typ) | _ \<Rightarrow> None
      else None)"

abbreviation (input) socket_event :: "task \<Rightarrow> u32 \<Rightarrow> u64 \<Rightarrow> u64 \<Rightarrow> u64 \<Rightarrow> u8 list" where
  "socket_event t mntns key domain typ \<equiv>
     wire_header \<lparr>ev_pid = current_pid t, ev_mntns = mntns, ev_key = key,
                  ev_type = EVENT_TYPE_APPARMOR_SOCKET, ev_flags = socket_flags domain typ\<rparr>"

lemma sys_enter_socket_irrelevant:
  "socket_relevant C K t ctx s = None \<Longrightarrow> sys_enter_socket C K t ctx s = (0, s)"
  by (cases "is_recording_cached s"; cases "get_mntns C K t s = 0"; cases "core_read_arg ctx 0";
      cases "core_read_arg ctx 1")
    (simp_all add: socket_relevant_def sys_enter_socket_def del: One_nat_def)

context bpf_kernel
begin

lemma sys_enter_socket_relevant:
  assumes "socket_relevant C K t ctx s = Some (domain, typ)"
  defines "key \<equiv> get_key C K t (get_mntns C K t s)"
  defines "b \<equiv> push_bit (socket_shift domain typ) 1"
  defines "m \<equiv> snd (already_recorded (upd_recorded_sockets K) (recorded_sockets s) key b)"
  shows "sys_enter_socket C K t ctx s =
    (0, if reported (recorded_sockets s) key (socket_shift domain typ) then s
        else if rb_room K (events s) sizeof_event_header
        then s\<lparr>recorded_sockets := m,
               events := events s @ [socket_event t (get_mntns C K t s) key domain typ]\<rparr>
        else s\<lparr>recorded_sockets := report_again m key b,
               lost_events := lost_bump LOST_RINGBUF (t_cpu t) (lost_events s)\<rparr>)"
proof -
  let ?r = "already_recorded (upd_recorded_sockets K) (recorded_sockets s) key b"
  have seen: "fst ?r \<longleftrightarrow> reported (recorded_sockets s) key (socket_shift domain typ)"
    unfolding b_def by (rule sockets_once.mark_seen [OF socket_shift_64])
  have rel: "is_recording_cached s" "get_mntns C K t s \<noteq> 0"
    "core_read_arg ctx 0 = Some domain" "core_read_arg ctx 1 = Some typ"
    using assms(1) by (auto simp: socket_relevant_def split: option.splits if_splits)
  have same: "m = recorded_sockets s" if "reported (recorded_sockets s) key (socket_shift domain typ)"
    unfolding m_def b_def using that by (rule sockets_once.mark_again [OF socket_shift_64])
  show ?thesis
    by (simp only: sys_enter_socket_def Let_def rel if_True if_False not_True_eq_False option.case
        key_def [symmetric] b_def [symmetric] seen m_def [symmetric])
      (auto simp: same submit_event_sent submit_event_lost count_lost_eq)
qed

lemma sys_enter_socket_marks:
  assumes "reported (recorded_sockets (snd (sys_enter_socket C K t ctx s))) k n"
  shows "reported (recorded_sockets s) k n \<or>
    (\<exists>domain typ. socket_relevant C K t ctx s = Some (domain, typ) \<and>
       rb_room K (events s) sizeof_event_header \<and>
       k = get_key C K t (get_mntns C K t s) \<and> n = socket_shift domain typ)"
proof (cases "socket_relevant C K t ctx s")
  case None
  then show ?thesis using assms by (simp add: sys_enter_socket_irrelevant)
next
  case (Some dt)
  then obtain d ty where rel: "socket_relevant C K t ctx s = Some (d, ty)" by (cases dt) auto
  note eq = sys_enter_socket_relevant [OF rel]
  let ?key = "get_key C K t (get_mntns C K t s)"
  consider (known) "reported (recorded_sockets s) ?key (socket_shift d ty)"
    | (sent) "\<not> reported (recorded_sockets s) ?key (socket_shift d ty)" "rb_room K (events s) sizeof_event_header"
    | (lost) "\<not> reported (recorded_sockets s) ?key (socket_shift d ty)" "\<not> rb_room K (events s) sizeof_event_header"
    by blast
  then show ?thesis
  proof cases
    case known
    then show ?thesis using assms by (simp add: eq)
  next
    case sent
    then show ?thesis
      using sockets_once.mark_only [OF socket_shift_64, of "recorded_sockets s" ?key d ty k n] assms rel
      by (simp add: eq)
  next
    case lost
    then show ?thesis
      using sockets_once.lost_report [OF socket_shift_64, of "recorded_sockets s" ?key d ty k n] assms
      by (simp add: eq)
  qed
qed

end

section \<open>What the userspace makes of a socket\<close>

record BpfAppArmorSocketTypes =
  UseRaw :: bool
  UseTCP :: bool
  UseUDP :: bool

definition socketUse :: "u64 \<Rightarrow> BpfAppArmorSocketTypes \<Rightarrow> bool \<times> BpfAppArmorSocketTypes" where
  "socketUse flags use =
     (let domain = drop_bit 32 flags; socketType = flags AND 0xF in
      if socketType = 3 \<and> domain \<noteq> 1 then (True, use\<lparr>UseRaw := True\<rparr>)
      else if domain \<noteq> 2 \<and> domain \<noteq> 10 then (False, use)
      else if socketType = 1 then (True, use\<lparr>UseTCP := True\<rparr>)
      else if socketType = 2 then (True, use\<lparr>UseUDP := True\<rparr>)
      else (False, use))"

lemma and_0xF: "(w :: u64) AND 0xF = take_bit 4 w"
  by (simp add: take_bit_eq_mask mask_eq_exp_minus_1)

lemma and_0xffffffff: "(w :: u64) AND 0xffffffff = take_bit 32 w"
  by (simp add: take_bit_eq_mask mask_eq_exp_minus_1)

lemma socket_flags_type: "socket_flags d t AND 0xF = t AND 0xF"
  unfolding socket_flags_def and_0xF and_0xffffffff
  by (rule bit_word_eqI) (auto simp: bit_or_iff bit_push_bit_iff bit_take_bit_iff)

lemma socket_flags_domain: "drop_bit 32 (socket_flags d t) = take_bit 32 d"
  unfolding socket_flags_def and_0xffffffff
  by (rule bit_word_eqI)
    (auto simp: bit_or_iff bit_push_bit_iff bit_take_bit_iff bit_drop_bit_eq dest: bit_imp_le_length)

lemma socketUse_shared:
  assumes "socket_shift d t = socket_shift d' t'" "d < 2 ^ 32" "d' < 2 ^ 32"
  shows "socketUse (socket_flags d t) use = socketUse (socket_flags d' t') use"
proof -
  have "take_bit 32 x = x" if "x < 2 ^ 32" for x :: u64
    using that by (simp add: word_unat_eq_iff word_less_nat_alt unsigned_take_bit_eq take_bit_nat_eq_self)
  then have dom: "drop_bit 32 (socket_flags d t) = d" "drop_bit 32 (socket_flags d' t') = d'"
    using assms(2,3) by (simp_all add: socket_flags_domain)
  have "socket_group d = socket_group d'" and ty: "t AND 0xf = t' AND 0xf"
    using assms(1) by (simp_all add: socket_shift_inject)
  then have "(d = 1 \<longleftrightarrow> d' = 1) \<and> (d = 2 \<longleftrightarrow> d' = 2) \<and> (d = 10 \<longleftrightarrow> d' = 10)"
    by (auto simp: socket_group_def split: if_splits)
  then show ?thesis
    by (auto simp: socketUse_def Let_def dom socket_flags_type ty)
qed

text \<open>
  Reporting only one socket of each kind loses nothing: two sockets that share a bit of the
  mask need the same network rule, whatever flags their types carry. The domains are the
  \<^verbatim>\<open>int\<close> values of the kernel, so they fit into 32 bits.
\<close>

theorem socket_dedup_lossless:
  assumes "socket_shift d t = socket_shift d' t'" "d < 2 ^ 32" "d' < 2 ^ 32"
  shows "socketUse (socket_flags d t) use = socketUse (socket_flags d' t') use"
  by (rule socketUse_shared [OF assms])

theorem socket_dedup_lossless_witness:
  "let none = \<lparr>UseRaw = False, UseTCP = False, UseUDP = False\<rparr>
   in socket_shift 2 1 = socket_shift 2 0x80001 \<and>
      socketUse (socket_flags 2 1) none = socketUse (socket_flags 2 0x80001) none"
proof -
  have "socket_shift 2 1 = socket_shift 2 0x80001"
    by (simp add: socket_shift_def socket_group_def)
  then show ?thesis
    using socket_dedup_lossless [of 2 1 2 "0x80001"] by (simp add: Let_def)
qed

text \<open>
  The mask groups by the whole 64 bit argument, while the kernel and the event only take its
  lower half. A TCP socket requested with a set upper half shares its bit with the sockets of
  other domains, and is not reported after a netlink stream socket, which needs no rule.
\<close>

theorem socket_upper_half_unreported:
  "let ctx = (\<lambda>domain. \<lparr>sc_args = [domain, 1, 0, 0, 0, 0], sc_readable = \<lambda>_. True\<rparr>);
       s = snd (sys_enter_socket ref_config ref_kernel ref_task (ctx 16) recording_state);
       none = \<lparr>UseRaw = False, UseTCP = False, UseUDP = False\<rparr>
   in events (snd (sys_enter_socket ref_config ref_kernel ref_task (ctx 0x100000002) s)) = events s \<and>
      socketUse (socket_flags 16 1) none = (False, none) \<and>
      socketUse (socket_flags 0x100000002 1) none = (True, none\<lparr>UseTCP := True\<rparr>)"
proof -
  let ?ctx = "\<lambda>domain. \<lparr>sc_args = [domain, 1, 0, 0, 0, 0], sc_readable = \<lambda>_. True\<rparr>"
  let ?s = "snd (sys_enter_socket ref_config ref_kernel ref_task (?ctx 16) recording_state)"
  have rel: "socket_relevant ref_config ref_kernel ref_task (?ctx d) recording_state = Some (d, 1)" for d
    by (simp add: socket_relevant_def recording_state_def init_state_def get_mntns_def Let_def
        ref_task_def unique_keys_def ref_config_def has_filter_def core_read_arg_def)
  note s = ref.sys_enter_socket_relevant [OF rel, of 16]
  have key: "get_key ref_config ref_kernel ref_task mntns = 700" for mntns
    by (simp add: get_key_def ref_config_def ref_task_def)
  have shift: "socket_shift 16 1 = 49" "socket_shift 0x100000002 1 = 49"
    by (simp_all add: socket_shift_def socket_group_def)
  have rep: "reported (recorded_sockets ?s) 700 49"
    by (simp add: s key shift) (simp add: reported_def recording_state_def init_state_def
        already_recorded_def ref_kernel_def lru_update_def)
  have rel': "socket_relevant ref_config ref_kernel ref_task (?ctx d) ?s = Some (d, 1)" for d
    by (simp add: s) (simp add: socket_relevant_def recording_state_def init_state_def get_mntns_def
        Let_def ref_task_def unique_keys_def ref_config_def has_filter_def core_read_arg_def)
  have "sys_enter_socket ref_config ref_kernel ref_task (?ctx 0x100000002) ?s = (0, ?s)"
    using ref.sys_enter_socket_relevant [OF rel', of "0x100000002"] rep by (simp add: key shift)
  then show ?thesis
    by (simp add: Let_def socketUse_def socket_flags_domain socket_flags_type)
qed

end
