(* ===== verification/Path_Rules.thy ===== *)
theory Path_Rules
  imports Prelude
begin

text \<open>
  How a recorded path becomes the path of an AppArmor rule: \<^verbatim>\<open>sanitizeFilePath\<close>,
  \<^verbatim>\<open>ReplaceVarianceInFilePath\<close> and \<^verbatim>\<open>shouldExcludeFile\<close> of \<^verbatim>\<open>bpfrecorder_apparmor.go\<close>. A path is a list of
  bytes. A rule is read by AppArmor as a glob, and the rule made of a path has to cover it.
\<close>

section \<open>Sanitizing\<close>

definition between :: "u8 \<Rightarrow> u8 \<Rightarrow> u8 \<Rightarrow> bool" where
  "between a b c \<longleftrightarrow> a \<le> c \<and> c \<le> b"

definition isPlainPathByte :: "u8 \<Rightarrow> bool" where
  "isPlainPathByte c \<longleftrightarrow>
     between 0x61 0x7A c \<or> between 0x41 0x5A c \<or> between 0x30 0x39 c \<or>
     c \<in> {0x2F, 0x2E, 0x5F, 0x2D, 0x2B, 0x20}"

definition deletedSuffix :: "u8 list" where
  "deletedSuffix = bytes_of '' (deleted)''"

definition has_suffix :: "u8 list \<Rightarrow> u8 list \<Rightarrow> bool" where
  "has_suffix suf s \<longleftrightarrow> length suf \<le> length s \<and> drop (length s - length suf) s = suf"

definition has_prefix :: "u8 list \<Rightarrow> u8 list \<Rightarrow> bool" where
  "has_prefix pre s \<longleftrightarrow> take (length pre) s = pre"

text \<open>The loop over the two markers keeps the one of them that matches last.\<close>

definition cut_markers :: "u8 list \<Rightarrow> u8 list \<times> u8 list" where
  "cut_markers path =
     fold (\<lambda>marker r. if has_suffix marker path
                       then (take (length path - length marker) path, marker) else r)
       [deletedSuffix, deletedSuffix @ [0x2F]] (path, [])"

definition sanitizeFilePath :: "u8 list \<Rightarrow> u8 list" where
  "sanitizeFilePath path =
     (case cut_markers path of (base, suffix) \<Rightarrow>
        map (\<lambda>c. if isPlainPathByte c then c else 0x3F) base @ suffix)"

section \<open>Regular expressions\<close>

text \<open>
  The expressions of the source are sequences of characters of a class, each repeated between a
  lower and an optional upper bound. A repetition takes as many characters as it can. No character
  that can follow a repetition without an upper bound belongs to its class, so there is at most
  one way to match, and giving characters back never helps.
\<close>

type_synonym item = "(u8 \<Rightarrow> bool) \<times> nat \<times> nat option"

definition digit :: "u8 \<Rightarrow> bool" where
  "digit c \<longleftrightarrow> between 0x30 0x39 c"

definition hex :: "u8 \<Rightarrow> bool" where
  "hex c \<longleftrightarrow> between 0x30 0x39 c \<or> between 0x61 0x66 c \<or> between 0x41 0x46 c"

definition word_char :: "u8 \<Rightarrow> bool" where
  "word_char c \<longleftrightarrow> between 0x30 0x39 c \<or> between 0x41 0x5A c \<or> between 0x61 0x7A c \<or> c = 0x5F"

definition lit :: "u8 list \<Rightarrow> item list" where
  "lit s = map (\<lambda>c. ((=) c, 1, Some 1)) s"

fun match_item :: "item \<Rightarrow> u8 list \<Rightarrow> nat option" where
  "match_item (p, lo, hi) s =
     (let n = length (takeWhile p s); n = (case hi of None \<Rightarrow> n | Some h \<Rightarrow> min n h)
      in if n < lo then None else Some n)"

fun match_at :: "item list \<Rightarrow> u8 list \<Rightarrow> nat option" where
  "match_at [] s = Some 0"
| "match_at (i # is) s =
     (case match_item i s of
        None \<Rightarrow> None
      | Some n \<Rightarrow> map_option (\<lambda>k. n + k) (match_at is (drop n s)))"

text \<open>An expression that starts with \<^verbatim>\<open>^\<close> only matches at the start of the text.\<close>

definition replace_start :: "item list \<Rightarrow> u8 list \<Rightarrow> u8 list \<Rightarrow> u8 list" where
  "replace_start re r s = (case match_at re s of None \<Rightarrow> s | Some n \<Rightarrow> r @ drop n s)"

fun replace_all :: "item list \<Rightarrow> u8 list \<Rightarrow> u8 list \<Rightarrow> u8 list" where
  "replace_all re r [] = []"
| "replace_all re r (c # cs) =
     (case match_at re (c # cs) of
        Some (Suc n) \<Rightarrow> r @ replace_all re r (drop n cs)
      | _ \<Rightarrow> c # replace_all re r cs)"

text \<open>The two variables of AppArmor that the rules use, for a process and for a thread.\<close>

definition pid_var :: "u8 list" where
  "pid_var = [0x40, 0x7B, 0x70, 0x69, 0x64, 0x7D]"

definition tid_var :: "u8 list" where
  "tid_var = [0x40, 0x7B, 0x74, 0x69, 0x64, 0x7D]"

definition slash :: "u8 list" where
  "slash = [0x2F]"

definition proc_dir :: "u8 list" where
  "proc_dir = bytes_of ''/proc/''"

definition task_dir :: "u8 list" where
  "task_dir = bytes_of ''/task/''"

definition overlay_dir :: "u8 list" where
  "overlay_dir = bytes_of ''/var/lib/containers/storage/overlay/''"

definition reDirectPathWithPid :: "item list" where
  "reDirectPathWithPid = lit slash @ [(digit, 1, None)] @ lit slash"

definition reDirectPathWithTid :: "item list" where
  "reDirectPathWithTid = lit (slash @ pid_var @ task_dir) @ [(digit, 1, None)] @ lit slash"

definition rePathWithPid :: "item list" where
  "rePathWithPid = lit proc_dir @ [(digit, 1, None)] @ lit slash"

definition rePathWithTid :: "item list" where
  "rePathWithTid = lit (proc_dir @ pid_var @ task_dir) @ [(digit, 1, None)] @ lit slash"

definition rePathWithCid :: "item list" where
  "rePathWithCid = lit overlay_dir @ [(word_char, 1, None)] @ lit slash"

definition reUUID :: "item list" where
  "reUUID = [(hex, 8, Some 8)] @ lit [0x2D] @ [(hex, 4, Some 4)] @ lit [0x2D] @ [(hex, 4, Some 4)] @
     lit [0x2D] @ [(hex, 4, Some 4)] @ lit [0x2D] @ [(hex, 12, Some 12)]"

definition reHash :: "item list" where
  "reHash = [(hex, 32, None)]"

definition reDigitSequence :: "item list" where
  "reDigitSequence = [(digit, 6, None)]"

definition sys_devices :: "u8 list" where
  "sys_devices = bytes_of ''/sys/devices/''"

definition ReplaceVarianceInFilePath :: "u8 list \<Rightarrow> u8 list" where
  "ReplaceVarianceInFilePath filePath =
     (let p1 = replace_start reDirectPathWithPid (slash @ pid_var @ slash) filePath;
          p2 = replace_start reDirectPathWithTid (slash @ pid_var @ task_dir @ tid_var @ slash) p1;
          p3 = replace_start rePathWithPid (proc_dir @ pid_var @ slash) p2;
          p4 = replace_start rePathWithTid (proc_dir @ pid_var @ task_dir @ tid_var @ slash) p3;
          p5 = replace_all rePathWithCid (overlay_dir @ [0x2A] @ slash) p4;
          p6 = replace_all reUUID [0x2A] p5;
          p7 = replace_all reHash [0x2A] p6;
          p8 = replace_all reDigitSequence [0x2A] p7
      in if has_prefix sys_devices p8 then sys_devices @ [0x2A, 0x2A] else p8)"

definition excludedFilePrefixes :: "u8 list list" where
  "excludedFilePrefixes =
     [bytes_of ''/run/containerd/io.containerd.runtime.v2.task/k8s.io'', bytes_of ''/usr/bin/runc'']"

definition shouldExcludeFile :: "u8 list \<Rightarrow> bool" where
  "shouldExcludeFile p = list_ex (\<lambda>f. has_prefix f p) excludedFilePrefixes"

end
