(* ===== verification/AppArmor_Recorder.thy ===== *)
theory AppArmor_Recorder
  imports File_Outcomes Reports Path_Rules "HOL-Library.AList"
begin

text \<open>
  The AppArmor recorder of the userspace (\<^verbatim>\<open>bpfrecorder_apparmor.go\<close>): what it keeps per recording
  key, and how it handles the events of the BPF program. Its operations also delete entries of the
  maps \<^verbatim>\<open>recorded_caps\<close> and \<^verbatim>\<open>recorded_sockets\<close>, so that the BPF program reports again what the
  userspace dropped. They therefore work on the pair of the recorder and the state of the BPF
  program. The locks are not modelled, each operation is one step. Logging is left out except for
  the flags that remember that something was logged.
\<close>

section \<open>State\<close>

record fileAccess =
  fa_read :: bool
  fa_write :: bool
  fa_exec :: bool
  fa_spawn :: bool

record normalizedPath =
  np_path :: "u8 list"
  np_excluded :: bool

record AppArmorRecorder =
  ar_programName :: "u8 list"
  ar_loaded :: bool
  ar_recordedSocketsUse :: "u64 \<rightharpoonup> BpfAppArmorSocketTypes"
  ar_recordedCapabilities :: "u64 \<rightharpoonup> int list"
  ar_recordedFiles :: "u64 \<rightharpoonup> (u8 list \<times> fileAccess) list"
  ar_trackedKeys :: "u64 set"
  ar_maxPathsWarned :: "u64 \<rightharpoonup> bool"
  ar_maxKeysWarned :: bool
  ar_excluded :: "u64 set"
  ar_normalizedPaths :: "(u8 list \<times> normalizedPath) list"

type_synonym recording = "AppArmorRecorder \<times> rstate"

definition maxTrackedPaths :: nat where
  "maxTrackedPaths = 10000"

definition maxTrackedKeys :: nat where
  "maxTrackedKeys = 1000"

definition maxNormalizedPaths :: nat where
  "maxNormalizedPaths = 4096"

definition newAppArmorRecorder :: "u8 list \<Rightarrow> AppArmorRecorder" where
  "newAppArmorRecorder programName =
     \<lparr>ar_programName = sanitizeFilePath programName, ar_loaded = False,
      ar_recordedSocketsUse = Map.empty, ar_recordedCapabilities = Map.empty,
      ar_recordedFiles = Map.empty, ar_trackedKeys = {}, ar_maxPathsWarned = Map.empty,
      ar_maxKeysWarned = False, ar_excluded = {}, ar_normalizedPaths = []\<rparr>"

section \<open>Dropping data\<close>

text \<open>
  \<^verbatim>\<open>ar_loaded\<close> stands for the handles of the two maps, which \<^verbatim>\<open>Load\<close> sets together. A key that is
  missing in a map is no error.
\<close>

definition forgetReported :: "u64 list \<Rightarrow> recording \<Rightarrow> recording" where
  "forgetReported keys = (\<lambda>(b, s).
     if \<not> ar_loaded b then (b, s)
     else (b, s\<lparr>recorded_caps := fold (\<lambda>key m. snd (bpf_map_delete_elem m key)) keys (recorded_caps s),
                recorded_sockets := fold (\<lambda>key m. snd (bpf_map_delete_elem m key)) keys (recorded_sockets s)\<rparr>))"

definition clear_data :: "u64 \<Rightarrow> AppArmorRecorder \<Rightarrow> AppArmorRecorder" where
  "clear_data key b =
     b\<lparr>ar_recordedFiles := (ar_recordedFiles b)(key := None),
       ar_recordedCapabilities := (ar_recordedCapabilities b)(key := None),
       ar_recordedSocketsUse := (ar_recordedSocketsUse b)(key := None),
       ar_maxPathsWarned := (ar_maxPathsWarned b)(key := None),
       ar_trackedKeys := ar_trackedKeys b - {key}\<rparr>"

definition Clear :: "u64 list \<Rightarrow> recording \<Rightarrow> recording" where
  "Clear keys = (\<lambda>(b, s). forgetReported keys (fold clear_data keys b, s))"

definition clearKey :: "bpfEvent \<Rightarrow> recording \<Rightarrow> recording" where
  "clearKey event = Clear [Key event]"

definition Exclude :: "u64 \<Rightarrow> recording \<Rightarrow> recording" where
  "Exclude key = (\<lambda>(b, s). Clear [key] (b\<lparr>ar_excluded := insert key (ar_excluded b)\<rparr>, s))"

definition isExcluded :: "u64 \<Rightarrow> AppArmorRecorder \<Rightarrow> bool" where
  "isExcluded key b \<longleftrightarrow> key \<in> ar_excluded b"

text \<open>The maps of the BPF program are emptied if the recorder has them.\<close>

definition StopRecording :: "recording \<Rightarrow> recording" where
  "StopRecording = (\<lambda>(b, s).
     (b\<lparr>ar_recordedSocketsUse := Map.empty, ar_recordedCapabilities := Map.empty,
        ar_recordedFiles := Map.empty, ar_maxPathsWarned := Map.empty, ar_maxKeysWarned := False,
        ar_trackedKeys := {}, ar_excluded := {}, ar_normalizedPaths := []\<rparr>,
      if ar_loaded b then s\<lparr>recorded_caps := Map.empty, recorded_sockets := Map.empty\<rparr> else s))"

section \<open>Events\<close>

definition trackKey :: "u64 \<Rightarrow> AppArmorRecorder \<Rightarrow> bool \<times> AppArmorRecorder" where
  "trackKey key b =
     (if key \<in> ar_trackedKeys b then (True, b)
      else if card (ar_trackedKeys b) \<ge> maxTrackedKeys
      then (False, if \<not> ar_maxKeysWarned b then b\<lparr>ar_maxKeysWarned := True\<rparr> else b)
      else (True, b\<lparr>ar_trackedKeys := insert key (ar_trackedKeys b)\<rparr>))"

definition normalizePath :: "u8 list \<Rightarrow> AppArmorRecorder \<Rightarrow> normalizedPath \<times> AppArmorRecorder" where
  "normalizePath fileName b =
     (case map_of (ar_normalizedPaths b) fileName of
        Some normalized \<Rightarrow> (normalized, b)
      | None \<Rightarrow>
          (let path = ReplaceVarianceInFilePath (sanitizeFilePath fileName);
               normalized = \<lparr>np_path = path, np_excluded = shouldExcludeFile path\<rparr>;
               cache = (if length (ar_normalizedPaths b) \<ge> maxNormalizedPaths then [] else ar_normalizedPaths b)
           in (normalized, b\<lparr>ar_normalizedPaths := (fileName, normalized) # cache\<rparr>)))"

definition merge_access :: "u64 \<Rightarrow> fileAccess \<Rightarrow> fileAccess" where
  "merge_access flags path =
     \<lparr>fa_read = (fa_read path \<or> flags AND 0x1 > 0), fa_write = (fa_write path \<or> flags AND 0x2 > 0),
      fa_exec = (fa_exec path \<or> flags AND 0x4 > 0), fa_spawn = (fa_spawn path \<or> flags AND 0x8 > 0)\<rparr>"

definition no_access :: fileAccess where
  "no_access = \<lparr>fa_read = False, fa_write = False, fa_exec = False, fa_spawn = False\<rparr>"

definition record_file :: "u64 \<Rightarrow> u8 list \<Rightarrow> u64 \<Rightarrow> AppArmorRecorder \<Rightarrow> AppArmorRecorder" where
  "record_file key fileName flags b =
     (let files = (case ar_recordedFiles b key of None \<Rightarrow> [] | Some files \<Rightarrow> files);
          b = b\<lparr>ar_recordedFiles := (ar_recordedFiles b)(key \<mapsto> files)\<rparr>
      in if length files \<ge> maxTrackedPaths
         then (if ar_maxPathsWarned b key = Some True then b
               else b\<lparr>ar_maxPathsWarned := (ar_maxPathsWarned b)(key \<mapsto> True)\<rparr>)
         else let path = (case map_of files fileName of None \<Rightarrow> no_access | Some path \<Rightarrow> path)
              in b\<lparr>ar_recordedFiles := (ar_recordedFiles b)(key \<mapsto>
                     AList.update fileName (merge_access flags path) files)\<rparr>)"

definition handleFileEvent :: "bpfEvent \<Rightarrow> recording \<Rightarrow> recording" where
  "handleFileEvent fileEvent = (\<lambda>(b, s).
     if isExcluded (Key fileEvent) b then (b, s)
     else let fileName = fileDataToString (Data fileEvent) in
       if \<not> has_prefix [0x2F] fileName then (b, s)
       else case normalizePath fileName b of (normalized, b1) \<Rightarrow>
         if np_excluded normalized then (b1, s)
         else case trackKey (Key fileEvent) b1 of (tracked, b2) \<Rightarrow>
           if \<not> tracked then (b2, s)
           else (record_file (Key fileEvent) (np_path normalized) (Flags fileEvent) b2, s))"

definition no_sockets :: BpfAppArmorSocketTypes where
  "no_sockets = \<lparr>UseRaw = False, UseTCP = False, UseUDP = False\<rparr>"

definition merge_sockets :: "BpfAppArmorSocketTypes \<Rightarrow> BpfAppArmorSocketTypes \<Rightarrow> BpfAppArmorSocketTypes" where
  "merge_sockets recorded use =
     \<lparr>UseRaw = (UseRaw recorded \<or> UseRaw use), UseTCP = (UseTCP recorded \<or> UseTCP use),
      UseUDP = (UseUDP recorded \<or> UseUDP use)\<rparr>"

definition handleSocketEvent :: "bpfEvent \<Rightarrow> recording \<Rightarrow> recording" where
  "handleSocketEvent socketEvent = (\<lambda>(b, s).
     if isExcluded (Key socketEvent) b then (b, s)
     else case socketUse (Flags socketEvent) no_sockets of (needed, use) \<Rightarrow>
       if \<not> needed then (b, s)
       else let key = Key socketEvent in case trackKey key b of (tracked, b1) \<Rightarrow>
         if \<not> tracked then forgetReported [key] (b1, s)
         else let recorded = (case ar_recordedSocketsUse b1 key of None \<Rightarrow> no_sockets | Some r \<Rightarrow> r)
              in (b1\<lparr>ar_recordedSocketsUse := (ar_recordedSocketsUse b1)(key \<mapsto> merge_sockets recorded use)\<rparr>, s))"

definition handleCapabilityEvent :: "bpfEvent \<Rightarrow> recording \<Rightarrow> recording" where
  "handleCapabilityEvent capEvent = (\<lambda>(b, s).
     if isExcluded (Key capEvent) b then (b, s)
     else let key = Key capEvent in case trackKey key b of (tracked, b1) \<Rightarrow>
       if \<not> tracked then forgetReported [key] (b1, s)
       else let requestedCap = sint (Flags capEvent);
                caps = (case ar_recordedCapabilities b1 key of None \<Rightarrow> [] | Some caps \<Rightarrow> caps)
            in if requestedCap \<in> set caps then (b1, s)
               else (b1\<lparr>ar_recordedCapabilities := (ar_recordedCapabilities b1)(key \<mapsto> caps @ [requestedCap])\<rparr>, s))"

abbreviation (input) eventTypeAppArmorFile :: u8 where "eventTypeAppArmorFile \<equiv> 2"
abbreviation (input) eventTypeAppArmorSocket :: u8 where "eventTypeAppArmorSocket \<equiv> 3"
abbreviation (input) eventTypeAppArmorCap :: u8 where "eventTypeAppArmorCap \<equiv> 4"
abbreviation (input) eventTypeClearMntns :: u8 where "eventTypeClearMntns \<equiv> 5"

text \<open>
  New and ended processes only concern the tables of the containers. A process that turns out not
  to be recorded ends in a call of \<^verbatim>\<open>Exclude\<close> of its own.
\<close>

definition handleEvent :: "u8 list \<Rightarrow> recording \<Rightarrow> recording" where
  "handleEvent eventBytes r =
     (case unmarshal eventBytes of
        None \<Rightarrow> r
      | Some event \<Rightarrow>
          if Type event = eventTypeAppArmorFile then handleFileEvent event r
          else if Type event = eventTypeAppArmorSocket then handleSocketEvent event r
          else if Type event = eventTypeAppArmorCap then handleCapabilityEvent event r
          else if Type event = eventTypeClearMntns then clearKey event r
          else r)"

end
