(* ===== verification/Recorder_System.thy ===== *)
theory Recorder_System
  imports Syscalls Exec_Events Processes AppArmor_Recorder
begin

text \<open>
  The BPF recorder as a whole: a call of any of its hooks, and what a call does to the ring buffer
  and to the marks of the capabilities and sockets that count as reported. The marks and the records
  of the ring buffer belong together, because a mark keeps the hooks from sending a record.
\<close>

section \<open>Hooks\<close>

datatype hook_call =
    Sys_enter raw_sys_enter
  | Sys_enter_getgid
  | Sys_enter_socket syscall_trace_enter
  | Sys_enter_execve syscall_trace_enter
  | Sys_enter_execveat syscall_trace_enter
  | Cap_capable u64 u64
  | File_call file_hook
  | Process_exec
  | Process_exit
  | Process_fork fork_tasks

fun run_hook :: "config \<Rightarrow> kernel \<Rightarrow> task \<Rightarrow> hook_call \<Rightarrow> rstate \<Rightarrow> (int \<times> rstate) option" where
  "run_hook C K t (Sys_enter ctx) s = Some (sys_enter C K t ctx s)"
| "run_hook C K t Sys_enter_getgid s = Some (sys_enter_getgid s)"
| "run_hook C K t (Sys_enter_socket ctx) s = Some (sys_enter_socket C K t ctx s)"
| "run_hook C K t (Sys_enter_execve ctx) s = Some (sys_enter_execve C K t ctx s)"
| "run_hook C K t (Sys_enter_execveat ctx) s = Some (sys_enter_execveat C K t ctx s)"
| "run_hook C K t (Cap_capable cap cap_opt) s = Some (cap_capable C K t cap cap_opt s)"
| "run_hook C K t (File_call h) s = run_file_hook C K t h s"
| "run_hook C K t Process_exec s = Some (sched_process_exec C K t s)"
| "run_hook C K t Process_exit s = Some (sched_process_exit C K t s)"
| "run_hook C K t (Process_fork fk) s = Some (sched_process_fork C K fk s)"

section \<open>Records\<close>

text \<open>\<open>says typ k P raw\<close>: the userspace decodes the record as an event of a type and key, with flags in \<open>P\<close>.\<close>

definition says :: "u8 \<Rightarrow> u64 \<Rightarrow> (u64 \<Rightarrow> bool) \<Rightarrow> u8 list \<Rightarrow> bool" where
  "says typ k P raw \<longleftrightarrow>
     (case unmarshal raw of None \<Rightarrow> False | Some e \<Rightarrow> Type e = typ \<and> Key e = k \<and> P (Flags e))"

definition clears :: "u64 \<Rightarrow> u8 list \<Rightarrow> bool" where
  "clears k raw \<longleftrightarrow> says EVENT_TYPE_CLEAR_MNTNS k (\<lambda>_. True) raw"

lemma says_wire [simp]:
  "says typ k P (wire_header h @ bs) \<longleftrightarrow> ev_type h = typ \<and> ev_key h = k \<and> P (ev_flags h)"
  "says typ k P (wire_header h) \<longleftrightarrow> ev_type h = typ \<and> ev_key h = k \<and> P (ev_flags h)"
  using unmarshalHeader_wire [of h "[]"] by (simp_all add: says_def unmarshal_def)

lemma clears_wire [simp]:
  "clears k (wire_header h @ bs) \<longleftrightarrow> ev_type h = EVENT_TYPE_CLEAR_MNTNS \<and> ev_key h = k"
  "clears k (wire_header h) \<longleftrightarrow> ev_type h = EVENT_TYPE_CLEAR_MNTNS \<and> ev_key h = k"
  by (simp_all add: clears_def)

lemma clears_cut: "ev_type h \<noteq> EVENT_TYPE_CLEAR_MNTNS \<Longrightarrow> \<not> clears k (take n (wire_header h @ bs))"
proof (cases "n < 25")
  case True
  then show ?thesis by (simp add: clears_def says_def unmarshal_def)
next
  case False
  then show "ev_type h \<noteq> EVENT_TYPE_CLEAR_MNTNS \<Longrightarrow> ?thesis" by simp
qed

text \<open>
  What a list of records does to the knowledge of a key: a record with \<open>P\<close> adds it, a clear
  record drops it.
\<close>

fun live :: "(u8 list \<Rightarrow> bool) \<Rightarrow> u64 \<Rightarrow> bool \<Rightarrow> u8 list list \<Rightarrow> bool" where
  "live P k old [] = old"
| "live P k old (raw # evs) = live P k (P raw \<or> (old \<and> \<not> clears k raw)) evs"

lemma live_append [simp]: "live P k old (a @ b) = live P k (live P k old a) b"
  by (induction a arbitrary: old) simp_all

lemma live_mono: "live P k old evs \<Longrightarrow> (old \<Longrightarrow> old') \<Longrightarrow> live P k old' evs"
proof (induction evs arbitrary: old old')
  case (Cons raw evs)
  from Cons.prems(1) have "live P k (P raw \<or> old \<and> \<not> clears k raw) evs" by simp
  from Cons.IH [OF this, of "P raw \<or> old' \<and> \<not> clears k raw"] Cons.prems(2) show ?case by auto
qed simp

lemma live_quiet: "\<forall>raw \<in> set evs. \<not> clears k raw \<Longrightarrow> old \<Longrightarrow> live P k old evs"
  by (induction evs arbitrary: old) simp_all

section \<open>What a hook does to the marks\<close>

text \<open>Every mark after the call was there before and is still backed, or has its record.\<close>

definition backed ::
  "(rstate \<Rightarrow> (u64 \<rightharpoonup> u64)) \<Rightarrow> (u64 \<Rightarrow> nat \<Rightarrow> u8 list \<Rightarrow> bool) \<Rightarrow> rstate \<Rightarrow> rstate \<Rightarrow> bool" where
  "backed marks names s s' \<longleftrightarrow>
     (\<exists>new. events s' = events s @ new \<and>
        (\<forall>k n. reported (marks s') k n \<longrightarrow> live (names k n) k (reported (marks s) k n) new))"

definition quiet :: "rstate \<Rightarrow> rstate \<Rightarrow> bool" where
  "quiet s s' \<longleftrightarrow> recorded_caps s' = recorded_caps s \<and> recorded_sockets s' = recorded_sockets s \<and>
     (\<exists>new. events s' = events s @ new \<and> (\<forall>k. \<forall>raw \<in> set new. \<not> clears k raw))"

lemma quiet_refl [simp]: "quiet s s"
  by (simp add: quiet_def)

lemma quiet_same:
  "recorded_caps s' = recorded_caps s \<Longrightarrow> recorded_sockets s' = recorded_sockets s \<Longrightarrow>
   events s' = events s \<Longrightarrow> quiet s s'"
  by (simp add: quiet_def)

lemma quiet_record:
  "recorded_caps s' = recorded_caps s \<Longrightarrow> recorded_sockets s' = recorded_sockets s \<Longrightarrow>
   events s' = events s @ [raw] \<Longrightarrow> (\<And>k. \<not> clears k raw) \<Longrightarrow> quiet s s'"
  by (simp add: quiet_def)

lemma quiet_trans: "quiet s s1 \<Longrightarrow> quiet s1 s2 \<Longrightarrow> quiet s s2"
  unfolding quiet_def
proof (elim conjE exE, intro conjI)
  fix new new'
  assume "events s1 = events s @ new" "events s2 = events s1 @ new'"
    "\<forall>k. \<forall>raw \<in> set new. \<not> clears k raw" "\<forall>k. \<forall>raw \<in> set new'. \<not> clears k raw"
  then show "\<exists>new. events s2 = events s @ new \<and> (\<forall>k. \<forall>raw \<in> set new. \<not> clears k raw)"
    by (intro exI [of _ "new @ new'"]) auto
qed simp_all

lemma quiet_cong:
  "recorded_caps s2 = recorded_caps s1 \<Longrightarrow> recorded_sockets s2 = recorded_sockets s1 \<Longrightarrow>
   events s2 = events s1 \<Longrightarrow> quiet s s2 = quiet s s1"
  by (simp add: quiet_def)

lemma backed_trans: "backed marks names s s1 \<Longrightarrow> backed marks names s1 s2 \<Longrightarrow> backed marks names s s2"
  unfolding backed_def
proof (elim exE conjE, intro exI conjI allI impI)
  fix new1 new2 k n
  assume "\<forall>k n. reported (marks s1) k n \<longrightarrow> live (names k n) k (reported (marks s) k n) new1"
    and "\<forall>k n. reported (marks s2) k n \<longrightarrow> live (names k n) k (reported (marks s1) k n) new2"
    and "reported (marks s2) k n"
  then show "live (names k n) k (reported (marks s) k n) (new1 @ new2)"
    using live_mono [of "names k n" k "reported (marks s1) k n" new2] by simp
qed simp

lemma quiet_backed:
  "quiet s s' \<Longrightarrow> backed recorded_caps names s s'" "quiet s s' \<Longrightarrow> backed recorded_sockets names s s'"
  unfolding quiet_def backed_def by (metis live_quiet)+

lemma submit_quiet:
  "typ \<noteq> EVENT_TYPE_CLEAR_MNTNS \<Longrightarrow> recorded_caps s1 = recorded_caps s \<Longrightarrow>
   recorded_sockets s1 = recorded_sockets s \<Longrightarrow> events s1 = events s \<Longrightarrow>
   quiet s (snd (submit_event K t typ mntns key flags s1))"
  by (cases "rb_room K (events s) sizeof_event_header")
    (auto simp: submit_event_sent submit_event_lost quiet_def)

text \<open>The hooks that neither touch the marks nor clear a key.\<close>

lemma report_pid_quiet: "quiet s (snd (report_pid K t mntns key s))"
proof -
  let ?s1 = "s\<lparr>active_pids := snd (upd_active_pids K (active_pids s) (active_key t key) 1 BPF_NOEXIST)\<rparr>"
  have "quiet s (snd (submit_event K t EVENT_TYPE_NEWPID mntns key 0 ?s1))" by (rule submit_quiet) simp_all
  then show ?thesis by (simp add: report_pid_def Let_def quiet_def)
qed

lemma record_syscall_quiet: "quiet s (record_syscall K t mntns key n r s)"
proof -
  let ?s1 = "s\<lparr>recorded_syscalls := snd (upd_recorded_syscalls K (recorded_syscalls s) key (replicate MAX_SYSCALLS 0) BPF_NOEXIST)\<rparr>"
  have "quiet s (snd (submit_event K t EVENT_TYPE_NEWPID mntns key 0 ?s1))" by (rule submit_quiet) simp_all
  then show ?thesis
    by (auto simp: record_syscall_def mark_syscall_def Let_def quiet_def split: option.splits)
qed

lemma process_quiet:
  "quiet s (snd (sched_process_exec C K t s))" "quiet s (snd (sched_process_fork C K fk s))"
  "quiet s (snd (sched_process_exit C K t s))" "quiet s (snd (sys_enter_getgid s))"
proof -
  show "quiet s (snd (sched_process_exec C K t s))" by (subst exec_frame) (simp add: quiet_def)
  show "quiet s (snd (sched_process_fork C K fk s))" by (subst fork_frame) (simp add: quiet_def)
  show "quiet s (snd (sys_enter_getgid s))" by (simp add: sys_enter_getgid_def quiet_def)
  show "quiet s (snd (sched_process_exit C K t s))"
    unfolding sched_process_exit_def Let_def by (auto intro!: submit_quiet)
qed

lemma exec_event_quiet: "quiet s (submit_exec_event C K t f a e mntns s)"
  by (auto simp: submit_exec_event_def Let_def quiet_def wire_exec_def exec_at_def)

lemma execve_quiet:
  "quiet s (snd (sys_enter_execve C K t ctx s))" "quiet s (snd (sys_enter_execveat C K t ctx s))"
  using exec_event_quiet by (simp_all add: sys_enter_execve_def sys_enter_execveat_def Let_def)

lemma event_path_state:
  "event_path K t f custom data s = Some (r, data', s') \<Longrightarrow> \<exists>heap'. s' = s\<lparr>buffer_heap_map := heap'\<rparr>"
  by (cases s) (auto simp: event_path_def bpf_d_path_tetragon_def Let_def split: if_splits option.splits)

lemma locked_quiet:
  assumes "register_fs_event_locked C K t f i_mode flags custom mntns pid inode dev overlay event s = Some s'"
  shows "quiet s s'"
proof (cases "event_path K t f custom (ed_data event) s")
  case None
  then show ?thesis using assms by (auto simp: register_fs_event_locked_def split: if_splits)
next
  case (Some x)
  obtain pathlen data s1 where x: "x = (pathlen, data, s1)" by (cases x)
  obtain heap' where s1: "s1 = s\<lparr>buffer_heap_map := heap'\<rparr>" using event_path_state [OF Some [unfolded x]] by blast
  show ?thesis
    using assms Some clears_cut unfolding register_fs_event_locked_def x s1 wire_event_data_def
    by (auto simp: quiet_def Let_def put_scratch_def split: if_splits option.splits)
qed

lemma register_fs_event_quiet:
  "register_fs_event C K t f i_mode flags custom s = Some (r, s') \<Longrightarrow> quiet s s'"
  by (auto simp: register_fs_event_def Let_def quiet_def busy_add_def dest!: locked_quiet
      split: if_splits option.splits)

lemma file_hook_quiet: "run_file_hook C K t h s = Some (r, s') \<Longrightarrow> quiet s s'"
  by (cases h) (auto simp: file_hook_defs register_file_event_def Let_def dest: register_fs_event_quiet
      split: if_splits option.splits)

section \<open>The hooks that mark and clear\<close>

text \<open>The record of a capability, and that of a socket of the kind of a bit.\<close>

definition cap_names :: "u64 \<Rightarrow> nat \<Rightarrow> u8 list \<Rightarrow> bool" where
  "cap_names k n raw \<longleftrightarrow> says EVENT_TYPE_APPARMOR_CAP k (\<lambda>f. unat f = n) raw"

definition socket_names :: "u64 \<Rightarrow> nat \<Rightarrow> u8 list \<Rightarrow> bool" where
  "socket_names k n raw \<longleftrightarrow> says EVENT_TYPE_APPARMOR_SOCKET k
     (\<lambda>f. \<exists>d ty. d < 2 ^ 32 \<and> f = socket_flags d ty \<and> n = socket_shift d ty) raw"

text \<open>The domain of a socket is an \<^verbatim>\<open>int\<close> of the kernel, so the upper half of the argument is 0.\<close>

fun domain_ok :: "hook_call \<Rightarrow> bool" where
  "domain_ok (Sys_enter_socket ctx) \<longleftrightarrow> (case core_read_arg ctx 0 of None \<Rightarrow> True | Some d \<Rightarrow> d < 2 ^ 32)"
| "domain_ok _ \<longleftrightarrow> True"

lemma clear_apparmor_backed:
  "backed recorded_caps names s (snd (clear_apparmor C K t mntns key s))"
  "backed recorded_sockets names s (snd (clear_apparmor C K t mntns key s))"
  by (cases "rb_room K (events s) sizeof_event_header";
      auto simp: clear_apparmor_def Let_def submit_event_sent submit_event_lost backed_def reported_def)+

lemma container_start_backed:
  "backed recorded_caps names s (container_start C K t n args mntns key s)"
  "backed recorded_sockets names s (container_start C K t n args mntns key s)"
proof -
  have "quiet s (snd (clear_seccomp C K key s))" by (subst clear_seccomp_frame) (simp add: quiet_def)
  then show "backed recorded_caps names s (container_start C K t n args mntns key s)"
    "backed recorded_sockets names s (container_start C K t n args mntns key s)"
    using clear_apparmor_backed quiet_backed quiet_refl by (simp_all add: container_start_def)
qed

lemma sys_enter_backed:
  "backed recorded_caps names s (snd (sys_enter C K t ctx s))"
  "backed recorded_sockets names s (snd (sys_enter C K t ctx s))"
proof -
  have compat: "quiet s (count_lost r t (snd (report_pid K t m k s)))" for r m k
    using report_pid_quiet by (simp add: quiet_def)
  note parts = quiet_backed [OF quiet_refl] quiet_backed [OF compat]
    backed_trans [OF backed_trans [OF quiet_backed(1) [OF report_pid_quiet] container_start_backed(1)]
      quiet_backed(1) [OF record_syscall_quiet]]
    backed_trans [OF backed_trans [OF quiet_backed(2) [OF report_pid_quiet] container_start_backed(2)]
      quiet_backed(2) [OF record_syscall_quiet]]
  show "backed recorded_caps names s (snd (sys_enter C K t ctx s))"
    "backed recorded_sockets names s (snd (sys_enter C K t ctx s))"
    by (simp_all add: sys_enter_def Let_def parts)
qed

lemma cap_capable_backed:
  assumes K: "bpf_kernel K"
  shows "backed recorded_caps cap_names s (snd (cap_capable C K t cap cap_opt s))"
    "backed recorded_sockets names s (snd (cap_capable C K t cap cap_opt s))"
proof -
  let ?s' = "snd (cap_capable C K t cap cap_opt s)" and ?key = "get_key C K t (get_mntns C K t s)"
  note marks = bpf_kernel.cap_capable_marks [OF K, of C t cap cap_opt s]
  consider (same) "events ?s' = events s" "\<And>k n. reported (recorded_caps ?s') k n \<Longrightarrow> reported (recorded_caps s) k n"
    | (sent) "events ?s' = events s @ [cap_event t (get_mntns C K t s) ?key cap]"
  proof (cases "cap_relevant C K t cap cap_opt s \<and> rb_room K (events s) sizeof_event_header \<and>
      \<not> reported (recorded_caps s) ?key (unat cap)")
    case True
    then show ?thesis using sent bpf_kernel.cap_capable_relevant [OF K] by simp
  next
    case False
    then have "events ?s' = events s"
      using bpf_kernel.cap_capable_relevant [OF K] by (cases "cap_relevant C K t cap cap_opt s") (auto simp: cap_capable_irrelevant)
    then show ?thesis using same marks False by blast
  qed
  then show "backed recorded_caps cap_names s ?s'"
    by cases (use marks in \<open>auto simp: backed_def cap_names_def\<close>)
  have "recorded_sockets ?s' = recorded_sockets s"
    using bpf_kernel.cap_capable_relevant [OF K] by (cases "cap_relevant C K t cap cap_opt s") (auto simp: cap_capable_irrelevant)
  then have "quiet (s\<lparr>recorded_caps := recorded_caps ?s'\<rparr>) ?s'"
    using bpf_kernel.cap_capable_relevant [OF K] by (cases "cap_relevant C K t cap cap_opt s") (auto simp: cap_capable_irrelevant quiet_def)
  from quiet_backed(2) [OF this] show "backed recorded_sockets names s ?s'" by (simp add: backed_def)
qed

lemma socket_backed:
  assumes K: "bpf_kernel K" and dom: "domain_ok (Sys_enter_socket ctx)"
  shows "backed recorded_sockets socket_names s (snd (sys_enter_socket C K t ctx s))"
    "backed recorded_caps names s (snd (sys_enter_socket C K t ctx s))"
proof -
  let ?s' = "snd (sys_enter_socket C K t ctx s)" and ?key = "get_key C K t (get_mntns C K t s)"
  note marks = bpf_kernel.sys_enter_socket_marks [OF K, of C t ctx s]
  have irr: "?s' = s" if "socket_relevant C K t ctx s = None" using sys_enter_socket_irrelevant [OF that] by simp
  have d32: "d < 2 ^ 32" if "socket_relevant C K t ctx s = Some (d, ty)" for d ty
    using that dom by (auto simp: socket_relevant_def split: if_splits option.splits)
  have eq: "events ?s' = events s \<and> (rb_room K (events s) sizeof_event_header \<longrightarrow> reported (recorded_sockets s) ?key (socket_shift d ty)) \<or>
      events ?s' = events s @ [socket_event t (get_mntns C K t s) ?key d ty]"
    "recorded_caps ?s' = recorded_caps s"
    if "socket_relevant C K t ctx s = Some (d, ty)" for d ty
    using bpf_kernel.sys_enter_socket_relevant [OF K that] by auto
  show "backed recorded_sockets socket_names s ?s'"
  proof (cases "socket_relevant C K t ctx s")
    case None
    then show ?thesis using irr quiet_backed(2) [OF quiet_refl] by simp
  next
    case (Some dt)
    obtain d ty where dt: "dt = (d, ty)" by (cases dt)
    note rel = Some [unfolded dt]
    have "socket_names ?key (socket_shift d ty) (socket_event t (get_mntns C K t s) ?key d ty)"
      using d32 [OF rel] by (auto simp: socket_names_def)
    moreover have "\<not> clears k (socket_event t (get_mntns C K t s) ?key d ty)" for k by simp
    ultimately show ?thesis using eq(1) [OF rel] marks rel unfolding backed_def by fastforce
  qed
  have "quiet (s\<lparr>recorded_sockets := recorded_sockets ?s'\<rparr>) ?s'"
    using eq irr by (cases "socket_relevant C K t ctx s") (fastforce simp: quiet_def)+
  from quiet_backed(1) [OF this] show "backed recorded_caps names s ?s'" by (simp add: backed_def)
qed

lemma run_hook_backed:
  assumes "bpf_kernel K" "domain_ok h" "run_hook C K t h s = Some (r, s')"
  shows "backed recorded_caps cap_names s s'" "backed recorded_sockets socket_names s s'"
proof -
  note parts = sys_enter_backed cap_capable_backed [OF assms(1)] socket_backed [OF assms(1)]
    process_quiet [THEN quiet_backed(1)] process_quiet [THEN quiet_backed(2)]
    execve_quiet [THEN quiet_backed(1)] execve_quiet [THEN quiet_backed(2)]
  have snd: "x = (r, s') \<Longrightarrow> s' = snd x" for x by simp
  show "backed recorded_caps cap_names s s'"
    using assms(2,3) by (cases h) (auto dest!: snd simp: parts simp del: domain_ok.simps dest: file_hook_quiet intro: quiet_backed)
  show "backed recorded_sockets socket_names s s'"
    using assms(2,3) by (cases h) (auto dest!: snd simp: parts simp del: domain_ok.simps dest: file_hook_quiet intro: quiet_backed)
qed

end
