(* ===== verification/Recording.thy ===== *)
theory Recording
  imports Recorder_System
begin

text \<open>
  The kernel and the userspace together. The hooks mark a capability or a socket as reported when
  they send its record, and send no further one. The userspace takes the records from the ring
  buffer and drops data and marks when a container starts, a workload turns out not to be
  recorded, a profile was collected, or the recording stops. All of this interleaves. The
  invariant says that a mark never outlives what it stands for.
\<close>

section \<open>The userspace operations and the marks\<close>

lemma forgetReported_eq:
  "forgetReported [key] (b, s) =
     (b, if ar_loaded b then s\<lparr>recorded_caps := (recorded_caps s)(key := None),
                                recorded_sockets := (recorded_sockets s)(key := None)\<rparr> else s)"
  by (simp add: forgetReported_def)

lemma fold_delete: "fold (\<lambda>key m. m(key := None)) keys m k = (if k \<in> set keys then None else m k)"
  by (induction keys arbitrary: m) auto

lemma clear_data_sel [simp]:
  "ar_loaded (clear_data key b) = ar_loaded b" "ar_excluded (clear_data key b) = ar_excluded b"
  by (simp_all add: clear_data_def)

lemma fold_clear_data:
  "ar_loaded (fold clear_data keys b) = ar_loaded b"
  "ar_excluded (fold clear_data keys b) = ar_excluded b"
  "ar_recordedCapabilities (fold clear_data keys b) k = (if k \<in> set keys then None else ar_recordedCapabilities b k)"
  "ar_recordedSocketsUse (fold clear_data keys b) k = (if k \<in> set keys then None else ar_recordedSocketsUse b k)"
  "ar_recordedFiles (fold clear_data keys b) k = (if k \<in> set keys then None else ar_recordedFiles b k)"
  by (induction keys arbitrary: b) (auto simp: clear_data_def)

lemma trackKey_sel [simp]:
  "ar_loaded (snd (trackKey key b)) = ar_loaded b" "ar_excluded (snd (trackKey key b)) = ar_excluded b"
  "ar_recordedCapabilities (snd (trackKey key b)) = ar_recordedCapabilities b"
  "ar_recordedSocketsUse (snd (trackKey key b)) = ar_recordedSocketsUse b"
  "ar_recordedFiles (snd (trackKey key b)) = ar_recordedFiles b"
  by (simp_all add: trackKey_def)

lemma handleFileEvent_sel [simp]:
  "snd (handleFileEvent e (b, s)) = s"
  "ar_loaded (fst (handleFileEvent e (b, s))) = ar_loaded b"
  "ar_excluded (fst (handleFileEvent e (b, s))) = ar_excluded b"
  "ar_recordedCapabilities (fst (handleFileEvent e (b, s))) = ar_recordedCapabilities b"
  "ar_recordedSocketsUse (fst (handleFileEvent e (b, s))) = ar_recordedSocketsUse b"
proof -
  have n: "ar_loaded (snd (normalizePath f b)) = ar_loaded b" "ar_excluded (snd (normalizePath f b)) = ar_excluded b"
    "ar_recordedCapabilities (snd (normalizePath f b)) = ar_recordedCapabilities b"
    "ar_recordedSocketsUse (snd (normalizePath f b)) = ar_recordedSocketsUse b" for f
    by (simp_all add: normalizePath_def Let_def split: option.split)
  have r: "ar_loaded (record_file k f fl b) = ar_loaded b" "ar_excluded (record_file k f fl b) = ar_excluded b"
    "ar_recordedCapabilities (record_file k f fl b) = ar_recordedCapabilities b"
    "ar_recordedSocketsUse (record_file k f fl b) = ar_recordedSocketsUse b" for k f fl b
    by (simp_all add: record_file_def Let_def)
  show "snd (handleFileEvent e (b, s)) = s"
    "ar_loaded (fst (handleFileEvent e (b, s))) = ar_loaded b"
    "ar_excluded (fst (handleFileEvent e (b, s))) = ar_excluded b"
    "ar_recordedCapabilities (fst (handleFileEvent e (b, s))) = ar_recordedCapabilities b"
    "ar_recordedSocketsUse (fst (handleFileEvent e (b, s))) = ar_recordedSocketsUse b"
    by (simp_all add: handleFileEvent_def Let_def case_prod_beta n r)
qed

text \<open>What the userspace has of a capability, and of the sockets that share a bit.\<close>

definition cap_known :: "AppArmorRecorder \<Rightarrow> u64 \<Rightarrow> nat \<Rightarrow> bool" where
  "cap_known b k n \<longleftrightarrow> (\<exists>caps. ar_recordedCapabilities b k = Some caps \<and> int n \<in> set caps)"

definition covers_use :: "BpfAppArmorSocketTypes \<Rightarrow> BpfAppArmorSocketTypes \<Rightarrow> bool" where
  "covers_use r use \<longleftrightarrow> (UseRaw use \<longrightarrow> UseRaw r) \<and> (UseTCP use \<longrightarrow> UseTCP r) \<and> (UseUDP use \<longrightarrow> UseUDP r)"

definition socket_known :: "AppArmorRecorder \<Rightarrow> u64 \<Rightarrow> nat \<Rightarrow> bool" where
  "socket_known b k n \<longleftrightarrow> (\<forall>d ty use. d < 2 ^ 32 \<longrightarrow> n = socket_shift d ty \<longrightarrow>
     socketUse (socket_flags d ty) no_sockets = (True, use) \<longrightarrow>
     (\<exists>r. ar_recordedSocketsUse b k = Some r \<and> covers_use r use))"

section \<open>The contract of a channel\<close>

text \<open>
  \<open>marks\<close> is the map of the kernel, \<open>names\<close> tells which records stand for a mark, and \<open>known\<close>
  what the userspace has of it.
\<close>

definition backed_marks ::
  "(rstate \<Rightarrow> (u64 \<rightharpoonup> u64)) \<Rightarrow> (u64 \<Rightarrow> nat \<Rightarrow> u8 list \<Rightarrow> bool) \<Rightarrow>
   (AppArmorRecorder \<Rightarrow> u64 \<Rightarrow> nat \<Rightarrow> bool) \<Rightarrow> AppArmorRecorder \<Rightarrow> rstate \<Rightarrow> bool" where
  "backed_marks marks names known b s \<longleftrightarrow> (\<forall>k n. k \<notin> ar_excluded b \<longrightarrow> reported (marks s) k n \<longrightarrow>
     live (names k n) k (known b k n) (events s))"

locale report_channel =
  fixes marks :: "rstate \<Rightarrow> (u64 \<rightharpoonup> u64)"
    and names :: "u64 \<Rightarrow> nat \<Rightarrow> u8 list \<Rightarrow> bool"
    and known :: "AppArmorRecorder \<Rightarrow> u64 \<Rightarrow> nat \<Rightarrow> bool"
  assumes hook: "bpf_kernel K \<Longrightarrow> domain_ok h \<Longrightarrow> run_hook C K t h s = Some (r, s') \<Longrightarrow> backed marks names s s'"
    and handled: "ar_loaded b \<Longrightarrow> k \<notin> ar_excluded b \<Longrightarrow> reported (marks (snd (handleEvent raw (b, s)))) k n \<Longrightarrow>
      reported (marks s) k n \<and>
      (names k n raw \<or> (known b k n \<and> \<not> clears k raw) \<longrightarrow> known (fst (handleEvent raw (b, s))) k n)"
    and cleared: "ar_loaded b \<Longrightarrow> reported (marks (snd (Clear keys (b, s)))) k n \<Longrightarrow>
      reported (marks s) k n \<and> (known b k n \<longrightarrow> known (fst (Clear keys (b, s))) k n)"
    and stopped: "ar_loaded b \<Longrightarrow> \<not> reported (marks (snd (StopRecording (b, s)))) k n"
    and excluding: "known (b\<lparr>ar_excluded := E\<rparr>) k n = known b k n"
    and marks_events: "marks (s\<lparr>events := evs\<rparr>) = marks s"
    and marks_le: "recorded_caps s' \<subseteq>\<^sub>m recorded_caps s \<Longrightarrow> recorded_sockets s' \<subseteq>\<^sub>m recorded_sockets s \<Longrightarrow>
      marks s' \<subseteq>\<^sub>m marks s"
    and marks_empty: "recorded_caps s = Map.empty \<Longrightarrow> recorded_sockets s = Map.empty \<Longrightarrow> marks s = Map.empty"
begin

lemma backed_marks_hook:
  "backed_marks marks names known b s \<Longrightarrow> backed marks names s s' \<Longrightarrow> backed_marks marks names known b s'"
  unfolding backed_marks_def backed_def
proof (elim exE conjE, intro allI impI)
  fix new k n
  assume b: "\<forall>k n. k \<notin> ar_excluded b \<longrightarrow> reported (marks s) k n \<longrightarrow> live (names k n) k (known b k n) (events s)"
    and ev: "events s' = events s @ new"
    and m: "\<forall>k n. reported (marks s') k n \<longrightarrow> live (names k n) k (reported (marks s) k n) new"
    and k: "k \<notin> ar_excluded b" "reported (marks s') k n"
  have "live (names k n) k (live (names k n) k (known b k n) (events s)) new"
    by (rule live_mono [OF m [rule_format, OF k(2)]]) (use b k(1) in blast)
  then show "live (names k n) k (known b k n) (events s')" by (simp add: ev)
qed

lemma backed_marks_handle:
  assumes "backed_marks marks names known b s" "events s = raw # rest" "ar_loaded b"
    and "events (snd (handleEvent raw (b, s\<lparr>events := rest\<rparr>))) = rest"
    and "ar_excluded (fst (handleEvent raw (b, s\<lparr>events := rest\<rparr>))) = ar_excluded b"
  shows "backed_marks marks names known (fst (handleEvent raw (b, s\<lparr>events := rest\<rparr>))) (snd (handleEvent raw (b, s\<lparr>events := rest\<rparr>)))"
  unfolding backed_marks_def assms(4,5)
proof (intro allI impI)
  fix k n
  assume k: "k \<notin> ar_excluded b" and r: "reported (marks (snd (handleEvent raw (b, s\<lparr>events := rest\<rparr>)))) k n"
  note h = handled [OF assms(3) k r]
  then have "reported (marks s) k n" by (simp add: marks_events)
  then have "live (names k n) k (known b k n) (raw # rest)"
    using assms(1,2) k unfolding backed_marks_def by metis
  then have "live (names k n) k (names k n raw \<or> known b k n \<and> \<not> clears k raw) rest" by simp
  then show "live (names k n) k (known (fst (handleEvent raw (b, s\<lparr>events := rest\<rparr>))) k n) rest"
    by (rule live_mono) (use h in blast)
qed

end

section \<open>The interleaved recording\<close>

text \<open>
  A step is a call of a hook, the handling of the oldest record, \<^verbatim>\<open>Clear\<close> after a profile was
  collected or a container is gone, \<^verbatim>\<open>Exclude\<close>, the end of a recording, or any other change of the
  kernel state that adds no marks and leaves the ring buffer alone, like the userspace updating
  the other maps, or an entry that is evicted.
\<close>

inductive recording_reach :: "config \<Rightarrow> recording \<Rightarrow> bool" for C where
  start: "ar_loaded b \<Longrightarrow> recorded_caps s = Map.empty \<Longrightarrow> recorded_sockets s = Map.empty \<Longrightarrow>
    recording_reach C (b, s)"
| hook: "recording_reach C (b, s) \<Longrightarrow> bpf_kernel K \<Longrightarrow> domain_ok h \<Longrightarrow>
    run_hook C K t h s = Some (r, s') \<Longrightarrow> recording_reach C (b, s')"
| take_event: "recording_reach C (b, s) \<Longrightarrow> events s = raw # rest \<Longrightarrow>
    recording_reach C (handleEvent raw (b, s\<lparr>events := rest\<rparr>))"
| clear: "recording_reach C (b, s) \<Longrightarrow> recording_reach C (Clear keys (b, s))"
| exclude: "recording_reach C (b, s) \<Longrightarrow> recording_reach C (Exclude key (b, s))"
| stop: "recording_reach C (b, s) \<Longrightarrow> recording_reach C (StopRecording (b, s))"
| other: "recording_reach C (b, s) \<Longrightarrow> events s' = events s \<Longrightarrow> recorded_caps s' \<subseteq>\<^sub>m recorded_caps s \<Longrightarrow>
    recorded_sockets s' \<subseteq>\<^sub>m recorded_sockets s \<Longrightarrow> recording_reach C (b, s')"

lemma Clear_frame:
  "events (snd (Clear keys (b, s))) = events s" "ar_loaded (fst (Clear keys (b, s))) = ar_loaded b"
  "ar_excluded (fst (Clear keys (b, s))) = ar_excluded b"
  by (simp_all add: Clear_def forgetReported_def fold_clear_data)

lemma handleEvent_frame:
  "events (snd (handleEvent raw (b, s))) = events s" "ar_loaded (fst (handleEvent raw (b, s))) = ar_loaded b"
  "ar_excluded (fst (handleEvent raw (b, s))) = ar_excluded b"
  by (simp_all add: handleEvent_def clearKey_def Clear_frame handleSocketEvent_def handleCapabilityEvent_def
      Let_def case_prod_beta forgetReported_eq split: option.split)

lemma StopRecording_frame: "ar_loaded (fst (StopRecording (b, s))) = ar_loaded b"
  by (simp add: StopRecording_def)

lemma reported_le: "m \<subseteq>\<^sub>m m' \<Longrightarrow> reported m k n \<Longrightarrow> reported m' k n"
  unfolding reported_def map_le_def by (metis domI)

context report_channel
begin

lemma backed_marks_clear:
  assumes "backed_marks marks names known b s" "ar_loaded b"
  shows "backed_marks marks names known (fst (Clear keys (b, s))) (snd (Clear keys (b, s)))"
  unfolding backed_marks_def Clear_frame
  using assms(1) cleared [OF assms(2)] unfolding backed_marks_def by (blast intro: live_mono)

lemma backed_marks_exclude:
  assumes "backed_marks marks names known b s" "ar_loaded b"
  shows "backed_marks marks names known (fst (Exclude key (b, s))) (snd (Exclude key (b, s)))"
proof -
  let ?b = "b\<lparr>ar_excluded := insert key (ar_excluded b)\<rparr>"
  have "backed_marks marks names known ?b s" using assms(1) by (simp add: backed_marks_def excluding)
  then show ?thesis using backed_marks_clear [of ?b s "[key]"] assms(2) by (simp add: Exclude_def)
qed

lemma reach_backed:
  "recording_reach C w \<Longrightarrow> ar_loaded (fst w) \<and> backed_marks marks names known (fst w) (snd w)"
proof (induction rule: recording_reach.induct)
  case (start b s)
  then show ?case using marks_empty [of s] by (simp add: backed_marks_def reported_def)
next
  case (hook b s K h t r s')
  then show ?case using backed_marks_hook report_channel.hook [OF report_channel_axioms] by simp metis
next
  case (take_event b s raw rest)
  then show ?case
    using backed_marks_handle [of b s raw rest] by (simp add: handleEvent_frame)
next
  case (clear b s keys)
  then show ?case using backed_marks_clear by (simp add: Clear_frame)
next
  case (exclude b s key)
  then show ?case using backed_marks_exclude by (simp add: Exclude_def Clear_frame)
next
  case (stop b s)
  then show ?case using stopped by (simp add: StopRecording_frame backed_marks_def)
next
  case (other b s s')
  then show ?case using reported_le [OF marks_le [OF other.hyps(3,4)]] by (simp add: backed_marks_def)
qed

text \<open>Once the userspace took all records, it knows everything that is marked.\<close>

lemma drained_known:
  "recording_reach C (b, s) \<Longrightarrow> events s = [] \<Longrightarrow> k \<notin> ar_excluded b \<Longrightarrow> reported (marks s) k n \<Longrightarrow> known b k n"
  using reach_backed [of C "(b, s)"] by (simp add: backed_marks_def)

end

section \<open>The two channels\<close>

lemma reported_64: "reported m k n \<Longrightarrow> n < 64"
  using bit_imp_le_length by (fastforce simp: reported_def)

lemma sint_small: "unat (f :: u64) < 64 \<Longrightarrow> sint f = int (unat f)"
proof -
  assume f: "unat f < 64"
  have u: "uint f = int (unat f)" by simp
  then have "uint f < 64" using f by linarith
  then have "uint f < 2 ^ 63" by (rule less_trans) simp
  moreover have "- (2 ^ 63) \<le> uint f" by (rule order_trans [of _ 0]) simp_all
  ultimately have "signed_take_bit 63 (uint f) = uint f" by (intro signed_take_bit_int_eq_self)
  then show ?thesis by (simp add: sint_uint)
qed

lemma handleEvent_clear:
  "clears k raw \<Longrightarrow> ar_loaded b \<Longrightarrow> recorded_caps (snd (handleEvent raw (b, s))) k = None"
  "clears k raw \<Longrightarrow> ar_loaded b \<Longrightarrow> recorded_sockets (snd (handleEvent raw (b, s))) k = None"
  by (auto simp: clears_def says_def handleEvent_def clearKey_def Clear_def forgetReported_def fold_clear_data
      split: option.splits)

lemma handleEvent_marks:
  "reported (recorded_caps (snd (handleEvent raw (b, s)))) k n \<Longrightarrow> reported (recorded_caps s) k n"
  "reported (recorded_sockets (snd (handleEvent raw (b, s)))) k n \<Longrightarrow> reported (recorded_sockets s) k n"
  by (auto simp: handleEvent_def handleSocketEvent_def handleCapabilityEvent_def Let_def case_prod_beta
      clearKey_def Clear_def forgetReported_def reported_def split: option.splits if_splits)

interpretation caps: report_channel recorded_caps cap_names cap_known
proof
  show "backed recorded_caps cap_names s s'"
    if "bpf_kernel K" "domain_ok h" "run_hook C K t h s = Some (r, s')" for C K t h s r s'
    by (rule run_hook_backed(1) [OF that])
next
  fix b :: AppArmorRecorder and k raw s n
  assume l: "ar_loaded b" and k: "k \<notin> ar_excluded b"
    and r: "reported (recorded_caps (snd (handleEvent raw (b, s)))) k n"
  have "\<not> clears k raw" using handleEvent_clear(1) [OF _ l] r by (fastforce simp: reported_def)
  moreover have "cap_known (fst (handleEvent raw (b, s))) k n" if "cap_names k n raw"
    using that k l r reported_64 [OF r] sint_small
    by (auto simp: cap_names_def says_def handleEvent_def handleCapabilityEvent_def isExcluded_def Let_def
        case_prod_beta cap_known_def forgetReported_eq reported_def split: option.splits if_splits)
  moreover have "cap_known (fst (handleEvent raw (b, s))) k n" if "cap_known b k n" "\<not> clears k raw"
    using that
    by (auto simp: clears_def says_def handleEvent_def handleCapabilityEvent_def handleSocketEvent_def Let_def
        case_prod_beta cap_known_def forgetReported_eq clearKey_def Clear_def forgetReported_def
        fold_clear_data clear_data_def split: option.splits)
  ultimately show "reported (recorded_caps s) k n \<and> (cap_names k n raw \<or> (cap_known b k n \<and> \<not> clears k raw) \<longrightarrow>
      cap_known (fst (handleEvent raw (b, s))) k n)"
    using handleEvent_marks(1) [OF r] by blast
qed (auto simp: Clear_def forgetReported_def fold_delete fold_clear_data reported_def cap_known_def
    StopRecording_def split: if_splits)

lemma covers_merge:
  "covers_use (merge_sockets r use) use" "covers_use r u \<Longrightarrow> covers_use (merge_sockets r use) u"
  by (auto simp: covers_use_def merge_sockets_def)

lemma handleSocketEvent_known:
  assumes "socketUse (Flags e) no_sockets = (True, use)" "ar_loaded b" "Key e \<notin> ar_excluded b"
    and "recorded_sockets (snd (handleSocketEvent e (b, s))) (Key e) \<noteq> None"
  shows "\<exists>r. ar_recordedSocketsUse (fst (handleSocketEvent e (b, s))) (Key e) = Some r \<and> covers_use r use"
  using assms by (auto simp: handleSocketEvent_def isExcluded_def Let_def case_prod_beta forgetReported_eq
      covers_merge split: if_splits)

lemma handleSocketEvent_keeps:
  assumes "ar_recordedSocketsUse b k = Some r" "covers_use r u"
  shows "\<exists>r. ar_recordedSocketsUse (fst (handleSocketEvent e (b, s))) k = Some r \<and> covers_use r u"
  using assms by (auto simp: handleSocketEvent_def Let_def case_prod_beta forgetReported_eq covers_merge)

lemma handleEvent_keeps_sockets:
  assumes "ar_recordedSocketsUse b k = Some r" "covers_use r u" "\<not> clears k raw"
  shows "\<exists>r. ar_recordedSocketsUse (fst (handleEvent raw (b, s))) k = Some r \<and> covers_use r u"
proof (cases "unmarshal raw")
  case None
  then show ?thesis using assms by (simp add: handleEvent_def)
next
  case (Some e)
  have "ar_recordedSocketsUse (fst (handleCapabilityEvent e (b, s))) = ar_recordedSocketsUse b"
    by (simp add: handleCapabilityEvent_def Let_def case_prod_beta forgetReported_eq)
  then show ?thesis
    using assms handleSocketEvent_keeps [OF assms(1,2)] Some
    by (auto simp: handleEvent_def clearKey_def Clear_def forgetReported_eq clear_data_def clears_def says_def)
qed

interpretation sockets: report_channel recorded_sockets socket_names socket_known
proof
  show "backed recorded_sockets socket_names s s'"
    if "bpf_kernel K" "domain_ok h" "run_hook C K t h s = Some (r, s')" for C K t h s r s'
    by (rule run_hook_backed(2) [OF that])
next
  fix b :: AppArmorRecorder and k raw s n
  assume l: "ar_loaded b" and k: "k \<notin> ar_excluded b"
    and r: "reported (recorded_sockets (snd (handleEvent raw (b, s)))) k n"
  have "socket_known (fst (handleEvent raw (b, s))) k n" if raw: "socket_names k n raw"
    unfolding socket_known_def
  proof (intro allI impI)
    fix d ty use
    assume d: "d < 2 ^ 32" "n = socket_shift d ty" and use: "socketUse (socket_flags d ty) no_sockets = (True, use)"
    obtain e d' ty' where e: "unmarshal raw = Some e" "Type e = eventTypeAppArmorSocket" "Key e = k"
      "Flags e = socket_flags d' ty'" "d' < 2 ^ 32" "n = socket_shift d' ty'"
      using raw by (auto simp: socket_names_def says_def split: option.splits)
    have h: "handleEvent raw (b, s) = handleSocketEvent e (b, s)" using e(1,2) by (simp add: handleEvent_def)
    have "socketUse (Flags e) no_sockets = (True, use)"
      using socketUse_shared [of d ty d' ty' no_sockets] d e(4-6) use by simp
    then show "\<exists>r. ar_recordedSocketsUse (fst (handleEvent raw (b, s))) k = Some r \<and> covers_use r use"
      using handleSocketEvent_known [of e use b s] l k r e(3) unfolding h by (auto simp: reported_def)
  qed
  moreover have "socket_known (fst (handleEvent raw (b, s))) k n" if known: "socket_known b k n" and nc: "\<not> clears k raw"
    unfolding socket_known_def
  proof (intro allI impI)
    fix d ty use
    assume "d < 2 ^ 32" "n = socket_shift d ty" "socketUse (socket_flags d ty) no_sockets = (True, use)"
    then obtain r where "ar_recordedSocketsUse b k = Some r" "covers_use r use"
      using known unfolding socket_known_def by blast
    then show "\<exists>r. ar_recordedSocketsUse (fst (handleEvent raw (b, s))) k = Some r \<and> covers_use r use"
      by (rule handleEvent_keeps_sockets [OF _ _ nc])
  qed
  ultimately show "reported (recorded_sockets s) k n \<and>
      (socket_names k n raw \<or> (socket_known b k n \<and> \<not> clears k raw) \<longrightarrow>
       socket_known (fst (handleEvent raw (b, s))) k n)"
    using handleEvent_marks(2) [OF r] by blast
qed (auto simp: Clear_def forgetReported_def fold_delete fold_clear_data reported_def socket_known_def
    StopRecording_def split: if_splits)

end
