(* ===== verification/Path_Cover.thy ===== *)
theory Path_Cover
  imports Path_Rules
begin

text \<open>
  The rule made of a recorded path covers the path. AppArmor reads a rule as a glob. Its matcher is
  not part of the sources, so it is the parameter of a locale whose laws are the documented meaning
  of the characters a rule is made of. \<open>rule_of\<close> relates the rules that are built to the paths they
  come from, and every step of the normalization keeps it.
\<close>

section \<open>The glob language of AppArmor\<close>

locale path_glob =
  fixes covers :: "u8 list \<Rightarrow> u8 list \<Rightarrow> bool"
    and process_number :: "u8 list \<Rightarrow> bool"
  assumes covers_end: "covers [] []"
    and covers_plain: "isPlainPathByte c \<Longrightarrow> covers r p \<Longrightarrow> covers (c # r) (c # p)"
    and covers_any: "c \<noteq> 0x2F \<Longrightarrow> covers r p \<Longrightarrow> covers (0x3F # r) (c # p)"
    and covers_star: "q \<noteq> [] \<Longrightarrow> 0x2F \<notin> set q \<Longrightarrow> covers r p \<Longrightarrow> covers (0x2A # r) (q @ p)"
    and covers_below: "q \<noteq> [] \<Longrightarrow> covers [0x2A, 0x2A] q"
    and covers_pid: "process_number q \<Longrightarrow> covers r p \<Longrightarrow> covers (pid_var @ r) (q @ p)"
    and covers_tid: "process_number q \<Longrightarrow> covers r p \<Longrightarrow> covers (tid_var @ r) (q @ p)"
    and process_number_digits: "process_number q \<Longrightarrow> q \<noteq> [] \<and> list_all digit q"

inductive rule_of :: "(u8 list \<Rightarrow> bool) \<Rightarrow> u8 list \<Rightarrow> u8 list \<Rightarrow> bool" for N where
  rule_end: "rule_of N [] []"
| rule_plain: "isPlainPathByte c \<Longrightarrow> rule_of N r p \<Longrightarrow> rule_of N (c # r) (c # p)"
| rule_any: "c \<noteq> 0x2F \<Longrightarrow> rule_of N r p \<Longrightarrow> rule_of N (0x3F # r) (c # p)"
| rule_star: "q \<noteq> [] \<Longrightarrow> 0x2F \<notin> set q \<Longrightarrow> rule_of N r p \<Longrightarrow> rule_of N (0x2A # r) (q @ p)"
| rule_pid: "N q \<Longrightarrow> rule_of N r p \<Longrightarrow> rule_of N (pid_var @ r) (q @ p)"
| rule_tid: "N q \<Longrightarrow> rule_of N r p \<Longrightarrow> rule_of N (tid_var @ r) (q @ p)"

context path_glob
begin

lemma rule_of_covers: "rule_of process_number r p \<Longrightarrow> covers r p"
  by (induction rule: rule_of.induct)
    (auto intro: covers_end covers_plain covers_any covers_star covers_pid covers_tid)

lemma plains_cover: "list_all isPlainPathByte w \<Longrightarrow> covers r p \<Longrightarrow> covers (w @ r) (w @ p)"
  by (induction w) (auto intro: covers_plain)

end

section \<open>Reading a rule\<close>

lemma special_not_plain [simp]:
  "\<not> isPlainPathByte 0x3F" "\<not> isPlainPathByte 0x2A" "\<not> isPlainPathByte 0x40"
  by (simp_all add: isPlainPathByte_def between_def)

lemma rule_of_plainD:
  "rule_of N (c # r) p \<Longrightarrow> isPlainPathByte c \<Longrightarrow> \<exists>p'. p = c # p' \<and> rule_of N r p'"
  by (erule rule_of.cases) (auto simp: pid_var_def tid_var_def)

lemma rule_of_plainsD:
  "rule_of N (w @ r) p \<Longrightarrow> list_all isPlainPathByte w \<Longrightarrow> \<exists>p'. p = w @ p' \<and> rule_of N r p'"
  by (induction w arbitrary: p) (auto dest: rule_of_plainD)

lemma rule_of_plains: "list_all isPlainPathByte w \<Longrightarrow> rule_of N r p \<Longrightarrow> rule_of N (w @ r) (w @ p)"
  by (induction w) (auto intro: rule_plain)

lemma rule_of_pidD: "rule_of N (pid_var @ r) p \<Longrightarrow> \<exists>q p'. p = q @ p' \<and> N q \<and> rule_of N r p'"
  by (erule rule_of.cases) (auto simp: pid_var_def tid_var_def)

lemma rule_of_absolute: "rule_of N r (0x2F # p) \<Longrightarrow> \<forall>q. N q \<longrightarrow> q \<noteq> [] \<and> list_all digit q \<Longrightarrow> \<exists>r'. r = 0x2F # r'"
  by (erule rule_of.cases) (auto simp: Cons_eq_append_conv digit_def between_def)

lemma rule_of_bytes:
  "rule_of N r p \<Longrightarrow> c \<in> set r \<Longrightarrow> isPlainPathByte c \<or> c \<in> {0x3F, 0x2A, 0x40, 0x7B, 0x7D}"
  by (induction rule: rule_of.induct) (auto simp: pid_var_def tid_var_def isPlainPathByte_def between_def)

section \<open>Sanitizing\<close>

lemma sanitize_rule:
  assumes "\<not> has_suffix deletedSuffix p" "\<not> has_suffix (deletedSuffix @ [0x2F]) p"
  shows "rule_of N (sanitizeFilePath p) p"
proof -
  have "rule_of N (map (\<lambda>c. if isPlainPathByte c then c else 0x3F) q) q" for q
    by (induction q) (auto intro!: rule_end rule_plain rule_any simp: isPlainPathByte_def)
  then show ?thesis using assms by (simp add: sanitizeFilePath_def cut_markers_def)
qed

section \<open>Matching\<close>

lemma match_lit:
  "match_at (lit w @ re) s =
     (if take (length w) s = w then map_option ((+) (length w)) (match_at re (drop (length w) s)) else None)"
proof (induction w arbitrary: s)
  case Nil
  then show ?case by (simp add: lit_def map_option.identity [unfolded id_def] map_option_cong)
next
  case (Cons c w)
  then show ?case
    by (cases s) (auto simp: lit_def option.map_comp comp_def min_def Let_def)
qed

lemma match_greedy:
  "match_at ((P, lo, None) # re) s =
     (if length (takeWhile P s) < lo then None
      else map_option ((+) (length (takeWhile P s))) (match_at re (dropWhile P s)))"
  by (simp add: dropWhile_eq_drop Let_def)

lemma match_class:
  assumes "match_at re s = Some n" "\<forall>(P, lo, hi) \<in> set re. \<forall>c. P c \<longrightarrow> Q c"
  shows "n \<le> length s \<and> list_all Q (take n s)"
  using assms
proof (induction re arbitrary: s n)
  case Nil
  then show ?case by simp
next
  case (Cons i re)
  obtain P lo hi where i: "i = (P, lo, hi)" by (cases i)
  obtain m k where m: "match_item i s = Some m" "match_at re (drop m s) = Some k" "n = m + k"
    using Cons.prems(1) by (auto split: option.splits)
  have "m \<le> length (takeWhile P s)"
    using m(1) by (auto simp: i Let_def split: if_splits option.splits)
  then have le: "m \<le> length s" and "take m s = take m (takeWhile P s)"
    using length_takeWhile_le [of P s] takeWhile_eq_take [of P s]
    by (linarith, metis min.absorb1 take_take)
  then have "list_all Q (take m s)"
    using Cons.prems(2) by (auto simp: i list_all_iff dest!: in_set_takeD set_takeWhileD)
  moreover have "k \<le> length (drop m s) \<and> list_all Q (take k (drop m s))"
    using Cons.IH [OF m(2)] Cons.prems(2) by simp
  ultimately show ?case using le by (auto simp: m(3) take_add)
qed

section \<open>The numbers of processes and threads\<close>

text \<open>The numbers of a path that the rule replaces by the variables of AppArmor.\<close>

definition number_after :: "u8 list \<Rightarrow> u8 list \<Rightarrow> u8 list list" where
  "number_after a p =
     (let q = drop (length a) p; ds = takeWhile digit q
      in if has_prefix a p \<and> ds \<noteq> [] \<and> has_prefix slash (dropWhile digit q) then [ds] else [])"

definition process_numbers :: "u8 list \<Rightarrow> u8 list list" where
  "process_numbers p =
     concat (map (\<lambda>a. number_after a p @
         concat (map (\<lambda>q. number_after (a @ q @ task_dir) p) (number_after a p)))
       [slash, proc_dir])"

lemma digit_facts [simp]: "\<not> digit 0x2F"
  by (simp add: digit_def between_def)

lemma digit_plain: "digit c \<Longrightarrow> isPlainPathByte c"
  by (simp add: digit_def isPlainPathByte_def)

lemma digits_plain: "list_all digit ds \<Longrightarrow> list_all isPlainPathByte ds"
  by (auto simp: list_all_iff digit_plain)

lemma takeWhile_digits:
  "list_all digit ds \<Longrightarrow> takeWhile digit (ds @ 0x2F # b) = ds"
  "list_all digit ds \<Longrightarrow> dropWhile digit (ds @ 0x2F # b) = 0x2F # b"
  by (auto simp: list_all_iff takeWhile_append2 dropWhile_append2)

lemma number_after_eq:
  "list_all digit ds \<Longrightarrow> ds \<noteq> [] \<Longrightarrow> number_after a (a @ ds @ slash @ b) = [ds]"
  by (simp add: number_after_def Let_def has_prefix_def slash_def takeWhile_digits)

lemma process_numbers_first:
  "a \<in> {slash, proc_dir} \<Longrightarrow> list_all digit ds \<Longrightarrow> ds \<noteq> [] \<Longrightarrow> ds \<in> set (process_numbers (a @ ds @ slash @ b))"
  using number_after_eq [of ds a b] by (auto simp: process_numbers_def)

lemma process_numbers_second:
  assumes "a \<in> {slash, proc_dir}" "list_all digit q" "q \<noteq> []" "list_all digit ds" "ds \<noteq> []"
  shows "ds \<in> set (process_numbers (a @ q @ task_dir @ ds @ slash @ b))"
proof -
  have "task_dir = slash @ drop 1 task_dir" by (simp add: task_dir_def slash_def bytes_of_def)
  then have "number_after a (a @ q @ task_dir @ ds @ slash @ b) = [q]"
    using number_after_eq [OF assms(2,3), of a "drop 1 task_dir @ ds @ slash @ b"] by (metis append.assoc)
  moreover have "number_after (a @ q @ task_dir) (a @ q @ task_dir @ ds @ slash @ b) = [ds]"
    using number_after_eq [OF assms(4,5), of "a @ q @ task_dir" b] by simp
  ultimately show ?thesis using assms(1) by (auto simp: process_numbers_def)
qed

lemma match_number:
  assumes "match_at (lit a @ [(P, 1, None)] @ lit slash) s = Some n"
  shows "\<exists>ds b. ds \<noteq> [] \<and> list_all P ds \<and> s = a @ ds @ slash @ b \<and> n = length a + length ds + 1"
proof -
  let ?q = "drop (length a) s"
  let ?ds = "takeWhile P ?q" and ?d = "dropWhile P ?q"
  from assms obtain m where a: "take (length a) s = a" and m: "n = length a + m"
    "match_at ((P, 1, None) # lit slash) ?q = Some m"
    by (auto simp: match_lit simp del: match_at.simps split: if_splits)
  from m(2) obtain k where ds: "\<not> length ?ds < 1" and k: "m = length ?ds + k" "match_at (lit slash) ?d = Some k"
    by (auto simp: match_greedy simp del: match_at.simps split: if_splits)
  from k(2) have d: "take 1 ?d = slash" "k = 1"
    using match_lit [of slash "[]" ?d] by (auto simp: slash_def split: if_splits)
  have "?d = slash @ drop 1 ?d" by (metis append_take_drop_id d(1))
  then have "s = a @ ?ds @ slash @ drop 1 ?d"
    by (metis a append_take_drop_id takeWhile_dropWhile_id)
  moreover have "?ds \<noteq> []" using ds by auto
  moreover have "list_all P ?ds" by (auto simp: list_all_iff dest: set_takeWhileD)
  ultimately show ?thesis using m(1) k(1) d(2) by (metis add.assoc)
qed

lemma replace_number:
  "replace_start (lit a @ [(digit, 1, None)] @ lit slash) r s = s \<or>
   (\<exists>ds b. ds \<noteq> [] \<and> list_all digit ds \<and> s = a @ ds @ slash @ b \<and>
     replace_start (lit a @ [(digit, 1, None)] @ lit slash) r s = r @ b)"
proof (cases "match_at (lit a @ [(digit, 1, None)] @ lit slash) s")
  case None
  then show ?thesis by (simp add: replace_start_def)
next
  case (Some n)
  from match_number [OF this] obtain ds b where s: "ds \<noteq> []" "list_all digit ds" "s = a @ ds @ slash @ b"
    "n = length a + length ds + 1" by blast
  then have "drop n s = b" by (simp add: slash_def)
  then show ?thesis using s(1-3) Some by (auto simp: replace_start_def)
qed

section \<open>The anchored expressions\<close>

lemma dirs_plain [simp]:
  "list_all isPlainPathByte slash" "list_all isPlainPathByte proc_dir" "list_all isPlainPathByte task_dir"
  "list_all isPlainPathByte overlay_dir" "list_all isPlainPathByte sys_devices"
  by (simp_all add: slash_def proc_dir_def task_dir_def overlay_dir_def sys_devices_def bytes_of_def
      isPlainPathByte_def between_def)

lemma rule_pid_step:
  assumes "rule_of N s p" "list_all N (process_numbers p)" "a \<in> {slash, proc_dir}"
  shows "rule_of N (replace_start (lit a @ [(digit, 1, None)] @ lit slash) (a @ pid_var @ slash) s) p"
  using replace_number [of a "a @ pid_var @ slash" s]
proof (elim disjE exE conjE)
  fix ds b
  assume ds: "ds \<noteq> []" "list_all digit ds" and s: "s = a @ ds @ slash @ b"
    and r: "replace_start (lit a @ [(digit, 1, None)] @ lit slash) (a @ pid_var @ slash) s = (a @ pid_var @ slash) @ b"
  have w: "list_all isPlainPathByte (a @ ds @ slash)" using ds assms(3) by (auto simp: digits_plain)
  then obtain p' where p: "p = a @ ds @ slash @ p'" "rule_of N b p'"
    using rule_of_plainsD [of N "a @ ds @ slash" b p] assms(1) s by auto
  have "N ds" using process_numbers_first [OF assms(3) ds(2,1), of p'] assms(2) p(1) by (auto simp: list_all_iff)
  then show ?thesis
    using p w unfolding r by (auto intro!: rule_of_plains rule_pid)
qed (use assms(1) in simp)

lemma rule_tid_step:
  assumes "rule_of N s p" "list_all N (process_numbers p)" "a \<in> {slash, proc_dir}"
    and N: "\<And>q. N q \<Longrightarrow> q \<noteq> [] \<and> list_all digit q"
  shows "rule_of N (replace_start (lit (a @ pid_var @ task_dir) @ [(digit, 1, None)] @ lit slash)
    (a @ pid_var @ task_dir @ tid_var @ slash) s) p" (is "rule_of N ?r p")
  using replace_number [of "a @ pid_var @ task_dir" "a @ pid_var @ task_dir @ tid_var @ slash" s]
proof (elim disjE exE conjE)
  fix ds b
  assume ds: "ds \<noteq> []" "list_all digit ds" and s: "s = (a @ pid_var @ task_dir) @ ds @ slash @ b"
    and r: "?r = (a @ pid_var @ task_dir @ tid_var @ slash) @ b"
  have a: "list_all isPlainPathByte a" using assms(3) by auto
  then obtain p1 where p1: "p = a @ p1" "rule_of N (pid_var @ task_dir @ ds @ slash @ b) p1"
    using rule_of_plainsD [of N a "pid_var @ task_dir @ ds @ slash @ b" p] assms(1) s by auto
  then obtain q p2 where p2: "p1 = q @ p2" "N q" "rule_of N (task_dir @ ds @ slash @ b) p2"
    using rule_of_pidD by blast
  then obtain p' where p': "p2 = task_dir @ ds @ slash @ p'" "rule_of N b p'"
    using rule_of_plainsD [of N "task_dir @ ds @ slash" b p2] ds by (auto simp: digits_plain)
  have "N ds"
    using process_numbers_second [OF assms(3), of q ds p'] N [OF p2(2)] ds assms(2) p1(1) p2(1) p'(1)
    by (auto simp: list_all_iff)
  then show ?thesis
    using p1(1) p2(1,2) p' a unfolding r by (auto intro!: rule_of_plains rule_pid rule_tid)
qed (use assms(1) in simp)

section \<open>The expressions that match anywhere\<close>

lemma rule_of_replace_all:
  assumes block: "\<And>s n. match_at re s = Some (Suc n) \<Longrightarrow> Suc n \<le> length s \<and>
      list_all isPlainPathByte (take (Suc n) s) \<and>
      (\<forall>r p. rule_of N r p \<longrightarrow> rule_of N (rep @ r) (take (Suc n) s @ p))"
    and skip: "\<And>v s. v \<in> {pid_var, tid_var, [0x3F], [0x2A]} \<Longrightarrow> replace_all re rep (v @ s) = v @ replace_all re rep s"
    and rule: "rule_of N r p"
  shows "rule_of N (replace_all re rep r) p"
  using rule
proof (induction "length r" arbitrary: r p rule: less_induct)
  case less
  note IH = less.hyps
  from less.prems show ?case
  proof cases
    case rule_end
    then show ?thesis by (simp add: rule_of.rule_end)
  next
    case (rule_plain c r' p')
    show ?thesis
    proof (cases "\<exists>n. match_at re r = Some (Suc n)")
      case True
      then obtain n where n: "match_at re r = Some (Suc n)" by blast
      let ?w = "take (Suc n) r" and ?s = "drop (Suc n) r"
      obtain q where q: "p = ?w @ q" "rule_of N ?s q"
        using rule_of_plainsD [of N ?w ?s p] block [OF n] less.prems by auto
      have "rule_of N (replace_all re rep ?s) q" using IH [OF _ q(2)] rule_plain(1) by simp
      then show ?thesis using block [OF n] n q(1) rule_plain(1) by auto
    next
      case False
      then have "replace_all re rep r = c # replace_all re rep r'"
        using rule_plain(1) by (auto split: option.splits nat.splits)
      then show ?thesis using IH [OF _ rule_plain(4)] rule_plain by (auto intro: rule_of.rule_plain)
    qed
  next
    case (rule_any c r' p')
    then show ?thesis using IH [OF _ rule_any(4)] skip [of "[0x3F]" r'] by (auto intro: rule_of.rule_any)
  next
    case (rule_star q r' p')
    then show ?thesis using IH [OF _ rule_star(5)] skip [of "[0x2A]" r'] by (auto intro: rule_of.rule_star)
  next
    case (rule_pid q r' p')
    then have "length r' < length r" by (simp add: pid_var_def)
    from rule_of.rule_pid [of N q, OF _ IH [OF this]] show ?thesis
      using rule_pid skip [of pid_var r'] by simp
  next
    case (rule_tid q r' p')
    then have "length r' < length r" by (simp add: tid_var_def)
    from rule_of.rule_tid [of N q, OF _ IH [OF this]] show ?thesis
      using rule_tid skip [of tid_var r'] by simp
  qed
qed

lemma wild_block:
  assumes "match_at re s = Some (Suc n)"
    and "\<forall>(P, lo, hi) \<in> set re. \<forall>c. P c \<longrightarrow> isPlainPathByte c \<and> c \<noteq> 0x2F"
  shows "Suc n \<le> length s \<and> list_all isPlainPathByte (take (Suc n) s) \<and>
    (\<forall>r p. rule_of N r p \<longrightarrow> rule_of N ([0x2A] @ r) (take (Suc n) s @ p))"
proof -
  have c: "Suc n \<le> length s \<and> list_all (\<lambda>c. isPlainPathByte c \<and> c \<noteq> 0x2F) (take (Suc n) s)"
    by (rule match_class [OF assms])
  then have "take (Suc n) s \<noteq> []" by (cases s) auto
  then show ?thesis using c rule_star [of "take (Suc n) s" N] by (auto simp: list_all_iff)
qed

lemmas classes = digit_def hex_def word_char_def isPlainPathByte_def between_def

lemma between_widen: "between a b c \<Longrightarrow> a' \<le> a \<Longrightarrow> b \<le> b' \<Longrightarrow> between a' b' c"
  unfolding between_def by (meson order_trans)

lemma hex_plain: "hex c \<Longrightarrow> isPlainPathByte c \<and> c \<noteq> 0x2F"
  using between_widen [of "0x61" "0x66" c "0x61" "0x7A"] between_widen [of "0x41" "0x46" c "0x41" "0x5A"]
  by (auto simp: hex_def isPlainPathByte_def) (auto simp: between_def)

lemma wild_classes:
  "\<forall>(P, lo, hi) \<in> set reUUID. \<forall>c. P c \<longrightarrow> isPlainPathByte c \<and> c \<noteq> 0x2F"
  "\<forall>(P, lo, hi) \<in> set reHash. \<forall>c. P c \<longrightarrow> isPlainPathByte c \<and> c \<noteq> 0x2F"
  "\<forall>(P, lo, hi) \<in> set reDigitSequence. \<forall>c. P c \<longrightarrow> isPlainPathByte c \<and> c \<noteq> 0x2F"
  by (auto simp: reUUID_def reHash_def reDigitSequence_def lit_def hex_plain digit_plain) (auto simp: classes)

lemma skips:
  "v \<in> {pid_var, tid_var, [0x3F], [0x2A]} \<Longrightarrow> replace_all reUUID rep (v @ s) = v @ replace_all reUUID rep s"
  "v \<in> {pid_var, tid_var, [0x3F], [0x2A]} \<Longrightarrow> replace_all reHash rep (v @ s) = v @ replace_all reHash rep s"
  "v \<in> {pid_var, tid_var, [0x3F], [0x2A]} \<Longrightarrow>
     replace_all reDigitSequence rep (v @ s) = v @ replace_all reDigitSequence rep s"
  "v \<in> {pid_var, tid_var, [0x3F], [0x2A]} \<Longrightarrow>
     replace_all rePathWithCid rep (v @ s) = v @ replace_all rePathWithCid rep s"
  by (auto simp: reUUID_def reHash_def reDigitSequence_def rePathWithCid_def overlay_dir_def bytes_of_def
      lit_def classes pid_var_def tid_var_def)

lemma container_block:
  assumes "match_at rePathWithCid s = Some (Suc n)"
  shows "Suc n \<le> length s \<and> list_all isPlainPathByte (take (Suc n) s) \<and>
    (\<forall>r p. rule_of N r p \<longrightarrow> rule_of N ((overlay_dir @ [0x2A] @ slash) @ r) (take (Suc n) s @ p))"
proof -
  obtain w b where w: "w \<noteq> []" "list_all word_char w" "s = overlay_dir @ w @ slash @ b"
    "Suc n = length overlay_dir + length w + 1"
    using match_number [of overlay_dir word_char s "Suc n"] assms unfolding rePathWithCid_def by auto
  have t: "take (Suc n) s = overlay_dir @ w @ slash" by (simp add: w(3,4) slash_def)
  have p: "list_all isPlainPathByte w" and ns: "0x2F \<notin> set w" using w(2) by (auto simp: list_all_iff classes)
  have "rule_of N (overlay_dir @ 0x2A # slash @ r) (overlay_dir @ w @ slash @ p')" if "rule_of N r p'" for r p'
    by (intro rule_of_plains rule_star that w(1) ns) simp_all
  then show ?thesis using p w(3,4) dirs_plain(1) by (simp add: t slash_def)
qed

section \<open>The whole rule\<close>

lemma replaced_rule:
  assumes "rule_of N s p" "list_all N (process_numbers p)" "\<And>q. N q \<Longrightarrow> q \<noteq> [] \<and> list_all digit q"
  shows "\<exists>r. rule_of N r p \<and> ReplaceVarianceInFilePath s =
    (if has_prefix sys_devices r then sys_devices @ [0x2A, 0x2A] else r)"
proof -
  note steps = rule_pid_step [OF _ assms(2)] rule_tid_step [OF _ assms(2) _ assms(3)]
    rule_of_replace_all [OF wild_block [OF _ wild_classes(1)] skips(1)]
    rule_of_replace_all [OF wild_block [OF _ wild_classes(2)] skips(2)]
    rule_of_replace_all [OF wild_block [OF _ wild_classes(3)] skips(3)]
    rule_of_replace_all [OF container_block skips(4)]
  show ?thesis
    unfolding ReplaceVarianceInFilePath_def Let_def reDirectPathWithPid_def reDirectPathWithTid_def
      rePathWithPid_def rePathWithTid_def
    by (rule exI, rule conjI [OF _ refl]) (intro steps assms(1); simp)
qed

lemma sys_devices_path:
  assumes "rule_of N r p" "has_prefix sys_devices r"
  shows "\<exists>q. p = sys_devices @ q"
proof -
  have "r = sys_devices @ drop (length sys_devices) r"
    using assms(2) by (metis append_take_drop_id has_prefix_def)
  then show ?thesis using rule_of_plainsD [of N sys_devices _ p] assms(1) by (metis dirs_plain(5))
qed

context path_glob
begin

lemma normalized_rule:
  assumes "\<not> has_suffix deletedSuffix p" "\<not> has_suffix (deletedSuffix @ [0x2F]) p"
    and "list_all process_number (process_numbers p)" "p \<noteq> sys_devices"
  shows "covers (ReplaceVarianceInFilePath (sanitizeFilePath p)) p"
proof -
  obtain r where r: "rule_of process_number r p" "ReplaceVarianceInFilePath (sanitizeFilePath p) =
      (if has_prefix sys_devices r then sys_devices @ [0x2A, 0x2A] else r)"
    using replaced_rule [OF sanitize_rule [OF assms(1,2)] assms(3) process_number_digits] by blast
  show ?thesis
  proof (cases "has_prefix sys_devices r")
    case True
    then obtain q where q: "p = sys_devices @ q" using sys_devices_path [OF r(1)] by blast
    then show ?thesis
      using True r(2) assms(4) plains_cover [of sys_devices "[0x2A, 0x2A]" q] covers_below [of q] by simp
  next
    case False
    then show ?thesis using r rule_of_covers by simp
  qed
qed

lemma normalized_safe:
  assumes "\<not> has_suffix deletedSuffix p" "\<not> has_suffix (deletedSuffix @ [0x2F]) p"
    and "list_all process_number (process_numbers p)" "has_prefix slash p"
  shows "has_prefix slash (ReplaceVarianceInFilePath (sanitizeFilePath p)) \<and>
    (\<forall>c \<in> set (ReplaceVarianceInFilePath (sanitizeFilePath p)).
       isPlainPathByte c \<or> c \<in> {0x3F, 0x2A, 0x40, 0x7B, 0x7D})"
proof -
  obtain r where r: "rule_of process_number r p" "ReplaceVarianceInFilePath (sanitizeFilePath p) =
      (if has_prefix sys_devices r then sys_devices @ [0x2A, 0x2A] else r)"
    using replaced_rule [OF sanitize_rule [OF assms(1,2)] assms(3) process_number_digits] by blast
  obtain p' where "p = 0x2F # p'" using assms(4) by (cases p) (auto simp: has_prefix_def slash_def)
  then have "has_prefix slash r"
    using rule_of_absolute [of process_number r p'] r(1) process_number_digits by (auto simp: has_prefix_def slash_def)
  moreover have "has_prefix slash (sys_devices @ x)" for x
    by (simp add: has_prefix_def slash_def sys_devices_def bytes_of_def)
  moreover have "\<forall>c \<in> set sys_devices. isPlainPathByte c" using dirs_plain(5) by (simp add: list_all_iff)
  ultimately show ?thesis using r rule_of_bytes [OF r(1)] by auto
qed

end

section \<open>A matcher with the laws\<close>

definition ref_process_number :: "u8 list \<Rightarrow> bool" where
  "ref_process_number q \<longleftrightarrow> q \<noteq> [] \<and> list_all digit q \<and> hd q \<noteq> 0x30 \<and> length q \<le> 7"

fun ref_covers :: "u8 list \<Rightarrow> u8 list \<Rightarrow> bool" where
  "ref_covers [] p \<longleftrightarrow> p = []"
| "ref_covers (c # r) p \<longleftrightarrow>
     (if c = 0x2A
      then (r = [0x2A] \<and> p \<noteq> []) \<or>
           list_ex (\<lambda>k. 0x2F \<notin> set (take k p) \<and> ref_covers r (drop k p)) [1..<Suc (length p)]
      else if take 6 (c # r) \<in> {pid_var, tid_var}
      then list_ex (\<lambda>k. ref_process_number (take k p) \<and> ref_covers (drop 5 r) (drop k p)) [1..<Suc (length p)]
      else p \<noteq> [] \<and> (if c = 0x3F then hd p \<noteq> 0x2F else hd p = c) \<and> ref_covers r (tl p))"

lemma split_ex:
  "q \<noteq> [] \<Longrightarrow> P q p \<Longrightarrow> list_ex (\<lambda>k. P (take k (q @ p)) (drop k (q @ p))) [1..<Suc (length (q @ p))]"
  by (auto simp: list_ex_iff intro!: bexI [of _ "length q"] simp del: upt_Suc) (simp add: Suc_leI)

interpretation ref_glob: path_glob ref_covers ref_process_number
proof unfold_locales
  fix c r p
  assume c: "isPlainPathByte c" and r: "ref_covers r p"
  have "c \<noteq> 0x2A" "c \<noteq> 0x40" "c \<noteq> 0x3F" using c special_not_plain by metis+
  then show "ref_covers (c # r) (c # p)" using r by (simp add: pid_var_def tid_var_def)
next
  fix c :: u8 and r p
  assume "c \<noteq> 0x2F" "ref_covers r p"
  then show "ref_covers (0x3F # r) (c # p)" by (simp add: pid_var_def tid_var_def)
next
  fix q r p :: "u8 list"
  assume "q \<noteq> []" "0x2F \<notin> set q" "ref_covers r p"
  then show "ref_covers (0x2A # r) (q @ p)"
    using split_ex [of q "\<lambda>q p. 0x2F \<notin> set q \<and> ref_covers r p" p] by (simp del: upt_Suc)
next
  fix q r p :: "u8 list"
  assume n: "ref_process_number q" and r: "ref_covers r p"
  then have "q \<noteq> []" by (simp add: ref_process_number_def)
  then have "list_ex (\<lambda>k. ref_process_number (take k (q @ p)) \<and> ref_covers r (drop k (q @ p))) [1..<Suc (length (q @ p))]"
    by (rule split_ex) (simp add: n r)
  then show "ref_covers (pid_var @ r) (q @ p)" "ref_covers (tid_var @ r) (q @ p)"
    by (simp_all add: pid_var_def tid_var_def del: upt_Suc)
qed (simp_all add: ref_process_number_def)

section \<open>Properties\<close>

text \<open>
  (C13) The rule made of a recorded path covers the path. For every matcher with the documented
  meaning of the glob characters, the normalized path matches the path it was made of: replacing
  bytes that a profile cannot carry, process and thread numbers, container identifiers, UUIDs,
  hashes and long numbers never loses the path itself. It is still absolute and only contains
  plain bytes and the glob characters, so recorded bytes cannot inject anything into the profile.
  The path must not carry the marker of a removed file, which no profile contains, its process
  numbers have to be ones that the variables of AppArmor match, and the directory
  \<^verbatim>\<open>/sys/devices/\<close> itself is not below itself.
\<close>

theorem normalized_path_covers:
  assumes "path_glob covers process_number" "has_prefix slash p"
    and "\<not> has_suffix deletedSuffix p" "\<not> has_suffix (deletedSuffix @ [0x2F]) p"
    and "list_all process_number (process_numbers p)" "p \<noteq> sys_devices"
  shows "let r = ReplaceVarianceInFilePath (sanitizeFilePath p) in
    covers r p \<and> has_prefix slash r \<and>
    (\<forall>c \<in> set r. isPlainPathByte c \<or> c \<in> {0x3F, 0x2A, 0x40, 0x7B, 0x7D})"
  using path_glob.normalized_rule [OF assms(1,3-6)] path_glob.normalized_safe [OF assms(1,3-5,2)]
  by (simp add: Let_def)

theorem normalized_path_covers_witness:
  "let p = bytes_of ''/proc/1234/task/99/a:7''; r = ReplaceVarianceInFilePath (sanitizeFilePath p)
   in r = proc_dir @ pid_var @ task_dir @ tid_var @ bytes_of ''/a?7'' \<and> ref_covers r p"
proof -
  let ?p = "bytes_of ''/proc/1234/task/99/a:7''"
  have "list_all ref_process_number (process_numbers ?p)" "has_prefix slash ?p" "?p \<noteq> sys_devices"
    "\<not> has_suffix deletedSuffix ?p" "\<not> has_suffix (deletedSuffix @ [0x2F]) ?p"
    by code_simp+
  moreover have "ReplaceVarianceInFilePath (sanitizeFilePath ?p) =
      proc_dir @ pid_var @ task_dir @ tid_var @ bytes_of ''/a?7''"
    by code_simp
  ultimately show ?thesis
    using normalized_path_covers [OF ref_glob.path_glob_axioms, of ?p] by (simp add: Let_def)
qed

end
