(* ===== verification/AppArmor_Profile.thy ===== *)
theory AppArmor_Profile
  imports Recording Path_Cover "HOL-Library.List_Lexorder" "HOL-Library.Multiset"
begin

text \<open>
  The profile of a recording: \<^verbatim>\<open>GetAppArmorProcessed\<close> of \<^verbatim>\<open>bpfrecorder_apparmor.go\<close> merges what was
  recorded for a list of keys into lists of paths, network rules and capabilities. The theorems
  say that the profile allows what was recorded.
\<close>

section \<open>Paths of the Go library\<close>

text \<open>\<^verbatim>\<open>filepath.Clean\<close>, \<^verbatim>\<open>filepath.Dir\<close> and \<^verbatim>\<open>filepath.Join\<close> with one more element.\<close>

fun split_slash :: "u8 list \<Rightarrow> u8 list list" where
  "split_slash [] = [[]]"
| "split_slash (c # cs) =
     (if c = 0x2F then [] # split_slash cs
      else case split_slash cs of [] \<Rightarrow> [[c]] | w # ws \<Rightarrow> (c # w) # ws)"

definition clean_step :: "bool \<Rightarrow> u8 list \<Rightarrow> u8 list list \<Rightarrow> u8 list list" where
  "clean_step rooted w stack =
     (if w = [] \<or> w = [0x2E] then stack
      else if w = [0x2E, 0x2E] then
        (if stack \<noteq> [] \<and> last stack \<noteq> [0x2E, 0x2E] then butlast stack
         else if rooted then stack else stack @ [w])
      else stack @ [w])"

fun join_slash :: "u8 list list \<Rightarrow> u8 list" where
  "join_slash [] = []"
| "join_slash [w] = w"
| "join_slash (w # ws) = w @ 0x2F # join_slash ws"

definition path_clean :: "u8 list \<Rightarrow> u8 list" where
  "path_clean p =
     (let rooted = has_prefix [0x2F] p;
          q = join_slash (fold (clean_step rooted) (split_slash p) [])
      in if rooted then 0x2F # q else if q = [] then [0x2E] else q)"

definition path_dir :: "u8 list \<Rightarrow> u8 list" where
  "path_dir p = path_clean (rev (dropWhile (\<lambda>c. c \<noteq> 0x2F) (rev p)))"

definition path_join :: "u8 list \<Rightarrow> u8 list \<Rightarrow> u8 list" where
  "path_join dir name = (if dir = [] then path_clean name else path_clean (dir @ 0x2F # name))"

section \<open>Files\<close>

definition knownLibrariesPrefixes :: "u8 list list" where
  "knownLibrariesPrefixes = map bytes_of
     [''/usr/lib32/locale/'', ''/usr/lib64/locale/'', ''/usr/lib32/gconv/'', ''/usr/lib64/gconv/'',
      ''/usr/lib/x86_64-linux-gnu/'', ''/lib/x86_64-linux-gnu/'', ''/usr/lib/aarch64-linux-gnu/'',
      ''/lib/aarch64-linux-gnu/'', ''/lib64/'', ''/lib/tls/'', ''/usr/lib/tls/'']"

definition knownReadPrefixes :: "u8 list list" where
  "knownReadPrefixes = map bytes_of
     [''/dev/random'', ''/dev/urandom'', ''/etc/ld.so.cache'', ''/etc/ld.so.conf'', ''/etc/ld.so.conf.d/'',
      ''/etc/locale/'', ''/etc/locale.alias/'', ''/etc/localtime'', ''/usr/share/locale/'',
      ''/usr/lib/locale/'', ''/etc/locale.alias'']"

definition knownWritePrefixes :: "u8 list list" where
  "knownWritePrefixes = map bytes_of [''/dev/log'']"

definition isKnownFile :: "u8 list \<Rightarrow> u8 list list \<Rightarrow> bool" where
  "isKnownFile path knownPrefixes = list_ex (\<lambda>f. has_prefix f path) knownPrefixes"

record fileRule =
  fr_execute :: bool
  fr_library :: bool
  fr_read :: bool
  fr_write :: bool

definition no_rule :: fileRule where
  "no_rule = \<lparr>fr_execute = False, fr_library = False, fr_read = False, fr_write = False\<rparr>"

definition classifyFileAccess :: "AppArmorRecorder \<Rightarrow> u8 list \<Rightarrow> fileAccess \<Rightarrow> fileRule" where
  "classifyFileAccess b fileName access =
     (let knownLibrary = (isKnownFile fileName knownLibrariesPrefixes \<or> fileName = ar_programName b);
          knownRead = (isKnownFile fileName knownReadPrefixes \<or> knownLibrary);
          knownWrite = isKnownFile fileName knownWritePrefixes
      in if fa_spawn access then no_rule\<lparr>fr_execute := True\<rparr>
         else if fa_exec access then no_rule\<lparr>fr_library := \<not> knownLibrary\<rparr>
         else no_rule\<lparr>fr_read := fa_read access \<and> \<not> knownRead,
                      fr_write := fa_write access \<and> \<not> knownWrite\<rparr>)"

text \<open>The result with the read and write paths, as the function may add the root directory.\<close>

definition processDeletedFiles :: "u8 list \<Rightarrow> u8 list list \<Rightarrow> bool \<times> u8 list list" where
  "processDeletedFiles fileName rw =
     (if fileName = bytes_of ''/anon_hugepage (deleted)'' then (True, rw @ [[0x2F]])
      else (has_suffix deletedSuffix fileName \<or> has_suffix (deletedSuffix @ [0x2F]) fileName, rw))"

definition count_dir :: "u8 list \<Rightarrow> (u8 list \<Rightarrow> nat) \<Rightarrow> u8 list \<Rightarrow> nat" where
  "count_dir fp dupDirs = dupDirs(path_dir fp := dupDirs (path_dir fp) + 1)"

fun allow_loop :: "u8 list list \<Rightarrow> (u8 list \<Rightarrow> nat) \<Rightarrow> u8 list list" where
  "allow_loop [] dupDirs = []"
| "allow_loop (fp # fps) dupDirs =
     (let dir = path_dir fp in
      if dupDirs dir > 1 then path_join dir [0x2A] # allow_loop fps (dupDirs(dir := 0))
      else if dupDirs dir = 1 then fp # allow_loop fps dupDirs
      else allow_loop fps dupDirs)"

definition allowAnyFiles :: "u8 list list \<Rightarrow> u8 list list" where
  "allowAnyFiles filePaths = allow_loop filePaths (fold count_dir filePaths (\<lambda>_. 0))"

definition maxProfilePathBytes :: nat where
  "maxProfilePathBytes = 6 * 1024 * 1024"

definition merge_rules :: "fileRule \<Rightarrow> fileRule \<Rightarrow> fileRule" where
  "merge_rules merged rule =
     \<lparr>fr_execute = (fr_execute merged \<or> fr_execute rule), fr_library = (fr_library merged \<or> fr_library rule),
      fr_read = (fr_read merged \<or> fr_read rule), fr_write = (fr_write merged \<or> fr_write rule)\<rparr>"

type_synonym rules_state = "u8 list list \<times> (u8 list \<times> fileRule) list \<times> nat"

definition process_file :: "AppArmorRecorder \<Rightarrow> (u8 list \<times> fileAccess) list \<Rightarrow> u8 list \<Rightarrow> rules_state \<Rightarrow> rules_state" where
  "process_file b files fileName = (\<lambda>(rw, rules, pathBytes).
     case processDeletedFiles fileName rw of (deleted, rw') \<Rightarrow>
       if deleted then (rw', rules, pathBytes)
       else if map_of rules fileName = None \<and> pathBytes + length fileName > maxProfilePathBytes
       then (rw', rules, pathBytes)
       else let merged = (case map_of rules fileName of None \<Rightarrow> no_rule | Some m \<Rightarrow> m);
                rule = classifyFileAccess b fileName (the (map_of files fileName))
            in (rw', AList.update fileName (merge_rules merged rule) rules,
                if map_of rules fileName = None then pathBytes + length fileName else pathBytes))"

definition process_key :: "AppArmorRecorder \<Rightarrow> u64 \<Rightarrow> rules_state \<Rightarrow> rules_state" where
  "process_key b k st =
     (case ar_recordedFiles b k of
        None \<Rightarrow> st
      | Some files \<Rightarrow> fold (process_file b files) (sort (map fst files)) st)"

record BpfAppArmorFileProcessed =
  AllowedExecutables :: "u8 list list"
  AllowedLibraries :: "u8 list list"
  ReadOnlyPaths :: "u8 list list"
  WriteOnlyPaths :: "u8 list list"
  ReadWritePaths :: "u8 list list"

text \<open>The lists a rule puts its path on. The order of the Go map does not matter, all lists are sorted.\<close>

definition fr_readable :: "fileRule \<Rightarrow> bool" where
  "fr_readable rule \<longleftrightarrow> fr_read rule \<or> fr_execute rule \<or> fr_library rule"

definition rule_paths :: "(fileRule \<Rightarrow> bool) \<Rightarrow> (u8 list \<times> fileRule) list \<Rightarrow> u8 list list" where
  "rule_paths P rules = map fst (filter (\<lambda>(f, rule). P rule) rules)"

definition processExecFsEvents :: "AppArmorRecorder \<Rightarrow> u64 list \<Rightarrow> BpfAppArmorFileProcessed \<times> bool" where
  "processExecFsEvents b keys =
     (case fold (process_key b) keys ([], [], 0) of (rw, rules, pathBytes) \<Rightarrow>
       (\<lparr>AllowedExecutables = sort (rule_paths fr_execute rules),
         AllowedLibraries = sort (rule_paths (\<lambda>r. \<not> fr_execute r \<and> fr_library r) rules),
         ReadOnlyPaths = sort (rule_paths (\<lambda>r. \<not> fr_write r \<and> fr_read r \<and> \<not> fr_execute r \<and> \<not> fr_library r) rules),
         WriteOnlyPaths = sort (rule_paths (\<lambda>r. fr_write r \<and> \<not> fr_readable r) rules),
         ReadWritePaths = sort (allowAnyFiles (remdups_adj
           (sort (rw @ rule_paths (\<lambda>r. fr_write r \<and> fr_readable r) rules))))\<rparr>,
        list_ex (\<lambda>k. ar_recordedFiles b k \<noteq> None) keys))"

section \<open>Capabilities and sockets\<close>

definition capabilities :: "u8 list list" where
  "capabilities = map bytes_of
     [''chown'', ''dac_override'', ''dac_read_search'', ''fowner'', ''fsetid'', ''kill'', ''setgid'',
      ''setuid'', ''setpcap'', ''linux_immutable'', ''net_bind_service'', ''net_broadcast'', ''net_admin'',
      ''net_raw'', ''ipc_lock'', ''ipc_owner'', ''sys_module'', ''sys_rawio'', ''sys_chroot'', ''sys_ptrace'',
      ''sys_pacct'', ''sys_admin'', ''sys_boot'', ''sys_nice'', ''sys_resource'', ''sys_time'',
      ''sys_tty_config'', ''mknod'', ''lease'', ''audit_write'', ''audit_control'', ''setfcap'',
      ''mac_override'', ''mac_admin'', ''syslog'', ''wake_alarm'', ''block_suspend'', ''audit_read'',
      ''perfmon'', ''bpf'', ''checkpoint_restore'']"

fun cap_digits :: "nat \<Rightarrow> u8 list" where
  "cap_digits n = (if n < 10 then [0x30 + of_nat n] else cap_digits (n div 10) @ [0x30 + of_nat (n mod 10)])"

declare cap_digits.simps [simp del]

definition capabilityToString :: "int \<Rightarrow> u8 list" where
  "capabilityToString capID =
     (if 0 \<le> capID \<and> nat capID < length capabilities then capabilities ! nat capID
      else bytes_of ''CAPABILITY_'' @ (if capID < 0 then [0x2D] else []) @ cap_digits (nat \<bar>capID\<bar>))"

definition processCapabilities :: "AppArmorRecorder \<Rightarrow> u64 list \<Rightarrow> u8 list list \<times> bool" where
  "processCapabilities b keys =
     (let ret = concat (map (\<lambda>k. case ar_recordedCapabilities b k of
                                  None \<Rightarrow> [] | Some caps \<Rightarrow> map capabilityToString caps) keys)
      in (remdups_adj (sort ret), list_ex (\<lambda>k. ar_recordedCapabilities b k \<noteq> None) keys))"

definition process_sockets :: "AppArmorRecorder \<Rightarrow> u64 \<Rightarrow> BpfAppArmorSocketTypes \<times> bool \<Rightarrow> BpfAppArmorSocketTypes \<times> bool" where
  "process_sockets b k = (\<lambda>(processed, found).
     case ar_recordedSocketsUse b k of
       None \<Rightarrow> (processed, found)
     | Some sockets \<Rightarrow> (merge_sockets processed sockets, True))"

record BpfAppArmorProcessed =
  FileProcessed :: BpfAppArmorFileProcessed
  Socket :: BpfAppArmorSocketTypes
  Capabilities :: "u8 list list"

definition GetAppArmorProcessed :: "AppArmorRecorder \<Rightarrow> u64 list \<Rightarrow> BpfAppArmorProcessed \<times> bool" where
  "GetAppArmorProcessed b keys =
     (case processExecFsEvents b keys of (fileProcessed, foundFiles) \<Rightarrow>
      case fold (process_sockets b) keys (no_sockets, False) of (sock, foundSockets) \<Rightarrow>
      case processCapabilities b keys of (caps, foundCapabilities) \<Rightarrow>
        (\<lparr>FileProcessed = fileProcessed, Socket = sock, Capabilities = caps\<rparr>,
         foundFiles \<or> foundSockets \<or> foundCapabilities))"

section \<open>Nothing recorded is left out\<close>

lemma allow_loop_covers:
  "fp \<in> set fps \<Longrightarrow> dup (path_dir fp) > 0 \<Longrightarrow>
   fp \<in> set (allow_loop fps dup) \<or> path_join (path_dir fp) [0x2A] \<in> set (allow_loop fps dup)"
proof (induction fps arbitrary: dup)
  case (Cons x fps)
  show ?case
  proof (cases "path_dir x = path_dir fp")
    case True
    then show ?thesis
      using Cons.IH [of dup] Cons.prems
      by (cases "dup (path_dir fp) > 1") (auto simp: Let_def True split: if_splits)
  next
    case False
    then have "fp \<in> set fps" using Cons.prems(1) by auto
    then have "fp \<in> set (allow_loop fps d) \<or> path_join (path_dir fp) [0x2A] \<in> set (allow_loop fps d)"
      if "d \<in> {dup, dup(path_dir x := 0)}" for d
      using Cons.IH [of d] Cons.prems(2) False that by auto
    then show ?thesis by (simp add: Let_def del: fun_upd_apply) blast
  qed
qed simp

lemma count_dirs: "fp \<in> set fps \<Longrightarrow> fold count_dir fps dup (path_dir fp) > 0"
proof -
  have mono: "dup d \<le> fold count_dir fps dup d" for fps dup d
  proof (induction fps arbitrary: dup)
    case (Cons x fps)
    have "dup d \<le> count_dir x dup d" by (simp add: count_dir_def)
    then show ?case using Cons.IH [of "count_dir x dup"] by simp
  qed simp
  show "fp \<in> set fps \<Longrightarrow> fold count_dir fps dup (path_dir fp) > 0"
  proof (induction fps arbitrary: dup)
    case (Cons x fps)
    show ?case
    proof (cases "fp = x")
      case True
      then show ?thesis
        using mono [of "count_dir x dup" "path_dir fp" fps]
        by (simp add: count_dir_def [of x dup])
    next
      case False
      then show ?thesis using Cons by simp
    qed
  qed simp
qed

text \<open>A path on the list, or the directory it is in, stays allowed.\<close>

definition path_or_dir :: "u8 list \<Rightarrow> u8 list list \<Rightarrow> bool" where
  "path_or_dir f paths \<longleftrightarrow> f \<in> set paths \<or> path_join (path_dir f) [0x2A] \<in> set paths"

lemma allowAnyFiles_covers: "f \<in> set paths \<Longrightarrow> path_or_dir f (allowAnyFiles paths)"
  using allow_loop_covers [of f paths] count_dirs [of f paths] by (auto simp: path_or_dir_def allowAnyFiles_def)

section \<open>The rules of all keys\<close>

definition rule_le :: "fileRule \<Rightarrow> fileRule \<Rightarrow> bool" where
  "rule_le r r' \<longleftrightarrow> (fr_execute r \<longrightarrow> fr_execute r') \<and> (fr_library r \<longrightarrow> fr_library r') \<and>
     (fr_read r \<longrightarrow> fr_read r') \<and> (fr_write r \<longrightarrow> fr_write r')"

definition has_rule :: "u8 list \<Rightarrow> fileRule \<Rightarrow> rules_state \<Rightarrow> bool" where
  "has_rule f r st \<longleftrightarrow> (\<exists>r'. map_of (fst (snd st)) f = Some r' \<and> rule_le r r')"

definition live_file :: "u8 list \<Rightarrow> bool" where
  "live_file f \<longleftrightarrow> \<not> has_suffix deletedSuffix f \<and> \<not> has_suffix (deletedSuffix @ [0x2F]) f"

lemma deleted_live: "live_file f \<Longrightarrow> processDeletedFiles f rw = (False, rw)"
  by (auto simp: processDeletedFiles_def live_file_def has_suffix_def deletedSuffix_def bytes_of_def)

lemma rule_le_merge: "rule_le r (merge_rules m r)" "rule_le r m \<Longrightarrow> rule_le r (merge_rules m r')"
  by (auto simp: rule_le_def merge_rules_def)

lemma process_file_keeps: "has_rule f r st \<Longrightarrow> has_rule f r (process_file b files g st)"
  by (cases st) (auto simp: has_rule_def process_file_def Let_def update_conv rule_le_merge split: prod.split option.splits)

lemma process_file_adds:
  assumes "live_file f" "snd (snd st) + length f \<le> maxProfilePathBytes" "map_of files f = Some a"
  shows "has_rule f (classifyFileAccess b f a) (process_file b files f st)"
  using assms by (cases st) (auto simp: has_rule_def process_file_def deleted_live update_conv Let_def rule_le_merge split: option.splits)

lemma process_file_bytes: "snd (snd (process_file b files g st)) \<le> snd (snd st) + length g"
  by (cases st) (auto simp: process_file_def Let_def split: prod.split)

lemma fold_file_keeps: "has_rule f r st \<Longrightarrow> has_rule f r (fold (process_file b files) ns st)"
  by (induction ns arbitrary: st) (simp_all add: process_file_keeps)

lemma fold_file_bytes:
  "snd (snd (fold (process_file b files) ns st)) \<le> snd (snd st) + sum_list (map length ns)"
proof (induction ns arbitrary: st)
  case (Cons g ns)
  show ?case using Cons.IH [of "process_file b files g st"] process_file_bytes [of b files g st] by simp
qed simp

lemma fold_file_adds:
  assumes "live_file f" "map_of files f = Some a" "f \<in> set ns"
    and "snd (snd st) + sum_list (map length ns) \<le> maxProfilePathBytes"
  shows "has_rule f (classifyFileAccess b f a) (fold (process_file b files) ns st)"
  using assms(3,4)
proof (induction ns arbitrary: st)
  case (Cons g ns)
  show ?case
  proof (cases "f = g")
    case True
    then show ?thesis using process_file_adds [OF assms(1) _ assms(2), of st b] Cons.prems(2) by (simp add: fold_file_keeps)
  next
    case False
    then show ?thesis using Cons process_file_bytes [of b files g st] by simp
  qed
qed simp

text \<open>The bytes of the paths of a key, by which a profile is bounded.\<close>

definition key_bytes :: "AppArmorRecorder \<Rightarrow> u64 \<Rightarrow> nat" where
  "key_bytes b k = (case ar_recordedFiles b k of None \<Rightarrow> 0 | Some files \<Rightarrow> sum_list (map (length \<circ> fst) files))"

lemma sort_bytes: "sum_list (map length (sort ns)) = sum_list (map length (ns :: u8 list list))"
  by (metis mset_map mset_sort sum_mset_sum_list)

lemma process_key_keeps: "has_rule f r st \<Longrightarrow> has_rule f r (process_key b k st)"
  by (simp add: process_key_def fold_file_keeps split: option.split)

lemma process_key_bytes: "snd (snd (process_key b k st)) \<le> snd (snd st) + key_bytes b k"
proof (cases "ar_recordedFiles b k")
  case (Some files)
  then show ?thesis
    using fold_file_bytes [of b files "sort (map fst files)" st]
    by (simp add: process_key_def key_bytes_def sort_bytes comp_def)
qed (simp add: process_key_def)

lemma process_key_adds:
  assumes "live_file f" "ar_recordedFiles b k = Some files" "map_of files f = Some a"
    and "snd (snd st) + key_bytes b k \<le> maxProfilePathBytes"
  shows "has_rule f (classifyFileAccess b f a) (process_key b k st)"
proof -
  have "f \<in> set (sort (map fst files))" using assms(3) by (force dest: map_of_SomeD)
  then show ?thesis
    using fold_file_adds [OF assms(1,3), of "sort (map fst files)" st b] assms(2,4)
    by (simp add: process_key_def key_bytes_def sort_bytes comp_def)
qed

lemma fold_key_keeps: "has_rule f r st \<Longrightarrow> has_rule f r (fold (process_key b) keys st)"
  by (induction keys arbitrary: st) (simp_all add: process_key_keeps)

lemma fold_key_adds:
  assumes "live_file f" "ar_recordedFiles b k = Some files" "map_of files f = Some a" "k \<in> set keys"
    and "snd (snd st) + sum_list (map (key_bytes b) keys) \<le> maxProfilePathBytes"
  shows "has_rule f (classifyFileAccess b f a) (fold (process_key b) keys st)"
  using assms(4,5)
proof (induction keys arbitrary: st)
  case (Cons x keys)
  show ?case
  proof (cases "k = x")
    case True
    then show ?thesis using process_key_adds [OF assms(1-3), of st] Cons.prems(2) by (simp add: fold_key_keeps)
  next
    case False
    then show ?thesis using Cons process_key_bytes [of b x st] by simp
  qed
qed simp

section \<open>Properties of the profile\<close>

text \<open>
  What a profile has to allow for the access of one workload to a file. Executing takes precedence
  over mapping, and mapping over reading and writing. The abstractions allow the known files.
\<close>

definition profile_allows :: "AppArmorRecorder \<Rightarrow> BpfAppArmorFileProcessed \<Rightarrow> u8 list \<Rightarrow> fileAccess \<Rightarrow> bool" where
  "profile_allows b P f a \<longleftrightarrow>
     (let lib = (isKnownFile f knownLibrariesPrefixes \<or> f = ar_programName b);
          mapped = (f \<in> set (AllowedExecutables P) \<or> f \<in> set (AllowedLibraries P));
          rw = path_or_dir f (ReadWritePaths P)
      in if fa_spawn a then f \<in> set (AllowedExecutables P)
         else if fa_exec a then lib \<or> mapped
         else (fa_read a \<longrightarrow> lib \<or> isKnownFile f knownReadPrefixes \<or> mapped \<or> rw \<or> f \<in> set (ReadOnlyPaths P)) \<and>
              (fa_write a \<longrightarrow> isKnownFile f knownWritePrefixes \<or> rw \<or> f \<in> set (WriteOnlyPaths P)))"

lemma rule_paths_mem: "map_of rules f = Some r \<Longrightarrow> P r \<Longrightarrow> f \<in> set (rule_paths P rules)"
  by (force simp: rule_paths_def dest: map_of_SomeD)

lemma rule_allows:
  assumes "map_of rules f = Some r" "rule_le (classifyFileAccess b f a) r"
    and "P = fst (processExecFsEvents b keys)" "fold (process_key b) keys ([], [], 0) = (rw, rules, n)"
  shows "profile_allows b P f a"
proof -
  note mem = rule_paths_mem [OF assms(1)]
  have rw: "path_or_dir f (ReadWritePaths P)" if "fr_write r" "fr_readable r"
    using allowAnyFiles_covers [of f "remdups_adj (sort (rw @ rule_paths (\<lambda>r. fr_write r \<and> fr_readable r) rules))"]
      mem [of "\<lambda>r. fr_write r \<and> fr_readable r"] that
    by (simp add: assms(3,4) processExecFsEvents_def path_or_dir_def)
  have lists: "fr_execute r \<Longrightarrow> f \<in> set (AllowedExecutables P)"
    "\<not> fr_execute r \<Longrightarrow> fr_library r \<Longrightarrow> f \<in> set (AllowedLibraries P)"
    "\<not> fr_write r \<Longrightarrow> fr_read r \<Longrightarrow> \<not> fr_execute r \<Longrightarrow> \<not> fr_library r \<Longrightarrow> f \<in> set (ReadOnlyPaths P)"
    "fr_write r \<Longrightarrow> \<not> fr_readable r \<Longrightarrow> f \<in> set (WriteOnlyPaths P)"
    using mem by (simp_all add: assms(3,4) processExecFsEvents_def)
  show ?thesis
    using assms(2) rw lists
    unfolding profile_allows_def classifyFileAccess_def rule_le_def no_rule_def fr_readable_def Let_def
    by (cases "fa_spawn a"; cases "fa_exec a"; cases "fa_read a"; cases "fa_write a"; simp; blast)
qed



end
