(* ===== verification/Seccomp_Recorder.thy ===== *)
theory Seccomp_Recorder
  imports Syscalls Container_Keys "HOL-Library.List_Lexorder"
begin

text \<open>
  The recorder of \<^verbatim>\<open>bpfrecorder_seccomp.go\<close>, which turns the arrays that the BPF program recorded
  for some keys into the sorted names of a seccomp profile. \<open>GetName\<close> stands for the lookup of
  libseccomp and \<open>io\<close> tells which reads of the map fail with an error other than a missing entry.
  The names that were looked up stay in a cache.
\<close>

section \<open>The recorder\<close>

datatype errno = ENOENT | Errno nat

text \<open>The errors of the requests to the recorder.\<close>

datatype service_error =
    InvalidArgument
  | Not_running
  | No_seccomp
  | No_apparmor
  | ErrAppArmorUnavailable
  | ErrNotFound
  | ErrStartBeforeLoad
  | Map_error
  | Ctx_error
  | Read_syscalls errno

text \<open>The cache is keyed by the decimal text of the number, which is one to one.\<close>

record SeccompRecorder =
  syscallIDtoNameCache :: "nat \<rightharpoonup> u8 list"

definition newSeccompRecorder :: SeccompRecorder where
  "newSeccompRecorder = \<lparr>syscallIDtoNameCache = Map.empty\<rparr>"

definition syscallNameForID ::
  "(nat \<rightharpoonup> u8 list) \<Rightarrow> nat \<Rightarrow> SeccompRecorder \<Rightarrow> u8 list option \<times> SeccompRecorder" where
  "syscallNameForID GetName n c =
     (case syscallIDtoNameCache c n of
        Some item \<Rightarrow> (Some item, c)
      | None \<Rightarrow>
          (case GetName n of
             None \<Rightarrow> (None, c)
           | Some name \<Rightarrow>
               (Some name, c\<lparr>syscallIDtoNameCache := (syscallIDtoNameCache c)(n \<mapsto> name)\<rparr>)))"

text \<open>The argument \<open>n\<close> is the index of the head of the rest of the array.\<close>

fun convertSyscallIDsToNames ::
  "(nat \<rightharpoonup> u8 list) \<Rightarrow> nat \<Rightarrow> u8 list \<Rightarrow> SeccompRecorder \<Rightarrow> u8 list list \<times> SeccompRecorder" where
  "convertSyscallIDsToNames GetName n [] c = ([], c)"
| "convertSyscallIDsToNames GetName n (x # xs) c =
     (if x = 1
      then (case syscallNameForID GetName n c of (name, c1) \<Rightarrow>
            case convertSyscallIDsToNames GetName (Suc n) xs c1 of (result, c2) \<Rightarrow>
              (case name of None \<Rightarrow> (result, c2) | Some v \<Rightarrow> (v # result, c2)))
      else convertSyscallIDsToNames GetName (Suc n) xs c)"

definition sortUnique :: "u8 list list \<Rightarrow> u8 list list" where
  "sortUnique input = remdups_adj (sort input)"

definition GetValue64 :: "(u64 \<rightharpoonup> nat) \<Rightarrow> rstate \<Rightarrow> u64 \<Rightarrow> errno + u8 list" where
  "GetValue64 io s key =
     (case io key of
        Some e \<Rightarrow> Inl (Errno e)
      | None \<Rightarrow> (case recorded_syscalls s key of None \<Rightarrow> Inl ENOENT | Some v \<Rightarrow> Inr v))"

fun merge_array :: "nat \<Rightarrow> u8 list \<Rightarrow> u8 list \<Rightarrow> u8 list" where
  "merge_array n [] merged = merged"
| "merge_array n (x # xs) merged =
     merge_array (Suc n) xs (if x = 1 \<and> n < length merged then merged[n := 1] else merged)"

text \<open>One turn of the loop over the keys, on the merged array and the last error.\<close>

definition merge_key ::
  "(u64 \<rightharpoonup> nat) \<Rightarrow> rstate \<Rightarrow> u64 \<Rightarrow> u8 list option \<times> errno option \<Rightarrow> u8 list option \<times> errno option" where
  "merge_key io s key = (\<lambda>(merged, lastErr).
     case GetValue64 io s key of
       Inl e \<Rightarrow> (merged, if e \<noteq> ENOENT then Some e else lastErr)
     | Inr v \<Rightarrow>
         (Some (merge_array 0 v (case merged of None \<Rightarrow> replicate (length v) 0 | Some m \<Rightarrow> m)), lastErr))"

definition seccomp_Syscalls ::
  "(nat \<rightharpoonup> u8 list) \<Rightarrow> (u64 \<rightharpoonup> nat) \<Rightarrow> u64 list \<Rightarrow> SeccompRecorder \<Rightarrow> rstate \<Rightarrow>
   (service_error + u8 list list) \<times> SeccompRecorder" where
  "seccomp_Syscalls GetName io keys c s =
     (case fold (merge_key io s) keys (None, None) of
        (None, Some e) \<Rightarrow> (Inl (Read_syscalls e), c)
      | (None, None) \<Rightarrow> (Inl ErrNotFound, c)
      | (Some merged, _) \<Rightarrow>
          (case convertSyscallIDsToNames GetName 0 merged c of (names, c1) \<Rightarrow> (Inr (sortUnique names), c1)))"

text \<open>Deletions that fail with another error than a missing entry are logged, and the loop goes on.\<close>

definition seccomp_Clear :: "(u64 \<Rightarrow> bool) \<Rightarrow> u64 list \<Rightarrow> rstate \<Rightarrow> rstate" where
  "seccomp_Clear err keys s =
     s\<lparr>recorded_syscalls := fold (\<lambda>key m. if err key then m else m(key := None)) keys (recorded_syscalls s)\<rparr>"

section \<open>The names of a profile\<close>

definition cache_ok :: "(nat \<rightharpoonup> u8 list) \<Rightarrow> SeccompRecorder \<Rightarrow> bool" where
  "cache_ok GetName c \<longleftrightarrow> syscallIDtoNameCache c \<subseteq>\<^sub>m GetName"

lemma cache_ok_new [simp]: "cache_ok GetName newSeccompRecorder"
  by (simp add: cache_ok_def newSeccompRecorder_def)

lemma name_exact:
  assumes "cache_ok GetName c"
  shows "fst (syscallNameForID GetName n c) = GetName n"
    and "cache_ok GetName (snd (syscallNameForID GetName n c))"
  using assms
  by (auto simp: cache_ok_def syscallNameForID_def map_le_def dom_def split: option.split)

text \<open>What the array from index \<open>n\<close> on stands for.\<close>

definition ids_from :: "nat \<Rightarrow> u8 list \<Rightarrow> nat set" where
  "ids_from n xs = {n + i |i. i < length xs \<and> xs ! i = 1}"

lemma ids_from_simps [simp]:
  "ids_from n [] = {}"
  "ids_from n (x # xs) = (if x = 1 then insert n (ids_from (Suc n) xs) else ids_from (Suc n) xs)"
proof -
  have "ids_from n (x # xs) = {n + i |i. i = 0 \<and> x = 1} \<union> {n + Suc i |i. i < length xs \<and> xs ! i = 1}"
    unfolding ids_from_def by (auto simp: less_Suc_eq_0_disj)
  then show "ids_from n (x # xs) = (if x = 1 then insert n (ids_from (Suc n) xs) else ids_from (Suc n) xs)"
    by (auto simp: ids_from_def)
qed (simp add: ids_from_def)

lemma convert_exact:
  assumes "cache_ok GetName c"
  shows "set (fst (convertSyscallIDsToNames GetName n xs c)) = {v. \<exists>i\<in>ids_from n xs. GetName i = Some v} \<and>
    cache_ok GetName (snd (convertSyscallIDsToNames GetName n xs c))"
  using assms
proof (induction xs arbitrary: n c)
  case (Cons x xs)
  show ?case
  proof (cases "x = 1")
    case True
    let ?c1 = "snd (syscallNameForID GetName n c)"
    have "set (fst (convertSyscallIDsToNames GetName (Suc n) xs ?c1)) = {v. \<exists>i\<in>ids_from (Suc n) xs. GetName i = Some v}"
      "cache_ok GetName (snd (convertSyscallIDsToNames GetName (Suc n) xs ?c1))"
      using Cons.IH [OF name_exact(2) [OF Cons.prems]] by blast+
    then show ?thesis
      using True name_exact(1) [OF Cons.prems, of n] by (auto simp: case_prod_beta split: option.split)
  qed (use Cons in simp)
qed simp

lemma merge_array_length [simp]: "length (merge_array n xs m) = length m"
  by (induction xs arbitrary: n m) simp_all

lemma merge_array_ids:
  "n + length xs \<le> length m \<Longrightarrow> ids_from 0 (merge_array n xs m) = ids_from n xs \<union> ids_from 0 m"
proof (induction xs arbitrary: n m)
  case (Cons x xs)
  have "n < length m \<Longrightarrow> ids_from 0 (m[n := 1]) = insert n (ids_from 0 m)"
    by (auto simp: ids_from_def nth_list_update)
  then show ?case using Cons by simp
qed simp

lemma ids_zeros [simp]: "ids_from n (replicate k 0) = {}"
  by (simp add: ids_from_def)

lemma syscalls_of_ids:
  "syscalls_ok s \<Longrightarrow> recorded_syscalls s key = Some v \<Longrightarrow> syscalls_of s key = ids_from 0 v"
  by (auto simp: syscalls_of_def ids_from_def syscalls_ok_def)

text \<open>The keys whose arrays can be read.\<close>

definition readable :: "(u64 \<rightharpoonup> nat) \<Rightarrow> rstate \<Rightarrow> u64 \<Rightarrow> bool" where
  "readable io s key \<longleftrightarrow> io key = None \<and> recorded_syscalls s key \<noteq> None"

definition merged_ids :: "(u64 \<rightharpoonup> nat) \<Rightarrow> rstate \<Rightarrow> u64 list \<Rightarrow> nat set" where
  "merged_ids io s keys = (\<Union>key \<in> {k \<in> set keys. readable io s k}. syscalls_of s key)"

definition last_error :: "(u64 \<rightharpoonup> nat) \<Rightarrow> u64 list \<Rightarrow> errno option" where
  "last_error io keys = fold (\<lambda>key e. case io key of None \<Rightarrow> e | Some n \<Rightarrow> Some (Errno n)) keys None"

lemma merge_unreadable:
  "\<not> readable io s key \<Longrightarrow> merge_key io s key (m, e) = (m, case io key of None \<Rightarrow> e | Some n \<Rightarrow> Some (Errno n))"
  by (auto simp: merge_key_def GetValue64_def readable_def split: option.split)

lemma merge_readable:
  "readable io s key \<Longrightarrow> \<exists>v. recorded_syscalls s key = Some v \<and> merge_key io s key (m, e) =
    (Some (merge_array 0 v (case m of None \<Rightarrow> replicate (length v) 0 | Some m \<Rightarrow> m)), e)"
  by (auto simp: merge_key_def GetValue64_def readable_def)

lemma fold_merge:
  assumes "syscalls_ok s"
  shows "\<exists>m. fold (merge_key io s) keys (None, None) = (m, last_error io keys) \<and>
    (m = None \<longleftrightarrow> \<not> list_ex (readable io s) keys) \<and>
    (\<forall>v. m = Some v \<longrightarrow> length v = MAX_SYSCALLS \<and> ids_from 0 v = merged_ids io s keys)"
proof (induction keys rule: rev_induct)
  case Nil
  then show ?case by (simp add: last_error_def)
next
  case (snoc key keys)
  then obtain m where m: "fold (merge_key io s) keys (None, None) = (m, last_error io keys)"
    "m = None \<longleftrightarrow> \<not> list_ex (readable io s) keys"
    "\<And>v. m = Some v \<Longrightarrow> length v = MAX_SYSCALLS \<and> ids_from 0 v = merged_ids io s keys" by blast
  show ?case
  proof (cases "readable io s key")
    case False
    have "merged_ids io s (keys @ [key]) = merged_ids io s keys" using False by (auto simp: merged_ids_def)
    then show ?thesis using m False by (auto simp: merge_unreadable last_error_def)
  next
    case True
    then obtain v where v: "recorded_syscalls s key = Some v" "merge_key io s key (m, last_error io keys) =
        (Some (merge_array 0 v (case m of None \<Rightarrow> replicate (length v) 0 | Some m \<Rightarrow> m)), last_error io keys)"
      using merge_readable by blast
    have len: "length v = MAX_SYSCALLS" using assms v(1) by (auto simp: syscalls_ok_def)
    have none: "merged_ids io s keys = {}" if "m = None"
      using m(2) that by (auto simp: merged_ids_def list_ex_iff)
    have "merged_ids io s (keys @ [key]) = ids_from 0 v \<union> merged_ids io s keys"
      using True syscalls_of_ids [OF assms v(1)] by (auto simp: merged_ids_def)
    moreover have "last_error io (keys @ [key]) = last_error io keys"
      using True by (simp add: last_error_def readable_def)
    moreover have "ids_from 0 (merge_array 0 v (case m of None \<Rightarrow> replicate (length v) 0 | Some m \<Rightarrow> m)) =
        ids_from 0 v \<union> merged_ids io s keys"
      "length (case m of None \<Rightarrow> replicate (length v) 0 | Some m \<Rightarrow> m) = MAX_SYSCALLS"
      using m(3) none len by (auto simp: merge_array_ids split: option.split)
    ultimately show ?thesis using True m(1) by (simp add: v(2))
  qed
qed

lemma sortUnique_spec: "set (sortUnique xs) = set xs" "sorted (sortUnique xs)" "distinct (sortUnique xs)"
  by (simp_all add: sortUnique_def sorted_remdups_adj distinct_compact)

lemma seccomp_Syscalls_cases:
  assumes "syscalls_ok s" "cache_ok GetName c"
  shows "if list_ex (readable io s) keys
    then \<exists>names c'. seccomp_Syscalls GetName io keys c s = (Inr names, c') \<and> cache_ok GetName c' \<and>
      set names = {v. \<exists>i\<in>merged_ids io s keys. GetName i = Some v} \<and> sorted names \<and> distinct names
    else seccomp_Syscalls GetName io keys c s =
      (Inl (case last_error io keys of None \<Rightarrow> ErrNotFound | Some e \<Rightarrow> Read_syscalls e), c)"
proof -
  obtain m where m: "fold (merge_key io s) keys (None, None) = (m, last_error io keys)"
    "m = None \<longleftrightarrow> \<not> list_ex (readable io s) keys"
    "\<And>v. m = Some v \<Longrightarrow> ids_from 0 v = merged_ids io s keys" using fold_merge [OF assms(1)] by blast
  show ?thesis
  proof (cases m)
    case None
    then show ?thesis using m by (auto simp: seccomp_Syscalls_def split: option.split)
  next
    case (Some v)
    then show ?thesis
      using m convert_exact [OF assms(2), of 0 v]
      by (auto simp: seccomp_Syscalls_def case_prod_beta sortUnique_spec)
  qed
qed

text \<open>
  (C21) The names of a seccomp profile. If the array of one of the keys can be read, the answer is the
  names of exactly the syscalls that are recorded for a key whose array can be read, sorted and
  each one once, whatever the cache of the names holds. Otherwise nothing was recorded, which is
  reported as such, or as the last error of a read. An error of the read of one key is only
  reported if no other key can be read: the answer then misses the syscalls of that key.
\<close>

theorem seccomp_profile_exact:
  assumes "syscalls_ok s" "cache_ok GetName c"
  shows "if \<exists>key \<in> set keys. io key = None \<and> recorded_syscalls s key \<noteq> None
    then \<exists>names c'. seccomp_Syscalls GetName io keys c s = (Inr names, c') \<and> cache_ok GetName c' \<and>
      set names = {v. \<exists>key \<in> set keys. io key = None \<and> (\<exists>i \<in> syscalls_of s key. GetName i = Some v)} \<and>
      sorted names \<and> distinct names
    else seccomp_Syscalls GetName io keys c s =
      (Inl (case last_error io keys of None \<Rightarrow> ErrNotFound | Some e \<Rightarrow> Read_syscalls e), c)"
proof -
  have "(\<exists>key \<in> set keys. io key = None \<and> recorded_syscalls s key \<noteq> None) = list_ex (readable io s) keys"
    by (simp add: list_ex_iff readable_def)
  moreover have "{v. \<exists>key \<in> set keys. io key = None \<and> (\<exists>i \<in> syscalls_of s key. GetName i = Some v)} =
      {v. \<exists>i\<in>merged_ids io s keys. GetName i = Some v}"
    by (auto simp: merged_ids_def readable_def syscalls_of_def)
  ultimately show ?thesis using seccomp_Syscalls_cases [OF assms, of io keys] by simp
qed

definition two_names :: "nat \<rightharpoonup> u8 list" where
  "two_names = [0 \<mapsto> bytes_of ''read'', 1 \<mapsto> bytes_of ''write'']"

definition two_keys :: rstate where
  "two_keys = init_state\<lparr>recorded_syscalls :=
     [7 \<mapsto> (replicate 1024 0)[1 := 1], 8 \<mapsto> (replicate 1024 0)[0 := 1, 999 := 1]]\<rparr>"

theorem seccomp_profile_exact_witness:
  "\<exists>c'. seccomp_Syscalls two_names Map.empty [7, 8, 9] newSeccompRecorder two_keys =
     (Inr [bytes_of ''read'', bytes_of ''write''], c')"
proof -
  let ?names = "{v. \<exists>key \<in> set [7, 8, 9]. (Map.empty :: u64 \<rightharpoonup> nat) key = None \<and>
      (\<exists>i \<in> syscalls_of two_keys key. two_names i = Some v)}"
  have ok: "syscalls_ok two_keys" by (auto simp: two_keys_def syscalls_ok_def set_update_subsetI split: if_splits)
  have of: "syscalls_of two_keys 7 = {1}" "syscalls_of two_keys 8 = {0, 999}" "syscalls_of two_keys 9 = {}"
    by (auto simp: two_keys_def syscalls_of_def init_state_def nth_list_update split: if_splits)
  have "?names = set [bytes_of ''read'', bytes_of ''write'']" by (auto simp: of two_names_def)
  moreover have "sorted [bytes_of ''read'', bytes_of ''write''] \<and> distinct [bytes_of ''read'', bytes_of ''write'']"
    by (simp add: bytes_of_def)
  moreover have "\<exists>key \<in> set [7, 8, 9]. (Map.empty :: u64 \<rightharpoonup> nat) key = None \<and> recorded_syscalls two_keys key \<noteq> None"
    by (simp add: two_keys_def)
  ultimately show ?thesis
    using seccomp_profile_exact [OF ok cache_ok_new [of two_names], of "[7, 8, 9]" Map.empty]
      sorted_distinct_set_unique by (metis (no_types, lifting))
qed

end
