(* ===== verification/Container_Profiles.thy ===== *)
theory Container_Profiles
  imports Container_Keys
begin

text \<open>
  The table of \<^verbatim>\<open>containerprofiles.go\<close> that tells which profiles are recorded for a container, kept in
  both directions. A container can have several profiles and a profile several containers. The
  specification is one list of pairs in the order in which they got inserted. Every operation
  refines an operation on that list, and both directions are projections of it. The lock of the
  table makes every operation one step.
\<close>

section \<open>The table\<close>

record containerProfiles =
  cp_byContainer :: "string \<rightharpoonup> string list"
  cp_byProfile :: "string \<rightharpoonup> string list"

definition newContainerProfiles :: containerProfiles where
  "newContainerProfiles = \<lparr>cp_byContainer = Map.empty, cp_byProfile = Map.empty\<rparr>"

text \<open>Reading a missing entry of a Go map of slices gives the nil slice.\<close>

definition entry :: "(string \<rightharpoonup> string list) \<Rightarrow> string \<Rightarrow> string list" where
  "entry m k = (case m k of None \<Rightarrow> [] | Some xs \<Rightarrow> xs)"

definition cp_add :: "(string \<rightharpoonup> string list) \<Rightarrow> string \<Rightarrow> string \<Rightarrow> (string \<rightharpoonup> string list)" where
  "cp_add m k x = (if x \<in> set (entry m k) then m else m(k \<mapsto> entry m k @ [x]))"

definition cp_Insert :: "string \<Rightarrow> string \<Rightarrow> containerProfiles \<Rightarrow> containerProfiles" where
  "cp_Insert containerID profile c =
     \<lparr>cp_byContainer = cp_add (cp_byContainer c) containerID profile,
      cp_byProfile = cp_add (cp_byProfile c) profile containerID\<rparr>"

definition cp_Get :: "string \<Rightarrow> containerProfiles \<Rightarrow> string option" where
  "cp_Get containerID c =
     (case entry (cp_byContainer c) containerID of [] \<Rightarrow> None | profile # _ \<Rightarrow> Some profile)"

definition cp_GetAll :: "string \<Rightarrow> containerProfiles \<Rightarrow> string list" where
  "cp_GetAll containerID c = entry (cp_byContainer c) containerID"

definition cp_Containers :: "string \<Rightarrow> containerProfiles \<Rightarrow> string list" where
  "cp_Containers profile c = entry (cp_byProfile c) profile"

definition without :: "string list \<Rightarrow> string \<Rightarrow> string list" where
  "without xs item = filter (\<lambda>s. s \<noteq> item) xs"

text \<open>The body of the loops of both deletions: an entry that becomes empty is deleted.\<close>

definition cp_drop :: "(string \<rightharpoonup> string list) \<Rightarrow> string \<Rightarrow> string \<Rightarrow> (string \<rightharpoonup> string list)" where
  "cp_drop m k x =
     (let xs = without (entry m k) x in if xs = [] then m(k := None) else m(k \<mapsto> xs))"

definition cp_Delete :: "string \<Rightarrow> containerProfiles \<Rightarrow> containerProfiles" where
  "cp_Delete containerID c =
     \<lparr>cp_byContainer = (cp_byContainer c)(containerID := None),
      cp_byProfile = fold (\<lambda>profile m. cp_drop m profile containerID)
        (entry (cp_byContainer c) containerID) (cp_byProfile c)\<rparr>"

fun drop_profile :: "string \<Rightarrow> string list \<Rightarrow> (string \<rightharpoonup> string list) \<Rightarrow> (string \<rightharpoonup> string list) \<times> string list" where
  "drop_profile profile [] m = (m, [])"
| "drop_profile profile (containerID # ids) m =
     (let m1 = cp_drop m containerID profile;
          (m2, unused) = drop_profile profile ids m1
      in (m2, if entry m1 containerID = [] then containerID # unused else unused))"

definition cp_DeleteProfile :: "string \<Rightarrow> containerProfiles \<Rightarrow> string list \<times> containerProfiles" where
  "cp_DeleteProfile profile c =
     (let (m, unused) = drop_profile profile (entry (cp_byProfile c) profile) (cp_byContainer c)
      in (unused, \<lparr>cp_byContainer = m, cp_byProfile = (cp_byProfile c)(profile := None)\<rparr>))"

definition cp_Clear :: "containerProfiles \<Rightarrow> containerProfiles" where
  "cp_Clear c = \<lparr>cp_byContainer = Map.empty, cp_byProfile = Map.empty\<rparr>"

definition cp_Size :: "containerProfiles \<Rightarrow> nat" where
  "cp_Size c = card (dom (cp_byContainer c))"

section \<open>The specification\<close>

text \<open>One list of pairs of a container and a profile, oldest first.\<close>

type_synonym assignment = "(string \<times> string) list"

datatype profiles_op =
    Assign string string
  | Forget_container string
  | Forget_profile string
  | Forget_all

fun run_profiles :: "profiles_op \<Rightarrow> containerProfiles \<Rightarrow> containerProfiles" where
  "run_profiles (Assign i p) c = cp_Insert i p c"
| "run_profiles (Forget_container i) c = cp_Delete i c"
| "run_profiles (Forget_profile p) c = snd (cp_DeleteProfile p c)"
| "run_profiles Forget_all c = cp_Clear c"

fun assign_op :: "profiles_op \<Rightarrow> assignment \<Rightarrow> assignment" where
  "assign_op (Assign i p) a = (if (i, p) \<in> set a then a else a @ [(i, p)])"
| "assign_op (Forget_container i) a = filter (\<lambda>x. fst x \<noteq> i) a"
| "assign_op (Forget_profile p) a = filter (\<lambda>x. snd x \<noteq> p) a"
| "assign_op Forget_all a = []"

definition profiles_in :: "assignment \<Rightarrow> string \<Rightarrow> string list" where
  "profiles_in a i = map snd (filter (\<lambda>x. fst x = i) a)"

definition containers_in :: "assignment \<Rightarrow> string \<Rightarrow> string list" where
  "containers_in a p = map fst (filter (\<lambda>x. snd x = p) a)"

definition tab :: "(string \<Rightarrow> string list) \<Rightarrow> (string \<rightharpoonup> string list)" where
  "tab f k = (if f k = [] then None else Some (f k))"

text \<open>The table that a list of pairs stands for.\<close>

definition table :: "assignment \<Rightarrow> containerProfiles" where
  "table a = \<lparr>cp_byContainer = tab (profiles_in a), cp_byProfile = tab (containers_in a)\<rparr>"

section \<open>Refinement\<close>

lemma entry_tab [simp]: "entry (tab f) k = f k"
  by (simp add: entry_def tab_def)

lemma cp_add_tab: "cp_add (tab f) k x = tab (if x \<in> set (f k) then f else f(k := f k @ [x]))"
  by (auto simp: cp_add_def fun_eq_iff tab_def)

lemma cp_drop_tab: "cp_drop (tab f) k x = tab (f(k := without (f k) x))"
  by (auto simp: cp_drop_def Let_def fun_eq_iff tab_def)

lemma without_idem [simp]: "without (without xs x) x = without xs x"
  by (simp add: without_def)

lemma tab_upd_empty: "(tab f)(k := None) = tab (f(k := []))"
  by (auto simp: fun_eq_iff tab_def)

lemma fold_drop_tab:
  "fold (\<lambda>k m. cp_drop m k x) ks (tab f) = tab (\<lambda>k. if k \<in> set ks then without (f k) x else f k)"
proof (induction ks arbitrary: f)
  case (Cons k ks)
  show ?case unfolding fold_simps cp_drop_tab Cons.IH
    by (rule arg_cong [of _ _ tab]) (auto simp: fun_eq_iff)
qed simp

lemma drop_profile_tab:
  assumes "distinct ids"
  shows "drop_profile p ids (tab f) =
    (tab (\<lambda>i. if i \<in> set ids then without (f i) p else f i), filter (\<lambda>i. without (f i) p = []) ids)"
  using assms
proof (induction ids arbitrary: f)
  case (Cons i ids)
  have out: "i \<notin> set ids" "distinct ids" using Cons.prems by auto
  have same: "filter (\<lambda>j. without ((f(i := without (f i) p)) j) p = []) ids = filter (\<lambda>j. without (f j) p = []) ids"
    using out(1) by (auto intro!: filter_cong)
  have eq: "(\<lambda>j. if j \<in> set ids then without ((f(i := without (f i) p)) j) p else (f(i := without (f i) p)) j) =
      (\<lambda>j. if j \<in> set (i # ids) then without (f j) p else f j)"
    using out(1) by (auto simp: fun_eq_iff)
  show ?case
    unfolding drop_profile.simps cp_drop_tab Let_def Cons.IH [OF out(2)] same eq by simp
qed simp

lemma in_profiles [simp]: "p \<in> set (profiles_in a i) \<longleftrightarrow> (i, p) \<in> set a"
  by (force simp: profiles_in_def)

lemma in_containers [simp]: "i \<in> set (containers_in a p) \<longleftrightarrow> (i, p) \<in> set a"
  by (force simp: containers_in_def)

lemma distinct_containers: "distinct a \<Longrightarrow> distinct (containers_in a p)"
  by (induction a) (auto simp: containers_in_def)

lemma profiles_snoc: "profiles_in (a @ [(i, p)]) = (profiles_in a)(i := profiles_in a i @ [p])"
  by (auto simp: profiles_in_def)

lemma containers_snoc: "containers_in (a @ [(i, p)]) = (containers_in a)(p := containers_in a p @ [i])"
  by (auto simp: containers_in_def)

lemma insert_table: "cp_Insert i p (table a) = table (assign_op (Assign i p) a)"
  by (simp add: cp_Insert_def table_def cp_add_tab profiles_snoc containers_snoc)

lemma without_containers: "without (containers_in a p) i = containers_in (filter (\<lambda>x. fst x \<noteq> i) a) p"
  by (induction a) (auto simp: containers_in_def without_def)

lemma without_profiles: "without (profiles_in a i) p = profiles_in (filter (\<lambda>x. snd x \<noteq> p) a) i"
  by (induction a) (auto simp: profiles_in_def without_def)

lemma without_absent: "x \<notin> set xs \<Longrightarrow> without xs x = xs"
  by (induction xs) (auto simp: without_def)

lemma forget_container_others:
  "profiles_in (filter (\<lambda>x. fst x \<noteq> i) a) = (profiles_in a)(i := [])"
  by (rule ext) (induction a, auto simp: profiles_in_def)

lemma forget_profile_others:
  "containers_in (filter (\<lambda>x. snd x \<noteq> p) a) = (containers_in a)(p := [])"
  by (rule ext) (induction a, auto simp: containers_in_def)

lemma delete_table: "cp_Delete i (table a) = table (assign_op (Forget_container i) a)"
proof -
  have "(\<lambda>p. if p \<in> set (profiles_in a i) then without (containers_in a p) i else containers_in a p) =
      containers_in (filter (\<lambda>x. fst x \<noteq> i) a)"
    by (rule ext) (metis in_containers in_profiles without_absent without_containers)
  then show ?thesis
    by (simp add: cp_Delete_def table_def fold_drop_tab tab_upd_empty forget_container_others)
qed

lemma delete_profile_table:
  assumes "distinct a"
  shows "cp_DeleteProfile p (table a) =
    (filter (\<lambda>i. profiles_in (assign_op (Forget_profile p) a) i = []) (containers_in a p),
     table (assign_op (Forget_profile p) a))"
proof -
  have eq: "(\<lambda>i. if i \<in> set (containers_in a p) then without (profiles_in a i) p else profiles_in a i) =
      profiles_in (filter (\<lambda>x. snd x \<noteq> p) a)"
    by (rule ext) (metis in_containers in_profiles without_absent without_profiles)
  show ?thesis
    unfolding cp_DeleteProfile_def table_def containerProfiles.simps entry_tab
      drop_profile_tab [OF distinct_containers [OF assms]] eq tab_upd_empty
    by (simp add: without_profiles forget_profile_others)
qed

lemma assign_distinct: "distinct a \<Longrightarrow> distinct (assign_op q a)"
  by (cases q) auto

lemma run_profiles_table: "distinct a \<Longrightarrow> run_profiles q (table a) = table (assign_op q a)"
  by (cases q) (simp_all del: assign_op.simps add: insert_table delete_table delete_profile_table,
      simp add: cp_Clear_def table_def profiles_in_def containers_in_def tab_def fun_eq_iff)

lemma table_nil: "table [] = newContainerProfiles"
  by (simp add: table_def newContainerProfiles_def profiles_in_def containers_in_def tab_def fun_eq_iff)

lemma fold_profiles:
  "distinct a \<Longrightarrow> fold run_profiles qs (table a) = table (fold assign_op qs a) \<and> distinct (fold assign_op qs a)"
  by (induction qs arbitrary: a) (simp_all add: run_profiles_table assign_distinct)

text \<open>The tables that operations on a new table give.\<close>

definition profiles_ok :: "containerProfiles \<Rightarrow> bool" where
  "profiles_ok c \<longleftrightarrow> (\<exists>a. distinct a \<and> c = table a)"

lemma profiles_ok_reached: "profiles_ok (fold run_profiles qs newContainerProfiles)"
  using fold_profiles [of "[]" qs] by (auto simp: profiles_ok_def table_nil)

lemma profiles_ok_run: "profiles_ok c \<Longrightarrow> profiles_ok (run_profiles q c)"
  unfolding profiles_ok_def by (metis run_profiles_table assign_distinct)

lemma containers_table [simp]: "cp_Containers p (table a) = containers_in a p"
  by (simp add: cp_Containers_def table_def)

lemma getall_table [simp]: "cp_GetAll i (table a) = profiles_in a i"
  by (simp add: cp_GetAll_def table_def)

lemma size_table: "cp_Size (table a) = card (fst ` set a)"
proof -
  have "dom (tab (profiles_in a)) = fst ` set a"
    by (force simp: tab_def dom_def profiles_in_def filter_empty_conv split: if_splits)
  then show ?thesis by (simp add: cp_Size_def table_def)
qed

lemma get_table: "cp_Get i (table a) = map_option snd (find (\<lambda>x. fst x = i) a)"
  by (induction a) (auto simp: cp_Get_def table_def profiles_in_def)

text \<open>
  (C23) The table of the profiles refines one list of pairs of a container and a profile. After any
  sequence of operations on a new table, the profiles of a container and the containers of a
  profile are those of the pairs of the list, in the order in which the pairs were inserted and
  each one once. The profile that a container is looked up with is the oldest one. The size is the
  number of containers with a profile. Deleting a profile returns exactly the containers that have
  no other profile, so the keys of the remaining ones stay known.
\<close>

theorem container_profiles_refine:
  "let c = fold run_profiles qs newContainerProfiles; a = fold assign_op qs []
   in (\<forall>i. cp_GetAll i c = profiles_in a i \<and> distinct (cp_GetAll i c)) \<and>
      (\<forall>p. cp_Containers p c = containers_in a p \<and> distinct (cp_Containers p c)) \<and>
      (\<forall>i. cp_Get i c = map_option snd (find (\<lambda>x. fst x = i) a)) \<and>
      cp_Size c = card (fst ` set a) \<and>
      (\<forall>p i. i \<in> set (fst (cp_DeleteProfile p c)) \<longleftrightarrow> cp_GetAll i c = [p])"
proof -
  let ?c = "fold run_profiles qs newContainerProfiles" and ?a = "fold assign_op qs []"
  have c: "?c = table ?a" and d: "distinct ?a" using fold_profiles [of "[]" qs] by (simp_all add: table_nil)
  have dp: "distinct (profiles_in ?a i)" for i
    using d by (induction ?a) (auto simp: profiles_in_def distinct_map inj_on_def)
  have only: "without xs p = [] \<and> p \<in> set xs \<longleftrightarrow> xs = [p]" if "distinct xs" for xs p
    using that by (cases xs; cases "tl xs") (auto simp: without_def filter_empty_conv)
  have "i \<in> set (fst (cp_DeleteProfile p ?c)) \<longleftrightarrow> cp_GetAll i ?c = [p]" for p i
    using only [OF dp, of i p] by (auto simp: c delete_profile_table [OF d] without_profiles)
  then show ?thesis
    using d dp by (simp add: Let_def c distinct_containers size_table get_table)
qed

end
