(* ===== verification/Loss_Report.thy ===== *)
theory Loss_Report
  imports Events
begin

text \<open>
  The report of lost data: \<^verbatim>\<open>checkLostEvents\<close> and \<^verbatim>\<open>sumPerCPU\<close> of \<^verbatim>\<open>bpfrecorder.go\<close> on the counters that
  \<^verbatim>\<open>count_lost\<close> of the BPF program keeps per CPU. Reading the counters of a reason gives the values
  of all \<open>ncpu\<close> possible CPUs one after the other, which is what libbpf documents for per CPU maps.
\<close>

section \<open>Reading the counters\<close>

fun sumPerCPU :: "u8 list \<Rightarrow> u64" where
  "sumPerCPU (b0 # b1 # b2 # b3 # b4 # b5 # b6 # b7 # rest) =
     le_word [b0, b1, b2, b3, b4, b5, b6, b7] + sumPerCPU rest"
| "sumPerCPU short = 0"

definition percpu_value :: "nat \<Rightarrow> rstate \<Rightarrow> nat \<Rightarrow> u8 list" where
  "percpu_value ncpu s reason = concat (map (\<lambda>cpu. le_bytes 8 (lost_events s cpu ! reason)) [0..<ncpu])"

text \<open>A report names the reason, what got lost since the last report, and the total.\<close>

type_synonym loss = "nat \<times> u64 \<times> u64"

definition check_reason :: "nat \<Rightarrow> u8 list \<Rightarrow> loss list \<times> u64 list \<Rightarrow> loss list \<times> u64 list" where
  "check_reason reason val = (\<lambda>(reports, lostEvents).
     let total = sumPerCPU val;
         lost = total - lostEvents ! reason
     in if total < lostEvents ! reason \<or> lost = 0 then (reports, lostEvents[reason := total])
        else (reports @ [(reason, lost, total)], lostEvents[reason := total]))"

text \<open>\<open>err\<close> tells the reasons whose counter cannot be read, which are skipped.\<close>

definition checkLostEvents :: "(nat \<Rightarrow> bool) \<Rightarrow> nat \<Rightarrow> rstate \<Rightarrow> u64 list \<Rightarrow> loss list \<times> u64 list" where
  "checkLostEvents err ncpu s lostEvents =
     fold (\<lambda>reason st. if err reason then st else check_reason reason (percpu_value ncpu s reason) st)
       [LOST_RINGBUF, LOST_SYSCALLS_MAP_FULL, LOST_FILE_EVENT_BUSY, LOST_COMPAT_SYSCALL] ([], lostEvents)"

section \<open>Losses and reports\<close>

datatype loss_op = Lose nat task | Check "nat \<Rightarrow> bool"

record loss_state =
  ls_kernel :: rstate
  ls_lostEvents :: "u64 list"
  ls_log :: "loss list"

fun loss_step :: "nat \<Rightarrow> loss_op \<Rightarrow> loss_state \<Rightarrow> loss_state" where
  "loss_step ncpu (Lose reason t) w = w\<lparr>ls_kernel := count_lost reason t (ls_kernel w)\<rparr>"
| "loss_step ncpu (Check err) w =
     (case checkLostEvents err ncpu (ls_kernel w) (ls_lostEvents w) of (reports, lostEvents) \<Rightarrow>
        w\<lparr>ls_lostEvents := lostEvents, ls_log := ls_log w @ reports\<rparr>)"

definition loss_init :: loss_state where
  "loss_init = \<lparr>ls_kernel = init_state, ls_lostEvents = replicate 4 0, ls_log = []\<rparr>"

text \<open>How often something was lost for a reason on one of the CPUs, and how much got reported for it.\<close>

definition losses :: "nat \<Rightarrow> nat \<Rightarrow> loss_op list \<Rightarrow> nat" where
  "losses ncpu reason ops = length (filter (\<lambda>p. case p of Lose r t \<Rightarrow> r = reason \<and> t_cpu t < ncpu | _ \<Rightarrow> False) ops)"

definition told :: "nat \<Rightarrow> loss list \<Rightarrow> nat" where
  "told reason log = sum_list (map (\<lambda>(r, lost, total). if r = reason then unat lost else 0) log)"

lemma told_append [simp]: "told r (a @ b) = told r a + told r b"
  by (simp add: told_def)

lemma told_simps [simp]: "told r [] = 0" "told r ((q, lost, tot) # log) = (if q = r then unat lost else 0) + told r log"
  by (simp_all add: told_def)

lemma losses_snoc [simp]:
  "losses n r (ops @ [Lose q t]) = losses n r ops + (if q = r \<and> t_cpu t < n then 1 else 0)"
  "losses n r (ops @ [Check err]) = losses n r ops" "losses n r [] = 0"
  by (simp_all add: losses_def)

lemma losses_le: "losses n r ops \<le> length ops"
  by (simp add: losses_def)

lemma sumPerCPU_cons: "sumPerCPU (le_bytes 8 (x :: u64) @ rest) = x + sumPerCPU rest"
proof -
  have eight: "le_bytes 8 x = map (\<lambda>i. ucast (drop_bit (8 * i) x)) [0, 1, 2, 3, 4, 5, 6, 7]"
    by (simp add: le_bytes_def upt_conv_Cons)
  have "le_word (map (\<lambda>i. ucast (drop_bit (8 * i) x)) [0, 1, 2, 3, 4, 5, 6, 7]) = x"
    unfolding eight [symmetric] by simp
  then show ?thesis by (simp add: eight)
qed

lemma sum_values: "sumPerCPU (percpu_value n s r) = sum_list (map (\<lambda>cpu. lost_events s cpu ! r) [0..<n])"
proof -
  have "sumPerCPU (concat (map (\<lambda>cpu. le_bytes 8 (lost_events s cpu ! r)) cpus)) =
      sum_list (map (\<lambda>cpu. lost_events s cpu ! r) cpus)" for cpus
    by (induction cpus) (simp_all add: sumPerCPU_cons)
  then show ?thesis by (simp add: percpu_value_def)
qed

lemma sum_bump:
  "r < 4 \<Longrightarrow> (\<And>cpu. length (l cpu) = 4) \<Longrightarrow>
   sum_list (map (\<lambda>cpu. lost_bump q c l cpu ! r) [0..<n]) =
   sum_list (map (\<lambda>cpu. l cpu ! r) [0..<n]) + (if q = r \<and> c < n then 1 else 0)"
  by (induction n) (auto simp: lost_bump_nth)

text \<open>\<open>seen r\<close> is the number of losses at the last check that could read the counter.\<close>

definition loss_inv :: "nat \<Rightarrow> loss_op list \<Rightarrow> loss_state \<Rightarrow> (nat \<Rightarrow> nat) \<Rightarrow> bool" where
  "loss_inv n ops w seen \<longleftrightarrow>
     (\<forall>cpu. length (lost_events (ls_kernel w) cpu) = 4) \<and> length (ls_lostEvents w) = 4 \<and>
     (\<forall>r<4. sumPerCPU (percpu_value n (ls_kernel w) r) = of_nat (losses n r ops) \<and>
       ls_lostEvents w ! r = of_nat (seen r) \<and> seen r \<le> losses n r ops \<and> told r (ls_log w) = seen r)"

lemma check_reason_inv:
  assumes "length l = 4" "q < 4" "r < 4" "sumPerCPU val = of_nat m" "l ! q = of_nat k" "k \<le> m" "m < 2 ^ 64"
  shows "length (snd (check_reason q val (reps, l))) = 4"
    and "snd (check_reason q val (reps, l)) ! r = (if r = q then of_nat m else l ! r)"
    and "told r (fst (check_reason q val (reps, l))) = told r reps + (if r = q then m - k else 0)"
proof -
  have sub: "(of_nat m :: u64) - of_nat k = of_nat (m - k)" using assms(6) by simp
  have un: "unat (of_nat j :: u64) = j" if "j \<le> m" for j
    using assms(7) that by (simp add: unat_of_nat take_bit_nat_eq_self)
  have le: "\<not> (of_nat m :: u64) < of_nat k"
    using assms(6) by (simp add: word_less_nat_alt un)
  show "length (snd (check_reason q val (reps, l))) = 4"
    "snd (check_reason q val (reps, l)) ! r = (if r = q then of_nat m else l ! r)"
    using assms(1-3) by (auto simp: check_reason_def Let_def assms(4) nth_list_update)
  have "m - k = 0" if "(of_nat (m - k) :: u64) = 0" using un [of "m - k"] that by simp
  then show "told r (fst (check_reason q val (reps, l))) = told r reps + (if r = q then m - k else 0)"
    using le un [of "m - k"] sub by (auto simp: check_reason_def Let_def assms(4,5))
qed

text \<open>The check of a list of different reasons.\<close>

lemma check_reasons_inv:
  assumes "distinct rs" "set rs \<subseteq> {..<4}" "length l = 4"
    and "\<And>r. r < 4 \<Longrightarrow> sumPerCPU (v r) = of_nat (m r) \<and> l ! r = of_nat (k r) \<and> k r \<le> m r \<and> m r < 2 ^ 64"
    and "st = fold (\<lambda>r st. if err r then st else check_reason r (v r) st) rs (reps, l)"
  shows "length (snd st) = 4 \<and> (\<forall>r<4. snd st ! r = (if r \<in> set rs \<and> \<not> err r then of_nat (m r) else of_nat (k r)) \<and>
    told r (fst st) = told r reps + (if r \<in> set rs \<and> \<not> err r then m r - k r else 0))"
  using assms
proof (induction rs arbitrary: st rule: rev_induct)
  case (snoc q rs)
  let ?st = "fold (\<lambda>r st. if err r then st else check_reason r (v r) st) rs (reps, l)"
  have IH: "length (snd ?st) = 4" "r < 4 \<Longrightarrow> snd ?st ! r = (if r \<in> set rs \<and> \<not> err r then of_nat (m r) else of_nat (k r))"
    "r < 4 \<Longrightarrow> told r (fst ?st) = told r reps + (if r \<in> set rs \<and> \<not> err r then m r - k r else 0)" for r
    using snoc.IH [OF _ _ snoc.prems(3,4) refl] snoc.prems(1,2) by auto
  have q: "q < 4" "q \<notin> set rs" using snoc.prems(1,2) by auto
  show ?case
  proof (cases "err q")
    case True
    then show ?thesis using IH q by (simp add: snoc.prems(5))
  next
    case False
    have st: "st = check_reason q (v q) (fst ?st, snd ?st)" using False by (simp add: snoc.prems(5))
    have "snd ?st ! q = of_nat (k q)" using IH(2) [OF q(1)] q(2) by simp
    note c = check_reason_inv [OF IH(1) q(1) _ _ this, of _ "v q" "m q" "fst ?st"]
    show ?thesis unfolding st using c snoc.prems(4) [OF q(1)] IH(2,3) q False by auto
  qed
qed simp

lemma checkLostEvents_inv:
  assumes inv: "loss_inv n ops w seen" and few: "length ops < 2 ^ 64"
  shows "loss_inv n (ops @ [Check err]) (loss_step n (Check err) w) (\<lambda>r. if err r then seen r else losses n r ops)"
proof -
  let ?st = "checkLostEvents err n (ls_kernel w) (ls_lostEvents w)"
  have less: "losses n r ops < 2 ^ 64" for r using losses_le [of n r ops] few by (rule le_less_trans)
  have "length (snd ?st) = 4 \<and> (\<forall>r<4. snd ?st ! r = (if r \<in> set [0, 1, 2, 3] \<and> \<not> err r then of_nat (losses n r ops) else of_nat (seen r)) \<and>
    told r (fst ?st) = told r [] + (if r \<in> set [0, 1, 2, 3] \<and> \<not> err r then losses n r ops - seen r else 0))"
    by (rule check_reasons_inv [where v = "percpu_value n (ls_kernel w)" and l = "ls_lostEvents w" and err = err])
      (use inv less in \<open>auto simp: loss_inv_def checkLostEvents_def\<close>)
  moreover have "r \<in> set [0, 1, 2, 3]" if "r < 4" for r :: nat using that by auto
  ultimately show ?thesis using inv by (auto simp: loss_inv_def case_prod_beta)
qed

lemma loss_reached:
  "length ops < 2 ^ 64 \<Longrightarrow> \<exists>seen. loss_inv n ops (fold (loss_step n) ops loss_init) seen"
proof (induction ops rule: rev_induct)
  case Nil
  have "sum_list (map (\<lambda>cpu. 0 :: u64) [0..<n]) = 0" by (induction n) simp_all
  then show ?case by (auto simp: loss_inv_def loss_init_def init_state_def sum_values intro!: exI [of _ "\<lambda>_. 0"])
next
  case (snoc p ops)
  then obtain seen where inv: "loss_inv n ops (fold (loss_step n) ops loss_init) seen" by auto
  show ?case
  proof (cases p)
    case (Lose q t)
    have "loss_inv n (ops @ [p]) (fold (loss_step n) (ops @ [p]) loss_init) seen"
      using inv unfolding loss_inv_def Lose by (auto simp: sum_values sum_bump)
    then show ?thesis by blast
  next
    case (Check err)
    then show ?thesis using checkLostEvents_inv [OF inv] snoc.prems by auto
  qed
qed

text \<open>
  (C25) Nothing that the BPF program counts as lost goes unnoticed, and nothing is reported twice.
  After any sequence of losses on any CPU and of checks, of which some fail to read some counters,
  the reports of a reason never add up to more than what was lost for it. After a check that could
  read the counter they add up to exactly that, as long as the counters do not wrap around.
\<close>

theorem losses_reported:
  assumes "length ops < 2 ^ 64" "reason < 4"
  shows "let log = ls_log (fold (loss_step ncpu) ops loss_init);
             log' = ls_log (fold (loss_step ncpu) (ops @ [Check err]) loss_init)
    in told reason log \<le> losses ncpu reason ops \<and>
       told reason log' = (if err reason then told reason log else losses ncpu reason ops)"
proof -
  obtain seen where inv: "loss_inv ncpu ops (fold (loss_step ncpu) ops loss_init) seen"
    using loss_reached [OF assms(1)] by blast
  show ?thesis
    using inv checkLostEvents_inv [OF inv assms(1), of err] assms(2)
    by (simp add: Let_def loss_inv_def del: loss_step.simps)
qed

theorem losses_reported_witness:
  "let log = ls_log (fold (loss_step 2) [Lose 1 ref_task, Check (\<lambda>r. r = 1), Lose 1 ref_task, Check (\<lambda>_. False)] loss_init)
   in told 1 log = 2"
proof -
  have "t_cpu ref_task < 2" by (simp add: ref_task_def)
  then show ?thesis
    using losses_reported [of "[Lose 1 ref_task, Check (\<lambda>r. r = 1), Lose 1 ref_task]" 1 2 "\<lambda>_. False"]
    by (simp add: Let_def losses_def)
qed

end
