(* ===== verification/Recording_Session.thy ===== *)
theory Recording_Session
  imports AppArmor_Profile Seccomp_Recorder Container_Profiles Loss_Report
begin

text \<open>
  A recording session of \<^verbatim>\<open>bpfrecorder.go\<close>: the requests \<^verbatim>\<open>Start\<close> and \<^verbatim>\<open>Stop\<close>, which are counted, and
  what the first start and the last stop do to the maps of the BPF program and to the tables of the
  userspace. The operations on the BPF maps can fail. Which of them do is a parameter, as is what
  the iterator over a map returns.
\<close>

section \<open>The state\<close>

text \<open>
  What the requests and the maintenance use of the recorder. The maps of the BPF program are the
  second part of \<open>service\<close>. The caches of containers without a profile belong to the handlers of new
  processes, and the exits and their waiters to the theory of waiting. Locks, loggers, connections, and
  the containers a warning was logged for are left out.
\<close>

record BpfRecorder =
  br_loaded :: bool
  br_startRequests :: int
  br_recordingGeneration :: u64
  br_containerKeys :: containerKeys
  br_containerIDToProfileMap :: containerProfiles
  br_collectedProfiles :: "string set"
  br_lostEvents :: "u64 list"
  br_uniqueKeys :: bool
  br_cgroupKeys :: bool
  br_staleKeys :: "u64 \<Rightarrow> nat"
  br_idleSince :: "nat option"
  br_lastStart :: nat
  br_Seccomp :: "SeccompRecorder option"
  br_AppArmor :: "AppArmorRecorder option"
  br_unavailable :: bool

type_synonym service = "BpfRecorder \<times> rstate"

text \<open>The maps that are keyed by the recording key.\<close>

datatype key_map = Exclude_keys | Seccomp_initialized | Apparmor_initialized | Recorded_syscalls | Recorded_caps | Recorded_sockets

text \<open>The keys an iterator returns, and the keys whose deletion fails for another reason than a missing entry.\<close>

type_synonym 'k clear_io = "'k list \<times> ('k \<Rightarrow> bool)"

record map_io =
  io_is_recording :: bool
  io_active_pids :: "pid_key clear_io"
  io_child_pids :: "u32 clear_io"
  io_map :: "key_map \<Rightarrow> u64 clear_io"
  io_lost :: "nat \<Rightarrow> bool"
  io_ncpu :: nat

fun delete_keys :: "('k \<Rightarrow> bool) \<Rightarrow> 'k list \<Rightarrow> ('k \<rightharpoonup> 'v) \<Rightarrow> bool \<times> ('k \<rightharpoonup> 'v)" where
  "delete_keys err [] m = (True, m)"
| "delete_keys err (k # ks) m = (if err k then (False, m) else delete_keys err ks (m(k := None)))"

definition clearBpfMap :: "'k clear_io \<Rightarrow> ('k \<rightharpoonup> 'v) \<Rightarrow> bool \<times> ('k \<rightharpoonup> 'v)" where
  "clearBpfMap io m = delete_keys (snd io) (fst io) m"

text \<open>Steps that return early with the first error.\<close>

fun run_all :: "('s \<Rightarrow> bool \<times> 's) list \<Rightarrow> 's \<Rightarrow> bool \<times> 's" where
  "run_all [] s = (True, s)"
| "run_all (f # fs) s = (case f s of (ok, s1) \<Rightarrow> if ok then run_all fs s1 else (False, s1))"

definition clear_active :: "map_io \<Rightarrow> rstate \<Rightarrow> bool \<times> rstate" where
  "clear_active io s = (case clearBpfMap (io_active_pids io) (active_pids s) of (ok, m) \<Rightarrow> (ok, s\<lparr>active_pids := m\<rparr>))"

definition clear_child :: "map_io \<Rightarrow> rstate \<Rightarrow> bool \<times> rstate" where
  "clear_child io s = (case clearBpfMap (io_child_pids io) (child_pids s) of (ok, m) \<Rightarrow> (ok, s\<lparr>child_pids := m\<rparr>))"

fun clear_map :: "map_io \<Rightarrow> key_map \<Rightarrow> rstate \<Rightarrow> bool \<times> rstate" where
  "clear_map io Exclude_keys s =
     (case clearBpfMap (io_map io Exclude_keys) (exclude_keys s) of (ok, m) \<Rightarrow> (ok, s\<lparr>exclude_keys := m\<rparr>))"
| "clear_map io Seccomp_initialized s =
     (case clearBpfMap (io_map io Seccomp_initialized) (seccomp_initialized s) of (ok, m) \<Rightarrow> (ok, s\<lparr>seccomp_initialized := m\<rparr>))"
| "clear_map io Apparmor_initialized s =
     (case clearBpfMap (io_map io Apparmor_initialized) (apparmor_initialized s) of (ok, m) \<Rightarrow> (ok, s\<lparr>apparmor_initialized := m\<rparr>))"
| "clear_map io Recorded_syscalls s =
     (case clearBpfMap (io_map io Recorded_syscalls) (recorded_syscalls s) of (ok, m) \<Rightarrow> (ok, s\<lparr>recorded_syscalls := m\<rparr>))"
| "clear_map io Recorded_caps s =
     (case clearBpfMap (io_map io Recorded_caps) (recorded_caps s) of (ok, m) \<Rightarrow> (ok, s\<lparr>recorded_caps := m\<rparr>))"
| "clear_map io Recorded_sockets s =
     (case clearBpfMap (io_map io Recorded_sockets) (recorded_sockets s) of (ok, m) \<Rightarrow> (ok, s\<lparr>recorded_sockets := m\<rparr>))"

definition clearPidMaps :: "map_io \<Rightarrow> rstate \<Rightarrow> bool \<times> rstate" where
  "clearPidMaps io = run_all [clear_active io, clear_child io, clear_map io Exclude_keys,
     clear_map io Seccomp_initialized, clear_map io Apparmor_initialized]"

section \<open>Starting and stopping\<close>

text \<open>The call of \<^verbatim>\<open>getgid\<close> makes the BPF program read the flag again.\<close>

definition set_recording :: "bool \<Rightarrow> rstate \<Rightarrow> rstate" where
  "set_recording on s = snd (sys_enter_getgid (s\<lparr>is_recording := (is_recording s)[0 := on]\<rparr>))"

definition br_StartRecording :: "map_io \<Rightarrow> service \<Rightarrow> service_error option \<times> service" where
  "br_StartRecording io = (\<lambda>(r, s).
     if \<not> br_loaded r then (Some ErrStartBeforeLoad, (r, s))
     else case clearPidMaps io s of (ok, s1) \<Rightarrow>
       if \<not> ok \<or> \<not> io_is_recording io then (Some Map_error, (r, s1))
       else (None, (r, set_recording True s1)))"

text \<open>The maps of the AppArmor recorder are cleared after its own data, if it has them.\<close>

definition apparmor_stop :: "map_io \<Rightarrow> recording \<Rightarrow> bool \<times> recording" where
  "apparmor_stop io = (\<lambda>(b, s).
     let b1 = fst (StopRecording (b, s))
     in if ar_loaded b
        then (case run_all [clear_map io Recorded_caps, clear_map io Recorded_sockets] s of (ok, s1) \<Rightarrow> (ok, (b1, s1)))
        else (True, (b1, s)))"

definition stop_seccomp :: "map_io \<Rightarrow> service \<Rightarrow> bool \<times> service" where
  "stop_seccomp io = (\<lambda>(r, s).
     case br_Seccomp r of
       None \<Rightarrow> (True, (r, s))
     | Some _ \<Rightarrow> (case clear_map io Recorded_syscalls s of (ok, s1) \<Rightarrow> (ok, (r, s1))))"

definition stop_apparmor :: "map_io \<Rightarrow> service \<Rightarrow> bool \<times> service" where
  "stop_apparmor io = (\<lambda>(r, s).
     case br_AppArmor r of
       None \<Rightarrow> (True, (r, s))
     | Some b \<Rightarrow> (case apparmor_stop io (b, s) of (ok, (b1, s1)) \<Rightarrow> (ok, (r\<lparr>br_AppArmor := Some b1\<rparr>, s1))))"

definition end_session :: "map_io \<Rightarrow> service \<Rightarrow> service" where
  "end_session io = (\<lambda>(r, s).
     (r\<lparr>br_lostEvents := snd (checkLostEvents (io_lost io) (io_ncpu io) s (br_lostEvents r)),
        br_recordingGeneration := br_recordingGeneration r + 1,
        br_containerKeys := ClearKeys (br_containerKeys r),
        br_containerIDToProfileMap := cp_Clear (br_containerIDToProfileMap r),
        br_collectedProfiles := {}\<rparr>, s))"

definition br_StopRecording :: "map_io \<Rightarrow> service \<Rightarrow> service_error option \<times> service" where
  "br_StopRecording io = (\<lambda>(r, s).
     if \<not> io_is_recording io then (Some Map_error, (r, s))
     else case run_all [stop_seccomp io, stop_apparmor io,
                  \<lambda>(r, s). case clearPidMaps io s of (ok, s1) \<Rightarrow> (ok, (r, s1))] (r, set_recording False s) of
       (ok, w) \<Rightarrow> if ok then (None, end_session io w) else (Some Map_error, w))"

definition Start :: "nat \<Rightarrow> map_io \<Rightarrow> service \<Rightarrow> service_error option \<times> service" where
  "Start now io = (\<lambda>(r, s).
     let r1 = r\<lparr>br_lastStart := now\<rparr>
     in case (if br_startRequests r1 = 0 then br_StartRecording io (r1, s) else (None, (r1, s))) of
       (Some e, w) \<Rightarrow> (Some e, w)
     | (None, (r2, s2)) \<Rightarrow> (None, (r2\<lparr>br_startRequests := br_startRequests r2 + 1\<rparr>, s2)))"

definition Stop :: "map_io \<Rightarrow> service \<Rightarrow> service_error option \<times> service" where
  "Stop io = (\<lambda>(r, s).
     if br_startRequests r = 0 then (None, (r, s))
     else let r1 = r\<lparr>br_startRequests := br_startRequests r - 1\<rparr>
          in if br_startRequests r1 = 0 then br_StopRecording io (r1, s) else (None, (r1, s)))"

section \<open>Clearing the maps\<close>

text \<open>The iterators return every key and no deletion fails.\<close>

definition emptied :: "'k clear_io \<Rightarrow> ('k \<rightharpoonup> 'v) \<Rightarrow> bool" where
  "emptied io m \<longleftrightarrow> dom m \<subseteq> set (fst io) \<and> (\<forall>k \<in> set (fst io). \<not> snd io k)"

definition clears_maps :: "map_io \<Rightarrow> rstate \<Rightarrow> bool" where
  "clears_maps io s \<longleftrightarrow> io_is_recording io \<and> emptied (io_active_pids io) (active_pids s) \<and>
     emptied (io_child_pids io) (child_pids s) \<and> emptied (io_map io Exclude_keys) (exclude_keys s) \<and>
     emptied (io_map io Seccomp_initialized) (seccomp_initialized s) \<and>
     emptied (io_map io Apparmor_initialized) (apparmor_initialized s) \<and>
     emptied (io_map io Recorded_syscalls) (recorded_syscalls s) \<and>
     emptied (io_map io Recorded_caps) (recorded_caps s) \<and> emptied (io_map io Recorded_sockets) (recorded_sockets s)"

lemma delete_keys_ok:
  "\<forall>k \<in> set ks. \<not> err k \<Longrightarrow> delete_keys err ks m = (True, \<lambda>k. if k \<in> set ks then None else m k)"
  by (induction ks arbitrary: m) (auto simp: fun_eq_iff)

lemma clearBpfMap_empty: "emptied io m \<Longrightarrow> clearBpfMap io m = (True, Map.empty)"
  by (auto simp: clearBpfMap_def emptied_def delete_keys_ok fun_eq_iff dom_def)

text \<open>What clearing does, successful or not, is to drop entries of the maps.\<close>

definition only_drops :: "rstate \<Rightarrow> rstate \<Rightarrow> bool" where
  "only_drops s s' \<longleftrightarrow> is_recording s' = is_recording s \<and> is_recording_cached s' = is_recording_cached s \<and>
     events s' = events s \<and> lost_events s' = lost_events s \<and> exclude_mntns s' = exclude_mntns s \<and>
     active_pids s' \<subseteq>\<^sub>m active_pids s \<and> child_pids s' \<subseteq>\<^sub>m child_pids s \<and> exclude_keys s' \<subseteq>\<^sub>m exclude_keys s \<and>
     seccomp_initialized s' \<subseteq>\<^sub>m seccomp_initialized s \<and> apparmor_initialized s' \<subseteq>\<^sub>m apparmor_initialized s \<and>
     recorded_syscalls s' \<subseteq>\<^sub>m recorded_syscalls s \<and> recorded_caps s' \<subseteq>\<^sub>m recorded_caps s \<and>
     recorded_sockets s' \<subseteq>\<^sub>m recorded_sockets s"

lemma only_drops_refl [simp]: "only_drops s s"
  by (simp add: only_drops_def)

lemma only_drops_trans: "only_drops s s1 \<Longrightarrow> only_drops s1 s2 \<Longrightarrow> only_drops s s2"
  unfolding only_drops_def by (elim conjE, intro conjI) (erule (1) trans | erule (1) map_le_trans)+

lemma delete_keys_le: "snd (delete_keys err ks m) \<subseteq>\<^sub>m m"
proof (induction ks arbitrary: m)
  case (Cons k ks)
  have "m(k := None) \<subseteq>\<^sub>m m" by (simp add: map_le_def)
  with Cons.IH [of "m(k := None)"] have "snd (delete_keys err ks (m(k := None))) \<subseteq>\<^sub>m m" by (rule map_le_trans)
  then show ?case by (simp del: fun_upd_apply)
qed simp

lemma clearBpfMap_le: "snd (clearBpfMap io m) \<subseteq>\<^sub>m m"
  by (simp add: clearBpfMap_def delete_keys_le)

lemma clear_map_drops:
  "only_drops s (snd (clear_active io s))" "only_drops s (snd (clear_child io s))"
  "only_drops s (snd (clear_map io m s))"
  by (simp_all add: clear_active_def clear_child_def only_drops_def case_prod_beta clearBpfMap_le)
    (cases m; simp add: case_prod_beta clearBpfMap_le)+

lemma run_all_inv:
  assumes "\<And>f s. f \<in> set fs \<Longrightarrow> P s (snd (f s))" "\<And>s. P s s" "\<And>a b c. P a b \<Longrightarrow> P b c \<Longrightarrow> P a c"
  shows "P s (snd (run_all fs s))"
  using assms(1)
proof (induction fs arbitrary: s)
  case (Cons f fs)
  then have "P s (snd (f s))" "P (snd (f s)) (snd (run_all fs (snd (f s))))" by simp_all
  then show ?case using assms(3) by (auto simp: case_prod_beta)
qed (simp add: assms(2))

lemma clearPidMaps_drops: "only_drops s (snd (clearPidMaps io s))"
  unfolding clearPidMaps_def
  by (rule run_all_inv [where P = only_drops]) (auto simp: clear_map_drops simp del: clear_map.simps intro: only_drops_trans)

lemma clearPidMaps_empty:
  assumes "clears_maps io s"
  shows "clearPidMaps io s = (True, s\<lparr>active_pids := Map.empty, child_pids := Map.empty, exclude_keys := Map.empty,
    seccomp_initialized := Map.empty, apparmor_initialized := Map.empty\<rparr>)"
  using assms by (simp add: clearPidMaps_def clear_active_def clear_child_def clears_maps_def clearBpfMap_empty)

section \<open>The requests are counted\<close>

lemma set_recording_sel [simp]:
  "is_recording_cached (set_recording on s) = (is_recording s \<noteq> [] \<and> on)"
  "is_recording (set_recording on s) = (is_recording s)[0 := on]"
  by (auto simp: set_recording_def sys_enter_getgid_def nth_opt_def)

text \<open>What belongs together: the number of requests, the flag of the map, and the copy the hooks look at.\<close>

definition session_ok :: "service \<Rightarrow> bool" where
  "session_ok w \<longleftrightarrow> (case w of (r, s) \<Rightarrow> 0 \<le> br_startRequests r \<and>
     is_recording s = [0 < br_startRequests r] \<and> is_recording_cached s = (0 < br_startRequests r))"

datatype session_op = Start_op nat map_io | Stop_op map_io | Getgid_op

fun session_step :: "session_op \<Rightarrow> service \<Rightarrow> service_error option \<times> service" where
  "session_step (Start_op now io) w = Start now io w"
| "session_step (Stop_op io) w = Stop io w"
| "session_step Getgid_op w = (None, (fst w, snd (sys_enter_getgid (snd w))))"

lemma start_recording_cases:
  "br_StartRecording io (r, s) =
     (if \<not> br_loaded r then (Some ErrStartBeforeLoad, (r, s))
      else if fst (clearPidMaps io s) \<and> io_is_recording io
      then (None, (r, set_recording True (snd (clearPidMaps io s))))
      else (Some Map_error, (r, snd (clearPidMaps io s))))"
  by (simp add: br_StartRecording_def case_prod_beta)

lemma start_ok:
  assumes "session_ok w" "Start now io w = (e, w')"
  shows "session_ok w'" "br_startRequests (fst w') = (if e = None then br_startRequests (fst w) + 1 else br_startRequests (fst w))"
proof -
  obtain r s where w: "w = (r, s)" by (cases w)
  have d: "is_recording (snd (clearPidMaps io s)) = is_recording s"
    "is_recording_cached (snd (clearPidMaps io s)) = is_recording_cached s"
    using clearPidMaps_drops [of s io] by (simp_all add: only_drops_def)
  show "session_ok w'" "br_startRequests (fst w') = (if e = None then br_startRequests (fst w) + 1 else br_startRequests (fst w))"
    using assms d by (auto simp: w Start_def Let_def start_recording_cases session_ok_def split: if_splits)
qed

lemma stop_parts:
  "only_drops s (snd (snd (stop_seccomp io (r, s))))" "only_drops s (snd (snd (stop_apparmor io (r, s))))"
  "br_startRequests (fst (snd (stop_seccomp io (r, s)))) = br_startRequests r"
  "br_startRequests (fst (snd (stop_apparmor io (r, s)))) = br_startRequests r"
proof -
  have "only_drops s (snd (run_all [clear_map io Recorded_caps, clear_map io Recorded_sockets] s))"
    by (rule run_all_inv [where P = only_drops]) (auto simp: clear_map_drops simp del: clear_map.simps intro: only_drops_trans)
  then show "only_drops s (snd (snd (stop_apparmor io (r, s))))"
    by (auto simp: stop_apparmor_def apparmor_stop_def Let_def case_prod_beta simp del: run_all.simps split: option.split)
  show "only_drops s (snd (snd (stop_seccomp io (r, s))))"
    using clear_map_drops(3) [of s io Recorded_syscalls]
    by (auto simp: stop_seccomp_def case_prod_beta simp del: clear_map.simps split: option.split)
qed (auto simp: stop_seccomp_def stop_apparmor_def case_prod_beta split: option.split)

lemma stop_recording_frame:
  assumes "io_is_recording io" "br_StopRecording io (r, s) = (e, (r', s'))"
  shows "only_drops (set_recording False s) s'" "br_startRequests r' = br_startRequests r"
proof -
  define P where "P = (\<lambda>(a :: service) (b :: service). only_drops (snd a) (snd b) \<and> br_startRequests (fst b) = br_startRequests (fst a))"
  let ?fs = "[stop_seccomp io, stop_apparmor io, \<lambda>(r, s). case clearPidMaps io s of (ok, s1) \<Rightarrow> (ok, (r, s1))]"
  have "P (r, set_recording False s) (snd (run_all ?fs (r, set_recording False s)))"
    by (rule run_all_inv [where P = P])
      (auto simp: P_def stop_parts clearPidMaps_drops case_prod_beta intro: only_drops_trans)
  then show "only_drops (set_recording False s) s'" "br_startRequests r' = br_startRequests r"
    using assms by (auto simp: br_StopRecording_def P_def end_session_def case_prod_beta simp del: run_all.simps split: if_splits)
qed

lemma stop_ok:
  assumes "session_ok w" "io_is_recording io" "Stop io w = (e, w')"
  shows "session_ok w'" "br_startRequests (fst w') = max 0 (br_startRequests (fst w) - 1)"
proof -
  obtain r s r' s' where w: "w = (r, s)" "w' = (r', s')" by (cases w, cases w')
  let ?r = "r\<lparr>br_startRequests := br_startRequests r - 1\<rparr>"
  have "session_ok w' \<and> br_startRequests r' = max 0 (br_startRequests r - 1)"
  proof (cases "br_startRequests r = 1")
    case True
    then have "br_StopRecording io (?r, s) = (e, (r', s'))" using assms(3) by (simp add: w Stop_def Let_def)
    from stop_recording_frame [OF assms(2) this] show ?thesis
      using assms(1) True by (simp add: w session_ok_def only_drops_def)
  next
    case False
    then show ?thesis using assms(1,3) by (auto simp: w Stop_def Let_def session_ok_def split: if_splits)
  qed
  then show "session_ok w'" "br_startRequests (fst w') = max 0 (br_startRequests (fst w) - 1)" by (simp_all add: w)
qed

text \<open>What the number of requests should be: the starts that did not fail, less the stops, never below zero.\<close>

fun counted :: "session_op list \<Rightarrow> service_error option list \<Rightarrow> int \<Rightarrow> int" where
  "counted (Start_op now io # ops) (e # es) n = counted ops es (if e = None then n + 1 else n)"
| "counted (Stop_op io # ops) (e # es) n = counted ops es (max 0 (n - 1))"
| "counted (Getgid_op # ops) (e # es) n = counted ops es n"
| "counted _ _ n = n"

fun run_session :: "session_op list \<Rightarrow> service \<Rightarrow> service_error option list \<times> service" where
  "run_session [] w = ([], w)"
| "run_session (p # ops) w =
     (case session_step p w of (e, w1) \<Rightarrow> case run_session ops w1 of (es, w2) \<Rightarrow> (e # es, w2))"

fun stops_recording :: "session_op \<Rightarrow> bool" where
  "stops_recording (Stop_op io) = io_is_recording io"
| "stops_recording p = True"

lemma run_session_ok:
  "session_ok w \<Longrightarrow> list_all stops_recording ops \<Longrightarrow> run_session ops w = (es, w') \<Longrightarrow>
   session_ok w' \<and> br_startRequests (fst w') = counted ops es (br_startRequests (fst w))"
proof (induction ops arbitrary: w es w')
  case (Cons p ops)
  obtain e w1 where st: "session_step p w = (e, w1)" by (cases "session_step p w")
  obtain es1 where run: "run_session ops w1 = (es1, w')" and es: "es = e # es1"
    using Cons.prems(3) st by (auto split: prod.splits)
  have "session_ok w1 \<and> counted (p # ops) (e # es1) (br_startRequests (fst w)) = counted ops es1 (br_startRequests (fst w1))"
  proof (cases p)
    case (Start_op now io)
    then show ?thesis using start_ok [OF Cons.prems(1)] st by simp
  next
    case (Stop_op io)
    then show ?thesis using stop_ok [OF Cons.prems(1), of io e w1] st Cons.prems(2) by simp
  next
    case Getgid_op
    then show ?thesis
      using st Cons.prems(1) by (auto simp: session_ok_def sys_enter_getgid_def nth_opt_def)
  qed
  then show ?case using Cons.IH [OF _ _ run] Cons.prems(2) es by simp
qed simp

text \<open>A recorder whose module may be loaded and that nobody asked to record yet.\<close>

definition fresh :: "service \<Rightarrow> bool" where
  "fresh w \<longleftrightarrow> br_startRequests (fst w) = 0 \<and> is_recording (snd w) = [False] \<and> \<not> is_recording_cached (snd w)"

text \<open>
  (C12) The kernel records exactly while somebody asks for it. After any sequence of start and stop
  requests on a fresh recorder, of which any start and any cleanup of a stop may fail, the number
  of requests is the number of starts that succeeded less the stops, and the hooks record if and
  only if that number is positive. This needs that a stop can write the flag.
\<close>

theorem recording_while_requested:
  assumes "fresh w" "list_all stops_recording ops" "run_session ops w = (es, (r, s))"
  shows "br_startRequests r = counted ops es 0 \<and> 0 \<le> br_startRequests r \<and>
    (is_recording_cached s \<longleftrightarrow> 0 < br_startRequests r) \<and> is_recording s = [0 < br_startRequests r]"
proof -
  have "session_ok w" using assms(1) by (cases w) (simp add: fresh_def session_ok_def)
  from run_session_ok [OF this assms(2,3)] show ?thesis
    using assms(1) by (simp add: fresh_def session_ok_def)
qed

definition new_service :: service where
  "new_service =
     (\<lparr>br_loaded = True, br_startRequests = 0, br_recordingGeneration = 0,
       br_containerKeys = newContainerKeys 1024, br_containerIDToProfileMap = newContainerProfiles,
       br_collectedProfiles = {}, br_lostEvents = replicate 4 0, br_uniqueKeys = True, br_cgroupKeys = True,
       br_staleKeys = (\<lambda>_. 0), br_idleSince = None, br_lastStart = 0,
       br_Seccomp = Some newSeccompRecorder, br_AppArmor = None, br_unavailable = False\<rparr>, init_state)"

definition good_io :: map_io where
  "good_io = \<lparr>io_is_recording = True, io_active_pids = ([], \<lambda>_. False), io_child_pids = ([], \<lambda>_. False),
     io_map = (\<lambda>_. ([], \<lambda>_. False)), io_lost = (\<lambda>_. False), io_ncpu = 1\<rparr>"

lemma new_service_fresh: "fresh new_service"
  by (simp add: fresh_def new_service_def init_state_def)

lemma good_io_clears: "clears_maps good_io init_state"
  by (simp add: clears_maps_def good_io_def init_state_def emptied_def)

theorem recording_while_requested_witness:
  "let ops = [Start_op 1 good_io, Start_op 2 good_io, Stop_op good_io];
       w = snd (run_session ops new_service)
   in br_startRequests (fst w) = 1 \<and> is_recording_cached (snd w)"
proof -
  let ?ops = "[Start_op 1 good_io, Start_op 2 good_io, Stop_op good_io]"
  note m = good_io_clears
  have ok: "list_all stops_recording ?ops" by (simp add: good_io_def)
  obtain es r s where run: "run_session ?ops new_service = (es, (r, s))" by (metis surj_pair)
  have "es = [None, None, None]"
    using run m by (simp add: Start_def Stop_def new_service_def Let_def start_recording_cases clearPidMaps_empty)
      (simp add: good_io_def)
  then show ?thesis
    using recording_while_requested [OF new_service_fresh ok run] run by simp
qed

text \<open>
  (C38) A stop that fails cannot be repeated. The last stop takes its request back before it writes
  the flag. If the write fails, the request reports an error and the hooks go on recording, but
  every later stop finds no request left, reports success, and leaves the recorder as it is.
\<close>

theorem failed_stop_keeps_recording:
  assumes "session_ok (r, s)" "br_startRequests r = 1" "\<not> io_is_recording io"
  shows "case Stop io (r, s) of (e, w) \<Rightarrow> e = Some Map_error \<and> br_startRequests (fst w) = 0 \<and>
    is_recording_cached (snd w) \<and> (\<forall>io'. Stop io' w = (None, w))"
  using assms by (simp add: Stop_def Let_def br_StopRecording_def session_ok_def)

theorem failed_stop_keeps_recording_witness:
  "let w = snd (Start 1 good_io new_service); st = Stop (good_io\<lparr>io_is_recording := False\<rparr>) w
   in fst st = Some Map_error \<and> is_recording_cached (snd (snd st)) \<and> Stop good_io (snd st) = (None, snd st)"
proof -
  obtain e r s where st: "Start 1 good_io new_service = (e, (r, s))" by (metis surj_pair)
  have "e = None"
    using st good_io_clears by (auto simp: Start_def new_service_def Let_def start_recording_cases clearPidMaps_empty)
      (simp add: good_io_def)
  moreover have ok: "session_ok new_service" by (simp add: new_service_def init_state_def session_ok_def)
  ultimately have "session_ok (r, s)" "br_startRequests r = 1"
    using start_ok [OF ok st] by (simp_all add: new_service_def)
  from failed_stop_keeps_recording [OF this, of "good_io\<lparr>io_is_recording := False\<rparr>"] show ?thesis
    using st by (simp add: Let_def case_prod_beta)
qed

section \<open>A session leaves nothing behind\<close>

lemma apparmor_stop_clears:
  assumes "clears_maps io s" "ar_loaded b"
  shows "apparmor_stop io (b, s) = (True, StopRecording (b, s))"
  using assms by (simp add: apparmor_stop_def StopRecording_def clears_maps_def clearBpfMap_empty)

text \<open>A profile is found if something is recorded for one of the keys.\<close>

lemma processed_found:
  "snd (GetAppArmorProcessed b keys) \<longleftrightarrow> (\<exists>k \<in> set keys. ar_recordedFiles b k \<noteq> None \<or>
     ar_recordedSocketsUse b k \<noteq> None \<or> ar_recordedCapabilities b k \<noteq> None)"
proof -
  have "snd (fold (process_sockets b) keys (u, f)) \<longleftrightarrow> f \<or> (\<exists>k \<in> set keys. ar_recordedSocketsUse b k \<noteq> None)" for u f
    by (induction keys arbitrary: u f) (auto simp: process_sockets_def split: option.split)
  then show ?thesis
    by (auto simp: GetAppArmorProcessed_def processExecFsEvents_def processCapabilities_def Let_def case_prod_beta list_ex_iff)
qed

lemma set_recording_maps [simp]: "clears_maps io (set_recording on s) = clears_maps io s"
  by (simp add: clears_maps_def set_recording_def sys_enter_getgid_def)


definition one_session :: service where
  "one_session =
     ((fst new_service)\<lparr>br_startRequests := 1, br_AppArmor := Some ((newAppArmorRecorder [])\<lparr>ar_loaded := True\<rparr>)\<rparr>,
      (set_recording True init_state)\<lparr>recorded_caps := [700 \<mapsto> 1]\<rparr>)"


end
