(* ===== verification/Profile_Service.thy ===== *)
theory Profile_Service
  imports Recording_Session
begin

text \<open>
  The requests for the recorded data of a profile in \<^verbatim>\<open>bpfrecorder.go\<close>: the syscalls and the AppArmor
  rules of a profile are read without dropping them, and reset once the profile got persisted. The
  pods of the node, the order in which the containers of the table are visited, the tables at
  later tries of a lookup, and the names of the syscalls are parameters.
\<close>

section \<open>The profiles of a pod\<close>

text \<open>
  What the recorder reads of a pod. The kubelet reports the ID of a container with the prefix of the
  container runtime, which a search for 64 hexadecimal digits strips.
\<close>

record ContainerStatus =
  cs_Name :: string
  cs_ContainerID :: string

record Pod =
  pod_InitContainerStatuses :: "ContainerStatus list"
  pod_ContainerStatuses :: "ContainerStatus list"
  pod_EphemeralContainerStatuses :: "ContainerStatus list"
  pod_Annotations :: "string \<rightharpoonup> string"

definition statuses :: "Pod \<Rightarrow> ContainerStatus list" where
  "statuses pod = pod_InitContainerStatuses pod @ pod_ContainerStatuses pod @ pod_EphemeralContainerStatuses pod"

definition is_container_id :: "string \<Rightarrow> bool" where
  "is_container_id x \<longleftrightarrow> length x = 64 \<and> list_all (\<lambda>c. c \<in> set ''0123456789abcdef'') x"

fun find_container_id :: "string \<Rightarrow> string" where
  "find_container_id [] = []"
| "find_container_id (c # cs) =
     (if is_container_id (take 64 (c # cs)) then take 64 (c # cs) else find_container_id cs)"

definition status_containerID :: "ContainerStatus \<Rightarrow> string" where
  "status_containerID status =
     (if cs_ContainerID status = '''' then '''' else find_container_id (cs_ContainerID status))"

definition ContainerIDs :: "Pod \<Rightarrow> string list" where
  "ContainerIDs pod = filter (\<lambda>id. id \<noteq> '''') (map status_containerID (statuses pod))"

definition ContainerName :: "Pod \<Rightarrow> string \<Rightarrow> string \<times> bool" where
  "ContainerName pod wanted =
     (case find (\<lambda>status. status_containerID status = wanted) (statuses pod) of
        Some status \<Rightarrow> (cs_Name status, True)
      | None \<Rightarrow> ('''', False))"

definition SeccompProfileRecordBpfAnnotationKey :: string where
  "SeccompProfileRecordBpfAnnotationKey = ''io.containers.trace-bpf/''"

definition ApparmorProfileRecordBpfAnnotationKey :: string where
  "ApparmorProfileRecordBpfAnnotationKey = ''io.containers.trace-bpf-apparmor/''"

definition cache_annotation :: "Pod \<Rightarrow> string \<Rightarrow> string \<Rightarrow> string \<Rightarrow> containerProfiles \<Rightarrow> containerProfiles" where
  "cache_annotation pod containerID containerName annotation c =
     (case pod_Annotations pod (annotation @ containerName) of
        None \<Rightarrow> c
      | Some profile \<Rightarrow> if profile \<noteq> '''' then cp_Insert containerID profile c else c)"

definition cacheProfilesOfPod :: "Pod \<Rightarrow> containerProfiles \<Rightarrow> containerProfiles" where
  "cacheProfilesOfPod pod =
     fold (\<lambda>containerID.
         fold (cache_annotation pod containerID (fst (ContainerName pod containerID)))
           [SeccompProfileRecordBpfAnnotationKey, ApparmorProfileRecordBpfAnnotationKey])
       (ContainerIDs pod)"

definition cacheProfilesOfUnresolvedContainers ::
  "(string \<rightharpoonup> Pod) \<Rightarrow> string list \<Rightarrow> containerProfiles \<Rightarrow> containerProfiles" where
  "cacheProfilesOfUnresolvedContainers pods ids =
     fold (\<lambda>containerID c.
         case cp_Get containerID c of
           Some _ \<Rightarrow> c
         | None \<Rightarrow> (case pods containerID of None \<Rightarrow> c | Some pod \<Rightarrow> cacheProfilesOfPod pod c)) ids"

section \<open>The keys of a profile\<close>

definition getKeysForProfile :: "string \<Rightarrow> containerProfiles \<times> containerKeys \<Rightarrow> u64 list" where
  "getKeysForProfile profile = (\<lambda>(profiles, keys).
     let containerIDs = cp_Containers profile profiles
     in if containerIDs = [] then [] else keysOf containerIDs keys)"

text \<open>
  \<open>ids\<close> is the order in which the containers of the table are visited, \<open>later\<close> are the tables at
  the second and the following tries, and \<open>done\<close> tells whether the context of the request ended.
\<close>

record lookup =
  lk_pods :: "string \<rightharpoonup> Pod"
  lk_ids :: "string list"
  lk_later :: "(containerProfiles \<times> containerKeys) list"
  lk_done :: bool

definition getKeysForProfileWithRetry ::
  "lookup \<Rightarrow> string \<Rightarrow> BpfRecorder \<Rightarrow> (service_error + u64 list) \<times> BpfRecorder" where
  "getKeysForProfileWithRetry lk profile r =
     (if profile \<in> br_collectedProfiles r then (Inl ErrNotFound, r)
      else let r1 = r\<lparr>br_containerIDToProfileMap :=
                 cacheProfilesOfUnresolvedContainers (lk_pods lk) (lk_ids lk) (br_containerIDToProfileMap r)\<rparr>;
               tries = (br_containerIDToProfileMap r1, br_containerKeys r1) # lk_later lk
           in case find (\<lambda>found. found \<noteq> []) (map (getKeysForProfile profile) tries) of
                Some keys \<Rightarrow> (Inr keys, r1)
              | None \<Rightarrow> (Inl (if lk_done lk then Ctx_error else ErrNotFound), r1))"

definition validateProfileRequest :: "string \<Rightarrow> service_error option" where
  "validateProfileRequest name = (if name = '''' then Some InvalidArgument else None)"

section \<open>Reading the data\<close>

definition SyscallsForProfile ::
  "(nat \<rightharpoonup> u8 list) \<Rightarrow> (u64 \<rightharpoonup> nat) \<Rightarrow> lookup \<Rightarrow> string \<Rightarrow> service \<Rightarrow>
   (service_error + u8 list list) \<times> service" where
  "SyscallsForProfile GetName io lk name = (\<lambda>(r, s).
     case validateProfileRequest name of
       Some e \<Rightarrow> (Inl e, (r, s))
     | None \<Rightarrow>
         if br_startRequests r = 0 then (Inl Not_running, (r, s))
         else case br_Seccomp r of
           None \<Rightarrow> (Inl No_seccomp, (r, s))
         | Some c \<Rightarrow>
             (case getKeysForProfileWithRetry lk name r of
                (Inl e, r1) \<Rightarrow> (Inl e, (r1, s))
              | (Inr keys, r1) \<Rightarrow>
                  (case seccomp_Syscalls GetName io keys c s of (res, c1) \<Rightarrow>
                     (res, (r1\<lparr>br_Seccomp := Some c1\<rparr>, s)))))"

definition ApparmorForProfile ::
  "lookup \<Rightarrow> string \<Rightarrow> service \<Rightarrow> (service_error + BpfAppArmorProcessed) \<times> service" where
  "ApparmorForProfile lk name = (\<lambda>(r, s).
     case validateProfileRequest name of
       Some e \<Rightarrow> (Inl e, (r, s))
     | None \<Rightarrow>
         if br_startRequests r = 0 then (Inl Not_running, (r, s))
         else case br_AppArmor r of
           None \<Rightarrow> (Inl No_apparmor, (r, s))
         | Some b \<Rightarrow>
             if br_unavailable r then (Inl ErrAppArmorUnavailable, (r, s))
             else (case getKeysForProfileWithRetry lk name r of
                (Inl e, r1) \<Rightarrow> (Inl e, (r1, s))
              | (Inr keys, r1) \<Rightarrow>
                  (case GetAppArmorProcessed b keys of (apparmor, ok) \<Rightarrow>
                     (if ok then Inr apparmor else Inl ErrNotFound, (r1, s)))))"

section \<open>Dropping the data\<close>

definition resetProfile :: "string \<Rightarrow> (u64 list \<Rightarrow> service \<Rightarrow> service) \<Rightarrow> service \<Rightarrow> service" where
  "resetProfile profile clearData = (\<lambda>(r, s).
     let containerIDs = cp_Containers profile (br_containerIDToProfileMap r)
     in if containerIDs = [] then (r, s)
        else case clearData (keysOf containerIDs (br_containerKeys r)) (r, s) of (r1, s1) \<Rightarrow>
             case cp_DeleteProfile profile (br_containerIDToProfileMap r1) of (unused, profiles) \<Rightarrow>
               (r1\<lparr>br_collectedProfiles := insert profile (br_collectedProfiles r1),
                   br_containerIDToProfileMap := profiles,
                   br_containerKeys := fold DeleteContainer unused (br_containerKeys r1)\<rparr>, s1))"

definition seccomp_data_Clear :: "(u64 \<Rightarrow> bool) \<Rightarrow> u64 list \<Rightarrow> service \<Rightarrow> service" where
  "seccomp_data_Clear err keys = (\<lambda>(r, s). (r, seccomp_Clear err keys s))"

definition apparmor_data_Clear :: "u64 list \<Rightarrow> service \<Rightarrow> service" where
  "apparmor_data_Clear keys = (\<lambda>(r, s).
     case br_AppArmor r of
       None \<Rightarrow> (r, s)
     | Some b \<Rightarrow> (case Clear keys (b, s) of (b1, s1) \<Rightarrow> (r\<lparr>br_AppArmor := Some b1\<rparr>, s1)))"

definition ResetSyscallsForProfile :: "(u64 \<Rightarrow> bool) \<Rightarrow> string \<Rightarrow> service \<Rightarrow> service_error option \<times> service" where
  "ResetSyscallsForProfile err name w =
     (case validateProfileRequest name of
        Some e \<Rightarrow> (Some e, w)
      | None \<Rightarrow>
          if br_Seccomp (fst w) = None then (Some No_seccomp, w)
          else (None, resetProfile name (seccomp_data_Clear err) w))"

definition ResetApparmorForProfile :: "string \<Rightarrow> service \<Rightarrow> service_error option \<times> service" where
  "ResetApparmorForProfile name w =
     (case validateProfileRequest name of
        Some e \<Rightarrow> (Some e, w)
      | None \<Rightarrow>
          if br_AppArmor (fst w) = None then (Some No_apparmor, w)
          else (None, resetProfile name apparmor_data_Clear w))"

section \<open>The tables\<close>

definition tables_ok :: "service \<Rightarrow> bool" where
  "tables_ok w \<longleftrightarrow> keys_ok (br_containerKeys (fst w)) \<and> profiles_ok (br_containerIDToProfileMap (fst w))"

text \<open>The keys whose data belongs to a profile: those of a container that is recorded for it.\<close>

definition keys_of_profile :: "string \<Rightarrow> BpfRecorder \<Rightarrow> u64 set" where
  "keys_of_profile p r =
     {k. \<exists>i. Get k (br_containerKeys r) = Some i \<and> p \<in> set (cp_GetAll i (br_containerIDToProfileMap r))}"

lemma set_keysOf: "keys_ok c \<Longrightarrow> set (keysOf ids c) = {k. \<exists>i \<in> set ids. Get k c = Some i}"
  by (auto simp: keysOf_def keys_ok_def Get_def)

lemma containers_mem:
  assumes "profiles_ok c"
  shows "i \<in> set (cp_Containers p c) \<longleftrightarrow> p \<in> set (cp_GetAll i c)"
  using assms by (auto simp: profiles_ok_def)

lemma getKeysForProfile_set:
  assumes "keys_ok (br_containerKeys r)" "profiles_ok (br_containerIDToProfileMap r)"
  shows "set (getKeysForProfile p (br_containerIDToProfileMap r, br_containerKeys r)) = keys_of_profile p r"
  using containers_mem [OF assms(2), of _ p]
  by (auto simp: getKeysForProfile_def keys_of_profile_def Let_def set_keysOf [OF assms(1)])

lemma owned_delete_containers:
  "owned i (fold DeleteContainer ids c) = (if i \<in> set ids then {} else owned i c)"
proof (induction ids arbitrary: c)
  case (Cons j ids)
  have "owned i (DeleteContainer j c) = (if i = j then {} else owned i c)" for c by (simp add: DeleteContainer_def owned_def)
  then show ?case using Cons by (cases "i = j") simp_all
qed simp

lemma keysOf_delete_containers:
  "set ids \<inter> set unused = {} \<Longrightarrow> keysOf ids (fold DeleteContainer unused c) = keysOf ids c"
  unfolding keysOf_def by (intro arg_cong [where f = "\<lambda>xs. remdups_adj (sort (concat xs))"] map_cong)
    (auto simp: owned_delete_containers)

lemma delete_containers_ok: "keys_ok c \<Longrightarrow> keys_ok (fold DeleteContainer ids c)"
  by (induction ids arbitrary: c) (simp_all add: delete_container_ok)

text \<open>Deleting a profile changes nothing about the others, and returns containers of no other one.\<close>

lemma delete_profile_others:
  assumes "profiles_ok c" "q \<noteq> p"
  shows "cp_Containers q (snd (cp_DeleteProfile p c)) = cp_Containers q c"
    and "set (cp_Containers q c) \<inter> set (fst (cp_DeleteProfile p c)) = {}"
proof -
  obtain a where a: "distinct a" "c = table a" using assms(1) by (auto simp: profiles_ok_def)
  show "cp_Containers q (snd (cp_DeleteProfile p c)) = cp_Containers q c"
    using assms(2) by (simp add: a(2) delete_profile_table [OF a(1)] forget_profile_others)
  show "set (cp_Containers q c) \<inter> set (fst (cp_DeleteProfile p c)) = {}"
    using assms(2) by (force simp: a(2) delete_profile_table [OF a(1)] profiles_in_def filter_empty_conv)
qed

lemma delete_profile_ok: "profiles_ok c \<Longrightarrow> profiles_ok (snd (cp_DeleteProfile p c))"
  using profiles_ok_run [of c "Forget_profile p"] by simp

section \<open>The contract of the data of a profile\<close>

text \<open>
  \<open>clearData\<close> drops the data of some keys, and \<open>answer\<close> is what a request reads for some keys,
  which stays the same if the keys are \<open>apart\<close>. Neither looks at the tables.
\<close>

locale profile_data =
  fixes clearData :: "u64 list \<Rightarrow> service \<Rightarrow> service"
    and answer :: "u64 list \<Rightarrow> service \<Rightarrow> 'a"
    and apart :: "u64 list \<Rightarrow> u64 list \<Rightarrow> bool"
  assumes keeps_keys: "br_containerKeys (fst (clearData ks w)) = br_containerKeys (fst w)"
    and keeps_profiles: "br_containerIDToProfileMap (fst (clearData ks w)) = br_containerIDToProfileMap (fst w)"
    and keeps_collected: "br_collectedProfiles (fst (clearData ks w)) = br_collectedProfiles (fst w)"
    and answer_apart: "apart ks ks' \<Longrightarrow> answer ks' (clearData ks w) = answer ks' w"
    and answer_tables: "answer ks' (r\<lparr>br_collectedProfiles := C, br_containerIDToProfileMap := P, br_containerKeys := K\<rparr>, s) =
      answer ks' (r, s)"
begin

lemma reset_tables:
  assumes "cp_Containers p (br_containerIDToProfileMap (fst w)) \<noteq> []"
  shows "br_containerIDToProfileMap (fst (resetProfile p clearData w)) =
      snd (cp_DeleteProfile p (br_containerIDToProfileMap (fst w)))"
    and "br_containerKeys (fst (resetProfile p clearData w)) =
      fold DeleteContainer (fst (cp_DeleteProfile p (br_containerIDToProfileMap (fst w)))) (br_containerKeys (fst w))"
    and "br_collectedProfiles (fst (resetProfile p clearData w)) = insert p (br_collectedProfiles (fst w))"
  using assms keeps_keys keeps_profiles keeps_collected
  by (auto simp: resetProfile_def Let_def case_prod_beta)

lemma reset_nothing:
  "cp_Containers p (br_containerIDToProfileMap (fst w)) = [] \<Longrightarrow> resetProfile p clearData w = w"
  by (cases w) (simp add: resetProfile_def)

lemma reset_ok: "tables_ok w \<Longrightarrow> tables_ok (resetProfile p clearData w)"
  by (cases "cp_Containers p (br_containerIDToProfileMap (fst w)) = []")
    (simp_all add: tables_ok_def reset_tables reset_nothing delete_profile_ok delete_containers_ok)

lemma reset_lookup:
  assumes "tables_ok w" "q \<noteq> p"
  shows "getKeysForProfile q (br_containerIDToProfileMap (fst (resetProfile p clearData w)),
      br_containerKeys (fst (resetProfile p clearData w))) =
    getKeysForProfile q (br_containerIDToProfileMap (fst w), br_containerKeys (fst w))"
proof (cases "cp_Containers p (br_containerIDToProfileMap (fst w)) = []")
  case False
  have "profiles_ok (br_containerIDToProfileMap (fst w))" using assms(1) by (simp add: tables_ok_def)
  note others = delete_profile_others [OF this assms(2)]
  show ?thesis
    by (simp add: getKeysForProfile_def Let_def reset_tables [OF False] others(1) keysOf_delete_containers [OF others(2)])
qed (simp add: reset_nothing)

lemma reset_collected:
  "q \<noteq> p \<Longrightarrow> q \<in> br_collectedProfiles (fst (resetProfile p clearData w)) \<longleftrightarrow> q \<in> br_collectedProfiles (fst w)"
  by (cases "cp_Containers p (br_containerIDToProfileMap (fst w)) = []") (simp_all add: reset_tables reset_nothing)

lemma reset_answer:
  assumes "apart (keysOf (cp_Containers p (br_containerIDToProfileMap (fst w))) (br_containerKeys (fst w))) ks"
  shows "answer ks (resetProfile p clearData w) = answer ks w"
proof (cases "cp_Containers p (br_containerIDToProfileMap (fst w)) = []")
  case False
  then show ?thesis
    using answer_apart [OF assms, of w] by (simp add: resetProfile_def Let_def case_prod_beta answer_tables)
qed (simp add: reset_nothing)

end

text \<open>What the two requests read, next to the tables.\<close>

definition seccomp_answer ::
  "(nat \<rightharpoonup> u8 list) \<Rightarrow> (u64 \<rightharpoonup> nat) \<Rightarrow> u64 list \<Rightarrow> service \<Rightarrow> int \<times> (service_error + u8 list list) option" where
  "seccomp_answer GetName io ks w =
     (br_startRequests (fst w), map_option (\<lambda>c. fst (seccomp_Syscalls GetName io ks c (snd w))) (br_Seccomp (fst w)))"

definition apparmor_answer :: "u64 list \<Rightarrow> service \<Rightarrow> int \<times> bool \<times> (BpfAppArmorProcessed \<times> bool) option" where
  "apparmor_answer ks w =
     (br_startRequests (fst w), br_unavailable (fst w), map_option (\<lambda>b. GetAppArmorProcessed b ks) (br_AppArmor (fst w)))"

lemma seccomp_Syscalls_cong:
  assumes "\<And>k. k \<in> set ks \<Longrightarrow> recorded_syscalls s' k = recorded_syscalls s k"
  shows "seccomp_Syscalls GetName io ks c s' = seccomp_Syscalls GetName io ks c s"
proof -
  have "merge_key io s' k = merge_key io s k" if "k \<in> set ks" for k
  proof -
    have "GetValue64 io s' k = GetValue64 io s k" using assms [OF that] by (simp add: GetValue64_def split: option.split)
    then show ?thesis by (simp add: merge_key_def)
  qed
  then have "fold (merge_key io s') ks st = fold (merge_key io s) ks st" for st by (intro fold_cong) auto
  then show ?thesis by (simp add: seccomp_Syscalls_def)
qed

lemma processed_cong:
  assumes "ar_programName b' = ar_programName b"
    and "\<And>k. k \<in> set ks \<Longrightarrow> ar_recordedFiles b' k = ar_recordedFiles b k \<and>
      ar_recordedSocketsUse b' k = ar_recordedSocketsUse b k \<and> ar_recordedCapabilities b' k = ar_recordedCapabilities b k"
  shows "GetAppArmorProcessed b' ks = GetAppArmorProcessed b ks"
proof -
  have cl: "classifyFileAccess b' = classifyFileAccess b" by (simp add: classifyFileAccess_def assms(1) fun_eq_iff)
  have pf: "process_file b' = process_file b" unfolding process_file_def cl ..
  have "process_key b' k = process_key b k" if "k \<in> set ks" for k
    unfolding process_key_def pf using assms(2) [OF that] by simp
  then have "fold (process_key b') ks st = fold (process_key b) ks st" for st by (intro fold_cong) auto
  moreover have "fold (process_sockets b') ks st = fold (process_sockets b) ks st" for st
    using assms(2) by (intro fold_cong) (auto simp: process_sockets_def fun_eq_iff)
  moreover have "processCapabilities b' ks = processCapabilities b ks"
  proof -
    have "map (\<lambda>k. case ar_recordedCapabilities b' k of None \<Rightarrow> [] | Some caps \<Rightarrow> map capabilityToString caps) ks =
        map (\<lambda>k. case ar_recordedCapabilities b k of None \<Rightarrow> [] | Some caps \<Rightarrow> map capabilityToString caps) ks"
      using assms(2) by simp
    moreover have "list_ex (\<lambda>k. ar_recordedCapabilities b' k \<noteq> None) ks = list_ex (\<lambda>k. ar_recordedCapabilities b k \<noteq> None) ks"
      using assms(2) by (auto simp: list_ex_iff)
    ultimately show ?thesis unfolding processCapabilities_def by presburger
  qed
  moreover have "list_ex (\<lambda>k. ar_recordedFiles b' k \<noteq> None) ks = list_ex (\<lambda>k. ar_recordedFiles b k \<noteq> None) ks"
    using assms(2) by (auto simp: list_ex_iff)
  ultimately show ?thesis by (simp add: GetAppArmorProcessed_def processExecFsEvents_def)
qed

lemma seccomp_Clear_other: "k \<notin> set ks \<Longrightarrow> recorded_syscalls (seccomp_Clear err ks s) k = recorded_syscalls s k"
proof -
  have "k \<notin> set ks \<Longrightarrow> fold (\<lambda>key m. if err key then m else m(key := None)) ks m k = m k" for m
    by (induction ks arbitrary: m) auto
  then show "k \<notin> set ks \<Longrightarrow> ?thesis" by (simp add: seccomp_Clear_def)
qed

lemma clear_frame:
  "recorded_syscalls (snd (Clear ks (b, s))) = recorded_syscalls s"
  "ar_programName (fst (Clear ks (b, s))) = ar_programName b"
  "k \<notin> set ks \<Longrightarrow> ar_recordedFiles (fst (Clear ks (b, s))) k = ar_recordedFiles b k \<and>
     ar_recordedSocketsUse (fst (Clear ks (b, s))) k = ar_recordedSocketsUse b k \<and>
     ar_recordedCapabilities (fst (Clear ks (b, s))) k = ar_recordedCapabilities b k"
proof -
  have "ar_programName (fold clear_data ks b) = ar_programName b"
    by (induction ks arbitrary: b) (simp_all add: clear_data_def)
  then show "ar_programName (fst (Clear ks (b, s))) = ar_programName b" by (simp add: Clear_def forgetReported_def)
qed (simp_all add: Clear_def forgetReported_def fold_clear_data)

interpretation syscalls_data: profile_data "seccomp_data_Clear err" "seccomp_answer GetName io" "\<lambda>ks ks'. set ks \<inter> set ks' = {}"
proof
  fix ks ks' :: "u64 list" and w :: service
  assume "set ks \<inter> set ks' = {}"
  then have "seccomp_Syscalls GetName io ks' c (seccomp_Clear err ks (snd w)) = seccomp_Syscalls GetName io ks' c (snd w)" for c
    by (intro seccomp_Syscalls_cong seccomp_Clear_other) auto
  then show "seccomp_answer GetName io ks' (seccomp_data_Clear err ks w) = seccomp_answer GetName io ks' w"
    by (simp add: seccomp_answer_def seccomp_data_Clear_def case_prod_beta)
qed (simp_all add: seccomp_data_Clear_def seccomp_answer_def case_prod_beta)

interpretation rules_data: profile_data apparmor_data_Clear apparmor_answer "\<lambda>ks ks'. set ks \<inter> set ks' = {}"
proof
  fix ks ks' :: "u64 list" and w :: service
  assume d: "set ks \<inter> set ks' = {}"
  have "GetAppArmorProcessed (fst (Clear ks (b, snd w))) ks' = GetAppArmorProcessed b ks'" for b
    using d by (intro processed_cong clear_frame) auto
  then show "apparmor_answer ks' (apparmor_data_Clear ks w) = apparmor_answer ks' w"
    by (simp add: apparmor_answer_def apparmor_data_Clear_def case_prod_beta split: option.split)
qed (simp_all add: apparmor_data_Clear_def apparmor_answer_def case_prod_beta split: option.split)

interpretation rules_of_syscalls: profile_data "seccomp_data_Clear err" apparmor_answer "\<lambda>_ _. True"
  by unfold_locales (simp_all add: seccomp_data_Clear_def apparmor_answer_def case_prod_beta)

interpretation syscalls_of_rules: profile_data apparmor_data_Clear "seccomp_answer GetName io" "\<lambda>_ _. True"
proof
  fix ks ks' :: "u64 list" and w :: service
  have "seccomp_Syscalls GetName io ks' c (snd (Clear ks (b, snd w))) = seccomp_Syscalls GetName io ks' c (snd w)" for b c
    by (intro seccomp_Syscalls_cong) (simp add: clear_frame)
  then show "seccomp_answer GetName io ks' (apparmor_data_Clear ks w) = seccomp_answer GetName io ks' w"
    by (simp add: seccomp_answer_def apparmor_data_Clear_def case_prod_beta split: option.split)
qed (simp_all add: apparmor_data_Clear_def seccomp_answer_def case_prod_beta split: option.split)

section \<open>A reset concerns one profile\<close>

text \<open>No pod tells more than the tables do.\<close>

lemma cache_nothing [simp]: "cacheProfilesOfUnresolvedContainers Map.empty ids c = c"
  by (induction ids arbitrary: c) (simp_all add: cacheProfilesOfUnresolvedContainers_def split: option.split)

definition lookup_keys :: "lookup \<Rightarrow> string \<Rightarrow> BpfRecorder \<Rightarrow> u64 list option" where
  "lookup_keys lk q r = find (\<lambda>found. found \<noteq> [])
     (map (getKeysForProfile q) ((br_containerIDToProfileMap r, br_containerKeys r) # lk_later lk))"

lemma retry_eq:
  "lk_pods lk = Map.empty \<Longrightarrow> getKeysForProfileWithRetry lk q r =
     (if q \<in> br_collectedProfiles r then Inl ErrNotFound
      else case lookup_keys lk q r of Some keys \<Rightarrow> Inr keys
           | None \<Rightarrow> Inl (if lk_done lk then Ctx_error else ErrNotFound), r)"
  by (simp add: getKeysForProfileWithRetry_def lookup_keys_def Let_def split: option.split)

text \<open>The reply of a request is a function of what was found and read.\<close>

definition found_keys :: "lookup \<Rightarrow> string \<Rightarrow> BpfRecorder \<Rightarrow> u64 list" where
  "found_keys lk q r = (case lookup_keys lk q r of None \<Rightarrow> [] | Some keys \<Rightarrow> keys)"

lemma syscalls_reply:
  assumes "lk_pods lk = Map.empty"
    and "q \<in> br_collectedProfiles (fst w') \<longleftrightarrow> q \<in> br_collectedProfiles (fst w)"
    and "lookup_keys lk q (fst w') = lookup_keys lk q (fst w)"
    and "seccomp_answer GetName io (found_keys lk q (fst w)) w' = seccomp_answer GetName io (found_keys lk q (fst w)) w"
  shows "fst (SyscallsForProfile GetName io lk q w') = fst (SyscallsForProfile GetName io lk q w)"
  using assms
  by (auto simp: SyscallsForProfile_def retry_eq seccomp_answer_def found_keys_def case_prod_beta
      split: option.splits sum.splits)

lemma apparmor_reply:
  assumes "lk_pods lk = Map.empty"
    and "q \<in> br_collectedProfiles (fst w') \<longleftrightarrow> q \<in> br_collectedProfiles (fst w)"
    and "lookup_keys lk q (fst w') = lookup_keys lk q (fst w)"
    and "apparmor_answer (found_keys lk q (fst w)) w' = apparmor_answer (found_keys lk q (fst w)) w"
  shows "fst (ApparmorForProfile lk q w') = fst (ApparmorForProfile lk q w)"
  using assms
  by (auto simp: ApparmorForProfile_def retry_eq apparmor_answer_def found_keys_def case_prod_beta
      split: option.splits sum.splits)

text \<open>What a reset of another profile leaves of a lookup.\<close>

lemma found_is_current:
  assumes "tables_ok w" "lk_later lk = []"
  shows "set (found_keys lk q (fst w)) = keys_of_profile q (fst w)"
  using assms getKeysForProfile_set [of "fst w" q]
  by (auto simp: found_keys_def lookup_keys_def tables_ok_def)

lemma keys_to_clear:
  assumes "tables_ok w"
  shows "set (keysOf (cp_Containers p (br_containerIDToProfileMap (fst w))) (br_containerKeys (fst w))) = keys_of_profile p (fst w)"
proof -
  have "keys_ok (br_containerKeys (fst w))" "profiles_ok (br_containerIDToProfileMap (fst w))"
    using assms by (simp_all add: tables_ok_def)
  then show ?thesis by (auto simp: set_keysOf keys_of_profile_def containers_mem)
qed

lemma reset_syscalls_cases:
  "snd (ResetSyscallsForProfile err p w) = w \<or> snd (ResetSyscallsForProfile err p w) = resetProfile p (seccomp_data_Clear err) w"
  "snd (ResetApparmorForProfile p w) = w \<or> snd (ResetApparmorForProfile p w) = resetProfile p apparmor_data_Clear w"
  by (auto simp: ResetSyscallsForProfile_def ResetApparmorForProfile_def split: option.split)


text \<open>A container that is recorded for a seccomp and an AppArmor profile at once.\<close>

definition shared_service :: service where
  "shared_service =
     ((fst new_service)\<lparr>br_startRequests := 1,
        br_containerKeys := snd (Insert 7 ''c'' (newContainerKeys 8)),
        br_containerIDToProfileMap := cp_Insert ''c'' ''app'' (cp_Insert ''c'' ''sec'' newContainerProfiles),
        br_AppArmor := Some ((newAppArmorRecorder [])\<lparr>ar_loaded := True, ar_recordedCapabilities := [7 \<mapsto> [21]]\<rparr>)\<rparr>,
      init_state\<lparr>recorded_syscalls := [7 \<mapsto> (replicate 1024 0)[1 := 1]]\<rparr>)"

definition plain_lookup :: lookup where
  "plain_lookup = \<lparr>lk_pods = Map.empty, lk_ids = [], lk_later = [], lk_done = False\<rparr>"

lemma shared_service_ok: "tables_ok shared_service"
  unfolding tables_ok_def
proof
  show "keys_ok (br_containerKeys (fst shared_service))"
    by (simp add: shared_service_def insert_ok new_ok)
  show "profiles_ok (br_containerIDToProfileMap (fst shared_service))"
    using profiles_ok_reached [of "[Assign ''c'' ''sec'', Assign ''c'' ''app'']"] by (simp add: shared_service_def)
qed

lemma shared_keys: "q \<in> {''sec'', ''app''} \<Longrightarrow> lookup_keys plain_lookup q (fst shared_service) = Some [7]"
  by (auto simp: lookup_keys_def plain_lookup_def getKeysForProfile_def shared_service_def Insert_def newContainerKeys_def
      owned_def cp_Insert_def cp_add_def entry_def newContainerProfiles_def cp_Containers_def keysOf_def)


section \<open>From a syscall to the profile\<close>

lemma syscalls_request:
  assumes "tables_ok (r, s)" "lk_pods lk = Map.empty" "k \<in> keys_of_profile p r" "p \<notin> br_collectedProfiles r" "p \<noteq> ''''"
    "br_startRequests r \<noteq> 0" "br_Seccomp r = Some c"
  shows "\<exists>keys. set keys = keys_of_profile p r \<and>
    fst (SyscallsForProfile GetName io lk p (r, s)) = fst (seccomp_Syscalls GetName io keys c s)"
proof -
  let ?keys = "getKeysForProfile p (br_containerIDToProfileMap r, br_containerKeys r)"
  have set: "set ?keys = keys_of_profile p r" using assms(1) by (simp add: getKeysForProfile_set tables_ok_def)
  then have "?keys \<noteq> []" using assms(3) by auto
  then have "lookup_keys lk p r = Some ?keys" by (simp add: lookup_keys_def)
  then show ?thesis
    using set assms(4-7) by (auto simp: SyscallsForProfile_def validateProfileRequest_def retry_eq [OF assms(2)] case_prod_beta)
qed

lemma sys_enter_records:
  assumes "bpf_kernel K" "syscalls_ok s" "syscall_relevant C K t ctx s"
    "syscalls_room K (task_key C K t) (stage2 C K t ctx s)"
  shows "syscalls_ok (snd (sys_enter C K t ctx s))"
    and "unat (ucast (se_id ctx) :: u32) \<in> syscalls_of (snd (sys_enter C K t ctx s)) (task_key C K t)"
proof -
  have "unat (ucast (se_id ctx) :: u32) < MAX_SYSCALLS"
    using assms(3) by (simp add: syscall_relevant_def word_less_nat_alt)
  from record_syscall_sets [OF assms(1) stage2_ok(1) [OF assms(2)] this]
  show "syscalls_ok (snd (sys_enter C K t ctx s))"
    "unat (ucast (se_id ctx) :: u32) \<in> syscalls_of (snd (sys_enter C K t ctx s)) (task_key C K t)"
    using assms(4) by (simp_all add: sys_enter_relevant [OF assms(3)])
qed


text \<open>A recording of the profile of one container, whose task the reference configuration records.\<close>

definition one_container :: BpfRecorder where
  "one_container = (fst new_service)\<lparr>br_startRequests := 1, br_containerKeys := snd (Insert 700 ''c'' (newContainerKeys 8)),
     br_containerIDToProfileMap := cp_Insert ''c'' ''sec'' newContainerProfiles\<rparr>"

lemma one_container_ok:
  "tables_ok (one_container, s)" "700 \<in> keys_of_profile ''sec'' one_container" "''sec'' \<notin> br_collectedProfiles one_container"
  "br_startRequests one_container \<noteq> 0" "br_Seccomp one_container = Some newSeccompRecorder"
proof -
  show "tables_ok (one_container, s)"
    using profiles_ok_reached [of "[Assign ''c'' ''sec'']"] by (simp add: tables_ok_def one_container_def insert_ok new_ok)
  show "700 \<in> keys_of_profile ''sec'' one_container"
    by (auto simp: keys_of_profile_def one_container_def Insert_def newContainerKeys_def owned_def Get_def
        cp_Insert_def cp_add_def entry_def newContainerProfiles_def cp_GetAll_def)
qed (simp_all add: one_container_def new_service_def)


end
