(* ===== verification/Pid_Handlers.thy ===== *)
theory Pid_Handlers
  imports Profile_Service
begin

text \<open>
  The handlers of new processes in \<^verbatim>\<open>bpfrecorder.go\<close>: they find out the container of a recording key
  and the profiles of the container, and exclude the workloads that are not recorded. Many of them
  run at once, next to the requests to the recorder, and a session may end while they wait for a
  lookup. A handler runs in steps between which everything else can happen. What the system knows
  about containers and pods is a parameter.
\<close>

section \<open>A handler\<close>

record newPidEvent =
  np_pid :: u32
  np_mntns :: u32
  np_key :: u64
  np_generation :: u64
  np_seenAt :: nat

datatype container_error = ErrContainerIDNotFound | Container_error

datatype find_error = ErrNoProfileForContainer | ErrContainerNotInCluster

text \<open>
  The lookup of the container of a key, the pods of the node, the update of \<^verbatim>\<open>exclude_keys\<close>, and the
  keys whose syscalls cannot be deleted.
\<close>

record pid_env =
  pe_inCluster :: bool
  pe_container :: "newPidEvent \<Rightarrow> container_error + string"
  pe_pods :: "(string \<rightharpoonup> Pod) option"
  pe_upd_exclude_keys :: "(u64, u8) map_update"
  pe_clear_error :: "u64 \<Rightarrow> bool"

datatype handler_phase =
    Begin
  | Have_container string
  | Checked string
  | Inserted string
  | Found string
  | Finished

record handlers =
  hd_service :: service
  hd_containersWithoutProfile :: "string set"
  hd_containersNotFound :: "string set"
  hd_running :: "(newPidEvent \<times> handler_phase) list"

definition profileOfKey :: "u64 \<Rightarrow> BpfRecorder \<Rightarrow> string option" where
  "profileOfKey key r =
     (case Get key (br_containerKeys r) of
        None \<Rightarrow> None
      | Some containerID \<Rightarrow> cp_Get containerID (br_containerIDToProfileMap r))"

definition excludeKey :: "pid_env \<Rightarrow> u64 \<Rightarrow> u64 \<Rightarrow> service \<Rightarrow> service" where
  "excludeKey env key generation = (\<lambda>(r, s).
     if \<not> br_uniqueKeys r then (r, s)
     else if br_recordingGeneration r \<noteq> generation then (r, s)
     else let s1 = s\<lparr>exclude_keys := snd (pe_upd_exclude_keys env (exclude_keys s) key 1 BPF_ANY)\<rparr>;
              s2 = (if br_Seccomp r \<noteq> None then seccomp_Clear (pe_clear_error env) [key] s1 else s1)
          in case br_AppArmor r of
               None \<Rightarrow> (r, s2)
             | Some b \<Rightarrow> (case Exclude key (b, s2) of (b1, s3) \<Rightarrow> (r\<lparr>br_AppArmor := Some b1\<rparr>, s3)))"

definition on_recorder :: "(BpfRecorder \<Rightarrow> BpfRecorder) \<Rightarrow> handlers \<Rightarrow> handlers" where
  "on_recorder f h = h\<lparr>hd_service := (f (fst (hd_service h)), snd (hd_service h))\<rparr>"

definition lookupProfileForContainerID :: "pid_env \<Rightarrow> string \<Rightarrow> handlers \<Rightarrow> (find_error + string) \<times> handlers" where
  "lookupProfileForContainerID env containerID h =
     (case pe_pods env of
        None \<Rightarrow> (Inl ErrContainerNotInCluster, h)
      | Some pods \<Rightarrow>
          (case pods containerID of
             None \<Rightarrow> (Inl ErrContainerNotInCluster,
                h\<lparr>hd_containersNotFound := insert containerID (hd_containersNotFound h)\<rparr>)
           | Some pod \<Rightarrow>
               let h1 = on_recorder (\<lambda>r. r\<lparr>br_containerIDToProfileMap :=
                          cacheProfilesOfPod pod (br_containerIDToProfileMap r)\<rparr>) h
               in case cp_Get containerID (br_containerIDToProfileMap (fst (hd_service h1))) of
                    Some profile \<Rightarrow> (Inr profile, h1)
                  | None \<Rightarrow> (Inl ErrNoProfileForContainer,
                      h1\<lparr>hd_containersWithoutProfile := insert containerID (hd_containersWithoutProfile h1)\<rparr>)))"

definition findProfileForContainerID :: "pid_env \<Rightarrow> string \<Rightarrow> handlers \<Rightarrow> (find_error + string) \<times> handlers" where
  "findProfileForContainerID env containerID h =
     (if containerID \<in> hd_containersWithoutProfile h then (Inl ErrNoProfileForContainer, h)
      else case cp_Get containerID (br_containerIDToProfileMap (fst (hd_service h))) of
        Some profile \<Rightarrow> (Inr profile, h)
      | None \<Rightarrow>
          if containerID \<in> hd_containersNotFound h then (Inl ErrContainerNotInCluster, h)
          else lookupProfileForContainerID env containerID h)"

definition exclude_event :: "pid_env \<Rightarrow> newPidEvent \<Rightarrow> handlers \<Rightarrow> handlers" where
  "exclude_event env ev h = h\<lparr>hd_service := excludeKey env (np_key ev) (np_generation ev) (hd_service h)\<rparr>"

definition forget_key :: "newPidEvent \<Rightarrow> handlers \<Rightarrow> handlers" where
  "forget_key ev = on_recorder (\<lambda>r. r\<lparr>br_containerKeys := Delete (np_key ev) (br_containerKeys r)\<rparr>)"

text \<open>
  The statements of the handler between two points at which others can get in between. The lookup of
  the profile is one of these steps, however long it waits for the pod; reports to the metrics and
  the log are left out.
\<close>

fun handler_step :: "pid_env \<Rightarrow> newPidEvent \<Rightarrow> handler_phase \<Rightarrow> handlers \<Rightarrow> handler_phase \<times> handlers" where
  "handler_step env ev Begin h =
     (if \<not> pe_inCluster env then (Finished, h)
      else case profileOfKey (np_key ev) (fst (hd_service h)) of
        Some _ \<Rightarrow> (Finished, h)
      | None \<Rightarrow>
          (case pe_container env ev of
             Inl e \<Rightarrow> (Finished, if e = ErrContainerIDNotFound then exclude_event env ev h else h)
           | Inr containerID \<Rightarrow> (Have_container containerID, h)))"
| "handler_step env ev (Have_container containerID) h =
     (if br_recordingGeneration (fst (hd_service h)) \<noteq> np_generation ev then (Finished, h)
      else (Checked containerID, h))"
| "handler_step env ev (Checked containerID) h =
     (case Insert (np_key ev) containerID (br_containerKeys (fst (hd_service h))) of (ok, keys) \<Rightarrow>
        let h1 = on_recorder (\<lambda>r. r\<lparr>br_containerKeys := keys\<rparr>) h
        in if ok then (Inserted containerID, h1) else (Finished, exclude_event env ev h1))"
| "handler_step env ev (Inserted containerID) h =
     (case findProfileForContainerID env containerID h of
        (Inl ErrNoProfileForContainer, h1) \<Rightarrow> (Finished, exclude_event env ev (forget_key ev h1))
      | (Inl ErrContainerNotInCluster, h1) \<Rightarrow> (Finished, h1)
      | (Inr profile, h1) \<Rightarrow> (Found containerID, h1))"
| "handler_step env ev (Found containerID) h =
     (if br_recordingGeneration (fst (hd_service h)) \<noteq> np_generation ev
      then (Finished, on_recorder (\<lambda>r. r\<lparr>br_containerIDToProfileMap := cp_Delete containerID (br_containerIDToProfileMap r)\<rparr>)
              (forget_key ev h))
      else (Finished, h))"
| "handler_step env ev Finished h = (Finished, h)"

text \<open>A handler that nothing interrupts is done after five steps.\<close>

fun run_handler :: "pid_env \<Rightarrow> newPidEvent \<Rightarrow> nat \<Rightarrow> handler_phase \<Rightarrow> handlers \<Rightarrow> handler_phase \<times> handlers" where
  "run_handler env ev 0 ph h = (ph, h)"
| "run_handler env ev (Suc n) ph h = (case handler_step env ev ph h of (ph1, h1) \<Rightarrow> run_handler env ev n ph1 h1)"

definition handleNewPidEvent :: "pid_env \<Rightarrow> newPidEvent \<Rightarrow> handlers \<Rightarrow> handlers" where
  "handleNewPidEvent env ev h = snd (run_handler env ev 5 Begin h)"

lemma handler_finishes: "fst (run_handler env ev 5 Begin h) = Finished"
proof -
  have five: "(5 :: nat) = Suc (Suc (Suc (Suc (Suc 0))))" by simp
  show ?thesis unfolding five
    by (simp add: case_prod_beta Let_def split: option.split sum.split find_error.split prod.split)
qed

section \<open>The tables tell the truth\<close>

text \<open>
  \<open>owner\<close> is the truth about the container of a key, which is never reused, and \<open>annotated\<close> about
  the profiles a pod asks for. The lookups do not lie.
\<close>

definition truthful_pods :: "(string \<Rightarrow> string \<Rightarrow> bool) \<Rightarrow> (string \<rightharpoonup> Pod) \<Rightarrow> bool" where
  "truthful_pods annotated pods \<longleftrightarrow> (\<forall>i pod j a p. pods i = Some pod \<longrightarrow> j \<in> set (ContainerIDs pod) \<longrightarrow>
     a \<in> {SeccompProfileRecordBpfAnnotationKey, ApparmorProfileRecordBpfAnnotationKey} \<longrightarrow>
     pod_Annotations pod (a @ fst (ContainerName pod j)) = Some p \<longrightarrow> p \<noteq> '''' \<longrightarrow> annotated j p)"

definition truthful :: "(u64 \<Rightarrow> string \<Rightarrow> bool) \<Rightarrow> (string \<Rightarrow> string \<Rightarrow> bool) \<Rightarrow> pid_env \<Rightarrow> bool" where
  "truthful owner annotated env \<longleftrightarrow>
     (\<forall>ev i. pe_container env ev = Inr i \<longrightarrow> owner (np_key ev) i) \<and>
     (\<forall>pods. pe_pods env = Some pods \<longrightarrow> truthful_pods annotated pods)"

definition tables_true :: "(u64 \<Rightarrow> string \<Rightarrow> bool) \<Rightarrow> (string \<Rightarrow> string \<Rightarrow> bool) \<Rightarrow> BpfRecorder \<Rightarrow> bool" where
  "tables_true owner annotated r \<longleftrightarrow> keys_ok (br_containerKeys r) \<and> profiles_ok (br_containerIDToProfileMap r) \<and>
     (\<forall>k i. Get k (br_containerKeys r) = Some i \<longrightarrow> owner k i) \<and>
     (\<forall>i p. p \<in> set (cp_GetAll i (br_containerIDToProfileMap r)) \<longrightarrow> annotated i p)"

text \<open>A property of both tables that the operations on them keep.\<close>

definition keys_true :: "(u64 \<Rightarrow> string \<Rightarrow> bool) \<Rightarrow> containerKeys \<Rightarrow> bool" where
  "keys_true owner c \<longleftrightarrow> keys_ok c \<and> (\<forall>k i. Get k c = Some i \<longrightarrow> owner k i)"

definition profiles_true :: "(string \<Rightarrow> string \<Rightarrow> bool) \<Rightarrow> containerProfiles \<Rightarrow> bool" where
  "profiles_true annotated c \<longleftrightarrow> profiles_ok c \<and> (\<forall>i p. p \<in> set (cp_GetAll i c) \<longrightarrow> annotated i p)"

lemma tables_true_iff:
  "tables_true owner annotated r \<longleftrightarrow>
     keys_true owner (br_containerKeys r) \<and> profiles_true annotated (br_containerIDToProfileMap r)"
  by (auto simp: tables_true_def keys_true_def profiles_true_def)

lemma keys_true_op:
  assumes "keys_true owner c" "\<And>k i. q = Insert_op k i \<Longrightarrow> owner k i"
  shows "keys_true owner (run_op q c)"
proof -
  have ok: "keys_ok c" and own: "\<And>k i. byKey c k = Some i \<Longrightarrow> owner k i" using assms(1) by (auto simp: keys_true_def Get_def)
  have "owner k i" if "byKey (run_op q c) k = Some i" for k i
    using that assms(2) own unfolding run_op_byKey [OF ok] by (cases q) (auto split: if_splits)
  then show ?thesis using run_op_ok [OF ok] by (simp add: keys_true_def Get_def)
qed

lemmas keys_true_ops =
  keys_true_op [where q = "Insert_op k i" for k i, simplified]
  keys_true_op [where q = "Delete_op k" for k, simplified]
  keys_true_op [where q = "DeleteContainer_op i" for i, simplified]
  keys_true_op [where q = Clear_op, simplified]

lemma profiles_true_op:
  assumes "profiles_true annotated c" "\<And>i p. q = Assign i p \<Longrightarrow> annotated i p"
  shows "profiles_true annotated (run_profiles q c)"
proof -
  obtain a where a: "distinct a" "c = table a" using assms(1) by (auto simp: profiles_true_def profiles_ok_def)
  have old: "\<And>i p. (i, p) \<in> set a \<Longrightarrow> annotated i p" using assms(1) by (auto simp: profiles_true_def a(2))
  have "annotated i p" if "(i, p) \<in> set (assign_op q a)" for i p
    using that assms(2) old by (cases q) (auto split: if_splits)
  then show ?thesis
    using assign_distinct [OF a(1), of q] by (auto simp: profiles_true_def profiles_ok_def a(2) run_profiles_table [OF a(1)])
qed

lemmas profiles_true_ops =
  profiles_true_op [where q = "Assign i p" for i p, simplified]
  profiles_true_op [where q = "Forget_container i" for i, simplified]
  profiles_true_op [where q = "Forget_profile p" for p, simplified]
  profiles_true_op [where q = Forget_all, simplified]

lemma cache_pod_true:
  assumes "profiles_true annotated c" "truthful_pods annotated pods" "pods i = Some pod"
  shows "profiles_true annotated (cacheProfilesOfPod pod c)"
proof -
  have one: "profiles_true annotated (cache_annotation pod j (fst (ContainerName pod j)) a c)"
    if "profiles_true annotated c" "j \<in> set (ContainerIDs pod)"
      "a \<in> {SeccompProfileRecordBpfAnnotationKey, ApparmorProfileRecordBpfAnnotationKey}" for j a c
    using assms(2,3) that by (auto simp: cache_annotation_def truthful_pods_def intro: profiles_true_ops split: option.split)
  have "profiles_true annotated (fold (\<lambda>j. fold (cache_annotation pod j (fst (ContainerName pod j)))
      [SeccompProfileRecordBpfAnnotationKey, ApparmorProfileRecordBpfAnnotationKey]) ids c)"
    if "set ids \<subseteq> set (ContainerIDs pod)" "profiles_true annotated c" for ids c
    using that by (induction ids arbitrary: c) (auto simp: one)
  then show ?thesis using assms(1) by (simp add: cacheProfilesOfPod_def)
qed

lemma cache_unresolved_true:
  assumes "truthful_pods annotated pods" "profiles_true annotated c"
  shows "profiles_true annotated (cacheProfilesOfUnresolvedContainers pods ids c)"
  using assms(2)
proof (induction ids arbitrary: c)
  case (Cons i ids)
  have "profiles_true annotated (case pods i of None \<Rightarrow> c | Some pod \<Rightarrow> cacheProfilesOfPod pod c)"
    using Cons.prems cache_pod_true [OF _ assms(1)] by (auto split: option.split)
  then show ?case
    using Cons by (auto simp: cacheProfilesOfUnresolvedContainers_def split: option.split)
qed (simp add: cacheProfilesOfUnresolvedContainers_def)

section \<open>Handlers, requests and sessions together\<close>

lemma exclude_tables [simp]:
  "br_containerKeys (fst (excludeKey env key g w)) = br_containerKeys (fst w)"
  "br_containerIDToProfileMap (fst (excludeKey env key g w)) = br_containerIDToProfileMap (fst w)"
  by (simp_all add: excludeKey_def Let_def case_prod_beta split: option.split)

text \<open>What a phase of a handler stands for.\<close>

fun phase_true :: "(u64 \<Rightarrow> string \<Rightarrow> bool) \<Rightarrow> newPidEvent \<times> handler_phase \<Rightarrow> bool" where
  "phase_true owner (ev, Have_container i) = owner (np_key ev) i"
| "phase_true owner (ev, Checked i) = owner (np_key ev) i"
| "phase_true owner _ = True"

definition h_true :: "(u64 \<Rightarrow> string \<Rightarrow> bool) \<Rightarrow> (string \<Rightarrow> string \<Rightarrow> bool) \<Rightarrow> handlers \<Rightarrow> bool" where
  "h_true owner annotated h \<longleftrightarrow> tables_true owner annotated (fst (hd_service h)) \<and> list_all (phase_true owner) (hd_running h)"

lemma on_recorder_sel [simp]:
  "fst (hd_service (on_recorder f h)) = f (fst (hd_service h))" "hd_running (on_recorder f h) = hd_running h"
  by (simp_all add: on_recorder_def)

lemma find_profile_true:
  assumes "truthful owner annotated env" "tables_true owner annotated (fst (hd_service h))"
  shows "tables_true owner annotated (fst (hd_service (snd (findProfileForContainerID env i h)))) \<and>
    hd_running (snd (findProfileForContainerID env i h)) = hd_running h"
  using assms cache_pod_true
  by (auto simp: findProfileForContainerID_def lookupProfileForContainerID_def Let_def truthful_def tables_true_iff
      split: option.split)

lemma handler_step_true:
  assumes "truthful owner annotated env" "tables_true owner annotated (fst (hd_service h))" "phase_true owner (ev, ph)"
    "handler_step env ev ph h = (ph', h')"
  shows "tables_true owner annotated (fst (hd_service h')) \<and> phase_true owner (ev, ph') \<and> hd_running h' = hd_running h"
proof (cases ph)
  case Begin
  then show ?thesis
    using assms by (auto simp: exclude_event_def truthful_def tables_true_iff split: option.splits sum.splits if_splits)
next
  case (Checked i)
  obtain ok c where ins: "Insert (np_key ev) i (br_containerKeys (fst (hd_service h))) = (ok, c)" by fastforce
  have "keys_true owner c"
    using keys_true_ops(1) [of owner "br_containerKeys (fst (hd_service h))" "np_key ev" i] ins assms(2,3) Checked
    by (simp add: tables_true_iff)
  then show ?thesis
    using assms(2-4) Checked ins by (auto simp: exclude_event_def tables_true_iff Let_def split: if_splits)
next
  case (Inserted i)
  obtain res h1 where f: "findProfileForContainerID env i h = (res, h1)" by fastforce
  have t: "tables_true owner annotated (fst (hd_service h1))" "hd_running h1 = hd_running h"
    using find_profile_true [OF assms(1,2), of i] f by simp_all
  then show ?thesis
    using assms(4) Inserted f
    by (auto simp: exclude_event_def forget_key_def tables_true_iff intro: keys_true_ops
        split: sum.splits find_error.splits)
next
  case (Found i)
  then show ?thesis
    using assms(2,4) by (auto simp: forget_key_def tables_true_iff intro: keys_true_ops profiles_true_ops split: if_splits)
qed (use assms in \<open>auto split: if_splits\<close>)

text \<open>
  A new event gets the current generation. The kernel and the AppArmor events change the recorded
  data in any way. Entries of the caches for missing containers expire at any time, which includes
  that the end of a session empties them.
\<close>

inductive served ::
  "(u64 \<Rightarrow> string \<Rightarrow> bool) \<Rightarrow> (string \<Rightarrow> string \<Rightarrow> bool) \<Rightarrow> handlers \<Rightarrow> bool"
  for owner annotated where
  boot: "br_containerKeys r = newContainerKeys n \<Longrightarrow> br_containerIDToProfileMap r = newContainerProfiles \<Longrightarrow>
    served owner annotated \<lparr>hd_service = (r, s), hd_containersWithoutProfile = {}, hd_containersNotFound = {}, hd_running = []\<rparr>"
| event: "served owner annotated h \<Longrightarrow> np_generation ev = br_recordingGeneration (fst (hd_service h)) \<Longrightarrow>
    served owner annotated (h\<lparr>hd_running := hd_running h @ [(ev, Begin)]\<rparr>)"
| handler: "served owner annotated h \<Longrightarrow> truthful owner annotated env \<Longrightarrow> i < length (hd_running h) \<Longrightarrow>
    hd_running h ! i = (ev, ph) \<Longrightarrow> handler_step env ev ph h = (ph', h') \<Longrightarrow>
    served owner annotated (h'\<lparr>hd_running := (hd_running h')[i := (ev, ph')]\<rparr>)"
| session: "served owner annotated h \<Longrightarrow> session_step p (hd_service h) = (e, w) \<Longrightarrow>
    served owner annotated (h\<lparr>hd_service := w\<rparr>)"
| read_syscalls: "served owner annotated h \<Longrightarrow> truthful_pods annotated (lk_pods lk) \<Longrightarrow>
    SyscallsForProfile GetName io lk p (hd_service h) = (res, w) \<Longrightarrow> served owner annotated (h\<lparr>hd_service := w\<rparr>)"
| read_rules: "served owner annotated h \<Longrightarrow> truthful_pods annotated (lk_pods lk) \<Longrightarrow>
    ApparmorForProfile lk p (hd_service h) = (res', w) \<Longrightarrow> served owner annotated (h\<lparr>hd_service := w\<rparr>)"
| reset_syscalls: "served owner annotated h \<Longrightarrow>
    served owner annotated (h\<lparr>hd_service := snd (ResetSyscallsForProfile err p (hd_service h))\<rparr>)"
| reset_rules: "served owner annotated h \<Longrightarrow>
    served owner annotated (h\<lparr>hd_service := snd (ResetApparmorForProfile p (hd_service h))\<rparr>)"
| data: "served owner annotated h \<Longrightarrow>
    served owner annotated (h\<lparr>hd_service := ((fst (hd_service h))\<lparr>br_AppArmor := b\<rparr>, s)\<rparr>)"
| expire: "served owner annotated h \<Longrightarrow> W \<subseteq> hd_containersWithoutProfile h \<Longrightarrow> N \<subseteq> hd_containersNotFound h \<Longrightarrow>
    served owner annotated (h\<lparr>hd_containersWithoutProfile := W, hd_containersNotFound := N\<rparr>)"

lemma retry_true:
  assumes "tables_true owner annotated r" "truthful_pods annotated (lk_pods lk)"
    "getKeysForProfileWithRetry lk p r = (res, r')"
  shows "tables_true owner annotated r'"
  using assms cache_unresolved_true [OF assms(2)]
  by (auto simp: getKeysForProfileWithRetry_def Let_def tables_true_iff split: if_splits option.splits)

lemma read_true:
  assumes "tables_true owner annotated (fst w)" "truthful_pods annotated (lk_pods lk)"
  shows "tables_true owner annotated (fst (snd (SyscallsForProfile GetName io lk p w)))"
    and "tables_true owner annotated (fst (snd (ApparmorForProfile lk p w)))"
proof -
  obtain res r' where re: "getKeysForProfileWithRetry lk p (fst w) = (res, r')" by fastforce
  have "tables_true owner annotated r'" by (rule retry_true [OF assms re])
  then show "tables_true owner annotated (fst (snd (SyscallsForProfile GetName io lk p w)))"
    "tables_true owner annotated (fst (snd (ApparmorForProfile lk p w)))"
    using assms(1) re
    by (auto simp: SyscallsForProfile_def ApparmorForProfile_def case_prod_beta tables_true_iff
        split: option.split sum.split)
qed

lemma stop_tables:
  assumes "P (br_containerKeys r) (br_containerIDToProfileMap r)"
    "P (ClearKeys (br_containerKeys r)) (cp_Clear (br_containerIDToProfileMap r))"
  shows "P (br_containerKeys (fst (snd (br_StopRecording io (r, s))))) (br_containerIDToProfileMap (fst (snd (br_StopRecording io (r, s)))))"
proof -
  define same where "same = (\<lambda>(a :: service) (b :: service). br_containerKeys (fst b) = br_containerKeys (fst a) \<and>
      br_containerIDToProfileMap (fst b) = br_containerIDToProfileMap (fst a))"
  let ?fs = "[stop_seccomp io, stop_apparmor io, \<lambda>(r, s). case clearPidMaps io s of (ok, s1) \<Rightarrow> (ok, (r, s1))]"
  have "same (r, set_recording False s) (snd (run_all ?fs (r, set_recording False s)))"
    by (rule run_all_inv [where P = same])
      (auto simp: same_def stop_seccomp_def stop_apparmor_def case_prod_beta split: option.split)
  then show ?thesis
    using assms by (auto simp: br_StopRecording_def same_def end_session_def case_prod_beta simp del: run_all.simps)
qed

lemma session_true:
  assumes "tables_true owner annotated (fst w)"
  shows "tables_true owner annotated (fst (snd (session_step p w)))"
proof (cases p)
  case (Start_op now io)
  then show ?thesis
    using assms by (cases w) (auto simp: Start_def Let_def start_recording_cases tables_true_iff)
next
  case (Stop_op io)
  obtain r s where w: "w = (r, s)" by (cases w)
  let ?r = "r\<lparr>br_startRequests := br_startRequests r - 1\<rparr>"
  have t: "keys_true owner (br_containerKeys ?r) \<and> profiles_true annotated (br_containerIDToProfileMap ?r)"
    using assms by (simp add: w tables_true_iff)
  then have "tables_true owner annotated (fst (snd (br_StopRecording io (?r, s))))"
    unfolding tables_true_iff
    by (intro stop_tables [where P = "\<lambda>c d. keys_true owner c \<and> profiles_true annotated d"] conjI)
      (auto intro: keys_true_ops profiles_true_ops)
  then show ?thesis
    using assms by (cases "br_startRequests r = 1") (simp_all add: w Stop_op Stop_def Let_def tables_true_iff)
next
  case Getgid_op
  then show ?thesis using assms by simp
qed

lemma reset_true:
  assumes "tables_true owner annotated (fst w)" "profile_data clearData answer apart"
  shows "tables_true owner annotated (fst (resetProfile p clearData w))"
proof -
  have "keys_true owner (fold DeleteContainer ids c)" if "keys_true owner c" for ids c
    using that by (induction ids arbitrary: c) (auto intro: keys_true_ops)
  then show ?thesis
    using assms(1) profile_data.reset_tables [OF assms(2)] profile_data.reset_nothing [OF assms(2)]
    by (cases "cp_Containers p (br_containerIDToProfileMap (fst w)) = []") (auto simp: tables_true_iff intro: profiles_true_ops)
qed

lemma served_true: "served owner annotated h \<Longrightarrow> h_true owner annotated h"
proof (induction rule: served.induct)
  case (boot r n s)
  have "profiles_ok newContainerProfiles" using profiles_ok_reached [of "[]"] by simp
  then show ?case
    using boot new_ok [of n]
    by (simp add: h_true_def tables_true_def Get_def newContainerKeys_def cp_GetAll_def newContainerProfiles_def entry_def)
next
  case (handler h env i ev ph ph' h')
  have "phase_true owner (ev, ph)" using handler by (metis h_true_def list_all_length)
  note step = handler_step_true [OF handler.hyps(2) _ this handler.hyps(5)]
  have step: "tables_true owner annotated (fst (hd_service h'))" "phase_true owner (ev, ph')" "hd_running h' = hd_running h"
    using step handler.IH by (simp_all add: h_true_def)
  note step(2) handler.IH
  then
  have "phase_true owner ((hd_running h)[i := (ev, ph')] ! n)" if "n < length (hd_running h)" for n
    using that by (cases "n = i") (simp_all add: h_true_def list_all_length)
  then show ?case using step by (simp add: h_true_def list_all_length)
next
  case (session h p e w)
  then show ?case using session_true [of owner annotated "hd_service h" p] by (simp add: h_true_def)
next
  case (read_syscalls h lk GetName io p res w)
  then show ?case using read_true(1) [of owner annotated "hd_service h" lk GetName io p] by (simp add: h_true_def)
next
  case (read_rules h lk p res' w)
  then show ?case using read_true(2) [of owner annotated "hd_service h" lk p] by (simp add: h_true_def)
next
  case (reset_syscalls h err p)
  then show ?case
    using reset_syscalls_cases(1) [of err p "hd_service h"]
      reset_true [OF _ syscalls_data.profile_data_axioms, of owner annotated "hd_service h" p err] by (auto simp: h_true_def)
next
  case (reset_rules h p)
  then show ?case
    using reset_syscalls_cases(2) [of p "hd_service h"]
      reset_true [OF _ rules_data.profile_data_axioms, of owner annotated "hd_service h" p] by (auto simp: h_true_def)
qed (auto simp: h_true_def tables_true_def)

section \<open>No foreign data in a profile\<close>

lemma retry_keys:
  assumes "tables_true owner annotated r" "truthful_pods annotated (lk_pods lk)" "lk_later lk = []"
    "getKeysForProfileWithRetry lk p r = (Inr keys, r')" "k \<in> set keys"
  shows "\<exists>i. owner k i \<and> annotated i p"
proof -
  let ?r = "r\<lparr>br_containerIDToProfileMap :=
      cacheProfilesOfUnresolvedContainers (lk_pods lk) (lk_ids lk) (br_containerIDToProfileMap r)\<rparr>"
  have t: "tables_true owner annotated ?r"
    using assms(1) cache_unresolved_true [OF assms(2)] by (simp add: tables_true_iff)
  have "keys = getKeysForProfile p (br_containerIDToProfileMap ?r, br_containerKeys ?r)"
    using assms(3,4) by (auto simp: getKeysForProfileWithRetry_def Let_def split: if_splits)
  then have "k \<in> keys_of_profile p ?r"
    using getKeysForProfile_set [of ?r p] t assms(5) by (simp add: tables_true_def)
  then show ?thesis using t unfolding keys_of_profile_def tables_true_def by blast
qed


text \<open>The steps of one handler in a row.\<close>

lemma handler_step_running:
  "handler_step env ev ph (h\<lparr>hd_running := R\<rparr>) = apsnd (\<lambda>h'. h'\<lparr>hd_running := R\<rparr>) (handler_step env ev ph h)"
proof (cases ph)
  case (Inserted i)
  have "findProfileForContainerID env i (h\<lparr>hd_running := R\<rparr>) =
      apsnd (\<lambda>h'. h'\<lparr>hd_running := R\<rparr>) (findProfileForContainerID env i h)"
    by (simp add: findProfileForContainerID_def lookupProfileForContainerID_def Let_def on_recorder_def split: option.split)
  then show ?thesis
    using Inserted by (simp add: apsnd_def map_prod_def case_prod_beta exclude_event_def forget_key_def on_recorder_def
        split: sum.split find_error.split)
qed (auto simp: exclude_event_def forget_key_def on_recorder_def Let_def case_prod_beta split: option.split sum.split)

lemma handler_step_keeps:
  assumes "handler_step env ev ph h = (ph1, h1)"
  shows "hd_running h1 = hd_running h"
proof -
  have "handler_step env ev ph h = apsnd (\<lambda>h'. h'\<lparr>hd_running := hd_running h\<rparr>) (handler_step env ev ph h)"
    using handler_step_running [where env = env and ev = ev and ph = ph and h = h and R = "hd_running h"] by simp
  then have "h1 = h1\<lparr>hd_running := hd_running h\<rparr>" using assms by simp
  then show ?thesis by (metis handlers.select_convs(4) handlers.surjective handlers.update_convs(4))
qed

lemma run_handler_running:
  "run_handler env ev n ph (h\<lparr>hd_running := R\<rparr>) = apsnd (\<lambda>h'. h'\<lparr>hd_running := R\<rparr>) (run_handler env ev n ph h)"
  by (induction n arbitrary: ph h) (simp_all add: handler_step_running case_prod_beta)

lemma run_served:
  assumes "served owner annotated h" "truthful owner annotated env" "i < length (hd_running h)" "hd_running h ! i = (ev, ph)"
    "run_handler env ev n ph h = (ph', h')"
  shows "served owner annotated (h'\<lparr>hd_running := (hd_running h)[i := (ev, ph')]\<rparr>)"
  using assms(1,3-5)
proof (induction n arbitrary: ph h h')
  case 0
  have "(hd_running h)[i := (ev, ph)] = hd_running h" by (metis 0(3) list_update_id)
  then show ?case using 0 by simp
next
  case (Suc n)
  obtain ph1 h1 where st: "handler_step env ev ph h = (ph1, h1)" by fastforce
  let ?h = "h1\<lparr>hd_running := (hd_running h)[i := (ev, ph1)]\<rparr>"
  have "served owner annotated ?h"
    using served.handler [OF Suc.prems(1) assms(2) Suc.prems(2,3) st] by (simp add: handler_step_keeps [OF st])
  moreover have "run_handler env ev n ph1 ?h = (ph', h'\<lparr>hd_running := (hd_running h)[i := (ev, ph1)]\<rparr>)"
    using Suc.prems(4) st by (simp add: run_handler_running)
  ultimately show ?case using Suc.IH [of ?h ph1] Suc.prems(2) by simp
qed

text \<open>A container with one profile.\<close>

definition ref_id :: string where
  "ref_id = replicate 64 (CHR ''c'')"

definition ref_pod :: Pod where
  "ref_pod = \<lparr>pod_InitContainerStatuses = [],
     pod_ContainerStatuses = [\<lparr>cs_Name = ''main'', cs_ContainerID = ''containerd://'' @ ref_id\<rparr>],
     pod_EphemeralContainerStatuses = [], pod_Annotations = [SeccompProfileRecordBpfAnnotationKey @ ''main'' \<mapsto> ''sec'']\<rparr>"

definition ref_env :: pid_env where
  "ref_env = \<lparr>pe_inCluster = True, pe_container = (\<lambda>ev. if np_key ev = 7 then Inr ref_id else Inl Container_error),
     pe_pods = Some [ref_id \<mapsto> ref_pod], pe_upd_exclude_keys = hash_update 1024, pe_clear_error = (\<lambda>_. False)\<rparr>"

definition ref_event :: newPidEvent where
  "ref_event = \<lparr>np_pid = 1, np_mntns = 1, np_key = 7, np_generation = 0, np_seenAt = 0\<rparr>"

definition ref_owner :: "u64 \<Rightarrow> string \<Rightarrow> bool" where
  "ref_owner k i \<longleftrightarrow> k = 7 \<and> i = ref_id"

definition ref_annotated :: "string \<Rightarrow> string \<Rightarrow> bool" where
  "ref_annotated i p \<longleftrightarrow> i = ref_id \<and> p = ''sec''"

definition ref_handlers :: handlers where
  "ref_handlers = \<lparr>hd_service = ((fst new_service)\<lparr>br_startRequests := 1\<rparr>,
       init_state\<lparr>recorded_syscalls := [7 \<mapsto> (replicate 1024 0)[1 := 1]]\<rparr>),
     hd_containersWithoutProfile = {}, hd_containersNotFound = {}, hd_running = [(ref_event, Begin)]\<rparr>"

lemma ref_containers: "ContainerIDs ref_pod = [ref_id]" "ContainerName ref_pod ref_id = (''main'', True)"
proof -
  have "find_container_id (''containerd://'' @ ref_id) = ref_id" by (code_simp)
  then have "statuses ref_pod = [\<lparr>cs_Name = ''main'', cs_ContainerID = ''containerd://'' @ ref_id\<rparr>]"
    "status_containerID \<lparr>cs_Name = ''main'', cs_ContainerID = ''containerd://'' @ ref_id\<rparr> = ref_id"
    by (simp_all add: statuses_def ref_pod_def status_containerID_def)
  moreover have "ref_id \<noteq> ''''" by (simp add: ref_id_def)
  ultimately show "ContainerIDs ref_pod = [ref_id]" "ContainerName ref_pod ref_id = (''main'', True)"
    by (simp_all add: ContainerIDs_def ContainerName_def)
qed

lemma ref_annotations: "pod_Annotations ref_pod = [SeccompProfileRecordBpfAnnotationKey @ ''main'' \<mapsto> ''sec'']"
  by (simp add: ref_pod_def)

lemma ref_truthful: "truthful ref_owner ref_annotated ref_env" "truthful_pods ref_annotated [ref_id \<mapsto> ref_pod]"
  by (auto simp: truthful_def truthful_pods_def ref_env_def ref_owner_def ref_annotated_def ref_containers ref_annotations
      SeccompProfileRecordBpfAnnotationKey_def ApparmorProfileRecordBpfAnnotationKey_def split: if_splits)

lemma ref_served: "served ref_owner ref_annotated ref_handlers"
proof -
  let ?h = "ref_handlers\<lparr>hd_running := []\<rparr>"
  have "served ref_owner ref_annotated ?h"
    using served.boot [of "fst (hd_service ?h)" 1024 ref_owner ref_annotated "snd (hd_service ?h)"]
    by (simp add: ref_handlers_def new_service_def)
  from served.event [OF this, of ref_event] show ?thesis
    by (simp add: ref_handlers_def ref_event_def new_service_def)
qed

text \<open>What a handler of an event of the container does to empty tables, and up to the lookup of the profile.\<close>

definition with_key :: "nat \<Rightarrow> handlers \<Rightarrow> handlers" where
  "with_key n = on_recorder (\<lambda>r. r\<lparr>br_containerKeys := snd (Insert 7 ref_id (newContainerKeys n))\<rparr>)"

definition with_profile :: "handlers \<Rightarrow> handlers" where
  "with_profile = on_recorder (\<lambda>r. r\<lparr>br_containerIDToProfileMap := cp_Insert ref_id ''sec'' newContainerProfiles\<rparr>)"

lemma ref_cached: "cacheProfilesOfPod ref_pod c = cp_Insert ref_id ''sec'' c"
  by (simp add: cacheProfilesOfPod_def ref_containers ref_annotations cache_annotation_def SeccompProfileRecordBpfAnnotationKey_def
      ApparmorProfileRecordBpfAnnotationKey_def)

lemma ref_cp_get: "cp_Get ref_id newContainerProfiles = None" "cp_Get ref_id (cp_Insert ref_id ''sec'' newContainerProfiles) = Some ''sec''"
  by (simp_all add: cp_Get_def cp_Insert_def cp_add_def entry_def newContainerProfiles_def)

lemma ref_inserted:
  assumes "br_containerKeys (fst (hd_service h)) = newContainerKeys n" "0 < n"
    "np_key ev = 7" "np_generation ev = br_recordingGeneration (fst (hd_service h))"
  shows "run_handler ref_env ev 3 Begin h = (Inserted ref_id, with_key n h)"
proof -
  have three: "(3 :: nat) = Suc (Suc (Suc 0))" by simp
  have ins: "fst (Insert 7 ref_id (newContainerKeys n))" using assms(2) by (simp add: Insert_def newContainerKeys_def owned_def)
  have "profileOfKey 7 (fst (hd_service h)) = None" by (simp add: profileOfKey_def assms(1) Get_def newContainerKeys_def)
  then show ?thesis unfolding three
    using assms ins by (simp add: ref_env_def with_key_def case_prod_beta)
qed

lemma ref_found:
  assumes "br_containerIDToProfileMap (fst (hd_service h)) = newContainerProfiles"
    "ref_id \<notin> hd_containersWithoutProfile h" "ref_id \<notin> hd_containersNotFound h"
    "np_generation ev = br_recordingGeneration (fst (hd_service h))"
  shows "run_handler ref_env ev 2 (Inserted ref_id) h = (Finished, with_profile h)"
proof -
  have two: "(2 :: nat) = Suc (Suc 0)" by simp
  have "findProfileForContainerID ref_env ref_id h = (Inr ''sec'', with_profile h)"
    using assms by (simp add: findProfileForContainerID_def lookupProfileForContainerID_def ref_cp_get ref_env_def ref_cached
        Let_def with_profile_def on_recorder_def)
  then show ?thesis unfolding two using assms(4) by (simp add: with_profile_def)
qed

lemma run_handler_add: "run_handler env ev (m + n) ph h = (case run_handler env ev m ph h of (ph1, h1) \<Rightarrow> run_handler env ev n ph1 h1)"
  by (induction m arbitrary: ph h) (simp_all add: case_prod_beta)

lemma with_key_sel [simp]:
  "br_containerIDToProfileMap (fst (hd_service (with_key n h))) = br_containerIDToProfileMap (fst (hd_service h))"
  "hd_containersWithoutProfile (with_key n h) = hd_containersWithoutProfile h"
  "hd_containersNotFound (with_key n h) = hd_containersNotFound h"
  "br_recordingGeneration (fst (hd_service (with_key n h))) = br_recordingGeneration (fst (hd_service h))"
  "hd_running (with_key n h) = hd_running h"
  by (simp_all add: with_key_def on_recorder_def)

lemma ref_handled:
  assumes "br_containerKeys (fst (hd_service h)) = newContainerKeys n" "0 < n"
    "br_containerIDToProfileMap (fst (hd_service h)) = newContainerProfiles"
    "ref_id \<notin> hd_containersWithoutProfile h" "ref_id \<notin> hd_containersNotFound h"
    "np_key ev = 7" "np_generation ev = br_recordingGeneration (fst (hd_service h))"
  shows "run_handler ref_env ev 5 Begin h = (Finished, with_profile (with_key n h))"
  using run_handler_add [of ref_env ev 3 2 Begin h] ref_inserted [OF assms(1,2,6,7)] ref_found [of "with_key n h" ev] assms by simp


section \<open>A handler of a finished session\<close>

lemma delete_forgets: "keys_ok c \<Longrightarrow> Get k (Delete k c) = None"
  using run_op_byKey [of c "Delete_op k"] by (simp add: Get_def)

lemma cp_delete_forgets: "profiles_ok c \<Longrightarrow> cp_GetAll i (cp_Delete i c) = []"
  by (auto simp: profiles_ok_def delete_table forget_container_others)

text \<open>
  (C39) A handler of a finished session removes what belongs to the next one. A handler inserted its
  key and waits for the profile of the container while its session ends and another one starts. If
  a handler of the new session meanwhile found the same key and container, the old one, once it goes
  on, sees that the generation changed and removes both entries. The key then has no profile, and
  nothing is found for the container any more, although the new session records it.
\<close>

theorem late_handler_forgets_session:
  assumes "tables_ok (hd_service h)" "np_generation ev \<noteq> br_recordingGeneration (fst (hd_service h))"
    "profileOfKey (np_key ev) (fst (hd_service h)) = Some p" "Get (np_key ev) (br_containerKeys (fst (hd_service h))) = Some i"
    "i \<notin> hd_containersWithoutProfile h"
  shows "case run_handler env ev 2 (Inserted i) h of (ph, h') \<Rightarrow>
    ph = Finished \<and> profileOfKey (np_key ev) (fst (hd_service h')) = None \<and>
    cp_GetAll i (br_containerIDToProfileMap (fst (hd_service h'))) = []"
proof -
  have "cp_Get i (br_containerIDToProfileMap (fst (hd_service h))) = Some p" using assms(3,4) by (simp add: profileOfKey_def)
  then have find: "findProfileForContainerID env i h = (Inr p, h)" using assms(5) by (simp add: findProfileForContainerID_def)
  have ok: "keys_ok (br_containerKeys (fst (hd_service h)))" "profiles_ok (br_containerIDToProfileMap (fst (hd_service h)))"
    using assms(1) by (simp_all add: tables_ok_def)
  have two: "(2 :: nat) = Suc (Suc 0)" by simp
  show ?thesis
    using assms(2) unfolding two
    by (simp add: find forget_key_def profileOfKey_def delete_forgets [OF ok(1)] cp_delete_forgets [OF ok(2)])
qed

text \<open>The state in which the handler of the first session still waits, and one of the second is done.\<close>

definition second_event :: newPidEvent where
  "second_event = ref_event\<lparr>np_generation := 1\<rparr>"

definition stop_io :: map_io where
  "stop_io = good_io\<lparr>io_map := (\<lambda>m. (if m = Recorded_syscalls then [7] else [], \<lambda>_. False))\<rparr>"

lemma first_waits: "served ref_owner ref_annotated ((with_key 1024 ref_handlers)\<lparr>hd_running := [(ref_event, Inserted ref_id)]\<rparr>)"
proof -
  have "run_handler ref_env ref_event 3 Begin ref_handlers = (Inserted ref_id, with_key 1024 ref_handlers)"
    by (rule ref_inserted) (simp_all add: ref_handlers_def ref_event_def new_service_def)
  from run_served [OF ref_served ref_truthful(1) _ _ this, of 0] show ?thesis by (simp add: ref_handlers_def)
qed

theorem late_handler_forgets_session_witness:
  "\<exists>h. served ref_owner ref_annotated h \<and> hd_running h = [(ref_event, Inserted ref_id), (second_event, Finished)] \<and>
     profileOfKey 7 (fst (hd_service h)) = Some ''sec'' \<and>
     profileOfKey 7 (fst (hd_service (snd (run_handler ref_env ref_event 2 (Inserted ref_id) h)))) = None"
proof -
  let ?h1 = "(with_key 1024 ref_handlers)\<lparr>hd_running := [(ref_event, Inserted ref_id)]\<rparr>"
  obtain e r s where stop: "session_step (Stop_op stop_io) (hd_service ?h1) = (e, (r, s))" by (metis surj_pair)
  have w1: "hd_service ?h1 = ((fst new_service)\<lparr>br_startRequests := 1, br_containerKeys := snd (Insert 7 ref_id (newContainerKeys 1024))\<rparr>,
      init_state\<lparr>recorded_syscalls := [7 \<mapsto> (replicate 1024 0)[1 := 1]]\<rparr>)"
    by (simp add: with_key_def on_recorder_def ref_handlers_def)
  have r: "br_containerKeys r = newContainerKeys 1024" "br_containerIDToProfileMap r = newContainerProfiles" "br_recordingGeneration r = 1"
    using stop unfolding w1
    by (simp_all add: Stop_def Let_def new_service_def br_StopRecording_def stop_io_def good_io_def stop_seccomp_def stop_apparmor_def
        clearBpfMap_def clearPidMaps_def clear_active_def clear_child_def end_session_def ClearKeys_def cp_Clear_def
        newContainerKeys_def Insert_def owned_def newContainerProfiles_def) auto
  let ?h2 = "?h1\<lparr>hd_service := (r, s)\<rparr>"
  have "served ref_owner ref_annotated ?h2" by (rule served.session [OF first_waits stop])
  then have h3: "served ref_owner ref_annotated (?h2\<lparr>hd_running := [(ref_event, Inserted ref_id), (second_event, Begin)]\<rparr>)"
    using served.event [of ref_owner ref_annotated ?h2 second_event] r(3) by (simp add: second_event_def)
  let ?h3 = "?h2\<lparr>hd_running := [(ref_event, Inserted ref_id), (second_event, Begin)]\<rparr>"
  have "run_handler ref_env second_event 5 Begin ?h3 = (Finished, with_profile (with_key 1024 ?h3))"
    by (rule ref_handled) (simp_all add: r second_event_def ref_event_def ref_handlers_def)
  from run_served [OF h3 ref_truthful(1) _ _ this, of 1]
  have h4: "served ref_owner ref_annotated ((with_profile (with_key 1024 ?h3))\<lparr>hd_running := [(ref_event, Inserted ref_id), (second_event, Finished)]\<rparr>)"
    by simp
  let ?h4 = "(with_profile (with_key 1024 ?h3))\<lparr>hd_running := [(ref_event, Inserted ref_id), (second_event, Finished)]\<rparr>"
  have g4: "np_generation ref_event \<noteq> br_recordingGeneration (fst (hd_service ?h4))"
    by (simp add: with_profile_def with_key_def on_recorder_def r(3) ref_event_def)
  have p4: "profileOfKey 7 (fst (hd_service ?h4)) = Some ''sec''" "Get 7 (br_containerKeys (fst (hd_service ?h4))) = Some ref_id"
    by (simp_all add: with_profile_def with_key_def on_recorder_def profileOfKey_def Insert_def newContainerKeys_def owned_def Get_def ref_cp_get)
  have "tables_ok (hd_service ?h4)" using served_true [OF h4] by (simp add: h_true_def tables_true_def tables_ok_def)
  moreover have "ref_id \<notin> hd_containersWithoutProfile ?h4"
    by (simp add: with_profile_def with_key_def on_recorder_def ref_handlers_def)
  ultimately have "profileOfKey 7 (fst (hd_service (snd (run_handler ref_env ref_event 2 (Inserted ref_id) ?h4)))) = None"
    using late_handler_forgets_session [of ?h4 ref_event "''sec''" ref_id ref_env] g4 p4
    by (simp add: case_prod_beta ref_event_def)
  then show ?thesis using h4 p4(1) by (intro exI [of _ ?h4]) simp
qed

section \<open>Every handler ends\<close>

text \<open>
  A handler whose steps meet arbitrary states: between any two of them other handlers, requests and
  the end of a session can change everything, the answers of the lookups included. The rank of a
  phase bounds the steps that are left.
\<close>

fun run_among :: "newPidEvent \<Rightarrow> (pid_env \<times> handlers) list \<Rightarrow> handler_phase \<Rightarrow> handler_phase" where
  "run_among ev [] ph = ph"
| "run_among ev ((env, h) # rest) ph = run_among ev rest (fst (handler_step env ev ph h))"

fun phase_rank :: "handler_phase \<Rightarrow> nat" where
  "phase_rank Begin = 5"
| "phase_rank (Have_container _) = 4"
| "phase_rank (Checked _) = 3"
| "phase_rank (Inserted _) = 2"
| "phase_rank (Found _) = 1"
| "phase_rank Finished = 0"

lemma phase_rank_0: "phase_rank ph = 0 \<longleftrightarrow> ph = Finished"
  by (cases ph) auto

lemma handler_step_rank: "phase_rank (fst (handler_step env ev ph h)) \<le> phase_rank ph - 1"
  by (cases ph) (auto simp: Let_def split: option.split sum.split find_error.split prod.split)

lemma run_among_rank: "phase_rank (run_among ev xs ph) \<le> phase_rank ph - length xs"
proof (induction xs arbitrary: ph)
  case (Cons x xs)
  obtain env h where x: "x = (env, h)" by (cases x)
  show ?case
    using Cons [of "fst (handler_step env ev ph h)"] handler_step_rank [of env ev ph h] by (simp add: x)
qed simp



end
