(* ===== verification/Container_Lookup.thy ===== *)
theory Container_Lookup
  imports Pid_Handlers
begin

text \<open>
  How a handler finds the container of a key, from \<^verbatim>\<open>bpfrecorder.go\<close> and \<^verbatim>\<open>containers.go\<close>: by the path of
  the cgroup if the key is a cgroup, and by the files of the process in the proc file system
  otherwise. The process may have ended by then, and another one may have its ID. What the files say at
  the time of each read is a parameter.
\<close>

section \<open>Texts\<close>

definition digit_char :: "nat \<Rightarrow> char" where
  "digit_char n = char_of (48 + n)"

fun decimal_text :: "nat \<Rightarrow> string" where
  "decimal_text n = (if n < 10 then [digit_char n] else decimal_text (n div 10) @ [digit_char (n mod 10)])"

declare decimal_text.simps [simp del]

fun digits_value :: "nat \<Rightarrow> string \<Rightarrow> nat option" where
  "digits_value v [] = Some v"
| "digits_value v (c # cs) =
     (let d = (of_char c :: nat) in if 48 \<le> d \<and> d \<le> 57 then digits_value (10 * v + (d - 48)) cs else None)"

text \<open>\<^verbatim>\<open>strconv.ParseInt\<close> with base 10 and 64 bits.\<close>

definition ParseInt :: "string \<Rightarrow> int option" where
  "ParseInt s =
     (let neg = (s \<noteq> [] \<and> hd s = CHR ''-'');
          ds = (if s \<noteq> [] \<and> (hd s = CHR ''-'' \<or> hd s = CHR ''+'') then tl s else s)
      in if ds = [] then None
         else case digits_value 0 ds of
           None \<Rightarrow> None
         | Some v \<Rightarrow> let i = (if neg then - int v else int v) in if - (2 ^ 63) \<le> i \<and> i < 2 ^ 63 then Some i else None)"

text \<open>\<^verbatim>\<open>strings.Fields\<close>, on the ASCII texts of the proc file system.\<close>

definition white :: "char \<Rightarrow> bool" where
  "white c \<longleftrightarrow> (of_char c :: nat) \<in> {9, 10, 11, 12, 13, 32}"

fun Fields :: "string \<Rightarrow> string \<Rightarrow> string list" where
  "Fields w [] = (if w = [] then [] else [w])"
| "Fields w (c # cs) =
     (if white c then (if w = [] then Fields [] cs else w # Fields [] cs) else Fields (w @ [c]) cs)"

fun after_last :: "char \<Rightarrow> string \<Rightarrow> string option" where
  "after_last c [] = None"
| "after_last c (x # xs) =
     (case after_last c xs of Some rest \<Rightarrow> Some rest | None \<Rightarrow> if x = c then Some xs else None)"

section \<open>The start time of a process\<close>

definition getProcessStartTimeTicks :: "string \<Rightarrow> string option" where
  "getProcessStartTimeTicks raw =
     (case after_last (CHR '')'') raw of
        None \<Rightarrow> None
      | Some rest \<Rightarrow>
          if length rest \<le> 1 then None
          else let fs = Fields [] (drop 1 rest) in if length fs < 20 then None else Some (fs ! 19))"

text \<open>A tick is ten milliseconds; times are in nanoseconds since the boot.\<close>

definition tick :: nat where
  "tick = 10 ^ 9 div 100"

definition processStartTime :: "string \<Rightarrow> nat option" where
  "processStartTime raw =
     (case getProcessStartTimeTicks raw of
        None \<Rightarrow> None
      | Some field \<Rightarrow>
          (case ParseInt field of
             None \<Rightarrow> None
           | Some ticks \<Rightarrow> if ticks < 0 \<or> ticks > (2 ^ 63 - 1) div int tick then None else Some (nat ticks * tick)))"

section \<open>The container of a process\<close>

text \<open>\<^verbatim>\<open>FindAllString\<close> of the regular expression of container IDs: matches do not overlap.\<close>

function find_all_ids :: "string \<Rightarrow> string list" where
  "find_all_ids [] = []"
| "find_all_ids (c # cs) =
     (if is_container_id (take 64 (c # cs)) then take 64 (c # cs) # find_all_ids (drop 63 cs) else find_all_ids cs)"
  by pat_completeness auto
termination
  by (relation "measure length") auto

text \<open>
  The lines of a \<^verbatim>\<open>bufio.Scanner\<close>, which stops with an error at a line that does not fit into its buffer of
  64 KiB. A carriage return at the end of a line is dropped.
\<close>

fun scan_lines :: "string \<Rightarrow> string \<Rightarrow> string list" where
  "scan_lines l [] = (if l = [] then [] else [l])"
| "scan_lines l (c # cs) = (if c = CHR 0x0A then l # scan_lines [] cs else scan_lines (l @ [c]) cs)"

definition drop_cr :: "string \<Rightarrow> string" where
  "drop_cr l = (if l \<noteq> [] \<and> last l = CHR 0x0D then butlast l else l)"

fun search_lines :: "string list \<Rightarrow> container_error + string" where
  "search_lines [] = Inl ErrContainerIDNotFound"
| "search_lines (l # ls) =
     (if 64 * 1024 \<le> length l then Inl Container_error
      else let ids = find_all_ids (drop_cr l) in if ids \<noteq> [] then Inr (last ids) else search_lines ls)"

definition cache_key :: "u32 \<Rightarrow> string \<Rightarrow> string" where
  "cache_key pid startTime = decimal_text (unat pid) @ ''_'' @ startTime"

text \<open>The arguments are what the reads of the files \<^verbatim>\<open>stat\<close> and \<^verbatim>\<open>cgroup\<close> return, \<open>None\<close> if one fails.\<close>

definition containerIDForPID ::
  "string option \<Rightarrow> string option \<Rightarrow> u32 \<Rightarrow> (string \<rightharpoonup> string) \<Rightarrow> (container_error + string) \<times> (string \<rightharpoonup> string)" where
  "containerIDForPID stat cgroup pid cache =
     (case Option.bind stat getProcessStartTimeTicks of
        None \<Rightarrow> (Inl Container_error, cache)
      | Some startTime \<Rightarrow>
          (case cache (cache_key pid startTime) of
             Some containerID \<Rightarrow> (Inr containerID, cache)
           | None \<Rightarrow>
               (case cgroup of
                  None \<Rightarrow> (Inl Container_error, cache)
                | Some cgroupData \<Rightarrow>
                    (case search_lines (scan_lines [] cgroupData) of
                       Inl e \<Rightarrow> (Inl e, cache)
                     | Inr containerID \<Rightarrow> (Inr containerID, cache(cache_key pid startTime \<mapsto> containerID))))))"

section \<open>The container of a key\<close>

definition mnt_link :: "u32 \<Rightarrow> string" where
  "mnt_link mntns = ''mnt:['' @ decimal_text (unat mntns) @ '']''"

definition verifyProcess :: "string option \<Rightarrow> string option \<Rightarrow> u32 \<Rightarrow> nat \<Rightarrow> bool" where
  "verifyProcess stat link mntns seenAt =
     (case Option.bind stat processStartTime of
        None \<Rightarrow> False
      | Some started \<Rightarrow> if seenAt > 0 \<and> started > seenAt then False else link = Some (mnt_link mntns))"

definition containerIDForKey ::
  "bool \<Rightarrow> string option \<Rightarrow> string option \<Rightarrow> string option \<Rightarrow> string option \<Rightarrow> string option \<Rightarrow>
   newPidEvent \<Rightarrow> (string \<rightharpoonup> string) \<Rightarrow> (container_error + string) \<times> (string \<rightharpoonup> string)" where
  "containerIDForKey cgroupKeys path stat cgroup stat' link ev cache =
     (let ids = (if cgroupKeys then case path of None \<Rightarrow> [] | Some p \<Rightarrow> find_all_ids p else [])
      in if ids \<noteq> [] then (Inr (last ids), cache)
         else case containerIDForPID stat cgroup (np_pid ev) cache of (res, cache') \<Rightarrow>
           if res = Inl Container_error then (Inl Container_error, cache')
           else if \<not> verifyProcess stat' link (np_mntns ev) (np_seenAt ev) then (Inl Container_error, cache')
           else (res, cache'))"

section \<open>Numbers and fields\<close>

lemma digits_value_append:
  "digits_value v (xs @ ys) = (case digits_value v xs of None \<Rightarrow> None | Some w \<Rightarrow> digits_value w ys)"
  by (induction xs arbitrary: v) (auto simp: Let_def)

lemma digit_value: "n < 10 \<Longrightarrow> (of_char (digit_char n) :: nat) = 48 + n"
  by (simp add: digit_char_def)

lemma decimal_value: "digits_value 0 (decimal_text n) = Some n"
proof (induction n rule: decimal_text.induct)
  case (1 n)
  have "n mod 10 \<le> 9" using mod_less_divisor [of 10 n] by linarith
  with 1 show ?case by (subst decimal_text.simps) (simp add: digits_value_append digit_value Let_def)
qed

lemma decimal_inject [simp]: "decimal_text m = decimal_text n \<longleftrightarrow> m = n"
  using decimal_value by (metis option.inject)

lemma decimal_digits: "c \<in> set (decimal_text n) \<Longrightarrow> 48 \<le> (of_char c :: nat) \<and> of_char c \<le> (57 :: nat)"
proof (induction n rule: decimal_text.induct)
  case (1 n)
  then show ?case by (subst (asm) (2) decimal_text.simps) (auto simp: digit_value split: if_splits)
qed

lemma decimal_nonempty [simp]: "decimal_text n \<noteq> []"
  by (subst decimal_text.simps) simp

lemma ParseInt_decimal: "n < 2 ^ 63 \<Longrightarrow> ParseInt (decimal_text n) = Some (int n)"
proof -
  assume n: "n < 2 ^ 63"
  have "hd (decimal_text n) \<noteq> CHR ''-''" "hd (decimal_text n) \<noteq> CHR ''+''"
    using decimal_digits [of "hd (decimal_text n)" n] by auto
  moreover have "int n < 2 ^ 63" using n by (metis of_nat_less_iff of_nat_numeral of_nat_power)
  ultimately show ?thesis by (simp add: ParseInt_def decimal_value)
qed

lemma cache_key_inject: "cache_key p x = cache_key q y \<longleftrightarrow> p = q \<and> x = y"
proof
  assume eq: "cache_key p x = cache_key q y"
  have "takeWhile (\<lambda>c. c \<noteq> CHR ''_'') (cache_key r z) = decimal_text (unat r)" for r z
    using decimal_digits [of "CHR ''_''" "unat r"] by (auto simp: cache_key_def takeWhile_append)
  with eq have "p = q" by (metis decimal_inject word_unat_eq_iff)
  with eq show "p = q \<and> x = y" by (simp add: cache_key_def)
qed simp

text \<open>
  The text of a \<^verbatim>\<open>stat\<close> file: whatever the name of the process, which is in parentheses and may contain
  parentheses and spaces itself, and then the fields.
\<close>

fun join_fields :: "string list \<Rightarrow> string" where
  "join_fields [] = [CHR 0x0A]"
| "join_fields (f # fs) = f @ (if fs = [] then [] else '' '') @ join_fields fs"

definition stat_text :: "string \<Rightarrow> string list \<Rightarrow> string" where
  "stat_text name fs = name @ '') '' @ join_fields fs"

definition clean_field :: "string \<Rightarrow> bool" where
  "clean_field f \<longleftrightarrow> f \<noteq> [] \<and> list_all (\<lambda>c. \<not> white c \<and> c \<noteq> CHR '')'') f"

lemma Fields_word: "list_all (\<lambda>c. \<not> white c) f \<Longrightarrow> Fields w (f @ rest) = Fields (w @ f) rest"
  by (induction f arbitrary: w) auto

lemma Fields_join: "list_all clean_field fs \<Longrightarrow> Fields [] (join_fields fs) = fs"
proof (induction fs)
  case (Cons f fs)
  have "list_all (\<lambda>c. \<not> white c) f" "f \<noteq> []" using Cons.prems by (auto simp: clean_field_def list_all_iff)
  then show ?case using Cons by (cases fs) (simp_all add: Fields_word white_def)
qed (simp add: white_def)

lemma after_last_none: "c \<notin> set xs \<Longrightarrow> after_last c xs = None"
  by (induction xs) auto

lemma after_last_append: "after_last c (xs @ ys) = (case after_last c ys of Some r \<Rightarrow> Some r | None \<Rightarrow>
    (case after_last c xs of None \<Rightarrow> None | Some r \<Rightarrow> Some (r @ ys)))"
  by (induction xs) (auto split: option.split)

lemma join_no_paren: "list_all clean_field fs \<Longrightarrow> CHR '')'' \<notin> set (join_fields fs)"
  by (induction fs) (auto simp: clean_field_def list_all_iff)

text \<open>The start time is found whatever the name of the process is.\<close>

lemma stat_ticks:
  assumes "list_all clean_field fs" "20 \<le> length fs"
  shows "getProcessStartTimeTicks (stat_text name fs) = Some (fs ! 19)"
proof -
  have "after_last (CHR '')'') ('') '' @ join_fields fs) = Some ('' '' @ join_fields fs)"
    using after_last_none [OF join_no_paren [OF assms(1)]] by simp
  then have "after_last (CHR '')'') (stat_text name fs) = Some ('' '' @ join_fields fs)"
    unfolding stat_text_def by (subst after_last_append) simp
  moreover have "join_fields fs \<noteq> []" by (cases fs) simp_all
  ultimately show ?thesis using assms Fields_join [OF assms(1)] by (simp add: getProcessStartTimeTicks_def)
qed

section \<open>Processes\<close>

text \<open>
  What is true of the system: \<open>holder t pid\<close> is the process that has an ID at a time. It has it from its
  start to its end. The files tell about the process that has the ID when they are read.
\<close>

record process =
  pr_start :: nat
  pr_cgroup :: "nat \<Rightarrow> string"
  pr_mntns :: "nat \<Rightarrow> u32"

record proc_files =
  pf_stat :: "u32 \<Rightarrow> string option"
  pf_cgroup :: "u32 \<Rightarrow> string option"
  pf_mntns :: "u32 \<Rightarrow> string option"

definition start_ticks :: "process \<Rightarrow> string" where
  "start_ticks p = decimal_text (pr_start p div tick)"

definition proc_documented :: "(nat \<Rightarrow> u32 \<Rightarrow> process option) \<Rightarrow> (nat \<Rightarrow> proc_files) \<Rightarrow> bool" where
  "proc_documented holder files \<longleftrightarrow>
     (\<forall>t pid p. holder t pid = Some p \<longrightarrow> pr_start p \<le> t \<and> pr_start p < 2 ^ 63 \<and>
        (\<forall>t'. pr_start p \<le> t' \<and> t' \<le> t \<longrightarrow> holder t' pid = Some p)) \<and>
     (\<forall>t pid raw. pf_stat (files t) pid = Some raw \<longrightarrow> (\<exists>p name fs. holder t pid = Some p \<and> raw = stat_text name fs \<and>
        list_all clean_field fs \<and> 20 \<le> length fs \<and> fs ! 19 = start_ticks p)) \<and>
     (\<forall>t pid raw. pf_cgroup (files t) pid = Some raw \<longrightarrow> (\<exists>p. holder t pid = Some p \<and> raw = pr_cgroup p t)) \<and>
     (\<forall>t pid raw. pf_mntns (files t) pid = Some raw \<longrightarrow> (\<exists>p. holder t pid = Some p \<and> raw = mnt_link (pr_mntns p t)))"

text \<open>An ID is not given to another process within a tick after its process had it.\<close>

definition slow_reuse :: "(nat \<Rightarrow> u32 \<Rightarrow> process option) \<Rightarrow> bool" where
  "slow_reuse holder \<longleftrightarrow>
     (\<forall>t t' pid p p'. holder t pid = Some p \<and> holder t' pid = Some p' \<and> p \<noteq> p' \<and> t < pr_start p' \<longrightarrow> t + tick \<le> pr_start p')"

definition shown :: "process \<Rightarrow> nat \<Rightarrow> string \<Rightarrow> bool" where
  "shown p t containerID \<longleftrightarrow> search_lines (scan_lines [] (pr_cgroup p t)) = Inr containerID"

text \<open>
  The cache at a time: an entry is right for a process that still has its ID. The \<^verbatim>\<open>cgroup\<close> file may be read
  from another process than the \<^verbatim>\<open>stat\<close> file, but then the first one is gone.
\<close>

definition cache_true :: "(nat \<Rightarrow> u32 \<Rightarrow> process option) \<Rightarrow> nat \<Rightarrow> (string \<rightharpoonup> string) \<Rightarrow> bool" where
  "cache_true holder now cache \<longleftrightarrow>
     (\<forall>pid t p containerID. now \<le> t \<and> holder t pid = Some p \<and> cache (cache_key pid (start_ticks p)) = Some containerID \<longrightarrow>
        (\<exists>t' \<le> now. shown p t' containerID))"

lemma cache_true_later: "cache_true holder now cache \<Longrightarrow> now \<le> now' \<Longrightarrow> cache_true holder now' cache"
  unfolding cache_true_def by (meson le_trans)

lemma holds_back:
  "proc_documented holder files \<Longrightarrow> holder t pid = Some p \<Longrightarrow> pr_start p \<le> t' \<Longrightarrow> t' \<le> t \<Longrightarrow> holder t' pid = Some p"
  unfolding proc_documented_def by blast

lemma starts_before: "proc_documented holder files \<Longrightarrow> holder t pid = Some p \<Longrightarrow> pr_start p \<le> t \<and> pr_start p < 2 ^ 63"
  unfolding proc_documented_def by blast

lemma tick_pos [simp]: "0 < tick"
  by (simp add: tick_def)

lemma ticks_unique:
  assumes "proc_documented holder files" "slow_reuse holder" "holder t pid = Some p" "holder t' pid = Some p'"
    and "start_ticks p = start_ticks p'"
  shows "p = p'"
proof (rule ccontr)
  assume neq: "p \<noteq> p'"
  have start: "holder (pr_start p) pid = Some p" "holder (pr_start p') pid = Some p'"
    using holds_back [OF assms(1)] starts_before [OF assms(1)] assms(3,4) by blast+
  have same: "pr_start p div tick = pr_start p' div tick" using assms(5) by (simp add: start_ticks_def)
  have "\<not> a + tick \<le> b" if "a div tick = b div tick" for a b
    using that div_le_mono [of "a + tick" b tick] div_add_self2 [of tick a] tick_pos by linarith
  then have "\<not> pr_start p < pr_start p'" "\<not> pr_start p' < pr_start p"
    using assms(2) start neq same unfolding slow_reuse_def by metis+
  with start neq show False by (metis linorder_neqE_nat option.inject)
qed

lemma stat_says:
  assumes "proc_documented holder files" "Option.bind (pf_stat (files t) pid) getProcessStartTimeTicks = Some x"
  shows "\<exists>p. holder t pid = Some p \<and> x = start_ticks p"
proof -
  obtain raw where raw: "pf_stat (files t) pid = Some raw" "getProcessStartTimeTicks raw = Some x"
    using assms(2) by (auto simp: Option.bind_eq_Some_conv)
  then obtain p name fs where "holder t pid = Some p" "raw = stat_text name fs" "list_all clean_field fs" "20 \<le> length fs"
    "fs ! 19 = start_ticks p"
    using assms(1) unfolding proc_documented_def by blast
  then show ?thesis using raw(2) stat_ticks by auto
qed

lemma verified:
  assumes "proc_documented holder files" "verifyProcess (pf_stat (files t) pid) link mntns seenAt" "0 < seenAt"
  shows "\<exists>p. holder t pid = Some p \<and> pr_start p < seenAt + tick"
proof -
  obtain raw started where raw: "pf_stat (files t) pid = Some raw" "processStartTime raw = Some started" "started \<le> seenAt"
    using assms(2,3) by (auto simp: verifyProcess_def Option.bind_eq_Some_conv not_less split: option.splits if_splits)
  then obtain x where x: "Option.bind (pf_stat (files t) pid) getProcessStartTimeTicks = Some x" "getProcessStartTimeTicks raw = Some x"
    by (auto simp: processStartTime_def split: option.splits)
  then obtain p where p: "holder t pid = Some p" "x = start_ticks p" using stat_says [OF assms(1)] by blast
  have "pr_start p div tick < 2 ^ 63" using starts_before [OF assms(1) p(1)] div_le_dividend [of "pr_start p" tick] by linarith
  then have "started = pr_start p div tick * tick"
    using raw(2) x(2) p(2) by (auto simp: processStartTime_def start_ticks_def ParseInt_decimal split: if_splits)
  moreover have "pr_start p < pr_start p div tick * tick + tick" using dividend_less_div_times [OF tick_pos] by (simp add: add.commute)
  ultimately show ?thesis using p(1) raw(3) by (intro exI [of _ p]) simp
qed

lemma pid_lookup:
  assumes "proc_documented holder files" "slow_reuse holder" "cache_true holder t1 cache" "t1 \<le> t2"
    and "containerIDForPID (pf_stat (files t1) pid) (pf_cgroup (files t2) pid) pid cache = (res, cache')"
  shows "cache_true holder t2 cache'"
    and "holder t1 pid = Some p \<Longrightarrow> holder t2 pid = Some p \<Longrightarrow> res = Inr containerID \<Longrightarrow> \<exists>t \<le> t2. shown p t containerID"
    and "holder t2 pid = Some p \<Longrightarrow> res = Inl ErrContainerIDNotFound \<Longrightarrow>
      search_lines (scan_lines [] (pr_cgroup p t2)) = Inl ErrContainerIDNotFound"
proof -
  have cgroup: "\<exists>p. holder t2 pid = Some p \<and> raw = pr_cgroup p t2" if "pf_cgroup (files t2) pid = Some raw" for raw
    using assms(1) that unfolding proc_documented_def by blast
  have old: "cache_true holder t2 cache" using cache_true_later [OF assms(3,4)] .
  have "cache_true holder t2 (cache(cache_key pid x \<mapsto> i))"
    if x: "Option.bind (pf_stat (files t1) pid) getProcessStartTimeTicks = Some x"
      and raw: "pf_cgroup (files t2) pid = Some raw" "search_lines (scan_lines [] raw) = Inr i" for x raw i
  proof -
    obtain q where q: "holder t2 pid = Some q" "shown q t2 i" using cgroup [OF raw(1)] raw(2) by (auto simp: shown_def)
    have "q = p" if "t2 \<le> t" "holder t pid = Some p" "start_ticks p = x" for t p
    proof -
      obtain p1 where p1: "holder t1 pid = Some p1" "x = start_ticks p1" using stat_says [OF assms(1) x] by blast
      then have "p1 = p" using ticks_unique [OF assms(1,2)] that(2,3) by metis
      then have "holder t2 pid = Some p"
        using holds_back [OF assms(1) that(2)] starts_before [OF assms(1) p1(1)] that(1) assms(4) by simp
      with q show ?thesis by simp
    qed
    with old q(2) show ?thesis unfolding cache_true_def by (auto simp: cache_key_inject)
  qed
  with old assms(5) show "cache_true holder t2 cache'"
    by (auto simp: containerIDForPID_def split: option.splits sum.splits)
  show "\<exists>t \<le> t2. shown p t containerID" if "holder t1 pid = Some p" "holder t2 pid = Some p" "res = Inr containerID"
    using assms(3,5) that cgroup stat_says [OF assms(1), of t1 pid] le_trans [OF _ assms(4)]
    by (fastforce simp: containerIDForPID_def cache_true_def shown_def split: option.splits sum.splits)
  show "search_lines (scan_lines [] (pr_cgroup p t2)) = Inl ErrContainerIDNotFound"
    if "holder t2 pid = Some p" "res = Inl ErrContainerIDNotFound"
    using assms(5) that cgroup by (auto simp: containerIDForPID_def split: option.splits sum.splits)
qed

text \<open>
  (C11) A key is never assigned to the container of another process that got the ID of the reported
  one. The lookup reads the files of the process one after the other, while processes end and others
  get their IDs. If it finds a container, then the cgroup of the key names it, or the cgroup of the
  very process that was reported did; and it says that the workload has no container only if the cgroup of
  that process names none. The cache stays right for all processes that are still there. This
  needs that an ID is not given to another process within the ten milliseconds that a start time is
  rounded to.
\<close>

theorem container_of_reported:
  assumes "proc_documented holder files" "slow_reuse holder" "cache_true holder t1 cache"
    and "0 < np_seenAt ev" "np_seenAt ev \<le> t1" "t1 \<le> t2" "t2 \<le> t3" "holder (np_seenAt ev) (np_pid ev) = Some p"
    and "containerIDForKey cgroupKeys path (pf_stat (files t1) (np_pid ev)) (pf_cgroup (files t2) (np_pid ev))
      (pf_stat (files t3) (np_pid ev)) (pf_mntns (files t4) (np_pid ev)) ev cache = (res, cache')"
  shows "cache_true holder t2 cache' \<and>
    (\<forall>i. res = Inr i \<longrightarrow> (\<exists>x. cgroupKeys \<and> path = Some x \<and> i \<in> set (find_all_ids x)) \<or> (\<exists>t \<le> t2. shown p t i)) \<and>
    (res = Inl ErrContainerIDNotFound \<longrightarrow> search_lines (scan_lines [] (pr_cgroup p t2)) = Inl ErrContainerIDNotFound)"
proof (cases "cgroupKeys \<and> (\<exists>x. path = Some x \<and> find_all_ids x \<noteq> [])")
  case True
  then show ?thesis
    using assms(9) cache_true_later [OF assms(3,6)] by (auto simp: containerIDForKey_def)
next
  case False
  let ?pid = "np_pid ev"
  obtain r where pid: "containerIDForPID (pf_stat (files t1) ?pid) (pf_cgroup (files t2) ?pid) ?pid cache = (r, cache')"
    and res: "res = Inl Container_error \<or> res = r \<and> verifyProcess (pf_stat (files t3) ?pid) (pf_mntns (files t4) ?pid) (np_mntns ev) (np_seenAt ev)"
    using assms(9) False by (auto simp: containerIDForKey_def Let_def split: prod.splits if_splits option.splits)
  note found = pid_lookup [OF assms(1-3,6) pid]
  have "holder t1 ?pid = Some p" "holder t2 ?pid = Some p"
    if ok: "verifyProcess (pf_stat (files t3) ?pid) (pf_mntns (files t4) ?pid) (np_mntns ev) (np_seenAt ev)"
  proof -
    obtain q where q: "holder t3 ?pid = Some q" "pr_start q < np_seenAt ev + tick" using verified [OF assms(1) ok assms(4)] by blast
    have "pr_start q \<le> np_seenAt ev \<Longrightarrow> q = p"
      using holds_back [OF assms(1) q(1), of "np_seenAt ev"] assms(5-8) by simp
    moreover have "np_seenAt ev < pr_start q \<Longrightarrow> q = p" using assms(2,8) q unfolding slow_reuse_def by force
    ultimately have "q = p" by linarith
    then show "holder t1 ?pid = Some p" "holder t2 ?pid = Some p"
      using holds_back [OF assms(1) q(1)] starts_before [OF assms(1,8)] assms(5-7) by simp_all
  qed
  with res found show ?thesis by blast
qed

lemma scan_one_line: "CHR 0x0A \<notin> set xs \<Longrightarrow> scan_lines l xs = (if l @ xs = [] then [] else [l @ xs])"
  by (induction xs arbitrary: l) auto

lemma find_ids_after:
  assumes "xs \<noteq> []" "length xs \<le> 64" "last xs \<notin> set ''0123456789abcdef''"
  shows "find_all_ids (xs @ ys) = find_all_ids ys"
  using assms
proof (induction xs)
  case (Cons x xs)
  have "last (x # xs) \<in> set (take 64 (x # xs @ ys))" using Cons.prems(2) last_in_set [of "x # xs"] by (simp split: if_splits)
  then have "\<not> is_container_id (take 64 (x # xs @ ys))" using Cons.prems(3) unfolding is_container_id_def list_all_iff by blast
  then show ?case using Cons by (cases xs) (simp_all del: take_Suc_Cons)
qed simp

text \<open>One process, which is in a container from its start on.\<close>

definition lone_process :: process where
  "lone_process = \<lparr>pr_start = 0, pr_cgroup = (\<lambda>_. ''0::/kubepods/'' @ ref_id), pr_mntns = (\<lambda>_. 7)\<rparr>"

definition lone_holder :: "nat \<Rightarrow> u32 \<Rightarrow> process option" where
  "lone_holder t pid = (if pid = 100 then Some lone_process else None)"

definition lone_files :: "nat \<Rightarrow> proc_files" where
  "lone_files t =
     \<lparr>pf_stat = (\<lambda>pid. if pid = 100 then Some (stat_text ''100 (a) b'' (replicate 20 ''0'')) else None),
      pf_cgroup = (\<lambda>pid. map_option (\<lambda>p. pr_cgroup p t) (lone_holder t pid)),
      pf_mntns = (\<lambda>pid. map_option (\<lambda>p. mnt_link (pr_mntns p t)) (lone_holder t pid))\<rparr>"

definition lone_event :: newPidEvent where
  "lone_event = \<lparr>np_pid = 100, np_mntns = 7, np_key = 7, np_generation = 0, np_seenAt = 5\<rparr>"

lemma zero_fields: "list_all clean_field (replicate 20 ''0'')" "replicate 20 ''0'' ! 19 = start_ticks lone_process"
proof -
  have "digit_char 0 = CHR ''0''" by code_simp
  then show "replicate 20 ''0'' ! 19 = start_ticks lone_process"
    by (simp add: start_ticks_def lone_process_def decimal_text.simps)
qed (simp add: list_all_iff clean_field_def white_def)

lemma lone_documented: "proc_documented lone_holder lone_files" "slow_reuse lone_holder"
proof -
  have "pr_start lone_process = 0" by (simp add: lone_process_def)
  moreover have "\<exists>name fs. stat_text ''100 (a) b'' (replicate 20 ''0'') = stat_text name fs \<and> list_all clean_field fs \<and>
      20 \<le> length fs \<and> fs ! 19 = start_ticks lone_process"
    using zero_fields by (metis length_replicate order_refl)
  ultimately show "proc_documented lone_holder lone_files" "slow_reuse lone_holder"
    unfolding proc_documented_def slow_reuse_def by (auto simp: lone_holder_def lone_files_def split: if_splits)
qed

theorem container_of_reported_witness:
  "let found = containerIDForKey False None (pf_stat (lone_files 6) 100) (pf_cgroup (lone_files 7) 100)
       (pf_stat (lone_files 8) 100) (pf_mntns (lone_files 9) 100) lone_event Map.empty
   in fst found = Inr ref_id \<and> cache_true lone_holder 7 (snd found) \<and> (\<exists>t \<le> 7. shown lone_process t ref_id)"
proof -
  let ?stat = "stat_text ''100 (a) b'' (replicate 20 ''0'')" and ?cg = "''0::/kubepods/'' @ ref_id"
  have ticks: "getProcessStartTimeTicks ?stat = Some ''0''" using stat_ticks [OF zero_fields(1)] by simp
  then have "processStartTime ?stat = Some 0" by (simp add: processStartTime_def ParseInt_def tick_def)
  moreover have "search_lines (scan_lines [] ?cg) = Inr ref_id"
  proof -
    have "find_all_ids ref_id = [ref_id]" by code_simp
    then have "find_all_ids ?cg = [ref_id]" using find_ids_after [of "''0::/kubepods/''" ref_id] by simp
    then show ?thesis by (simp add: scan_one_line drop_cr_def ref_id_def)
  qed
  ultimately have found: "containerIDForKey False None (pf_stat (lone_files 6) 100) (pf_cgroup (lone_files 7) 100)
       (pf_stat (lone_files 8) 100) (pf_mntns (lone_files 9) 100) lone_event Map.empty =
     (Inr ref_id, [cache_key 100 ''0'' \<mapsto> ref_id])"
    using ticks by (simp add: containerIDForKey_def containerIDForPID_def verifyProcess_def lone_files_def lone_holder_def
        lone_process_def lone_event_def)
  have "cache_true lone_holder 6 Map.empty" by (simp add: cache_true_def)
  from container_of_reported [OF lone_documented this, of lone_event 7 8 lone_process False None 9] found show ?thesis
    by (simp add: lone_event_def lone_holder_def)
qed

end
