(* ===== verification/End_To_End.thy ===== *)
theory End_To_End
  imports AppArmor_Profile
begin

text \<open>
  Properties of the kernel and the userspace together: what the hooks marked as reported ends up
  in the profile, and two ways in which an access is missing from it.
\<close>

section \<open>Reported capabilities and sockets\<close>

lemma fold_sockets_keeps:
  "covers_use (fst st) use \<Longrightarrow> covers_use (fst (fold (process_sockets b) keys st)) use"
proof (induction keys arbitrary: st)
  case (Cons k keys)
  have "covers_use (fst (process_sockets b k st)) use"
    using Cons.prems by (cases st) (auto simp: process_sockets_def covers_merge split: option.split)
  then show ?case using Cons.IH by simp
qed simp

lemma fold_sockets_adds:
  assumes "ar_recordedSocketsUse b k = Some r" "covers_use r use" "k \<in> set keys"
  shows "covers_use (fst (fold (process_sockets b) keys st)) use"
  using assms(3)
proof (induction keys arbitrary: st)
  case (Cons x keys)
  have "covers_use (fst (process_sockets b k st)) use"
    using assms(1,2) by (cases st) (auto simp: process_sockets_def covers_use_def merge_sockets_def)
  then show ?case using Cons fold_sockets_keeps [of "process_sockets b k st"] by (cases "x = k") auto
qed simp

lemma processCapabilities_mem:
  "cap_known b k n \<Longrightarrow> k \<in> set keys \<Longrightarrow> capabilityToString (int n) \<in> set (fst (processCapabilities b keys))"
  by (force simp: cap_known_def processCapabilities_def Let_def)


definition loaded_recorder :: AppArmorRecorder where
  "loaded_recorder = (newAppArmorRecorder [])\<lparr>ar_loaded := True\<rparr>"

lemma ref_cap_relevant: "cap_relevant ref_config ref_kernel ref_task 21 0 recording_state"
  by (simp add: cap_relevant_def recording_state_def init_state_def get_mntns_def ref_task_def
      unique_keys_def ref_config_def has_filter_def is_container_init_def is_number_def Let_def upt_conv_Cons)


section \<open>Accesses that are missing\<close>

lemma get_mntns_frame:
  "exclude_mntns s' = exclude_mntns s \<Longrightarrow> exclude_keys s' = exclude_keys s \<Longrightarrow> child_pids s' = child_pids s \<Longrightarrow>
   get_mntns C K t s' = get_mntns C K t s"
  by (simp only: get_mntns_def)

lemma clear_apparmor_record:
  assumes "events (snd (clear_apparmor C K t mntns key s)) \<noteq> events s"
  shows "events (snd (clear_apparmor C K t mntns key s)) = events s @
    [wire_header \<lparr>ev_pid = current_pid t, ev_mntns = mntns, ev_key = key, ev_type = EVENT_TYPE_CLEAR_MNTNS, ev_flags = 0\<rparr>]"
  using assms by (cases "rb_room K (events s) sizeof_event_header")
    (auto simp: clear_apparmor_def Let_def submit_event_sent submit_event_lost split: if_splits)

lemma clear_apparmor_lost:
  "length (lost_events (snd (clear_apparmor C K t mntns key s)) c) = length (lost_events s c)"
  by (cases "rb_room K (events s) sizeof_event_header")
    (simp_all add: clear_apparmor_def Let_def submit_event_sent submit_event_lost)

lemma handleEvent_clear_files:
  "clears k raw \<Longrightarrow> ar_recordedFiles (fst (handleEvent raw (b, s))) k = None"
  by (auto simp: clears_def says_def handleEvent_def clearKey_def Clear_def forgetReported_eq clear_data_def
      split: option.splits)

text \<open>
  (C35) The start of a container drops the recorded files in the userspace, but not the last access
  of the threads in the kernel. If the clear record was sent and a thread of the key repeats the
  access it made last, the hook discards it as a repeated one, although the userspace dropped
  the path with the rest of the data of the key.
\<close>

theorem repeated_access_missing_after_clear:
  assumes "bpf_kernel K" "buffers_ok s" "fs_relevant C K t i_mode s" "is_repeat K t f flags s"
    and "s' = snd (clear_apparmor C K t' mntns (get_key C K t (get_mntns C K t s)) s)"
    and "events s' \<noteq> events s"
  shows "register_fs_event C K t f i_mode flags custom s' = Some (0, s') \<and>
    ar_recordedFiles (fst (handleEvent (last (events s')) (b, s'))) (get_key C K t (get_mntns C K t s)) = None"
proof
  have "get_mntns C K t s' = get_mntns C K t s" unfolding assms(5) by (rule get_mntns_frame) simp_all
  then have sel: "fs_relevant C K t i_mode s'" "is_repeat K t f flags s'" "buffers_ok s'"
    using assms(2-4) by (simp_all add: assms(5) fs_relevant_def is_repeat_def buffers_ok_def clear_apparmor_lost)
  from register_fs_event_outcome [OF assms(1) sel(3,1), of f flags custom] sel(2)
  show "register_fs_event C K t f i_mode flags custom s' = Some (0, s')" by auto
  show "ar_recordedFiles (fst (handleEvent (last (events s')) (b, s'))) (get_key C K t (get_mntns C K t s)) = None"
    using clear_apparmor_record [of C K t' mntns "get_key C K t (get_mntns C K t s)" s] assms(5,6)
    by (intro handleEvent_clear_files) simp
qed

theorem repeated_access_missing_after_clear_witness:
  "let s = recording_state\<lparr>last_file_event :=
         [current_tid ref_task \<mapsto> \<lparr>fe_inode = 18, fe_flags = 3, fe_dev = 0, fe_overlay = 0\<rparr>]\<rparr>;
       s' = snd (clear_apparmor ref_config ref_kernel ref_task 7 700 s)
   in length (events s') = 1 \<and>
      register_fs_event ref_config ref_kernel ref_task \<lparr>p_mnt = 0, p_dentry = 18\<rparr> 0 1 False s' = Some (0, s')"
proof -
  let ?s = "recording_state\<lparr>last_file_event :=
      [current_tid ref_task \<mapsto> \<lparr>fe_inode = 18, fe_flags = 3, fe_dev = 0, fe_overlay = 0\<rparr>]\<rparr>"
  let ?s' = "snd (clear_apparmor ref_config ref_kernel ref_task 7 700 ?s)"
  have ok: "buffers_ok ?s" using buffers_ok_init(2) by (simp add: buffers_ok_def)
  have rel: "fs_relevant ref_config ref_kernel ref_task 0 ?s"
    using ref_relevant get_mntns_frame [of ?s recording_state] by (simp add: fs_relevant_def)
  have rep: "is_repeat ref_kernel ref_task \<lparr>p_mnt = 0, p_dentry = 18\<rparr> 1 ?s"
    by (simp add: is_repeat_def repeated_def same_file_def) (simp add: ref_kernel_def)
  have key: "get_key ref_config ref_kernel ref_task m = 700" for m
    by (simp add: get_key_def ref_config_def ref_task_def)
  have init: "events ?s = []" "apparmor_initialized ?s = Map.empty" by (simp_all add: recording_state_def init_state_def)
  have "rb_room ref_kernel [] sizeof_event_header" by (simp add: ref_kernel_def)
  moreover have "fst (upd_apparmor_initialized ref_kernel Map.empty 700 1 BPF_NOEXIST) = 0"
    by (simp add: ref_kernel_def lru_update_def)
  ultimately have len: "length (events ?s') = 1"
    using init by (simp add: clear_apparmor_def Let_def submit_event_sent)
  then have "events ?s' \<noteq> events ?s" using init(1) by auto
  then show ?thesis
    using repeated_access_missing_after_clear [OF ref.bpf_kernel_axioms ok rel rep, of ?s' ref_task 7 False loaded_recorder] len
    by (simp add: Let_def key)
qed


end
