(* ===== verification/Exit_Wait.thy ===== *)
theory Exit_Wait
  imports Prelude
begin

text \<open>
  Waiting for the exit of a process: \<^verbatim>\<open>WaitForPidExit\<close> and \<^verbatim>\<open>handleExitEvent\<close> of \<^verbatim>\<open>bpfrecorder.go\<close>. The
  waiters and the loop that handles the events run at the same time and share two tables: the exits
  seen lately and the channels that are waited on. Every access to a table is one atomic step. The
  steps of a waiter and of the loop follow the order of their statements.
\<close>

section \<open>The tables and the waiters\<close>

text \<open>Where a waiter is: registered, waiting in the \<^verbatim>\<open>select\<close>, about to deregister, or returned.\<close>

datatype phase = Registered | Parked | Leaving bool | Returned bool

record waiter =
  wt_pid :: u32
  wt_chan :: nat
  wt_phase :: phase

text \<open>\<open>ex_handling\<close> is the process whose exit the loop noted but did not announce yet.\<close>

record exits =
  ex_recentExits :: "u32 set"
  ex_exitWaiters :: "u32 \<rightharpoonup> nat"
  ex_closed :: "nat set"
  ex_next :: nat
  ex_waiters :: "waiter list"
  ex_handling :: "u32 option"

definition no_exits :: exits where
  "no_exits = \<lparr>ex_recentExits = {}, ex_exitWaiters = Map.empty, ex_closed = {}, ex_next = 0,
     ex_waiters = [], ex_handling = None\<rparr>"

text \<open>The channel is made before it is known whether another waiter already registered one.\<close>

definition wait_register :: "u32 \<Rightarrow> exits \<Rightarrow> exits" where
  "wait_register pid st =
     (let waiter = (case ex_exitWaiters st pid of None \<Rightarrow> ex_next st | Some c \<Rightarrow> c)
      in st\<lparr>ex_exitWaiters := (ex_exitWaiters st)(pid \<mapsto> waiter), ex_next := ex_next st + 1,
            ex_waiters := ex_waiters st @ [\<lparr>wt_pid = pid, wt_chan = waiter, wt_phase = Registered\<rparr>]\<rparr>)"

definition set_phase :: "nat \<Rightarrow> phase \<Rightarrow> exits \<Rightarrow> exits" where
  "set_phase i ph st = st\<lparr>ex_waiters := (ex_waiters st)[i := (ex_waiters st ! i)\<lparr>wt_phase := ph\<rparr>]\<rparr>"

definition wait_look :: "nat \<Rightarrow> exits \<Rightarrow> exits" where
  "wait_look i st =
     set_phase i (if wt_pid (ex_waiters st ! i) \<in> ex_recentExits st then Leaving True else Parked) st"

text \<open>\<^verbatim>\<open>CompareAndDelete\<close> of the deferred call: the entry is dropped if it still is the channel of the waiter.\<close>

definition wait_deregister :: "nat \<Rightarrow> bool \<Rightarrow> exits \<Rightarrow> exits" where
  "wait_deregister i res st =
     (let w = ex_waiters st ! i;
          st1 = (if ex_exitWaiters st (wt_pid w) = Some (wt_chan w)
                 then st\<lparr>ex_exitWaiters := (ex_exitWaiters st)(wt_pid w := None)\<rparr> else st)
      in set_phase i (Returned res) st1)"

definition exit_note :: "u32 \<Rightarrow> exits \<Rightarrow> exits" where
  "exit_note pid st = st\<lparr>ex_recentExits := insert pid (ex_recentExits st), ex_handling := Some pid\<rparr>"

definition exit_announce :: "u32 \<Rightarrow> exits \<Rightarrow> exits" where
  "exit_announce pid st =
     (case ex_exitWaiters st pid of
        None \<Rightarrow> st\<lparr>ex_handling := None\<rparr>
      | Some c \<Rightarrow> st\<lparr>ex_exitWaiters := (ex_exitWaiters st)(pid := None), ex_closed := insert c (ex_closed st),
                     ex_handling := None\<rparr>)"

section \<open>Steps\<close>

inductive wait_step :: "exits \<Rightarrow> exits \<Rightarrow> bool" where
  register: "wait_step st (wait_register pid st)"
| look: "i < length (ex_waiters st) \<Longrightarrow> wt_phase (ex_waiters st ! i) = Registered \<Longrightarrow> wait_step st (wait_look i st)"
| woken: "i < length (ex_waiters st) \<Longrightarrow> wt_phase (ex_waiters st ! i) = Parked \<Longrightarrow>
    wt_chan (ex_waiters st ! i) \<in> ex_closed st \<Longrightarrow> wait_step st (set_phase i (Leaving True) st)"
| give_up: "i < length (ex_waiters st) \<Longrightarrow> wt_phase (ex_waiters st ! i) = Parked \<Longrightarrow>
    wait_step st (set_phase i (Leaving False) st)"
| deregister: "i < length (ex_waiters st) \<Longrightarrow> wt_phase (ex_waiters st ! i) = Leaving res \<Longrightarrow>
    wait_step st (wait_deregister i res st)"
| note_exit: "ex_handling st = None \<Longrightarrow> wait_step st (exit_note pid st)"
| announce: "ex_handling st = Some pid \<Longrightarrow> wait_step st (exit_announce pid st)"
| expire: "R \<subseteq> ex_recentExits st \<Longrightarrow> wait_step st (st\<lparr>ex_recentExits := R\<rparr>)"

inductive_cases wait_stepE: "wait_step st st'"

abbreviation wait_reach :: "exits \<Rightarrow> bool" where
  "wait_reach \<equiv> wait_step\<^sup>*\<^sup>* no_exits"

lemma reach_start: "wait_reach no_exits" by simp

lemma reach_step: "wait_reach st \<Longrightarrow> wait_step st st' \<Longrightarrow> wait_reach st'" by (rule rtranclp.rtrancl_into_rtrancl)

text \<open>The waiter \<open>i\<close> is the only one there ever was for its process.\<close>

definition sole :: "nat \<Rightarrow> exits \<Rightarrow> bool" where
  "sole i st \<longleftrightarrow> i < length (ex_waiters st) \<and>
     (\<forall>j < length (ex_waiters st). wt_pid (ex_waiters st ! j) = wt_pid (ex_waiters st ! i) \<longrightarrow> j = i)"

definition waits :: "nat \<Rightarrow> exits \<Rightarrow> bool" where
  "waits i st \<longleftrightarrow> i < length (ex_waiters st) \<and> wt_phase (ex_waiters st ! i) \<in> {Registered, Parked}"

lemma set_phase_sel [simp]:
  "ex_recentExits (set_phase i ph st) = ex_recentExits st" "ex_exitWaiters (set_phase i ph st) = ex_exitWaiters st"
  "ex_closed (set_phase i ph st) = ex_closed st" "ex_next (set_phase i ph st) = ex_next st"
  "ex_handling (set_phase i ph st) = ex_handling st" "length (ex_waiters (set_phase i ph st)) = length (ex_waiters st)"
  by (simp_all add: set_phase_def)

lemma set_phase_nth:
  "j < length (ex_waiters st) \<Longrightarrow> ex_waiters (set_phase i ph st) ! j =
     (if j = i then (ex_waiters st ! i)\<lparr>wt_phase := ph\<rparr> else ex_waiters st ! j)"
  by (simp add: set_phase_def)

lemma set_phase_ids [simp]:
  "j < length (ex_waiters st) \<Longrightarrow> wt_pid (ex_waiters (set_phase i ph st) ! j) = wt_pid (ex_waiters st ! j)"
  "j < length (ex_waiters st) \<Longrightarrow> wt_chan (ex_waiters (set_phase i ph st) ! j) = wt_chan (ex_waiters st ! j)"
  by (simp_all add: set_phase_nth)

lemma deregister_sel [simp]:
  "length (ex_waiters (wait_deregister i res st)) = length (ex_waiters st)"
  "ex_closed (wait_deregister i res st) = ex_closed st" "ex_next (wait_deregister i res st) = ex_next st"
  "ex_waiters (wait_deregister i res st) = ex_waiters (set_phase i (Returned res) st)"
  "ex_exitWaiters (wait_deregister i res st) =
     (if ex_exitWaiters st (wt_pid (ex_waiters st ! i)) = Some (wt_chan (ex_waiters st ! i))
      then (ex_exitWaiters st)(wt_pid (ex_waiters st ! i) := None) else ex_exitWaiters st)"
  by (simp_all add: wait_deregister_def Let_def set_phase_def)

lemma announce_sel [simp]:
  "ex_waiters (exit_announce pid st) = ex_waiters st"
  "ex_closed (exit_announce pid st) = (case ex_exitWaiters st pid of None \<Rightarrow> ex_closed st | Some c \<Rightarrow> insert c (ex_closed st))"
  "ex_exitWaiters (exit_announce pid st) = (ex_exitWaiters st)(pid := None)"
  "ex_next (exit_announce pid st) = ex_next st"
  by (auto simp: exit_announce_def fun_eq_iff split: option.split)

section \<open>A single waiter\<close>

text \<open>The channel of a waiter is in the table or closed, as long as nobody else waits for the process.\<close>

definition wait_inv :: "exits \<Rightarrow> bool" where
  "wait_inv st \<longleftrightarrow> (\<forall>i. sole i st \<longrightarrow> waits i st \<longrightarrow>
     (case ex_waiters st ! i of w \<Rightarrow> ex_exitWaiters st (wt_pid w) = Some (wt_chan w) \<or> wt_chan w \<in> ex_closed st))"

lemma wait_inv_phase:
  assumes "wait_inv st" "ph \<in> {Registered, Parked} \<Longrightarrow> wt_phase (ex_waiters st ! i) \<in> {Registered, Parked}"
  shows "wait_inv (set_phase i ph st)"
  unfolding wait_inv_def
proof (intro allI impI)
  fix j
  assume j: "sole j (set_phase i ph st)" "waits j (set_phase i ph st)"
  then have len: "j < length (ex_waiters st)" by (simp add: sole_def)
  have "sole j st" using j(1) by (simp add: sole_def)
  moreover have "waits j st" using j(2) len assms(2) by (auto simp: waits_def set_phase_nth split: if_splits)
  ultimately show "case ex_waiters (set_phase i ph st) ! j of w \<Rightarrow>
      ex_exitWaiters (set_phase i ph st) (wt_pid w) = Some (wt_chan w) \<or> wt_chan w \<in> ex_closed (set_phase i ph st)"
    using assms(1) len by (simp add: wait_inv_def)
qed

lemma wait_inv_deregister:
  assumes "wait_inv st" "i < length (ex_waiters st)"
  shows "wait_inv (wait_deregister i res st)"
  unfolding wait_inv_def
proof (intro allI impI)
  fix j
  assume j: "sole j (wait_deregister i res st)" "waits j (wait_deregister i res st)"
  have len: "j < length (ex_waiters st)" using j(1) by (simp add: sole_def)
  have ne: "j \<noteq> i" using j(2) len by (auto simp: waits_def set_phase_nth split: if_splits)
  have s: "sole j st" using j(1) by (simp add: sole_def)
  then have "wt_pid (ex_waiters st ! i) \<noteq> wt_pid (ex_waiters st ! j)" using ne assms(2) by (auto simp: sole_def)
  moreover have "waits j st" using j(2) len ne by (simp add: waits_def set_phase_nth)
  ultimately show "case ex_waiters (wait_deregister i res st) ! j of w \<Rightarrow>
      ex_exitWaiters (wait_deregister i res st) (wt_pid w) = Some (wt_chan w) \<or> wt_chan w \<in> ex_closed (wait_deregister i res st)"
    using assms(1) s len ne by (simp add: wait_inv_def set_phase_nth)
qed

lemma wait_inv_register:
  assumes "wait_inv st"
  shows "wait_inv (wait_register pid st)"
  unfolding wait_inv_def
proof (intro allI impI)
  fix j
  let ?st = "wait_register pid st"
  have ws: "ex_waiters ?st = ex_waiters st @ [\<lparr>wt_pid = pid, wt_chan =
      (case ex_exitWaiters st pid of None \<Rightarrow> ex_next st | Some c \<Rightarrow> c), wt_phase = Registered\<rparr>]"
    "ex_exitWaiters ?st = (ex_exitWaiters st)(pid \<mapsto> (case ex_exitWaiters st pid of None \<Rightarrow> ex_next st | Some c \<Rightarrow> c))"
    "ex_closed ?st = ex_closed st" by (simp_all add: wait_register_def Let_def)
  assume j: "sole j ?st" "waits j ?st"
  show "case ex_waiters ?st ! j of w \<Rightarrow>
      ex_exitWaiters ?st (wt_pid w) = Some (wt_chan w) \<or> wt_chan w \<in> ex_closed ?st"
  proof (cases "j = length (ex_waiters st)")
    case False
    then have len: "j < length (ex_waiters st)" using j(1) by (simp add: sole_def ws)
    have "length (ex_waiters st) < length (ex_waiters ?st)" by (simp add: ws)
    then have "wt_pid (ex_waiters ?st ! length (ex_waiters st)) \<noteq> wt_pid (ex_waiters ?st ! j)"
      using j(1) False unfolding sole_def by blast
    then have "pid \<noteq> wt_pid (ex_waiters st ! j)" using len by (simp add: ws nth_append)
    moreover have "sole j st" using j(1) len by (auto simp: sole_def ws nth_append)
    moreover have "waits j st" using j(2) len by (simp add: waits_def ws nth_append)
    ultimately show ?thesis using assms len by (simp add: wait_inv_def ws nth_append)
  qed (simp add: ws)
qed

lemma wait_inv_step:
  assumes "wait_step st st'" "wait_inv st"
  shows "wait_inv st'"
  using assms(1)
proof cases
  case (look i)
  then show ?thesis unfolding look(1) wait_look_def by (intro wait_inv_phase [OF assms(2)]) simp
next
  case (woken i)
  show ?thesis unfolding woken(1) by (rule wait_inv_phase [OF assms(2)]) simp
next
  case (give_up i)
  show ?thesis unfolding give_up(1) by (rule wait_inv_phase [OF assms(2)]) simp
next
  case (announce pid)
  show ?thesis
    unfolding wait_inv_def announce(1)
    using assms(2) by (auto simp: wait_inv_def sole_def waits_def split: option.split)
next
  case (note_exit pid)
  then show ?thesis using assms(2) by (simp add: exit_note_def wait_inv_def sole_def waits_def)
next
  case (expire R)
  then show ?thesis using assms(2) by (simp add: wait_inv_def sole_def waits_def)
qed (simp_all add: wait_inv_register wait_inv_deregister assms(2))

lemma wait_inv_reach: "wait_reach st \<Longrightarrow> wait_inv st"
proof (induction rule: rtranclp_induct)
  case base
  then show ?case by (simp add: wait_inv_def no_exits_def sole_def)
qed (rule wait_inv_step)


definition lone_wait :: exits where
  "lone_wait = exit_note 7 (wait_look 0 (wait_register 7 no_exits))"


section \<open>Two waiters\<close>

text \<open>A channel that is open and no longer in the table stays so.\<close>

definition forgotten :: "nat \<Rightarrow> exits \<Rightarrow> bool" where
  "forgotten c st \<longleftrightarrow> c < ex_next st \<and> c \<notin> ex_closed st \<and> (\<forall>p. ex_exitWaiters st p \<noteq> Some c)"

lemma forgotten_step: "wait_step st st' \<Longrightarrow> forgotten c st \<Longrightarrow> forgotten c st'"
  by (induction rule: wait_step.induct)
    (auto simp: forgotten_def wait_register_def wait_look_def exit_note_def Let_def split: option.split)

lemma forgotten_steps: "wait_step\<^sup>*\<^sup>* st st' \<Longrightarrow> forgotten c st \<Longrightarrow> forgotten c st'"
  by (induction rule: rtranclp_induct) (auto intro: forgotten_step)

definition two_parked :: exits where
  "two_parked = wait_look 1 (wait_look 0 (wait_register 7 (wait_register 7 no_exits)))"

definition one_gave_up :: exits where
  "one_gave_up = wait_deregister 0 False (set_phase 0 (Leaving False) two_parked)"

lemmas wait_defs = one_gave_up_def two_parked_def wait_deregister_def wait_look_def wait_register_def
  set_phase_def no_exits_def exit_note_def exit_announce_def

lemma two_parked_eq:
  "two_parked = \<lparr>ex_recentExits = {}, ex_exitWaiters = [7 \<mapsto> 0], ex_closed = {}, ex_next = 2,
     ex_waiters = [\<lparr>wt_pid = 7, wt_chan = 0, wt_phase = Parked\<rparr>, \<lparr>wt_pid = 7, wt_chan = 0, wt_phase = Parked\<rparr>],
     ex_handling = None\<rparr>"
  by (simp add: wait_defs)

lemma one_gave_up_eq:
  "one_gave_up = \<lparr>ex_recentExits = {}, ex_exitWaiters = Map.empty, ex_closed = {}, ex_next = 2,
     ex_waiters = [\<lparr>wt_pid = 7, wt_chan = 0, wt_phase = Returned False\<rparr>, \<lparr>wt_pid = 7, wt_chan = 0, wt_phase = Parked\<rparr>],
     ex_handling = None\<rparr>"
  unfolding one_gave_up_def two_parked_eq by (simp add: wait_deregister_def set_phase_def)

lemma one_gave_up_reach: "wait_reach one_gave_up"
proof -
  have 1: "wait_reach (wait_register 7 (wait_register 7 no_exits))"
    by (rule reach_step [OF reach_step [OF reach_start wait_step.register] wait_step.register])
  have 2: "wait_reach (wait_look 0 (wait_register 7 (wait_register 7 no_exits)))"
    by (rule reach_step [OF 1 wait_step.look]) (simp_all add: wait_defs)
  have "wait_reach two_parked" unfolding two_parked_def
    by (rule reach_step [OF 2 wait_step.look]) (simp_all add: wait_defs)
  then have 3: "wait_reach (set_phase 0 (Leaving False) two_parked)"
    by (rule reach_step [OF _ wait_step.give_up]) (simp_all add: two_parked_eq)
  show ?thesis unfolding one_gave_up_def
    by (rule reach_step [OF 3 wait_step.deregister]) (simp_all add: two_parked_eq set_phase_def)
qed

text \<open>
  (C40) Waiters of the same process share a channel, and the one that gives up takes it from the
  others. There is a run in which two waiters wait for the same process, one gives up, and then the
  loop handles the exit of the process. The other one still waits, and whatever happens from then
  on, its channel is never closed.
\<close>

theorem second_waiter_forgotten:
  "\<exists>st i. wait_reach st \<and> i < length (ex_waiters st) \<and> wt_phase (ex_waiters st ! i) = Parked \<and>
     wt_pid (ex_waiters st ! i) \<in> ex_recentExits st \<and> ex_handling st = None \<and>
     \<not> (\<exists>st'. wait_step\<^sup>*\<^sup>* st st' \<and> wt_chan (ex_waiters st ! i) \<in> ex_closed st')"
proof -
  let ?st = "exit_announce 7 (exit_note 7 one_gave_up)"
  have 1: "wait_reach (exit_note 7 one_gave_up)"
    by (rule reach_step [OF one_gave_up_reach wait_step.note_exit]) (simp add: one_gave_up_eq)
  have 2: "wait_reach ?st"
    by (rule reach_step [OF 1 wait_step.announce]) (simp add: exit_note_def)
  have st: "?st = one_gave_up\<lparr>ex_recentExits := {7}\<rparr>"
    by (simp add: one_gave_up_eq exit_note_def exit_announce_def)
  have "forgotten 0 ?st" unfolding st by (simp add: forgotten_def one_gave_up_eq)
  then have never: "\<forall>st'. wait_step\<^sup>*\<^sup>* ?st st' \<longrightarrow> 0 \<notin> ex_closed st'"
    using forgotten_steps by (auto simp: forgotten_def)
  have w: "length (ex_waiters ?st) = 2" "ex_waiters ?st ! 1 = \<lparr>wt_pid = 7, wt_chan = 0, wt_phase = Parked\<rparr>"
    "ex_recentExits ?st = {7}" "ex_handling ?st = None" unfolding st by (simp_all add: one_gave_up_eq)
  show ?thesis by (rule exI [of _ ?st], rule exI [of _ 1]) (use 2 never w in simp)
qed

end
