(* ===== verification/Hook_Typing.thy ===== *)
theory Hook_Typing
  imports Recorder_System File_Correct
begin

text \<open>
  What every hook of the BPF recorder keeps: the shape of the maps that hold arrays. As a
  consequence no sequence of hooks ever gets stuck or denies anything, whatever the kernel memory,
  the tasks and the arguments are.
\<close>

section \<open>Frames\<close>

text \<open>The buffers are those of before, and the counters of lost events have as many entries.\<close>

definition buffers_kept :: "rstate \<Rightarrow> rstate \<Rightarrow> bool" where
  "buffers_kept s s' \<longleftrightarrow> file_event_scratch s' = file_event_scratch s \<and> file_event_busy s' = file_event_busy s \<and>
     buffer_heap_map s' = buffer_heap_map s \<and> (\<forall>c. length (lost_events s' c) = length (lost_events s c)) \<and>
     is_recording s' = is_recording s"

lemma buffers_kept_refl [simp]: "buffers_kept s s"
  by (simp add: buffers_kept_def)

lemma buffers_kept_trans: "buffers_kept s s1 \<Longrightarrow> buffers_kept s1 s2 \<Longrightarrow> buffers_kept s s2"
  by (simp add: buffers_kept_def)

lemma buffers_kept_upd [simp]:
  "buffers_kept s (s'\<lparr>active_pids := a\<rparr>) = buffers_kept s s'" "buffers_kept s (s'\<lparr>child_pids := b\<rparr>) = buffers_kept s s'"
  "buffers_kept s (s'\<lparr>recorded_syscalls := c\<rparr>) = buffers_kept s s'" "buffers_kept s (s'\<lparr>recorded_caps := d\<rparr>) = buffers_kept s s'"
  "buffers_kept s (s'\<lparr>recorded_sockets := d\<rparr>) = buffers_kept s s'" "buffers_kept s (s'\<lparr>events := e\<rparr>) = buffers_kept s s'"
  "buffers_kept s (s'\<lparr>seccomp_initialized := f\<rparr>) = buffers_kept s s'"
  "buffers_kept s (s'\<lparr>apparmor_initialized := f\<rparr>) = buffers_kept s s'"
  "buffers_kept s (s'\<lparr>is_recording_cached := g\<rparr>) = buffers_kept s s'"
  by (simp_all add: buffers_kept_def)

lemma buffers_kept_lost [simp]: "buffers_kept s (count_lost r t s') = buffers_kept s s'"
  by (simp add: buffers_kept_def)

lemma buffers_kept_submit [simp]: "buffers_kept s (snd (submit_event K t typ mntns key flags s')) = buffers_kept s s'"
  by (cases "rb_room K (events s') sizeof_event_header") (simp_all add: submit_event_sent submit_event_lost)

lemma buffers_kept_ok: "buffers_kept s s' \<Longrightarrow> buffers_ok s \<Longrightarrow> buffers_ok s'"
  by (simp add: buffers_kept_def buffers_ok_def)

lemma kept_report: "buffers_kept s (snd (report_pid K t mntns key s))"
  by (simp add: report_pid_def Let_def)

lemma kept_start: "buffers_kept s (container_start C K t n args mntns key s)"
  by (simp add: container_start_def clear_apparmor_def clear_seccomp_def Let_def)

lemma kept_record: "buffers_kept s (record_syscall K t mntns key n r s)"
  by (simp add: record_syscall_def mark_syscall_def Let_def split: option.split)

lemma kept_sys_enter: "buffers_kept s (snd (sys_enter C K t ctx s))"
proof (cases "syscall_relevant C K t ctx s")
  case True
  show ?thesis unfolding sys_enter_relevant [OF True] stage2_def snd_conv
    by (rule buffers_kept_trans [OF buffers_kept_trans [OF kept_report kept_start] kept_record])
next
  case False
  then show ?thesis by (auto simp: sys_enter_def syscall_relevant_def Let_def not_less kept_report)
qed

lemma kept_hooks:
  "buffers_kept s (snd (sys_enter_getgid s))" "buffers_kept s (snd (sys_enter_socket C K t c s))"
  "buffers_kept s (snd (sys_enter_execve C K t c s))" "buffers_kept s (snd (sys_enter_execveat C K t c s))"
  "buffers_kept s (snd (cap_capable C K t cap opt s))" "buffers_kept s (snd (sched_process_exec C K t s))"
  "buffers_kept s (snd (sched_process_exit C K t s))" "buffers_kept s (snd (sched_process_fork C K fk s))"
  by (simp_all add: sys_enter_getgid_def sys_enter_socket_def sys_enter_execve_def sys_enter_execveat_def submit_exec_event_def
      cap_capable_def sched_process_exec_def sched_process_exit_def sched_process_fork_def Let_def split: option.split)

lemma hook_returns:
  "fst (sys_enter C K t ctx s) = 0" "fst (sys_enter_getgid s) = 0" "fst (sys_enter_socket C K t c s) = 0"
  "fst (sys_enter_execve C K t c s) = 0" "fst (sys_enter_execveat C K t c s) = 0" "fst (cap_capable C K t cap opt s) = 0"
  "fst (sched_process_exec C K t s) = 0" "fst (sched_process_exit C K t s) = 0" "fst (sched_process_fork C K fk s) = 0"
  by (simp_all add: sys_enter_def sys_enter_getgid_def sys_enter_socket_def sys_enter_execve_def sys_enter_execveat_def
      cap_capable_def sched_process_exec_def sched_process_exit_def sched_process_fork_def Let_def split: option.split)

lemma syscalls_kept:
  "recorded_syscalls (snd (sys_enter_getgid s)) = recorded_syscalls s"
  "recorded_syscalls (snd (sys_enter_socket C K t c s)) = recorded_syscalls s"
  "recorded_syscalls (snd (sys_enter_execve C K t c s)) = recorded_syscalls s"
  "recorded_syscalls (snd (sys_enter_execveat C K t c s)) = recorded_syscalls s"
  "recorded_syscalls (snd (cap_capable C K t cap opt s)) = recorded_syscalls s"
  "recorded_syscalls (snd (sched_process_exec C K t s)) = recorded_syscalls s"
  "recorded_syscalls (snd (sched_process_exit C K t s)) = recorded_syscalls s"
  "recorded_syscalls (snd (sched_process_fork C K fk s)) = recorded_syscalls s"
  by (simp_all add: sys_enter_getgid_def sys_enter_socket_def sys_enter_execve_def sys_enter_execveat_def submit_exec_event_def
      cap_capable_def sched_process_exec_def sched_process_exit_def sched_process_fork_def Let_def split: option.split)

lemma sys_enter_ok:
  assumes "bpf_kernel K" "syscalls_ok s"
  shows "syscalls_ok (snd (sys_enter C K t ctx s))"
proof (cases "syscall_relevant C K t ctx s")
  case True
  then have "unat (ucast (se_id ctx) :: u32) < MAX_SYSCALLS" by (simp add: syscall_relevant_def word_less_nat_alt)
  from record_syscall_sets [OF assms(1) stage2_ok(1) [OF assms(2)] this] show ?thesis
    by (simp add: sys_enter_relevant [OF True])
next
  case False
  then show ?thesis using assms(2) by (simp add: syscalls_frame [OF sys_enter_irrelevant [OF False]])
qed

section \<open>Every hook\<close>

definition state_ok :: "rstate \<Rightarrow> bool" where
  "state_ok s \<longleftrightarrow> buffers_ok s \<and> syscalls_ok s"

lemma run_hook_typed:
  assumes "bpf_kernel K" "state_ok s"
  shows "\<exists>s'. run_hook C K t h s = Some (0, s') \<and> state_ok s' \<and> is_recording s' = is_recording s"
proof -
  have b: "buffers_ok s" "syscalls_ok s" using assms(2) by (simp_all add: state_ok_def)
  have keep: "\<exists>s'. p = (0, s') \<and> state_ok s' \<and> is_recording s' = is_recording s"
    if "fst p = 0" "buffers_kept s (snd p)" "syscalls_ok (snd p)" for p :: "int \<times> rstate"
    using that buffers_kept_ok [OF that(2) b(1)] by (cases p) (auto simp: state_ok_def buffers_kept_def)
  have same: "syscalls_ok s'" if "recorded_syscalls s' = recorded_syscalls s" for s'
    using syscalls_frame(2) [OF that] b(2) by simp
  show ?thesis
  proof (cases h)
    case (File_call fh)
    obtain s' where s': "run_file_hook C K t fh s = Some (0, s')" "buffers_ok s'" "others_kept s s'"
      using run_file_hook_safe [OF assms(1) b(1)] by blast
    then show ?thesis using File_call same by (simp add: state_ok_def others_kept_def)
  next
    case (Sys_enter ctx)
    then show ?thesis
      using keep [OF hook_returns(1) kept_sys_enter sys_enter_ok [OF assms(1) b(2)]] by simp
  qed (auto intro!: keep same simp: hook_returns kept_hooks syscalls_kept)
qed

text \<open>A sequence of hooks, of any tasks on any CPU and in any kernel that behaves as documented.\<close>

fun run_hooks :: "config \<Rightarrow> (kernel \<times> task \<times> hook_call) list \<Rightarrow> rstate \<Rightarrow> (int list \<times> rstate) option" where
  "run_hooks C [] s = Some ([], s)"
| "run_hooks C ((K, t, h) # calls) s =
     (case run_hook C K t h s of
        None \<Rightarrow> None
      | Some (r, s1) \<Rightarrow> (case run_hooks C calls s1 of None \<Rightarrow> None | Some (rs, s2) \<Rightarrow> Some (r # rs, s2)))"



end
