(* ===== verification/Init_Config.thy ===== *)
theory Init_Config
  imports Filters
begin

text \<open>
  The userspace side of the container start detection: \<^verbatim>\<open>initCommsValue\<close> and
  \<^verbatim>\<open>initExePrefixValue\<close> of \<^verbatim>\<open>bpfrecorder.go\<close> lay the names of the container init processes out
  as the arrays the BPF program compares with. Both sides together recognise exactly the
  configured names.
\<close>

datatype init_error = Too_many_comms nat | Bad_comm "u8 list" | Bad_prefix "u8 list"

abbreviation (input) maxInitComms :: nat where "maxInitComms \<equiv> 4"
abbreviation (input) taskCommLen :: nat where "taskCommLen \<equiv> 16"
abbreviation (input) initExePrefixLen :: nat where "initExePrefixLen \<equiv> 32"

text \<open>Go's \<^verbatim>\<open>copy(dst[off:], src)\<close>, which stops at the end of the shorter slice.\<close>

definition go_copy :: "u8 list \<Rightarrow> nat \<Rightarrow> u8 list \<Rightarrow> u8 list" where
  "go_copy dst off src =
     take off dst @ take (length dst - off) src @ drop (off + length src) dst"

primrec initCommsLoop :: "u8 list list \<Rightarrow> nat \<Rightarrow> u8 list \<Rightarrow> init_error + u8 list" where
  "initCommsLoop [] i value = Inr value"
| "initCommsLoop (comm # comms) i value =
     (if comm = [] \<or> length comm \<ge> taskCommLen then Inl (Bad_comm comm)
      else initCommsLoop comms (Suc i) (go_copy value (i * taskCommLen) comm))"

definition initCommsValue :: "u8 list list \<Rightarrow> init_error + u8 list" where
  "initCommsValue comms =
     (if length comms > maxInitComms then Inl (Too_many_comms (length comms))
      else initCommsLoop comms 0 (replicate (maxInitComms * taskCommLen) 0))"

definition initExePrefixValue :: "u8 list \<Rightarrow> init_error + u8 list" where
  "initExePrefixValue pre =
     (if length pre \<ge> initExePrefixLen then Inl (Bad_prefix pre)
      else Inr (go_copy (replicate initExePrefixLen 0) 0 pre))"

definition containerInitComms :: "u8 list list" where
  "containerInitComms =
     [bytes_of ''runc:[2:INIT]'', bytes_of ''youki:[2:INIT]'', bytes_of ''crun'',
      bytes_of ''memfd:crun_clon'']"

definition containerInitExePrefix :: "u8 list" where
  "containerInitExePrefix = bytes_of ''memfd:crun_cloned''"

text \<open>The flat value read as a C array of \<open>n\<close> rows of \<open>w\<close> bytes.\<close>

definition rows :: "nat \<Rightarrow> nat \<Rightarrow> u8 list \<Rightarrow> u8 list list" where
  "rows n w bs = map (\<lambda>i. take w (drop (i * w) bs)) [0..<n]"

section \<open>The layout of the names\<close>

lemma go_copy_length: "length (go_copy dst off src) = length dst \<or> length dst < off"
  by (auto simp: go_copy_def)

lemma rows_concat:
  assumes "\<forall>r \<in> set rs. length r = w" "length rs = n"
  shows "rows n w (concat rs) = rs"
  using assms
proof (induction rs arbitrary: n)
  case Nil
  then show ?case by (simp add: rows_def)
next
  case (Cons r rs)
  then obtain m where n: "n = Suc m" by (cases n) auto
  have "[0..<Suc m] = 0 # map Suc [0..<m]"
    by (simp add: map_Suc_upt upt_conv_Cons del: upt_Suc)
  moreover have "take w (drop (Suc i * w) (r @ concat rs)) = take w (drop (i * w) (concat rs))" for i
    using Cons.prems by simp
  ultimately show ?case
    using Cons.IH [of m] Cons.prems n by (simp add: rows_def o_def)
qed

text \<open>One round of the loop fills the row \<open>i\<close>, the rows after it still are zero.\<close>

lemma go_copy_row:
  assumes "\<forall>r \<in> set done. length r = taskCommLen" "length comm < taskCommLen"
  shows "go_copy (concat done @ replicate (Suc n * taskCommLen) 0) (length done * taskCommLen) comm =
    concat (done @ [pad taskCommLen comm]) @ replicate (n * taskCommLen) 0"
proof -
  have len: "length (concat done) = length done * taskCommLen"
    using assms(1) by (induction "done") auto
  have "replicate (Suc n * taskCommLen) (0::u8) =
      replicate (length comm) 0 @ replicate (taskCommLen - length comm) 0 @ replicate (n * taskCommLen) 0"
    using assms(2) by (simp flip: replicate_add)
  then show ?thesis
    using assms(2) by (simp add: go_copy_def len pad_def)
qed

lemma initCommsLoop_rows:
  assumes "\<forall>r \<in> set done. length r = taskCommLen"
    and "initCommsLoop comms (length done) (concat done @ replicate ((length comms + n) * taskCommLen) 0) = Inr v"
  shows "v = concat (done @ map (pad taskCommLen) comms) @ replicate (n * taskCommLen) 0 \<and>
    (\<forall>c \<in> set comms. c \<noteq> [] \<and> length c < taskCommLen)"
  using assms
proof (induction comms arbitrary: "done")
  case Nil
  then show ?case by simp
next
  case (Cons c cs)
  then have c: "c \<noteq> []" "length c < taskCommLen" by (auto split: if_splits)
  let ?done = "done @ [pad taskCommLen c]"
  have "go_copy (concat done @ replicate ((length (c # cs) + n) * taskCommLen) 0)
      (length done * taskCommLen) c = concat ?done @ replicate ((length cs + n) * taskCommLen) 0"
    using go_copy_row [OF Cons.prems(1) c(2), of "length cs + n"] by simp
  with Cons.prems(2) c have "initCommsLoop cs (length ?done)
      (concat ?done @ replicate ((length cs + n) * taskCommLen) 0) = Inr v"
    by (simp split: if_splits)
  moreover have "\<forall>r \<in> set ?done. length r = taskCommLen" using Cons.prems(1) c by auto
  ultimately show ?case using Cons.IH [of ?done] c by simp
qed

lemma initCommsValue_rows:
  assumes "initCommsValue comms = Inr v"
  shows "rows maxInitComms taskCommLen v =
      map (pad taskCommLen) comms @ replicate (maxInitComms - length comms) (replicate taskCommLen 0)"
    and "\<forall>c \<in> set comms. c \<noteq> [] \<and> length c < taskCommLen" and "length comms \<le> maxInitComms"
proof -
  show len: "length comms \<le> maxInitComms"
    using assms by (auto simp: initCommsValue_def split: if_splits)
  define n where "n = maxInitComms - length comms"
  have "length comms + n = maxInitComms" using len by (simp add: n_def)
  then have "initCommsLoop comms (length ([] :: u8 list list))
      (concat [] @ replicate ((length comms + n) * taskCommLen) 0) = Inr v"
    using assms len by (simp add: initCommsValue_def)
  from initCommsLoop_rows [OF _ this]
  have v: "v = concat (map (pad taskCommLen) comms) @ replicate (n * taskCommLen) 0"
    and cs: "\<forall>c \<in> set comms. c \<noteq> [] \<and> length c < taskCommLen" by auto
  show "\<forall>c \<in> set comms. c \<noteq> [] \<and> length c < taskCommLen" by (rule cs)
  have "replicate (n * taskCommLen) (0::u8) = concat (replicate n (replicate taskCommLen 0))"
    by (induction n) (simp_all add: replicate_add)
  then have "v = concat (map (pad taskCommLen) comms @ replicate n (replicate taskCommLen 0))"
    using v by simp
  moreover have "rows maxInitComms taskCommLen
      (concat (map (pad taskCommLen) comms @ replicate n (replicate taskCommLen 0))) =
      map (pad taskCommLen) comms @ replicate n (replicate taskCommLen 0)"
    by (rule rows_concat) (use cs len in \<open>auto simp: n_def\<close>)
  ultimately show "rows maxInitComms taskCommLen v =
      map (pad taskCommLen) comms @ replicate (maxInitComms - length comms) (replicate taskCommLen 0)"
    by (simp add: n_def)
qed

lemma initExePrefixValue_pad:
  "initExePrefixValue pre = Inr v \<Longrightarrow> v = pad initExePrefixLen pre \<and> length pre < initExePrefixLen"
  by (auto simp: initExePrefixValue_def go_copy_def pad_def split: if_splits)

section \<open>Recognition\<close>

lemma init_comm_loop_rows:
  assumes "length comm = TASK_COMM_LEN" "n \<le> length rs"
    and "\<forall>r \<in> set rs. length r = TASK_COMM_LEN" "init_comms C = rs"
  shows "init_comm_loop C comm [i..<n] \<longleftrightarrow>
    (\<exists>r \<in> set (takeWhile (\<lambda>r. r ! 0 \<noteq> 0) (drop i (take n rs))). cstr comm = cstr r)"
  using assms
proof (induction "n - i" arbitrary: i)
  case 0
  then show ?case by simp
next
  case (Suc d)
  then have i: "i < n" and d: "d = n - Suc i" by auto
  then have dr: "drop i (take n rs) = rs ! i # drop (Suc i) (take n rs)"
    using Suc.prems by (simp add: Cons_nth_drop_Suc [symmetric])
  have up: "[i..<n] = i # [Suc i..<n]" using i by (simp add: upt_conv_Cons)
  have "length (rs ! i) = TASK_COMM_LEN" using Suc.prems i by simp
  then have "comm_loop comm (rs ! i) [0..<TASK_COMM_LEN] \<longleftrightarrow> cstr comm = cstr (rs ! i)"
    using Suc.prems(1) by (subst comm_loop_eq) auto
  then show ?case
    using Suc.hyps(1) [OF d Suc.prems] by (auto simp: up dr Suc.prems(4))
qed

lemma init_comm_loop_comms:
  assumes "initCommsValue comms = Inr v" "\<forall>c \<in> set comms. 0 \<notin> set c"
    and "init_comms C = rows maxInitComms taskCommLen v" "task_ok t"
  shows "init_comm_loop C (t_comm t) [0..<MAX_INIT_COMMS] \<longleftrightarrow> cstr (t_comm t) \<in> set comms"
proof -
  note layout = initCommsValue_rows [OF assms(1)]
  define rs where "rs = map (pad taskCommLen) comms @
      replicate (maxInitComms - length comms) (replicate taskCommLen 0)"
  have rs: "init_comms C = rs" "length rs = maxInitComms" "\<forall>r \<in> set rs. length r = TASK_COMM_LEN"
    using layout assms(3) by (auto simp: rs_def)
  have "takeWhile (\<lambda>r. r ! 0 \<noteq> 0) rs = map (pad taskCommLen) comms"
  proof -
    have "\<forall>r \<in> set (map (pad taskCommLen) comms). r ! 0 \<noteq> 0"
    proof
      fix r assume "r \<in> set (map (pad taskCommLen) comms)"
      then obtain c where c: "c \<in> set comms" "r = pad taskCommLen c" by auto
      then have "c \<noteq> []" "0 \<notin> set c" using layout(2) assms(2) by auto
      then show "r ! 0 \<noteq> 0" using c by (cases c) (auto simp: pad_def)
    qed
    moreover have "takeWhile (\<lambda>r. r ! 0 \<noteq> 0) (replicate m (replicate taskCommLen (0::u8))) = []" for m
      by (cases m) auto
    ultimately show ?thesis unfolding rs_def by (subst takeWhile_append2) auto
  qed
  then have "init_comm_loop C (t_comm t) [0..<MAX_INIT_COMMS] \<longleftrightarrow>
      (\<exists>c \<in> set comms. cstr (t_comm t) = cstr (pad taskCommLen c))"
    using init_comm_loop_rows [of "t_comm t" MAX_INIT_COMMS rs C 0] rs assms(4)
    by (auto simp: task_ok_def)
  then show ?thesis using assms(2) by (auto simp: cstr_pad)
qed

lemma exe_has_init_prefix_name:
  assumes "bpf_kernel K" "initExePrefixValue pre = Inr (init_exe_prefix C)" "0 \<notin> set pre"
  shows "exe_has_init_prefix C K t \<longleftrightarrow> pre \<noteq> [] \<and> t_exe_name t \<noteq> 0 \<and>
    (\<exists>name rest. bpf_probe_read_kernel_str K (t_exe_name t) INIT_EXE_PREFIX_LEN = Some (name @ [0]) \<and>
       name = pre @ rest)"
proof -
  note p = initExePrefixValue_pad [OF assms(2)]
  have p0: "init_exe_prefix C ! 0 = 0 \<longleftrightarrow> pre = []"
    using assms(3) p by (cases pre) (auto simp: pad_def)
  have cp: "cstr (init_exe_prefix C) = pre" using p assms(3) by (simp add: cstr_pad)
  show ?thesis
  proof (cases "bpf_probe_read_kernel_str K (t_exe_name t) INIT_EXE_PREFIX_LEN")
    case None
    then show ?thesis by (simp add: exe_has_init_prefix_def)
  next
    case (Some bs)
    then have cs: "c_string_of_size INIT_EXE_PREFIX_LEN bs"
      using bpf_kernel.kernel_str [OF assms(1)] by simp
    then obtain name where bs: "bs = name @ [0]" and nz: "0 \<notin> set name" and len: "length bs \<le> 32"
      by (metis append_butlast_last_id c_string_of_size_def)
    let ?exe = "bs @ drop (length bs) (replicate INIT_EXE_PREFIX_LEN 0)"
    have "exe_prefix_loop ?exe (init_exe_prefix C) [0..<INIT_EXE_PREFIX_LEN] \<longleftrightarrow>
        (\<exists>rest. ?exe = pre @ rest)"
      using exe_prefix_range [of INIT_EXE_PREFIX_LEN ?exe "init_exe_prefix C" 0] len p cp by simp
    also have "\<dots> \<longleftrightarrow> (\<exists>rest. name = pre @ rest)"
      using prefix_before_NUL [OF assms(3), of name "drop (length bs) (replicate INIT_EXE_PREFIX_LEN 0)"]
      by (simp add: bs)
    finally show ?thesis using Some p0 bs by (auto simp: exe_has_init_prefix_def)
  qed
qed

text \<open>
  With the names and the executable prefix the userspace accepted, the BPF program takes a
  task for a container init process exactly if its name is one of the configured ones, or if
  its name is a non-empty decimal number and the name of its executable has the configured
  prefix.
\<close>

theorem is_container_init_spec:
  assumes "bpf_kernel K" "task_ok t"
    and "initCommsValue comms = Inr v" "init_comms C = rows maxInitComms taskCommLen v"
    and "\<forall>c \<in> set comms. 0 \<notin> set c"
    and "initExePrefixValue pre = Inr (init_exe_prefix C)" "0 \<notin> set pre"
  shows "is_container_init C K t \<longleftrightarrow>
    cstr (t_comm t) \<in> set comms \<or>
    (cstr (t_comm t) \<noteq> [] \<and> (\<forall>b \<in> set (cstr (t_comm t)). 48 \<le> b \<and> b \<le> 57) \<and>
     pre \<noteq> [] \<and> t_exe_name t \<noteq> 0 \<and>
     (\<exists>name rest. bpf_probe_read_kernel_str K (t_exe_name t) INIT_EXE_PREFIX_LEN = Some (name @ [0]) \<and>
        name = pre @ rest))"
proof -
  have "t_comm t ! 0 = 0 \<longleftrightarrow> cstr (t_comm t) = []"
    using assms(2) by (cases "t_comm t") (auto simp: task_ok_def cstr_Cons)
  then have "is_number (t_comm t) \<longleftrightarrow>
      cstr (t_comm t) \<noteq> [] \<and> (\<forall>b \<in> set (cstr (t_comm t)). 48 \<le> b \<and> b \<le> 57)"
    using is_number_range [of TASK_COMM_LEN "t_comm t" 0] task_ok_comm(3) [OF assms(2)] assms(2)
    by (auto simp: is_number_def task_ok_def)
  then show ?thesis
    using init_comm_loop_comms [OF assms(3,5,4,2)] exe_has_init_prefix_name [OF assms(1,6,7)]
    by (auto simp: is_container_init_def Let_def)
qed

text \<open>
  The names and the prefix the recorder is shipped with are accepted, and the init process of
  crun is recognised with them.
\<close>

lemma containerInitComms_value:
  "initCommsValue containerInitComms =
     Inr (concat (map (pad taskCommLen) containerInitComms))"
  by (simp add: initCommsValue_def containerInitComms_def bytes_of_def go_copy_def pad_def
      numeral_eq_Suc)

theorem is_container_init_spec_witness:
  "let C = ref_config\<lparr>init_comms := rows maxInitComms taskCommLen
             (concat (map (pad taskCommLen) containerInitComms)),
             init_exe_prefix := pad initExePrefixLen containerInitExePrefix\<rparr>;
       t = ref_task\<lparr>t_comm := pad taskCommLen (bytes_of ''crun'')\<rparr>
   in task_ok t \<and> is_container_init C ref_kernel t"
proof -
  let ?v = "concat (map (pad taskCommLen) containerInitComms)"
  let ?C = "ref_config\<lparr>init_comms := rows maxInitComms taskCommLen ?v,
             init_exe_prefix := pad initExePrefixLen containerInitExePrefix\<rparr>"
  let ?t = "ref_task\<lparr>t_comm := pad taskCommLen (bytes_of ''crun'')\<rparr>"
  have t: "task_ok ?t" by (simp add: task_ok_def pad_def bytes_of_def)
  have nz: "\<forall>c \<in> set containerInitComms. 0 \<notin> set c" "0 \<notin> set containerInitExePrefix"
    by (simp_all add: containerInitComms_def containerInitExePrefix_def bytes_of_def)
  have pre: "initExePrefixValue containerInitExePrefix = Inr (init_exe_prefix ?C)"
    by (simp add: initExePrefixValue_def containerInitExePrefix_def bytes_of_def go_copy_def pad_def)
  have "cstr (t_comm ?t) = bytes_of ''crun''"
    by (simp add: cstr_pad bytes_of_def)
  then have "cstr (t_comm ?t) \<in> set containerInitComms" by (simp add: containerInitComms_def)
  then have "is_container_init ?C ref_kernel ?t"
    using is_container_init_spec [OF ref.bpf_kernel_axioms t containerInitComms_value _ nz(1) pre nz(2)]
    by simp
  with t show ?thesis by (simp add: Let_def)
qed

end
