(* ===== verification/C_Layout.thy ===== *)
theory C_Layout
  imports Prelude
begin

text \<open>
  The layout of C structures on a 64 bit target. The BPF programs are compiled against the
  kernel structures of \<^verbatim>\<open>vmlinux.h\<close> and read their fields by offset. This theory holds the types,
  the placement of the members the compiler uses, the lookup of a field through anonymous
  members, and the facts that make a field access sound: a field lies within its structure, is
  aligned, and shares no byte with the other members.
\<close>

section \<open>Types\<close>

datatype ikind = Bool_k | Char_k | Schar_k | Uchar_k | Short_k | Ushort_k | Int_k | Uint_k
  | Long_k | Ulong_k | Llong_k | Ullong_k | Uint128_k

fun ksize :: "ikind \<Rightarrow> nat" where
  "ksize Bool_k = 1"
| "ksize Char_k = 1"
| "ksize Schar_k = 1"
| "ksize Uchar_k = 1"
| "ksize Short_k = 2"
| "ksize Ushort_k = 2"
| "ksize Int_k = 4"
| "ksize Uint_k = 4"
| "ksize Long_k = 8"
| "ksize Ulong_k = 8"
| "ksize Llong_k = 8"
| "ksize Ullong_k = 8"
| "ksize Uint128_k = 16"

text \<open>
  A pointer carries the name of what it points to, which is how an access continues behind it.
  An aggregate is packed or not. An anonymous member and an unnamed bit field have the empty
  name.
\<close>

datatype ctype =
    CInt ikind
  | CEnum ikind "(string \<times> int) list"
  | CPtr string
  | CArr ctype nat
  | CStruct bool "cmember list"
  | CUnion bool "cmember list"
and cmember =
    Mem string ctype
  | Bits string ikind nat

section \<open>Size and alignment\<close>

definition round_up :: "nat \<Rightarrow> nat \<Rightarrow> nat" where
  "round_up n a = (n + (a - 1)) div a * a"

fun calign :: "ctype \<Rightarrow> nat" and maligns :: "cmember list \<Rightarrow> nat" where
  "calign (CInt k) = ksize k"
| "calign (CEnum k es) = ksize k"
| "calign (CPtr s) = 8"
| "calign (CArr t n) = calign t"
| "calign (CStruct packed ms) = (if packed then 1 else maligns ms)"
| "calign (CUnion packed ms) = (if packed then 1 else maligns ms)"
| "maligns [] = 1"
| "maligns (Mem f t # ms) = max (calign t) (maligns ms)"
| "maligns (Bits f k w # ms) = max (if f = '''' then 1 else ksize k) (maligns ms)"

text \<open>
  The bit where a member starts that follows \<open>pos\<close> bits. A bit field moves on to the next unit
  of its type if it would cross one, and one of width zero always does.
\<close>

fun member_at :: "bool \<Rightarrow> nat \<Rightarrow> cmember \<Rightarrow> nat" where
  "member_at packed pos (Mem f t) = round_up pos (if packed then 8 else 8 * calign t)"
| "member_at packed pos (Bits f k w) =
     (let unit = 8 * ksize k
      in if w = 0 then round_up pos unit
         else if \<not> packed \<and> pos mod unit + w > unit then round_up pos unit
         else pos)"

fun csize :: "ctype \<Rightarrow> nat"
  and member_bits :: "cmember \<Rightarrow> nat"
  and struct_end :: "bool \<Rightarrow> nat \<Rightarrow> cmember list \<Rightarrow> nat"
  and union_end :: "cmember list \<Rightarrow> nat" where
  "csize (CInt k) = ksize k"
| "csize (CEnum k es) = ksize k"
| "csize (CPtr s) = 8"
| "csize (CArr t n) = csize t * n"
| "csize (CStruct packed ms) =
     round_up (struct_end packed 0 ms) (8 * (if packed then 1 else maligns ms)) div 8"
| "csize (CUnion packed ms) =
     round_up (union_end ms) (8 * (if packed then 1 else maligns ms)) div 8"
| "member_bits (Mem f t) = 8 * csize t"
| "member_bits (Bits f k w) = w"
| "struct_end packed pos [] = pos"
| "struct_end packed pos (m # ms) = struct_end packed (member_at packed pos m + member_bits m) ms"
| "union_end [] = 0"
| "union_end (m # ms) = max (member_bits m) (union_end ms)"

section \<open>Fields\<close>

text \<open>
  The offset, in bits, and the type of a field. The fields of an anonymous member are fields of
  the aggregate around it. Bit fields have no address and are not found.
\<close>

fun find_field :: "ctype \<Rightarrow> string \<Rightarrow> (nat \<times> ctype) option"
  and find_struct :: "bool \<Rightarrow> nat \<Rightarrow> cmember list \<Rightarrow> string \<Rightarrow> (nat \<times> ctype) option"
  and find_union :: "cmember list \<Rightarrow> string \<Rightarrow> (nat \<times> ctype) option"
  and find_member :: "cmember \<Rightarrow> string \<Rightarrow> (nat \<times> ctype) option" where
  "find_field (CStruct packed ms) f = find_struct packed 0 ms f"
| "find_field (CUnion packed ms) f = find_union ms f"
| "find_field (CInt k) f = None"
| "find_field (CEnum k es) f = None"
| "find_field (CPtr s) f = None"
| "find_field (CArr t n) f = None"
| "find_struct packed pos [] f = None"
| "find_struct packed pos (m # ms) f =
     (case find_member m f of
        Some (o', u) \<Rightarrow> Some (member_at packed pos m + o', u)
      | None \<Rightarrow> find_struct packed (member_at packed pos m + member_bits m) ms f)"
| "find_union [] f = None"
| "find_union (m # ms) f =
     (case find_member m f of Some r \<Rightarrow> Some r | None \<Rightarrow> find_union ms f)"
| "find_member (Mem g t) f = (if g = f then Some (0, t) else if g = '''' then find_field t f else None)"
| "find_member (Bits g k w) f = None"

definition offset_of :: "ctype \<Rightarrow> string \<Rightarrow> nat option" where
  "offset_of t f = map_option (\<lambda>(n, u). n div 8) (find_field t f)"

text \<open>A path of fields inside of one structure, like \<^verbatim>\<open>f_path.dentry\<close>: its byte offset and type.\<close>

fun access :: "ctype \<Rightarrow> string list \<Rightarrow> (nat \<times> ctype) option" where
  "access t [] = Some (0, t)"
| "access t (f # fs) =
     (case find_field t f of
        None \<Rightarrow> None
      | Some (n, u) \<Rightarrow>
          (case access u fs of None \<Rightarrow> None | Some (n', u') \<Rightarrow> Some (n div 8 + n', u')))"

section \<open>Soundness of the layout\<close>

text \<open>Alignments are powers of two, so the larger one of two is a multiple of the other.\<close>

definition pow2 :: "nat \<Rightarrow> bool" where
  "pow2 a \<longleftrightarrow> (\<exists>n. a = 2 ^ n)"

lemma pow2_power [simp]: "pow2 (2 ^ n)"
  by (auto simp: pow2_def)

lemma pow2_numeral [simp]: "pow2 (Suc 0)" "pow2 2" "pow2 4" "pow2 8" "pow2 16"
  using pow2_power [of 0] pow2_power [of 1] pow2_power [of 2] pow2_power [of 3] pow2_power [of 4]
  by simp_all

lemma pow2_ksize [simp]: "pow2 (ksize k)"
  by (cases k) simp_all

lemma pow2_max: "pow2 a \<Longrightarrow> pow2 b \<Longrightarrow> pow2 (max a b)"
  by (simp add: max_def)

lemma pow2_pos: "pow2 a \<Longrightarrow> 0 < a"
  by (auto simp: pow2_def)

lemma pow2_dvd: "pow2 a \<Longrightarrow> pow2 b \<Longrightarrow> a \<le> b \<Longrightarrow> a dvd b"
  by (auto simp: pow2_def intro!: le_imp_power_dvd power_le_imp_le_exp [of 2])

lemma pow2_align: "pow2 (calign t)" "pow2 (maligns ms)"
  by (induction t and ms rule: calign_maligns.induct) (simp_all add: pow2_max)

lemma round_up_ge: "0 < a \<Longrightarrow> n \<le> round_up n a"
proof -
  assume a: "0 < a"
  have "n + (a - 1) < (n + (a - 1)) div a * a + a"
    using a by (metis add.commute dividend_less_div_times)
  then show ?thesis unfolding round_up_def by linarith
qed

lemma round_up_dvd [simp]: "a dvd round_up n a"
  by (simp add: round_up_def)

lemma round_up_dvd8 [simp]: "8 dvd round_up n (8 * a)"
  by (metis dvd_trans dvd_triv_left round_up_dvd)

lemma round_up_bytes: "8 * (round_up n (8 * a) div 8) = round_up n (8 * a)"
  by (rule dvd_mult_div_cancel) simp

lemma ksize_pos [simp]: "0 < ksize k"
  using pow2_pos [OF pow2_ksize] .

lemma member_at_ge: "pos \<le> member_at packed pos m"
  using pow2_pos [OF pow2_align(1)] by (cases m) (auto simp: Let_def round_up_ge)

lemma struct_end_ge: "pos \<le> struct_end packed pos ms"
proof (induction ms arbitrary: pos)
  case (Cons m ms)
  show ?case
    using member_at_ge [of pos packed m] Cons [of "member_at packed pos m + member_bits m"] by simp
qed simp

lemma aggregate_size:
  "struct_end packed 0 ms \<le> 8 * csize (CStruct packed ms)"
  "union_end ms \<le> 8 * csize (CUnion packed ms)"
  using pow2_pos [OF pow2_align(2), of ms] by (auto simp: round_up_bytes round_up_ge simp flip: mult.commute [of 8])

lemma union_end_ge: "m \<in> set ms \<Longrightarrow> member_bits m \<le> union_end ms"
  by (induction ms) auto

text \<open>A field lies within its aggregate and starts at a byte.\<close>

lemma find_bounds:
  "find_field t f = Some (n, u) \<Longrightarrow> 8 dvd n \<and> n + 8 * csize u \<le> 8 * csize t"
  "find_struct packed pos ms f = Some (n, u) \<Longrightarrow>
     8 dvd n \<and> pos \<le> n \<and> n + 8 * csize u \<le> struct_end packed pos ms"
  "find_union ms f = Some (n, u) \<Longrightarrow> 8 dvd n \<and> n + 8 * csize u \<le> union_end ms"
  "find_member m f = Some (n, u) \<Longrightarrow>
     8 dvd n \<and> n + 8 * csize u \<le> member_bits m \<and> (\<exists>g t. m = Mem g t)"
proof (induction t f and packed pos ms f and ms f and m f arbitrary: n u and n u and n u and n u
    rule: find_field_find_struct_find_union_find_member.induct)
  case (1 packed ms f)
  then show ?case using aggregate_size(1) [of packed ms] by fastforce
next
  case (2 packed ms f)
  then show ?case using aggregate_size(2) [of ms packed] by fastforce
next
  case (8 packed pos m ms f)
  show ?case
  proof (cases "find_member m f")
    case None
    then show ?thesis
      using 8 member_at_ge [of pos packed m] by fastforce
  next
    case (Some r)
    obtain o' where r: "r = (o', u)" "n = member_at packed pos m + o'" using 8(3) Some by (cases r) auto
    then have o': "8 dvd o'" "o' + 8 * csize u \<le> member_bits m" "\<exists>g t. m = Mem g t"
      using 8(1) Some by blast+
    have "8 dvd member_at packed pos m" using o'(3) by auto
    then show ?thesis
      using r o' member_at_ge [of pos packed m]
        struct_end_ge [of "member_at packed pos m + member_bits m" packed ms] by simp
  qed
qed (auto split: option.splits if_splits simp: max_def)

text \<open>The alignment of a type divides its size, so the elements of an array are aligned.\<close>

lemma round_up_align: "a dvd round_up n (8 * a) div 8"
proof -
  have "8 * a dvd 8 * (round_up n (8 * a) div 8)" by (simp add: round_up_bytes)
  then show ?thesis by (simp only: nat_mult_dvd_cancel1 [of 8])
qed

lemma calign_dvd_csize: "calign t dvd csize t"
  by (induction t rule: calign_maligns.induct(1) [where Q = "\<lambda>_. True"])
    (use round_up_align in \<open>auto intro: dvd_mult2\<close>)

text \<open>An aggregate that is not packed, nor is any anonymous member in it.\<close>

fun plain :: "ctype \<Rightarrow> bool" and plain_members :: "cmember list \<Rightarrow> bool" where
  "plain (CStruct packed ms) \<longleftrightarrow> \<not> packed \<and> plain_members ms"
| "plain (CUnion packed ms) \<longleftrightarrow> \<not> packed \<and> plain_members ms"
| "plain (CInt k) \<longleftrightarrow> True"
| "plain (CEnum k es) \<longleftrightarrow> True"
| "plain (CPtr s) \<longleftrightarrow> True"
| "plain (CArr t n) \<longleftrightarrow> True"
| "plain_members [] \<longleftrightarrow> True"
| "plain_members (Mem f t # ms) \<longleftrightarrow> (f = '''' \<longrightarrow> plain t) \<and> plain_members ms"
| "plain_members (Bits f k w # ms) \<longleftrightarrow> plain_members ms"

lemma dvd_align_trans:
  assumes "pow2 a" "pow2 b" "a \<le> b" "8 * b dvd (n :: nat)" shows "8 * a dvd n"
  using pow2_dvd [OF assms(1-3)] assms(4) by (meson dvd_trans mult_dvd_mono dvd_refl)

text \<open>A field of such an aggregate is aligned.\<close>

lemma find_aligned:
  "find_field t f = Some (n, u) \<Longrightarrow> plain t \<Longrightarrow> 8 * calign u dvd n \<and> calign u \<le> calign t"
  "find_struct packed pos ms f = Some (n, u) \<Longrightarrow> \<not> packed \<Longrightarrow> plain_members ms \<Longrightarrow>
     8 * calign u dvd n \<and> calign u \<le> maligns ms"
  "find_union ms f = Some (n, u) \<Longrightarrow> plain_members ms \<Longrightarrow> 8 * calign u dvd n \<and> calign u \<le> maligns ms"
  "find_member m f = Some (n, u) \<Longrightarrow> plain_members [m] \<Longrightarrow>
     8 * calign u dvd n \<and> (\<exists>g t. m = Mem g t \<and> calign u \<le> calign t)"
proof (induction t f and packed pos ms f and ms f and m f arbitrary: n u and n u and n u and n u
    rule: find_field_find_struct_find_union_find_member.induct)
  case (8 packed pos m ms f)
  have pm: "plain_members ms" "plain_members [m]" using 8(5) by (cases m; simp)+
  show ?case
  proof (cases "find_member m f")
    case None
    then show ?thesis using 8 pm by (cases m) fastforce+
  next
    case (Some r)
    obtain o' where r: "r = (o', u)" "n = member_at packed pos m + o'" using 8(3) Some by (cases r) auto
    obtain g t where m: "m = Mem g t" "calign u \<le> calign t" "8 * calign u dvd o'"
      using 8(1) [OF _ pm(2)] Some r by blast
    have "8 * calign u dvd member_at packed pos m"
      using dvd_align_trans [OF pow2_align(1) pow2_align(1) m(2)] 8(4) m(1) by simp
    then show ?thesis using r m by (auto simp: le_max_iff_disj)
  qed
next
  case (10 m ms f)
  then show ?case by (cases m) (fastforce split: option.splits simp: le_max_iff_disj)+
qed (auto split: if_splits)

text \<open>The member that holds a field, and that members do not overlap.\<close>

fun member_index :: "cmember list \<Rightarrow> string \<Rightarrow> nat option" where
  "member_index [] f = None"
| "member_index (m # ms) f = (if find_member m f \<noteq> None then Some 0 else map_option Suc (member_index ms f))"

lemma find_member_index: "find_struct packed pos ms f \<noteq> None \<Longrightarrow> member_index ms f \<noteq> None"
  by (induction ms arbitrary: pos) (auto split: option.splits)

lemma find_disjoint:
  assumes "member_index ms f = Some i" "member_index ms g = Some j" "i < j"
    and "find_struct packed pos ms f = Some (n, u)" "find_struct packed pos ms g = Some (n', u')"
  shows "n + 8 * csize u \<le> n'"
  using assms
proof (induction ms arbitrary: pos i j)
  case (Cons m ms)
  have g: "find_member m g = None" using Cons(3,4) by (cases "find_member m g") (auto split: if_splits)
  then have g': "find_struct packed (member_at packed pos m + member_bits m) ms g = Some (n', u')"
    using Cons(6) by simp
  show ?case
  proof (cases "find_member m f")
    case None
    then show ?thesis using Cons g g' by (auto split: if_splits)
  next
    case (Some r)
    then obtain o' where "find_member m f = Some (o', u)" "n = member_at packed pos m + o'"
      using Cons(5) by (cases r) auto
    then show ?thesis using find_bounds(4) find_bounds(2) [OF g'] by fastforce
  qed
qed simp

end
