(* ===== verification/Vmlinux_Scalars.thy ===== *)
theory Vmlinux_Scalars
  imports C_Layout
begin

text \<open>
  The integer types that the kernel structures of \<^verbatim>\<open>vmlinux/x86/vmlinux.h\<close> and
  \<^verbatim>\<open>vmlinux/arm64/vmlinux.h\<close> are made of. A typedef that only renames another type is
  resolved in place, so a member declared \<^verbatim>\<open>u32\<close> has the type \<^verbatim>\<open>unsigned int\<close>, and
  one declared \<^verbatim>\<open>spinlock_t\<close> the structure \<^verbatim>\<open>spinlock\<close>. Qualifiers like
  \<^verbatim>\<open>const\<close> and \<^verbatim>\<open>volatile\<close>
  have no influence on the layout and are left out.
\<close>

section \<open>Integers of the language\<close>

abbreviation (input) c_bool :: ctype where "c_bool \<equiv> CInt Bool_k"
abbreviation (input) c_char :: ctype where "c_char \<equiv> CInt Char_k"
abbreviation (input) c_schar :: ctype where "c_schar \<equiv> CInt Schar_k"
abbreviation (input) c_uchar :: ctype where "c_uchar \<equiv> CInt Uchar_k"
abbreviation (input) c_short :: ctype where "c_short \<equiv> CInt Short_k"
abbreviation (input) c_ushort :: ctype where "c_ushort \<equiv> CInt Ushort_k"
abbreviation (input) c_int :: ctype where "c_int \<equiv> CInt Int_k"
abbreviation (input) c_uint :: ctype where "c_uint \<equiv> CInt Uint_k"
abbreviation (input) c_long :: ctype where "c_long \<equiv> CInt Long_k"
abbreviation (input) c_ulong :: ctype where "c_ulong \<equiv> CInt Ulong_k"
abbreviation (input) c_llong :: ctype where "c_llong \<equiv> CInt Llong_k"
abbreviation (input) c_ullong :: ctype where "c_ullong \<equiv> CInt Ullong_k"
abbreviation (input) c_uint128 :: ctype where "c_uint128 \<equiv> CInt Uint128_k"

section \<open>Computing layouts\<close>

text \<open>
  The sizes and alignments of the structures are collected as rewrite rules, so that a structure
  is laid out from those of its members. The congruence rules keep the simplifier out of the
  members that are not reached yet.
\<close>

named_theorems layout "sizes and alignments of structures"

lemma struct_end_cong [cong]: "pos = pos' \<Longrightarrow> struct_end packed pos ms = struct_end packed pos' ms"
  by simp

lemma find_struct_cong [cong]: "pos = pos' \<Longrightarrow> find_struct packed pos ms f = find_struct packed pos' ms f"
  by simp

lemma find_member_cong [cong]: "find_member m f = find_member m f"
  by simp

lemma member_at_cong [cong]: "pos = pos' \<Longrightarrow> member_at packed pos m = member_at packed pos' m"
  by simp

lemma member_bits_cong [cong]: "member_bits m = member_bits m"
  by simp

lemma maligns_cong [cong]: "maligns ms = maligns ms"
  by simp

lemma round_up_numeral [layout]:
  "round_up n (Suc 0) = n" "round_up n (numeral a) = (n + (numeral a - 1)) div numeral a * numeral a"
  by (simp_all add: round_up_def)

end
