(* ===== verification/X86_Tasks.thy ===== *)
theory X86_Tasks
  imports X86_Vfs
begin

text \<open>
  The kernel structures of \<^verbatim>\<open>vmlinux/x86/vmlinux.h\<close>: the structures of tasks: namespaces, signals, memory maps and the task itself, with everything embedded in them.
  Every structure is defined as the header declares it, member by member, followed by its size and
  alignment in bytes; a structure of a few lines that only one other structure embeds is written
  out in its place.
\<close>

definition x86_refcount_struct :: ctype where
  "x86_refcount_struct = CStruct False
    [Mem ''refs'' x86_atomic_t]"

lemma x86_refcount_struct_layout [layout]: "csize x86_refcount_struct = 4" "calign x86_refcount_struct = 4"
  by (simp_all add: x86_refcount_struct_def layout)

definition x86_nsproxy :: ctype where
  "x86_nsproxy = CStruct False
    [Mem ''count'' x86_refcount_struct,
     Mem ''uts_ns'' (CPtr ''uts_namespace''),
     Mem ''ipc_ns'' (CPtr ''ipc_namespace''),
     Mem ''mnt_ns'' (CPtr ''mnt_namespace''),
     Mem ''pid_ns_for_children'' (CPtr ''pid_namespace''),
     Mem ''net_ns'' (CPtr ''net''),
     Mem ''time_ns'' (CPtr ''time_namespace''),
     Mem ''time_ns_for_children'' (CPtr ''time_namespace''),
     Mem ''cgroup_ns'' (CPtr ''cgroup_namespace'')]"

lemma x86_nsproxy_layout [layout]: "csize x86_nsproxy = 72" "calign x86_nsproxy = 8"
  by (simp_all add: x86_nsproxy_def layout)

definition x86_ns_common :: ctype where
  "x86_ns_common = CStruct False
    [Mem ''stashed'' (CPtr ''dentry''),
     Mem ''ops'' (CPtr ''proc_ns_operations''),
     Mem ''inum'' c_uint,
     Mem ''count'' x86_refcount_struct]"

lemma x86_ns_common_layout [layout]: "csize x86_ns_common = 24" "calign x86_ns_common = 8"
  by (simp_all add: x86_ns_common_def layout)

definition x86_mnt_namespace :: ctype where
  "x86_mnt_namespace = CStruct False
    [Mem ''ns'' x86_ns_common,
     Mem ''root'' (CPtr ''mount''),
     Mem ''mounts'' x86_rb_root,
     Mem ''user_ns'' (CPtr ''user_namespace''),
     Mem ''ucounts'' (CPtr ''ucounts''),
     Mem ''seq'' c_ullong,
     Mem ''poll'' x86_wait_queue_head,
     Mem ''event'' c_ullong,
     Mem ''nr_mounts'' c_uint,
     Mem ''pending_mounts'' c_uint,
     Mem ''mnt_ns_tree_node'' x86_rb_node,
     Mem ''passive'' x86_refcount_struct]"

lemma x86_mnt_namespace_layout [layout]: "csize x86_mnt_namespace = 136" "calign x86_mnt_namespace = 8"
  by (simp_all add: x86_mnt_namespace_def layout)

definition x86_sigset_t :: ctype where
  "x86_sigset_t = CStruct False
    [Mem ''sig'' (CArr c_ulong 1)]"

lemma x86_sigset_t_layout [layout]: "csize x86_sigset_t = 8" "calign x86_sigset_t = 8"
  by (simp_all add: x86_sigset_t_def layout)

definition x86_sigpending :: ctype where
  "x86_sigpending = CStruct False
    [Mem ''list'' x86_list_head,
     Mem ''signal'' x86_sigset_t]"

lemma x86_sigpending_layout [layout]: "csize x86_sigpending = 24" "calign x86_sigpending = 8"
  by (simp_all add: x86_sigpending_def layout)

definition x86_hrtimer :: ctype where
  "x86_hrtimer = CStruct False
    [Mem ''node'' (CStruct False
       [Mem ''node'' x86_rb_node,
        Mem ''expires'' c_llong]),
     Mem ''_softexpires'' c_llong,
     Mem ''function'' (CPtr ''fn''),
     Mem ''base'' (CPtr ''hrtimer_clock_base''),
     Mem ''state'' c_uchar,
     Mem ''is_rel'' c_uchar,
     Mem ''is_soft'' c_uchar,
     Mem ''is_hard'' c_uchar]"

lemma x86_hrtimer_layout [layout]: "csize x86_hrtimer = 64" "calign x86_hrtimer = 8"
  by (simp_all add: x86_hrtimer_def layout)

definition x86_posix_cputimers :: ctype where
  "x86_posix_cputimers = CStruct False
    [Mem ''bases'' (CArr (CStruct False
       [Mem ''nextevt'' c_ullong,
        Mem ''tqhead'' (CStruct False
          [Mem ''rb_root'' x86_rb_root_cached])]) 3),
     Mem ''timers_active'' c_uint,
     Mem ''expiry_active'' c_uint]"

lemma x86_posix_cputimers_layout [layout]: "csize x86_posix_cputimers = 80" "calign x86_posix_cputimers = 8"
  by (simp_all add: x86_posix_cputimers_def layout)

definition x86_prev_cputime :: ctype where
  "x86_prev_cputime = CStruct False
    [Mem ''utime'' c_ullong,
     Mem ''stime'' c_ullong,
     Mem ''lock'' x86_raw_spinlock]"

lemma x86_prev_cputime_layout [layout]: "csize x86_prev_cputime = 24" "calign x86_prev_cputime = 8"
  by (simp_all add: x86_prev_cputime_def layout)

definition x86_task_io_accounting :: ctype where
  "x86_task_io_accounting = CStruct False
    [Mem ''rchar'' c_ullong,
     Mem ''wchar'' c_ullong,
     Mem ''syscr'' c_ullong,
     Mem ''syscw'' c_ullong,
     Mem ''read_bytes'' c_ullong,
     Mem ''write_bytes'' c_ullong,
     Mem ''cancelled_write_bytes'' c_ullong]"

lemma x86_task_io_accounting_layout [layout]: "csize x86_task_io_accounting = 56" "calign x86_task_io_accounting = 8"
  by (simp_all add: x86_task_io_accounting_def layout)

definition x86_rlimit :: ctype where
  "x86_rlimit = CStruct False
    [Mem ''rlim_cur'' c_ulong,
     Mem ''rlim_max'' c_ulong]"

lemma x86_rlimit_layout [layout]: "csize x86_rlimit = 16" "calign x86_rlimit = 8"
  by (simp_all add: x86_rlimit_def layout)

definition x86_pacct_struct :: ctype where
  "x86_pacct_struct = CStruct False
    [Mem ''ac_flag'' c_int,
     Mem ''ac_exitcode'' c_long,
     Mem ''ac_mem'' c_ulong,
     Mem ''ac_utime'' c_ullong,
     Mem ''ac_stime'' c_ullong,
     Mem ''ac_minflt'' c_ulong,
     Mem ''ac_majflt'' c_ulong]"

lemma x86_pacct_struct_layout [layout]: "csize x86_pacct_struct = 56" "calign x86_pacct_struct = 8"
  by (simp_all add: x86_pacct_struct_def layout)

definition x86_signal_struct :: ctype where
  "x86_signal_struct = CStruct False
    [Mem ''sigcnt'' x86_refcount_struct,
     Mem ''live'' x86_atomic_t,
     Mem ''nr_threads'' c_int,
     Mem ''quick_threads'' c_int,
     Mem ''thread_head'' x86_list_head,
     Mem ''wait_chldexit'' x86_wait_queue_head,
     Mem ''curr_target'' (CPtr ''task_struct''),
     Mem ''shared_pending'' x86_sigpending,
     Mem ''multiprocess'' x86_hlist_head,
     Mem ''group_exit_code'' c_int,
     Mem ''notify_count'' c_int,
     Mem ''group_exec_task'' (CPtr ''task_struct''),
     Mem ''group_stop_count'' c_int,
     Mem ''flags'' c_uint,
     Mem ''core_state'' (CPtr ''core_state''),
     Bits ''is_child_subreaper'' Uint_k 1,
     Bits ''has_child_subreaper'' Uint_k 1,
     Mem ''next_posix_timer_id'' c_uint,
     Mem ''posix_timers'' x86_hlist_head,
     Mem ''real_timer'' x86_hrtimer,
     Mem ''it_real_incr'' c_llong,
     Mem ''it'' (CArr (CStruct False
       [Mem ''expires'' c_ullong,
        Mem ''incr'' c_ullong]) 2),
     Mem ''cputimer'' (CStruct False
       [Mem ''cputime_atomic'' (CStruct False
          [Mem ''utime'' x86_atomic64_t,
           Mem ''stime'' x86_atomic64_t,
           Mem ''sum_exec_runtime'' x86_atomic64_t])]),
     Mem ''posix_cputimers'' x86_posix_cputimers,
     Mem ''pids'' (CArr (CPtr ''pid'') 4),
     Mem ''tick_dep_mask'' x86_atomic_t,
     Mem ''tty_old_pgrp'' (CPtr ''pid''),
     Mem ''leader'' c_int,
     Mem ''tty'' (CPtr ''tty_struct''),
     Mem ''autogroup'' (CPtr ''autogroup''),
     Mem ''stats_lock'' (CStruct False
       [Mem ''seqcount'' x86_seqcount_spinlock,
        Mem ''lock'' x86_spinlock]),
     Mem ''utime'' c_ullong,
     Mem ''stime'' c_ullong,
     Mem ''cutime'' c_ullong,
     Mem ''cstime'' c_ullong,
     Mem ''gtime'' c_ullong,
     Mem ''cgtime'' c_ullong,
     Mem ''prev_cputime'' x86_prev_cputime,
     Mem ''nvcsw'' c_ulong,
     Mem ''nivcsw'' c_ulong,
     Mem ''cnvcsw'' c_ulong,
     Mem ''cnivcsw'' c_ulong,
     Mem ''min_flt'' c_ulong,
     Mem ''maj_flt'' c_ulong,
     Mem ''cmin_flt'' c_ulong,
     Mem ''cmaj_flt'' c_ulong,
     Mem ''inblock'' c_ulong,
     Mem ''oublock'' c_ulong,
     Mem ''cinblock'' c_ulong,
     Mem ''coublock'' c_ulong,
     Mem ''maxrss'' c_ulong,
     Mem ''cmaxrss'' c_ulong,
     Mem ''ioac'' x86_task_io_accounting,
     Mem ''sum_sched_runtime'' c_ullong,
     Mem ''rlim'' (CArr x86_rlimit 16),
     Mem ''pacct'' x86_pacct_struct,
     Mem ''stats'' (CPtr ''taskstats''),
     Mem ''audit_tty'' c_uint,
     Mem ''tty_audit_buf'' (CPtr ''tty_audit_buf''),
     Mem ''oom_flag_origin'' c_bool,
     Mem ''oom_score_adj'' c_short,
     Mem ''oom_score_adj_min'' c_short,
     Mem ''oom_mm'' (CPtr ''mm_struct''),
     Mem ''cred_guard_mutex'' x86_mutex,
     Mem ''exec_update_lock'' x86_rw_semaphore]"

lemma x86_signal_struct_layout [layout]: "csize x86_signal_struct = 1104" "calign x86_signal_struct = 8"
  by (simp_all add: x86_signal_struct_def layout)

definition x86_maple_tree :: ctype where
  "x86_maple_tree = CStruct False
    [Mem '''' (CUnion False
       [Mem ''ma_lock'' x86_spinlock,
        Mem ''ma_external_lock'' (CStruct False
          [])]),
     Mem ''ma_flags'' c_uint,
     Mem ''ma_root'' (CPtr ''void'')]"

lemma x86_maple_tree_layout [layout]: "csize x86_maple_tree = 16" "calign x86_maple_tree = 8"
  by (simp_all add: x86_maple_tree_def layout)

definition x86_mm_context_t :: ctype where
  "x86_mm_context_t = CStruct False
    [Mem ''ctx_id'' c_ullong,
     Mem ''tlb_gen'' x86_atomic64_t,
     Mem ''next_trim_cpumask'' c_ulong,
     Mem ''ldt_usr_sem'' x86_rw_semaphore,
     Mem ''ldt'' (CPtr ''ldt_struct''),
     Mem ''flags'' c_ulong,
     Mem ''lock'' x86_mutex,
     Mem ''vdso'' (CPtr ''void''),
     Mem ''vdso_image'' (CPtr ''vdso_image''),
     Mem ''perf_rdpmc_allowed'' x86_atomic_t,
     Mem ''pkey_allocation_map'' c_ushort,
     Mem ''execute_only_pkey'' c_short]"

lemma x86_mm_context_t_layout [layout]: "csize x86_mm_context_t = 136" "calign x86_mm_context_t = 8"
  by (simp_all add: x86_mm_context_t_def layout)

definition x86_mm_struct :: ctype where
  "x86_mm_struct = CStruct False
    [Mem '''' (CStruct False
       [Mem '''' (CStruct False
          [Mem ''mm_count'' x86_atomic_t,
           Bits '''' Long_k 64,
           Bits '''' Long_k 64,
           Bits '''' Long_k 64,
           Bits '''' Long_k 64,
           Bits '''' Long_k 64,
           Bits '''' Long_k 64,
           Bits '''' Long_k 64]),
        Mem ''mm_mt'' x86_maple_tree,
        Mem ''mmap_base'' c_ulong,
        Mem ''mmap_legacy_base'' c_ulong,
        Mem ''mmap_compat_base'' c_ulong,
        Mem ''mmap_compat_legacy_base'' c_ulong,
        Mem ''task_size'' c_ulong,
        Mem ''pgd'' (CPtr ''pgd_t''),
        Mem ''membarrier_state'' x86_atomic_t,
        Mem ''mm_users'' x86_atomic_t,
        Mem ''pcpu_cid'' (CPtr ''mm_cid''),
        Mem ''mm_cid_next_scan'' c_ulong,
        Mem ''pgtables_bytes'' x86_atomic64_t,
        Mem ''map_count'' c_int,
        Mem ''page_table_lock'' x86_spinlock,
        Mem ''mmap_lock'' x86_rw_semaphore,
        Mem ''mmlist'' x86_list_head,
        Mem ''mm_lock_seq'' c_int,
        Mem ''hiwater_rss'' c_ulong,
        Mem ''hiwater_vm'' c_ulong,
        Mem ''total_vm'' c_ulong,
        Mem ''locked_vm'' c_ulong,
        Mem ''pinned_vm'' x86_atomic64_t,
        Mem ''data_vm'' c_ulong,
        Mem ''exec_vm'' c_ulong,
        Mem ''stack_vm'' c_ulong,
        Mem ''def_flags'' c_ulong,
        Mem ''write_protect_seq'' x86_seqcount,
        Mem ''arg_lock'' x86_spinlock,
        Mem ''start_code'' c_ulong,
        Mem ''end_code'' c_ulong,
        Mem ''start_data'' c_ulong,
        Mem ''end_data'' c_ulong,
        Mem ''start_brk'' c_ulong,
        Mem ''brk'' c_ulong,
        Mem ''start_stack'' c_ulong,
        Mem ''arg_start'' c_ulong,
        Mem ''arg_end'' c_ulong,
        Mem ''env_start'' c_ulong,
        Mem ''env_end'' c_ulong,
        Mem ''saved_auxv'' (CArr c_ulong 52),
        Mem ''rss_stat'' (CArr (CStruct False
          [Mem ''lock'' x86_raw_spinlock,
           Mem ''count'' c_llong,
           Mem ''list'' x86_list_head,
           Mem ''counters'' (CPtr ''s32'')]) 4),
        Mem ''binfmt'' (CPtr ''linux_binfmt''),
        Mem ''context'' x86_mm_context_t,
        Mem ''flags'' c_ulong,
        Mem ''ioctx_lock'' x86_spinlock,
        Mem ''ioctx_table'' (CPtr ''kioctx_table''),
        Mem ''owner'' (CPtr ''task_struct''),
        Mem ''user_ns'' (CPtr ''user_namespace''),
        Mem ''exe_file'' (CPtr ''file''),
        Mem ''notifier_subscriptions'' (CPtr ''mmu_notifier_subscriptions''),
        Mem ''numa_next_scan'' c_ulong,
        Mem ''numa_scan_offset'' c_ulong,
        Mem ''numa_scan_seq'' c_int,
        Mem ''tlb_flush_pending'' x86_atomic_t,
        Mem ''tlb_flush_batched'' x86_atomic_t,
        Mem ''uprobes_state'' (CStruct False
          [Mem ''xol_area'' (CPtr ''xol_area'')]),
        Mem ''hugetlb_usage'' x86_atomic64_t,
        Mem ''async_put_work'' x86_work_struct,
        Mem ''iommu_mm'' (CPtr ''iommu_mm_data''),
        Mem ''ksm_merging_pages'' c_ulong,
        Mem ''ksm_rmap_items'' c_ulong,
        Mem ''ksm_zero_pages'' x86_atomic64_t,
        Mem ''lru_gen'' (CStruct False
          [Mem ''list'' x86_list_head,
           Mem ''bitmap'' c_ulong,
           Mem ''memcg'' (CPtr ''mem_cgroup'')]),
        Bits '''' Long_k 64,
        Bits '''' Long_k 64,
        Bits '''' Long_k 64]),
     Mem ''cpu_bitmap'' (CArr c_ulong 0)]"

lemma x86_mm_struct_layout [layout]: "csize x86_mm_struct = 1344" "calign x86_mm_struct = 8"
  by (simp_all add: x86_mm_struct_def layout)

definition x86_thread_info :: ctype where
  "x86_thread_info = CStruct False
    [Mem ''flags'' c_ulong,
     Mem ''syscall_work'' c_ulong,
     Mem ''status'' c_uint,
     Mem ''cpu'' c_uint]"

lemma x86_thread_info_layout [layout]: "csize x86_thread_info = 24" "calign x86_thread_info = 8"
  by (simp_all add: x86_thread_info_def layout)

definition x86___call_single_node :: ctype where
  "x86___call_single_node = CStruct False
    [Mem ''llist'' x86_llist_node,
     Mem '''' (CUnion False
       [Mem ''u_flags'' c_uint,
        Mem ''a_flags'' x86_atomic_t]),
     Mem ''src'' c_ushort,
     Mem ''dst'' c_ushort]"

lemma x86___call_single_node_layout [layout]: "csize x86___call_single_node = 16" "calign x86___call_single_node = 8"
  by (simp_all add: x86___call_single_node_def layout)

definition x86_sched_avg :: ctype where
  "x86_sched_avg = CStruct False
    [Mem ''last_update_time'' c_ullong,
     Mem ''load_sum'' c_ullong,
     Mem ''runnable_sum'' c_ullong,
     Mem ''util_sum'' c_uint,
     Mem ''period_contrib'' c_uint,
     Mem ''load_avg'' c_ulong,
     Mem ''runnable_avg'' c_ulong,
     Mem ''util_avg'' c_ulong,
     Mem ''util_est'' c_uint]"

lemma x86_sched_avg_layout [layout]: "csize x86_sched_avg = 64" "calign x86_sched_avg = 8"
  by (simp_all add: x86_sched_avg_def layout)

definition x86_sched_entity :: ctype where
  "x86_sched_entity = CStruct False
    [Mem ''load'' (CStruct False
       [Mem ''weight'' c_ulong,
        Mem ''inv_weight'' c_uint]),
     Mem ''run_node'' x86_rb_node,
     Mem ''deadline'' c_ullong,
     Mem ''min_vruntime'' c_ullong,
     Mem ''min_slice'' c_ullong,
     Mem ''group_node'' x86_list_head,
     Mem ''on_rq'' c_uchar,
     Mem ''sched_delayed'' c_uchar,
     Mem ''rel_deadline'' c_uchar,
     Mem ''custom_slice'' c_uchar,
     Mem ''exec_start'' c_ullong,
     Mem ''sum_exec_runtime'' c_ullong,
     Mem ''prev_sum_exec_runtime'' c_ullong,
     Mem ''vruntime'' c_ullong,
     Mem ''vlag'' c_llong,
     Mem ''slice'' c_ullong,
     Mem ''nr_migrations'' c_ullong,
     Mem ''depth'' c_int,
     Mem ''parent'' (CPtr ''sched_entity''),
     Mem ''cfs_rq'' (CPtr ''cfs_rq''),
     Mem ''my_q'' (CPtr ''cfs_rq''),
     Mem ''runnable_weight'' c_ulong,
     Bits '''' Long_k 64,
     Mem ''avg'' x86_sched_avg]"

lemma x86_sched_entity_layout [layout]: "csize x86_sched_entity = 256" "calign x86_sched_entity = 8"
  by (simp_all add: x86_sched_entity_def layout)

definition x86_sched_rt_entity :: ctype where
  "x86_sched_rt_entity = CStruct False
    [Mem ''run_list'' x86_list_head,
     Mem ''timeout'' c_ulong,
     Mem ''watchdog_stamp'' c_ulong,
     Mem ''time_slice'' c_uint,
     Mem ''on_rq'' c_ushort,
     Mem ''on_list'' c_ushort,
     Mem ''back'' (CPtr ''sched_rt_entity'')]"

lemma x86_sched_rt_entity_layout [layout]: "csize x86_sched_rt_entity = 48" "calign x86_sched_rt_entity = 8"
  by (simp_all add: x86_sched_rt_entity_def layout)

definition x86_sched_dl_entity :: ctype where
  "x86_sched_dl_entity = CStruct False
    [Mem ''rb_node'' x86_rb_node,
     Mem ''dl_runtime'' c_ullong,
     Mem ''dl_deadline'' c_ullong,
     Mem ''dl_period'' c_ullong,
     Mem ''dl_bw'' c_ullong,
     Mem ''dl_density'' c_ullong,
     Mem ''runtime'' c_llong,
     Mem ''deadline'' c_ullong,
     Mem ''flags'' c_uint,
     Bits ''dl_throttled'' Uint_k 1,
     Bits ''dl_yielded'' Uint_k 1,
     Bits ''dl_non_contending'' Uint_k 1,
     Bits ''dl_overrun'' Uint_k 1,
     Bits ''dl_server'' Uint_k 1,
     Bits ''dl_server_active'' Uint_k 1,
     Bits ''dl_defer'' Uint_k 1,
     Bits ''dl_defer_armed'' Uint_k 1,
     Bits ''dl_defer_running'' Uint_k 1,
     Mem ''dl_timer'' x86_hrtimer,
     Mem ''inactive_timer'' x86_hrtimer,
     Mem ''rq'' (CPtr ''rq''),
     Mem ''server_has_tasks'' (CPtr ''fn''),
     Mem ''server_pick_task'' (CPtr ''fn''),
     Mem ''pi_se'' (CPtr ''sched_dl_entity'')]"

lemma x86_sched_dl_entity_layout [layout]: "csize x86_sched_dl_entity = 248" "calign x86_sched_dl_entity = 8"
  by (simp_all add: x86_sched_dl_entity_def layout)

definition x86_sched_statistics :: ctype where
  "x86_sched_statistics = CStruct False
    [Mem ''wait_start'' c_ullong,
     Mem ''wait_max'' c_ullong,
     Mem ''wait_count'' c_ullong,
     Mem ''wait_sum'' c_ullong,
     Mem ''iowait_count'' c_ullong,
     Mem ''iowait_sum'' c_ullong,
     Mem ''sleep_start'' c_ullong,
     Mem ''sleep_max'' c_ullong,
     Mem ''sum_sleep_runtime'' c_llong,
     Mem ''block_start'' c_ullong,
     Mem ''block_max'' c_ullong,
     Mem ''sum_block_runtime'' c_llong,
     Mem ''exec_max'' c_llong,
     Mem ''slice_max'' c_ullong,
     Mem ''nr_migrations_cold'' c_ullong,
     Mem ''nr_failed_migrations_affine'' c_ullong,
     Mem ''nr_failed_migrations_running'' c_ullong,
     Mem ''nr_failed_migrations_hot'' c_ullong,
     Mem ''nr_forced_migrations'' c_ullong,
     Mem ''nr_wakeups'' c_ullong,
     Mem ''nr_wakeups_sync'' c_ullong,
     Mem ''nr_wakeups_migrate'' c_ullong,
     Mem ''nr_wakeups_local'' c_ullong,
     Mem ''nr_wakeups_remote'' c_ullong,
     Mem ''nr_wakeups_affine'' c_ullong,
     Mem ''nr_wakeups_affine_attempts'' c_ullong,
     Mem ''nr_wakeups_passive'' c_ullong,
     Mem ''nr_wakeups_idle'' c_ullong,
     Bits '''' Long_k 64,
     Bits '''' Long_k 64,
     Bits '''' Long_k 64,
     Bits '''' Long_k 64]"

lemma x86_sched_statistics_layout [layout]: "csize x86_sched_statistics = 256" "calign x86_sched_statistics = 8"
  by (simp_all add: x86_sched_statistics_def layout)

definition x86_cpumask :: ctype where
  "x86_cpumask = CStruct False
    [Mem ''bits'' (CArr c_ulong 128)]"

lemma x86_cpumask_layout [layout]: "csize x86_cpumask = 1024" "calign x86_cpumask = 8"
  by (simp_all add: x86_cpumask_def layout)

definition x86_rcu_special :: ctype where
  "x86_rcu_special = CUnion False
    [Mem ''b'' (CStruct False
       [Mem ''blocked'' c_uchar,
        Mem ''need_qs'' c_uchar,
        Mem ''exp_hint'' c_uchar,
        Mem ''need_mb'' c_uchar]),
     Mem ''s'' c_uint]"

lemma x86_rcu_special_layout [layout]: "csize x86_rcu_special = 4" "calign x86_rcu_special = 4"
  by (simp_all add: x86_rcu_special_def layout)

definition x86_timespec_type :: ctype where
  "x86_timespec_type = CEnum Uint_k
    [(''TT_NONE'', 0),
     (''TT_NATIVE'', 1),
     (''TT_COMPAT'', 2)]"

lemma x86_timespec_type_layout [layout]: "csize x86_timespec_type = 4" "calign x86_timespec_type = 4"
  by (simp_all add: x86_timespec_type_def layout)

definition x86_restart_block :: ctype where
  "x86_restart_block = CStruct False
    [Mem ''arch_data'' c_ulong,
     Mem ''fn'' (CPtr ''fn''),
     Mem '''' (CUnion False
       [Mem ''futex'' (CStruct False
          [Mem ''uaddr'' (CPtr ''u32''),
           Mem ''val'' c_uint,
           Mem ''flags'' c_uint,
           Mem ''bitset'' c_uint,
           Mem ''time'' c_ullong,
           Mem ''uaddr2'' (CPtr ''u32'')]),
        Mem ''nanosleep'' (CStruct False
          [Mem ''clockid'' c_int,
           Mem ''type'' x86_timespec_type,
           Mem '''' (CUnion False
             [Mem ''rmtp'' (CPtr ''__kernel_timespec''),
              Mem ''compat_rmtp'' (CPtr ''old_timespec32'')]),
           Mem ''expires'' c_ullong]),
        Mem ''poll'' (CStruct False
          [Mem ''ufds'' (CPtr ''pollfd''),
           Mem ''nfds'' c_int,
           Mem ''has_timeout'' c_int,
           Mem ''tv_sec'' c_ulong,
           Mem ''tv_nsec'' c_ulong])])]"

lemma x86_restart_block_layout [layout]: "csize x86_restart_block = 56" "calign x86_restart_block = 8"
  by (simp_all add: x86_restart_block_def layout)

definition x86_vtime_state :: ctype where
  "x86_vtime_state = CEnum Uint_k
    [(''VTIME_INACTIVE'', 0),
     (''VTIME_IDLE'', 1),
     (''VTIME_SYS'', 2),
     (''VTIME_USER'', 3),
     (''VTIME_GUEST'', 4)]"

lemma x86_vtime_state_layout [layout]: "csize x86_vtime_state = 4" "calign x86_vtime_state = 4"
  by (simp_all add: x86_vtime_state_def layout)

definition x86_vtime :: ctype where
  "x86_vtime = CStruct False
    [Mem ''seqcount'' x86_seqcount,
     Mem ''starttime'' c_ullong,
     Mem ''state'' x86_vtime_state,
     Mem ''cpu'' c_uint,
     Mem ''utime'' c_ullong,
     Mem ''stime'' c_ullong,
     Mem ''gtime'' c_ullong]"

lemma x86_vtime_layout [layout]: "csize x86_vtime = 48" "calign x86_vtime = 8"
  by (simp_all add: x86_vtime_def layout)

definition x86_llist_head :: ctype where
  "x86_llist_head = CStruct False
    [Mem ''first'' (CPtr ''llist_node'')]"

lemma x86_llist_head_layout [layout]: "csize x86_llist_head = 8" "calign x86_llist_head = 8"
  by (simp_all add: x86_llist_head_def layout)

definition x86_desc_struct :: ctype where
  "x86_desc_struct = CStruct False
    [Mem ''limit0'' c_ushort,
     Mem ''base0'' c_ushort,
     Bits ''base1'' Ushort_k 8,
     Bits ''type'' Ushort_k 4,
     Bits ''s'' Ushort_k 1,
     Bits ''dpl'' Ushort_k 2,
     Bits ''p'' Ushort_k 1,
     Bits ''limit1'' Ushort_k 4,
     Bits ''avl'' Ushort_k 1,
     Bits ''l'' Ushort_k 1,
     Bits ''d'' Ushort_k 1,
     Bits ''g'' Ushort_k 1,
     Bits ''base2'' Ushort_k 8]"

lemma x86_desc_struct_layout [layout]: "csize x86_desc_struct = 8" "calign x86_desc_struct = 2"
  by (simp_all add: x86_desc_struct_def layout)

definition x86_fpu_state_perm :: ctype where
  "x86_fpu_state_perm = CStruct False
    [Mem ''__state_perm'' c_ullong,
     Mem ''__state_size'' c_uint,
     Mem ''__user_state_size'' c_uint]"

lemma x86_fpu_state_perm_layout [layout]: "csize x86_fpu_state_perm = 16" "calign x86_fpu_state_perm = 8"
  by (simp_all add: x86_fpu_state_perm_def layout)

definition x86_fregs_state :: ctype where
  "x86_fregs_state = CStruct False
    [Mem ''cwd'' c_uint,
     Mem ''swd'' c_uint,
     Mem ''twd'' c_uint,
     Mem ''fip'' c_uint,
     Mem ''fcs'' c_uint,
     Mem ''foo'' c_uint,
     Mem ''fos'' c_uint,
     Mem ''st_space'' (CArr c_uint 20),
     Mem ''status'' c_uint]"

lemma x86_fregs_state_layout [layout]: "csize x86_fregs_state = 112" "calign x86_fregs_state = 4"
  by (simp_all add: x86_fregs_state_def layout)

definition x86_fxregs_state :: ctype where
  "x86_fxregs_state = CStruct False
    [Mem ''cwd'' c_ushort,
     Mem ''swd'' c_ushort,
     Mem ''twd'' c_ushort,
     Mem ''fop'' c_ushort,
     Mem '''' (CUnion False
       [Mem '''' (CStruct False
          [Mem ''rip'' c_ullong,
           Mem ''rdp'' c_ullong]),
        Mem '''' (CStruct False
          [Mem ''fip'' c_uint,
           Mem ''fcs'' c_uint,
           Mem ''foo'' c_uint,
           Mem ''fos'' c_uint])]),
     Mem ''mxcsr'' c_uint,
     Mem ''mxcsr_mask'' c_uint,
     Mem ''st_space'' (CArr c_uint 32),
     Mem ''xmm_space'' (CArr c_uint 64),
     Mem ''padding'' (CArr c_uint 12),
     Mem '''' (CUnion False
       [Mem ''padding1'' (CArr c_uint 12),
        Mem ''sw_reserved'' (CArr c_uint 12)])]"

lemma x86_fxregs_state_layout [layout]: "csize x86_fxregs_state = 512" "calign x86_fxregs_state = 8"
  by (simp_all add: x86_fxregs_state_def layout)

definition x86_swregs_state :: ctype where
  "x86_swregs_state = CStruct False
    [Mem ''cwd'' c_uint,
     Mem ''swd'' c_uint,
     Mem ''twd'' c_uint,
     Mem ''fip'' c_uint,
     Mem ''fcs'' c_uint,
     Mem ''foo'' c_uint,
     Mem ''fos'' c_uint,
     Mem ''st_space'' (CArr c_uint 20),
     Mem ''ftop'' c_uchar,
     Mem ''changed'' c_uchar,
     Mem ''lookahead'' c_uchar,
     Mem ''no_update'' c_uchar,
     Mem ''rm'' c_uchar,
     Mem ''alimit'' c_uchar,
     Mem ''info'' (CPtr ''math_emu_info''),
     Mem ''entry_eip'' c_uint]"

lemma x86_swregs_state_layout [layout]: "csize x86_swregs_state = 136" "calign x86_swregs_state = 8"
  by (simp_all add: x86_swregs_state_def layout)

definition x86_fpstate :: ctype where
  "x86_fpstate = CStruct False
    [Mem ''size'' c_uint,
     Mem ''user_size'' c_uint,
     Mem ''xfeatures'' c_ullong,
     Mem ''user_xfeatures'' c_ullong,
     Mem ''xfd'' c_ullong,
     Bits ''is_valloc'' Uint_k 1,
     Bits ''is_guest'' Uint_k 1,
     Bits ''is_confidential'' Uint_k 1,
     Bits ''in_use'' Uint_k 1,
     Bits '''' Long_k 64,
     Bits '''' Long_k 64,
     Bits '''' Long_k 64,
     Mem ''regs'' (CUnion False
       [Mem ''fsave'' x86_fregs_state,
        Mem ''fxsave'' x86_fxregs_state,
        Mem ''soft'' x86_swregs_state,
        Mem ''xsave'' (CStruct False
          [Mem ''i387'' x86_fxregs_state,
           Mem ''header'' (CStruct False
             [Mem ''xfeatures'' c_ullong,
              Mem ''xcomp_bv'' c_ullong,
              Mem ''reserved'' (CArr c_ullong 6)]),
           Mem ''extended_state_area'' (CArr c_uchar 0)]),
        Mem ''__padding'' (CArr c_uchar 4096)])]"

lemma x86_fpstate_layout [layout]: "csize x86_fpstate = 4160" "calign x86_fpstate = 8"
  by (simp_all add: x86_fpstate_def layout)

definition x86_fpu :: ctype where
  "x86_fpu = CStruct False
    [Mem ''last_cpu'' c_uint,
     Mem ''avx512_timestamp'' c_ulong,
     Mem ''fpstate'' (CPtr ''fpstate''),
     Mem ''__task_fpstate'' (CPtr ''fpstate''),
     Mem ''perm'' x86_fpu_state_perm,
     Mem ''guest_perm'' x86_fpu_state_perm,
     Mem ''__fpstate'' x86_fpstate]"

lemma x86_fpu_layout [layout]: "csize x86_fpu = 4224" "calign x86_fpu = 8"
  by (simp_all add: x86_fpu_def layout)

definition x86_thread_struct :: ctype where
  "x86_thread_struct = CStruct False
    [Mem ''tls_array'' (CArr x86_desc_struct 3),
     Mem ''sp'' c_ulong,
     Mem ''es'' c_ushort,
     Mem ''ds'' c_ushort,
     Mem ''fsindex'' c_ushort,
     Mem ''gsindex'' c_ushort,
     Mem ''fsbase'' c_ulong,
     Mem ''gsbase'' c_ulong,
     Mem ''ptrace_bps'' (CArr (CPtr ''perf_event'') 4),
     Mem ''virtual_dr6'' c_ulong,
     Mem ''ptrace_dr7'' c_ulong,
     Mem ''cr2'' c_ulong,
     Mem ''trap_nr'' c_ulong,
     Mem ''error_code'' c_ulong,
     Mem ''io_bitmap'' (CPtr ''io_bitmap''),
     Mem ''iopl_emul'' c_ulong,
     Bits ''iopl_warn'' Uint_k 1,
     Mem ''pkru'' c_uint,
     Mem ''features'' c_ulong,
     Mem ''features_locked'' c_ulong,
     Mem ''shstk'' (CStruct False
       [Mem ''base'' c_ullong,
        Mem ''size'' c_ullong]),
     Bits '''' Long_k 64,
     Mem ''fpu'' x86_fpu]"

lemma x86_thread_struct_layout [layout]: "csize x86_thread_struct = 4416" "calign x86_thread_struct = 8"
  by (simp_all add: x86_thread_struct_def layout)

definition x86_task_struct :: ctype where
  "x86_task_struct = CStruct False
    [Mem ''thread_info'' x86_thread_info,
     Mem ''__state'' c_uint,
     Mem ''saved_state'' c_uint,
     Mem ''stack'' (CPtr ''void''),
     Mem ''usage'' x86_refcount_struct,
     Mem ''flags'' c_uint,
     Mem ''ptrace'' c_uint,
     Mem ''on_cpu'' c_int,
     Mem ''wake_entry'' x86___call_single_node,
     Mem ''wakee_flips'' c_uint,
     Mem ''wakee_flip_decay_ts'' c_ulong,
     Mem ''last_wakee'' (CPtr ''task_struct''),
     Mem ''recent_used_cpu'' c_int,
     Mem ''wake_cpu'' c_int,
     Mem ''on_rq'' c_int,
     Mem ''prio'' c_int,
     Mem ''static_prio'' c_int,
     Mem ''normal_prio'' c_int,
     Mem ''rt_priority'' c_uint,
     Mem ''se'' x86_sched_entity,
     Mem ''rt'' x86_sched_rt_entity,
     Mem ''dl'' x86_sched_dl_entity,
     Mem ''dl_server'' (CPtr ''sched_dl_entity''),
     Mem ''sched_class'' (CPtr ''sched_class''),
     Mem ''sched_task_group'' (CPtr ''task_group''),
     Mem ''stats'' x86_sched_statistics,
     Mem ''preempt_notifiers'' x86_hlist_head,
     Mem ''btrace_seq'' c_uint,
     Mem ''policy'' c_uint,
     Mem ''max_allowed_capacity'' c_ulong,
     Mem ''nr_cpus_allowed'' c_int,
     Mem ''cpus_ptr'' (CPtr ''cpumask_t''),
     Mem ''user_cpus_ptr'' (CPtr ''cpumask_t''),
     Mem ''cpus_mask'' x86_cpumask,
     Mem ''migration_pending'' (CPtr ''void''),
     Mem ''migration_disabled'' c_ushort,
     Mem ''migration_flags'' c_ushort,
     Mem ''rcu_read_lock_nesting'' c_int,
     Mem ''rcu_read_unlock_special'' x86_rcu_special,
     Mem ''rcu_node_entry'' x86_list_head,
     Mem ''rcu_blocked_node'' (CPtr ''rcu_node''),
     Mem ''rcu_tasks_nvcsw'' c_ulong,
     Mem ''rcu_tasks_holdout'' c_uchar,
     Mem ''rcu_tasks_idx'' c_uchar,
     Mem ''rcu_tasks_idle_cpu'' c_int,
     Mem ''rcu_tasks_holdout_list'' x86_list_head,
     Mem ''rcu_tasks_exit_cpu'' c_int,
     Mem ''rcu_tasks_exit_list'' x86_list_head,
     Mem ''trc_reader_nesting'' c_int,
     Mem ''trc_ipi_to_cpu'' c_int,
     Mem ''trc_reader_special'' x86_rcu_special,
     Mem ''trc_holdout_list'' x86_list_head,
     Mem ''trc_blkd_node'' x86_list_head,
     Mem ''trc_blkd_cpu'' c_int,
     Mem ''sched_info'' (CStruct False
       [Mem ''pcount'' c_ulong,
        Mem ''run_delay'' c_ullong,
        Mem ''last_arrival'' c_ullong,
        Mem ''last_queued'' c_ullong]),
     Mem ''tasks'' x86_list_head,
     Mem ''pushable_tasks'' (CStruct False
       [Mem ''prio'' c_int,
        Mem ''prio_list'' x86_list_head,
        Mem ''node_list'' x86_list_head]),
     Mem ''pushable_dl_tasks'' x86_rb_node,
     Mem ''mm'' (CPtr ''mm_struct''),
     Mem ''active_mm'' (CPtr ''mm_struct''),
     Mem ''faults_disabled_mapping'' (CPtr ''address_space''),
     Mem ''exit_state'' c_int,
     Mem ''exit_code'' c_int,
     Mem ''exit_signal'' c_int,
     Mem ''pdeath_signal'' c_int,
     Mem ''jobctl'' c_ulong,
     Mem ''personality'' c_uint,
     Bits ''sched_reset_on_fork'' Uint_k 1,
     Bits ''sched_contributes_to_load'' Uint_k 1,
     Bits ''sched_migrated'' Uint_k 1,
     Bits ''sched_task_hot'' Uint_k 1,
     Bits '''' Long_k 28,
     Bits ''sched_remote_wakeup'' Uint_k 1,
     Bits ''sched_rt_mutex'' Uint_k 1,
     Bits ''in_execve'' Uint_k 1,
     Bits ''in_iowait'' Uint_k 1,
     Bits ''restore_sigmask'' Uint_k 1,
     Bits ''in_lru_fault'' Uint_k 1,
     Bits ''no_cgroup_migration'' Uint_k 1,
     Bits ''frozen'' Uint_k 1,
     Bits ''use_memdelay'' Uint_k 1,
     Bits ''in_memstall'' Uint_k 1,
     Bits ''in_eventfd'' Uint_k 1,
     Bits ''pasid_activated'' Uint_k 1,
     Bits ''reported_split_lock'' Uint_k 1,
     Bits ''in_thrashing'' Uint_k 1,
     Mem ''atomic_flags'' c_ulong,
     Mem ''restart_block'' x86_restart_block,
     Mem ''pid'' c_int,
     Mem ''tgid'' c_int,
     Mem ''stack_canary'' c_ulong,
     Mem ''real_parent'' (CPtr ''task_struct''),
     Mem ''parent'' (CPtr ''task_struct''),
     Mem ''children'' x86_list_head,
     Mem ''sibling'' x86_list_head,
     Mem ''group_leader'' (CPtr ''task_struct''),
     Mem ''ptraced'' x86_list_head,
     Mem ''ptrace_entry'' x86_list_head,
     Mem ''thread_pid'' (CPtr ''pid''),
     Mem ''pid_links'' (CArr x86_hlist_node 4),
     Mem ''thread_node'' x86_list_head,
     Mem ''vfork_done'' (CPtr ''completion''),
     Mem ''set_child_tid'' (CPtr ''int''),
     Mem ''clear_child_tid'' (CPtr ''int''),
     Mem ''worker_private'' (CPtr ''void''),
     Mem ''utime'' c_ullong,
     Mem ''stime'' c_ullong,
     Mem ''gtime'' c_ullong,
     Mem ''prev_cputime'' x86_prev_cputime,
     Mem ''vtime'' x86_vtime,
     Mem ''tick_dep_mask'' x86_atomic_t,
     Mem ''nvcsw'' c_ulong,
     Mem ''nivcsw'' c_ulong,
     Mem ''start_time'' c_ullong,
     Mem ''start_boottime'' c_ullong,
     Mem ''min_flt'' c_ulong,
     Mem ''maj_flt'' c_ulong,
     Mem ''posix_cputimers'' x86_posix_cputimers,
     Mem ''posix_cputimers_work'' (CStruct False
       [Mem ''work'' x86_callback_head,
        Mem ''mutex'' x86_mutex,
        Mem ''scheduled'' c_uint]),
     Mem ''ptracer_cred'' (CPtr ''cred''),
     Mem ''real_cred'' (CPtr ''cred''),
     Mem ''cred'' (CPtr ''cred''),
     Mem ''cached_requested_key'' (CPtr ''key''),
     Mem ''comm'' (CArr c_char 16),
     Mem ''nameidata'' (CPtr ''nameidata''),
     Mem ''sysvsem'' (CStruct False
       [Mem ''undo_list'' (CPtr ''sem_undo_list'')]),
     Mem ''sysvshm'' (CStruct False
       [Mem ''shm_clist'' x86_list_head]),
     Mem ''last_switch_count'' c_ulong,
     Mem ''last_switch_time'' c_ulong,
     Mem ''fs'' (CPtr ''fs_struct''),
     Mem ''files'' (CPtr ''files_struct''),
     Mem ''io_uring'' (CPtr ''io_uring_task''),
     Mem ''nsproxy'' (CPtr ''nsproxy''),
     Mem ''signal'' (CPtr ''signal_struct''),
     Mem ''sighand'' (CPtr ''sighand_struct''),
     Mem ''blocked'' x86_sigset_t,
     Mem ''real_blocked'' x86_sigset_t,
     Mem ''saved_sigmask'' x86_sigset_t,
     Mem ''pending'' x86_sigpending,
     Mem ''sas_ss_sp'' c_ulong,
     Mem ''sas_ss_size'' c_ulong,
     Mem ''sas_ss_flags'' c_uint,
     Mem ''task_works'' (CPtr ''callback_head''),
     Mem ''audit_context'' (CPtr ''audit_context''),
     Mem ''loginuid'' x86_kuid_t,
     Mem ''sessionid'' c_uint,
     Mem ''seccomp'' (CStruct False
       [Mem ''mode'' c_int,
        Mem ''filter_count'' x86_atomic_t,
        Mem ''filter'' (CPtr ''seccomp_filter'')]),
     Mem ''syscall_dispatch'' (CStruct False
       [Mem ''selector'' (CPtr ''char''),
        Mem ''offset'' c_ulong,
        Mem ''len'' c_ulong,
        Mem ''on_dispatch'' c_bool]),
     Mem ''parent_exec_id'' c_ullong,
     Mem ''self_exec_id'' c_ullong,
     Mem ''alloc_lock'' x86_spinlock,
     Mem ''pi_lock'' x86_raw_spinlock,
     Mem ''wake_q'' (CStruct False
       [Mem ''next'' (CPtr ''wake_q_node'')]),
     Mem ''pi_waiters'' x86_rb_root_cached,
     Mem ''pi_top_task'' (CPtr ''task_struct''),
     Mem ''pi_blocked_on'' (CPtr ''rt_mutex_waiter''),
     Mem ''journal_info'' (CPtr ''void''),
     Mem ''bio_list'' (CPtr ''bio_list''),
     Mem ''plug'' (CPtr ''blk_plug''),
     Mem ''reclaim_state'' (CPtr ''reclaim_state''),
     Mem ''io_context'' (CPtr ''io_context''),
     Mem ''capture_control'' (CPtr ''capture_control''),
     Mem ''ptrace_message'' c_ulong,
     Mem ''last_siginfo'' (CPtr ''kernel_siginfo_t''),
     Mem ''ioac'' x86_task_io_accounting,
     Mem ''psi_flags'' c_uint,
     Mem ''acct_rss_mem1'' c_ullong,
     Mem ''acct_vm_mem1'' c_ullong,
     Mem ''acct_timexpd'' c_ullong,
     Mem ''mems_allowed'' (CStruct False
       [Mem ''bits'' (CArr c_ulong 16)]),
     Mem ''mems_allowed_seq'' x86_seqcount_spinlock,
     Mem ''cpuset_mem_spread_rotor'' c_int,
     Mem ''cgroups'' (CPtr ''css_set''),
     Mem ''cg_list'' x86_list_head,
     Mem ''closid'' c_uint,
     Mem ''rmid'' c_uint,
     Mem ''robust_list'' (CPtr ''robust_list_head''),
     Mem ''compat_robust_list'' (CPtr ''compat_robust_list_head''),
     Mem ''pi_state_list'' x86_list_head,
     Mem ''pi_state_cache'' (CPtr ''futex_pi_state''),
     Mem ''futex_exit_mutex'' x86_mutex,
     Mem ''futex_state'' c_uint,
     Mem ''perf_recursion'' (CArr c_uchar 4),
     Mem ''perf_event_ctxp'' (CPtr ''perf_event_context''),
     Mem ''perf_event_mutex'' x86_mutex,
     Mem ''perf_event_list'' x86_list_head,
     Mem ''mempolicy'' (CPtr ''mempolicy''),
     Mem ''il_prev'' c_short,
     Mem ''il_weight'' c_uchar,
     Mem ''pref_node_fork'' c_short,
     Mem ''numa_scan_seq'' c_int,
     Mem ''numa_scan_period'' c_uint,
     Mem ''numa_scan_period_max'' c_uint,
     Mem ''numa_preferred_nid'' c_int,
     Mem ''numa_migrate_retry'' c_ulong,
     Mem ''node_stamp'' c_ullong,
     Mem ''last_task_numa_placement'' c_ullong,
     Mem ''last_sum_exec_runtime'' c_ullong,
     Mem ''numa_work'' x86_callback_head,
     Mem ''numa_group'' (CPtr ''numa_group''),
     Mem ''numa_faults'' (CPtr ''long unsigned int''),
     Mem ''total_numa_faults'' c_ulong,
     Mem ''numa_faults_locality'' (CArr c_ulong 3),
     Mem ''numa_pages_migrated'' c_ulong,
     Mem ''rseq'' (CPtr ''rseq''),
     Mem ''rseq_len'' c_uint,
     Mem ''rseq_sig'' c_uint,
     Mem ''rseq_event_mask'' c_ulong,
     Mem ''mm_cid'' c_int,
     Mem ''last_mm_cid'' c_int,
     Mem ''migrate_from_cpu'' c_int,
     Mem ''mm_cid_active'' c_int,
     Mem ''cid_work'' x86_callback_head,
     Mem ''tlb_ubc'' (CStruct False
       [Mem ''arch'' (CStruct False
          [Mem ''cpumask'' x86_cpumask]),
        Mem ''flush_required'' c_bool,
        Mem ''writable'' c_bool]),
     Mem ''splice_pipe'' (CPtr ''pipe_inode_info''),
     Mem ''task_frag'' (CStruct False
       [Mem ''page'' (CPtr ''page''),
        Mem ''offset'' c_uint,
        Mem ''size'' c_uint]),
     Mem ''delays'' (CPtr ''task_delay_info''),
     Mem ''nr_dirtied'' c_int,
     Mem ''nr_dirtied_pause'' c_int,
     Mem ''dirty_paused_when'' c_ulong,
     Mem ''timer_slack_ns'' c_ullong,
     Mem ''default_timer_slack_ns'' c_ullong,
     Mem ''curr_ret_stack'' c_int,
     Mem ''curr_ret_depth'' c_int,
     Mem ''ret_stack'' (CPtr ''long unsigned int''),
     Mem ''ftrace_timestamp'' c_ullong,
     Mem ''trace_overrun'' x86_atomic_t,
     Mem ''tracing_graph_pause'' x86_atomic_t,
     Mem ''trace_recursion'' c_ulong,
     Mem ''memcg_nr_pages_over_high'' c_uint,
     Mem ''active_memcg'' (CPtr ''mem_cgroup''),
     Mem ''objcg'' (CPtr ''obj_cgroup''),
     Mem ''throttle_disk'' (CPtr ''gendisk''),
     Mem ''utask'' (CPtr ''uprobe_task''),
     Mem ''sequential_io'' c_uint,
     Mem ''sequential_io_avg'' c_uint,
     Mem ''kmap_ctrl'' (CStruct False
       []),
     Mem ''rcu'' x86_callback_head,
     Mem ''rcu_users'' x86_refcount_struct,
     Mem ''pagefault_disabled'' c_int,
     Mem ''oom_reaper_list'' (CPtr ''task_struct''),
     Mem ''oom_reaper_timer'' (CStruct False
       [Mem ''entry'' x86_hlist_node,
        Mem ''expires'' c_ulong,
        Mem ''function'' (CPtr ''fn''),
        Mem ''flags'' c_uint]),
     Mem ''stack_vm_area'' (CPtr ''vm_struct''),
     Mem ''stack_refcount'' x86_refcount_struct,
     Mem ''patch_state'' c_int,
     Mem ''security'' (CPtr ''void''),
     Mem ''bpf_storage'' (CPtr ''bpf_local_storage''),
     Mem ''bpf_ctx'' (CPtr ''bpf_run_ctx''),
     Mem ''bpf_net_context'' (CPtr ''bpf_net_context''),
     Mem ''mce_vaddr'' (CPtr ''void''),
     Mem ''mce_kflags'' c_ullong,
     Mem ''mce_addr'' c_ullong,
     Bits ''mce_ripv'' Ullong_k 1,
     Bits ''mce_whole_page'' Ullong_k 1,
     Bits ''__mce_reserved'' Ullong_k 62,
     Mem ''mce_kill_me'' x86_callback_head,
     Mem ''mce_count'' c_int,
     Mem ''kretprobe_instances'' x86_llist_head,
     Mem ''rethooks'' x86_llist_head,
     Mem ''l1d_flush_kill'' x86_callback_head,
     Bits '''' Long_k 64,
     Bits '''' Long_k 64,
     Bits '''' Long_k 64,
     Bits '''' Long_k 64,
     Bits '''' Long_k 64,
     Mem ''thread'' x86_thread_struct]"

lemma x86_task_struct_layout [layout]: "csize x86_task_struct = 9792" "calign x86_task_struct = 8"
  by (simp_all add: x86_task_struct_def layout)

definition x86_linux_binprm :: ctype where
  "x86_linux_binprm = CStruct False
    [Mem ''vma'' (CPtr ''vm_area_struct''),
     Mem ''vma_pages'' c_ulong,
     Mem ''argmin'' c_ulong,
     Mem ''mm'' (CPtr ''mm_struct''),
     Mem ''p'' c_ulong,
     Bits ''have_execfd'' Uint_k 1,
     Bits ''execfd_creds'' Uint_k 1,
     Bits ''secureexec'' Uint_k 1,
     Bits ''point_of_no_return'' Uint_k 1,
     Bits ''comm_from_dentry'' Uint_k 1,
     Mem ''executable'' (CPtr ''file''),
     Mem ''interpreter'' (CPtr ''file''),
     Mem ''file'' (CPtr ''file''),
     Mem ''cred'' (CPtr ''cred''),
     Mem ''unsafe'' c_int,
     Mem ''per_clear'' c_uint,
     Mem ''argc'' c_int,
     Mem ''envc'' c_int,
     Mem ''filename'' (CPtr ''char''),
     Mem ''interp'' (CPtr ''char''),
     Mem ''fdpath'' (CPtr ''char''),
     Mem ''interp_flags'' c_uint,
     Mem ''execfd'' c_int,
     Mem ''loader'' c_ulong,
     Mem ''exec'' c_ulong,
     Mem ''rlim_stack'' x86_rlimit,
     Mem ''buf'' (CArr c_char 256)]"

lemma x86_linux_binprm_layout [layout]: "csize x86_linux_binprm = 416" "calign x86_linux_binprm = 8"
  by (simp_all add: x86_linux_binprm_def layout)

end
