(* ===== verification/X86_Trace.thy ===== *)
theory X86_Trace
  imports X86_Tasks
begin

text \<open>
  The kernel structures of \<^verbatim>\<open>vmlinux/x86/vmlinux.h\<close>: the contexts of the traced events, the registers of a probe, and the audit data and profiles of AppArmor, with everything embedded in them.
  Every structure is defined as the header declares it, member by member, followed by its size and
  alignment in bytes; a structure of a few lines that only one other structure embeds is written
  out in its place.
\<close>

definition x86_trace_entry :: ctype where
  "x86_trace_entry = CStruct False
    [Mem ''type'' c_ushort,
     Mem ''flags'' c_uchar,
     Mem ''preempt_count'' c_uchar,
     Mem ''pid'' c_int]"

lemma x86_trace_entry_layout [layout]: "csize x86_trace_entry = 8" "calign x86_trace_entry = 4"
  by (simp_all add: x86_trace_entry_def layout)

definition x86_syscall_trace_enter :: ctype where
  "x86_syscall_trace_enter = CStruct False
    [Mem ''ent'' x86_trace_entry,
     Mem ''nr'' c_int,
     Mem ''args'' (CArr c_ulong 0)]"

lemma x86_syscall_trace_enter_layout [layout]: "csize x86_syscall_trace_enter = 16" "calign x86_syscall_trace_enter = 8"
  by (simp_all add: x86_syscall_trace_enter_def layout)

definition x86_trace_event_raw_sys_enter :: ctype where
  "x86_trace_event_raw_sys_enter = CStruct False
    [Mem ''ent'' x86_trace_entry,
     Mem ''id'' c_long,
     Mem ''args'' (CArr c_ulong 6),
     Mem ''__data'' (CArr c_char 0)]"

lemma x86_trace_event_raw_sys_enter_layout [layout]: "csize x86_trace_event_raw_sys_enter = 64" "calign x86_trace_event_raw_sys_enter = 8"
  by (simp_all add: x86_trace_event_raw_sys_enter_def layout)

definition x86_fred_ss :: ctype where
  "x86_fred_ss = CStruct False
    [Bits ''ss'' Ullong_k 16,
     Bits ''sti'' Ullong_k 1,
     Bits ''swevent'' Ullong_k 1,
     Bits ''nmi'' Ullong_k 1,
     Bits '''' Int_k 13,
     Bits ''vector'' Ullong_k 8,
     Bits '''' Short_k 8,
     Bits ''type'' Ullong_k 4,
     Bits '''' Char_k 4,
     Bits ''enclave'' Ullong_k 1,
     Bits ''lm'' Ullong_k 1,
     Bits ''nested'' Ullong_k 1,
     Bits '''' Char_k 1,
     Bits ''insnlen'' Ullong_k 4]"

lemma x86_fred_ss_layout [layout]: "csize x86_fred_ss = 8" "calign x86_fred_ss = 8"
  by (simp_all add: x86_fred_ss_def layout)

definition x86_pt_regs :: ctype where
  "x86_pt_regs = CStruct False
    [Mem ''r15'' c_ulong,
     Mem ''r14'' c_ulong,
     Mem ''r13'' c_ulong,
     Mem ''r12'' c_ulong,
     Mem ''bp'' c_ulong,
     Mem ''bx'' c_ulong,
     Mem ''r11'' c_ulong,
     Mem ''r10'' c_ulong,
     Mem ''r9'' c_ulong,
     Mem ''r8'' c_ulong,
     Mem ''ax'' c_ulong,
     Mem ''cx'' c_ulong,
     Mem ''dx'' c_ulong,
     Mem ''si'' c_ulong,
     Mem ''di'' c_ulong,
     Mem ''orig_ax'' c_ulong,
     Mem ''ip'' c_ulong,
     Mem '''' (CUnion False
       [Mem ''cs'' c_ushort,
        Mem ''csx'' c_ullong,
        Mem ''fred_cs'' (CStruct False
          [Bits ''cs'' Ullong_k 16,
           Bits ''sl'' Ullong_k 2,
           Bits ''wfe'' Ullong_k 1])]),
     Mem ''flags'' c_ulong,
     Mem ''sp'' c_ulong,
     Mem '''' (CUnion False
       [Mem ''ss'' c_ushort,
        Mem ''ssx'' c_ullong,
        Mem ''fred_ss'' x86_fred_ss])]"

lemma x86_pt_regs_layout [layout]: "csize x86_pt_regs = 168" "calign x86_pt_regs = 8"
  by (simp_all add: x86_pt_regs_def layout)

definition x86_common_audit_data :: ctype where
  "x86_common_audit_data = CStruct False
    [Mem ''type'' c_char,
     Mem ''u'' (CUnion False
       [Mem ''path'' x86_path,
        Mem ''dentry'' (CPtr ''dentry''),
        Mem ''inode'' (CPtr ''inode''),
        Mem ''net'' (CPtr ''lsm_network_audit''),
        Mem ''cap'' c_int,
        Mem ''ipc_id'' c_int,
        Mem ''tsk'' (CPtr ''task_struct''),
        Mem ''key_struct'' (CStruct False
          [Mem ''key'' c_int,
           Mem ''key_desc'' (CPtr ''char'')]),
        Mem ''kmod_name'' (CPtr ''char''),
        Mem ''op'' (CPtr ''lsm_ioctlop_audit''),
        Mem ''file'' (CPtr ''file''),
        Mem ''ibpkey'' (CPtr ''lsm_ibpkey_audit''),
        Mem ''ibendport'' (CPtr ''lsm_ibendport_audit''),
        Mem ''reason'' c_int,
        Mem ''anonclass'' (CPtr ''char'')]),
     Mem '''' (CUnion False
       [Mem ''selinux_audit_data'' (CPtr ''selinux_audit_data''),
        Mem ''apparmor_audit_data'' (CPtr ''apparmor_audit_data'')])]"

lemma x86_common_audit_data_layout [layout]: "csize x86_common_audit_data = 32" "calign x86_common_audit_data = 8"
  by (simp_all add: x86_common_audit_data_def layout)

definition x86_apparmor_audit_data :: ctype where
  "x86_apparmor_audit_data = CStruct False
    [Mem ''error'' c_int,
     Mem ''type'' c_int,
     Mem ''class'' c_ushort,
     Mem ''op'' (CPtr ''char''),
     Mem ''subj_cred'' (CPtr ''cred''),
     Mem ''subj_label'' (CPtr ''aa_label''),
     Mem ''name'' (CPtr ''char''),
     Mem ''info'' (CPtr ''char''),
     Mem ''request'' c_uint,
     Mem ''denied'' c_uint,
     Mem '''' (CUnion False
       [Mem '''' (CStruct False
          [Mem ''peer'' (CPtr ''aa_label''),
           Mem '''' (CUnion False
             [Mem ''fs'' (CStruct False
                [Mem ''target'' (CPtr ''char''),
                 Mem ''ouid'' x86_kuid_t]),
              Mem ''rlim'' (CStruct False
                [Mem ''rlim'' c_int,
                 Mem ''max'' c_ulong]),
              Mem '''' (CStruct False
                [Mem ''signal'' c_int,
                 Mem ''unmappedsig'' c_int]),
              Mem ''net'' (CStruct False
                [Mem ''type'' c_int,
                 Mem ''protocol'' c_int,
                 Mem ''peer_sk'' (CPtr ''sock''),
                 Mem ''addr'' (CPtr ''void''),
                 Mem ''addrlen'' c_int])])]),
        Mem ''iface'' (CStruct False
          [Mem ''profile'' (CPtr ''aa_profile''),
           Mem ''ns'' (CPtr ''char''),
           Mem ''pos'' c_long]),
        Mem ''mnt'' (CStruct False
          [Mem ''src_name'' (CPtr ''char''),
           Mem ''type'' (CPtr ''char''),
           Mem ''trans'' (CPtr ''char''),
           Mem ''data'' (CPtr ''char''),
           Mem ''flags'' c_ulong]),
        Mem ''uring'' (CStruct False
          [Mem ''target'' (CPtr ''aa_label'')])]),
     Mem ''common'' x86_common_audit_data]"

lemma x86_apparmor_audit_data_layout [layout]: "csize x86_apparmor_audit_data = 136" "calign x86_apparmor_audit_data = 8"
  by (simp_all add: x86_apparmor_audit_data_def layout)

definition x86_audit_mode :: ctype where
  "x86_audit_mode = CEnum Uint_k
    [(''AUDIT_NORMAL'', 0),
     (''AUDIT_QUIET_DENIED'', 1),
     (''AUDIT_QUIET'', 2),
     (''AUDIT_NOQUIET'', 3),
     (''AUDIT_ALL'', 4)]"

lemma x86_audit_mode_layout [layout]: "csize x86_audit_mode = 4" "calign x86_audit_mode = 4"
  by (simp_all add: x86_audit_mode_def layout)

definition x86_aa_label :: ctype where
  "x86_aa_label = CStruct False
    [Mem ''count'' (CStruct False
       [Mem ''refcount'' x86_refcount_struct]),
     Mem ''node'' x86_rb_node,
     Mem ''rcu'' x86_callback_head,
     Mem ''proxy'' (CPtr ''aa_proxy''),
     Mem ''hname'' (CPtr ''char''),
     Mem ''flags'' c_long,
     Mem ''secid'' c_uint,
     Mem ''size'' c_int,
     Mem ''vec'' (CArr (CPtr ''aa_profile'') 0)]"

lemma x86_aa_label_layout [layout]: "csize x86_aa_label = 80" "calign x86_aa_label = 8"
  by (simp_all add: x86_aa_label_def layout)

definition x86_aa_profile :: ctype where
  "x86_aa_profile = CStruct False
    [Mem ''base'' (CStruct False
       [Mem ''name'' (CPtr ''char''),
        Mem ''hname'' (CPtr ''char''),
        Mem ''list'' x86_list_head,
        Mem ''profiles'' x86_list_head]),
     Mem ''parent'' (CPtr ''aa_profile''),
     Mem ''ns'' (CPtr ''aa_ns''),
     Mem ''rename'' (CPtr ''char''),
     Mem ''audit'' x86_audit_mode,
     Mem ''mode'' c_long,
     Mem ''path_flags'' c_uint,
     Mem ''disconnected'' (CPtr ''char''),
     Mem ''attach'' (CStruct False
       [Mem ''xmatch_str'' (CPtr ''char''),
        Mem ''xmatch'' (CPtr ''aa_policydb''),
        Mem ''xmatch_len'' c_uint,
        Mem ''xattr_count'' c_int,
        Mem ''xattrs'' (CPtr ''ptr'')]),
     Mem ''rules'' x86_list_head,
     Mem ''rawdata'' (CPtr ''aa_loaddata''),
     Mem ''hash'' (CPtr ''unsigned char''),
     Mem ''dirname'' (CPtr ''char''),
     Mem ''dents'' (CArr (CPtr ''dentry'') 9),
     Mem ''data'' (CPtr ''rhashtable''),
     Mem ''label'' x86_aa_label]"

lemma x86_aa_profile_layout [layout]: "csize x86_aa_profile = 336" "calign x86_aa_profile = 8"
  by (simp_all add: x86_aa_profile_def layout)

definition x86_audit_type :: ctype where
  "x86_audit_type = CEnum Uint_k
    [(''AUDIT_APPARMOR_AUDIT'', 0),
     (''AUDIT_APPARMOR_ALLOWED'', 1),
     (''AUDIT_APPARMOR_DENIED'', 2),
     (''AUDIT_APPARMOR_HINT'', 3),
     (''AUDIT_APPARMOR_STATUS'', 4),
     (''AUDIT_APPARMOR_ERROR'', 5),
     (''AUDIT_APPARMOR_KILL'', 6),
     (''AUDIT_APPARMOR_AUTO'', 7)]"

lemma x86_audit_type_layout [layout]: "csize x86_audit_type = 4" "calign x86_audit_type = 4"
  by (simp_all add: x86_audit_type_def layout)

definition x86_profile_mode :: ctype where
  "x86_profile_mode = CEnum Uint_k
    [(''APPARMOR_ENFORCE'', 0),
     (''APPARMOR_COMPLAIN'', 1),
     (''APPARMOR_KILL'', 2),
     (''APPARMOR_UNCONFINED'', 3),
     (''APPARMOR_USER'', 4)]"

lemma x86_profile_mode_layout [layout]: "csize x86_profile_mode = 4" "calign x86_profile_mode = 4"
  by (simp_all add: x86_profile_mode_def layout)

end
