(* ===== verification/Core_Read.thy ===== *)
theory Core_Read
  imports Vmlinux_Scalars
begin

text \<open>
  Reading kernel structures by field. A program names the fields, the loader turns them into
  offsets with the structures of the running kernel, and at run time the offsets are added to
  addresses and the memory is read. \<^verbatim>\<open>BPF_CORE_READ(task, nsproxy, mnt_ns, ns.inum)\<close> is the chain of
  the accesses \<^verbatim>\<open>nsproxy\<close>, \<^verbatim>\<open>mnt_ns\<close> and \<^verbatim>\<open>ns.inum\<close>, with a pointer followed between each two.
\<close>

section \<open>Memory\<close>

text \<open>An address that cannot be read gives zero bytes, like the helpers do.\<close>

type_synonym memory = "u64 \<Rightarrow> u8"

definition mem_bytes :: "memory \<Rightarrow> u64 \<Rightarrow> nat \<Rightarrow> u8 list" where
  "mem_bytes m a n = map (\<lambda>i. m (a + of_nat i)) [0..<n]"

definition load :: "memory \<Rightarrow> u64 \<Rightarrow> nat \<Rightarrow> u64" where
  "load m a n = le_word (mem_bytes m a n)"

lemma length_mem_bytes [simp]: "length (mem_bytes m a n) = n"
  by (simp add: mem_bytes_def)

section \<open>Field accesses\<close>

datatype cstep = Fld string | Idx nat

type_synonym btf = "string \<rightharpoonup> ctype"

fun field_path :: "ctype \<Rightarrow> cstep list \<Rightarrow> (nat \<times> ctype) option" where
  "field_path t [] = Some (0, t)"
| "field_path t (Fld f # ps) =
     (case find_field t f of
        None \<Rightarrow> None
      | Some (n, u) \<Rightarrow> map_option (\<lambda>(k, v). (n div 8 + k, v)) (field_path u ps))"
| "field_path t (Idx i # ps) =
     (case t of
        CArr u n \<Rightarrow> map_option (\<lambda>(k, v). (i * csize u + k, v)) (field_path u ps)
      | _ \<Rightarrow> None)"

definition bpf_core_field_exists :: "btf \<Rightarrow> string \<Rightarrow> cstep list \<Rightarrow> bool" where
  "bpf_core_field_exists B S ps \<longleftrightarrow>
     (case B S of None \<Rightarrow> False | Some t \<Rightarrow> field_path t ps \<noteq> None)"

definition bpf_core_offset :: "btf \<Rightarrow> string \<Rightarrow> cstep list \<Rightarrow> nat" where
  "bpf_core_offset B S ps =
     (case B S of None \<Rightarrow> 0 | Some t \<Rightarrow> (case field_path t ps of None \<Rightarrow> 0 | Some (n, u) \<Rightarrow> n))"

text \<open>What the loader makes of a chain: the offset of every access, and the size of the last field.\<close>

fun resolve :: "btf \<Rightarrow> string \<Rightarrow> cstep list list \<Rightarrow> (nat list \<times> nat) option" where
  "resolve B S [] = None"
| "resolve B S (ps # chain) =
     (case B S of
        None \<Rightarrow> None
      | Some t \<Rightarrow>
          (case field_path t ps of
             None \<Rightarrow> None
           | Some (n, u) \<Rightarrow>
               if chain = [] then Some ([n], csize u)
               else (case u of
                       CPtr S' \<Rightarrow> map_option (\<lambda>(ns, k). (n # ns, k)) (resolve B S' chain)
                     | _ \<Rightarrow> None)))"

fun follow :: "memory \<Rightarrow> u64 \<Rightarrow> nat list \<Rightarrow> nat \<Rightarrow> u64" where
  "follow m a [] k = 0"
| "follow m a [n] k = load m (a + of_nat n) k"
| "follow m a (n # n' # ns) k = follow m (load m (a + of_nat n) 8) (n' # ns) k"

text \<open>
  The read at run time. A program with an access that does not resolve is refused or reads
  zero; the structures below resolve every access.
\<close>

definition core_read :: "btf \<Rightarrow> memory \<Rightarrow> string \<Rightarrow> u64 \<Rightarrow> cstep list list \<Rightarrow> u64" where
  "core_read B m S a chain =
     (case resolve B S chain of None \<Rightarrow> 0 | Some (ns, k) \<Rightarrow> follow m a ns k)"

section \<open>Accesses are sound\<close>

text \<open>The bytes of an access lie within the structure.\<close>

fun indexes_ok :: "ctype \<Rightarrow> cstep list \<Rightarrow> bool" where
  "indexes_ok t [] \<longleftrightarrow> True"
| "indexes_ok t (Fld f # ps) \<longleftrightarrow> (case find_field t f of None \<Rightarrow> True | Some (n, u) \<Rightarrow> indexes_ok u ps)"
| "indexes_ok t (Idx i # ps) \<longleftrightarrow> (case t of CArr u n \<Rightarrow> i < n \<and> indexes_ok u ps | _ \<Rightarrow> True)"

lemma field_path_bounds:
  "field_path t ps = Some (n, u) \<Longrightarrow> indexes_ok t ps \<Longrightarrow> n + csize u \<le> csize t"
proof (induction t ps arbitrary: n u rule: field_path.induct)
  case (2 t f ps)
  obtain k v where f: "find_field t f = Some (k, v)" using 2(2) by (auto split: option.splits)
  then obtain l where l: "field_path v ps = Some (l, u)" "n = k div 8 + l" using 2(2) by auto
  have "l + csize u \<le> csize v" using 2(1) [OF f refl l(1)] 2(3) f by simp
  moreover have "8 * (k div 8) = k" "k + 8 * csize v \<le> 8 * csize t" using find_bounds(1) [OF f] by auto
  ultimately show ?case using l(2) by linarith
next
  case (3 t i ps)
  obtain v k where t: "t = CArr v k" using 3(2) by (cases t) auto
  then obtain l where l: "field_path v ps = Some (l, u)" "n = i * csize v + l" using 3(2) by auto
  have "l + csize u \<le> csize v" "i < k" using 3(1) [OF t l(1)] 3(3) t by auto
  then have "n + csize u \<le> Suc i * csize v" using l(2) by simp
  also have "\<dots> \<le> k * csize v" using \<open>i < k\<close> by (intro mult_right_mono) auto
  finally show ?case using t by (simp add: mult.commute)
qed simp

section \<open>Values that are read\<close>

lemma bit_le_word: "bit (le_word bs :: 'a::len word) i \<Longrightarrow> i < 8 * length bs"
proof (induction bs arbitrary: i)
  case (Cons b bs)
  show ?case
  proof (cases "i < 8")
    case False
    then have "\<not> bit b i" using bit_imp_le_length [of b i] by auto
    then have "bit (le_word bs :: 'a word) (i - 8)"
      using Cons.prems by (auto simp: bit_or_iff bit_push_bit_iff bit_ucast_iff)
    from Cons.IH [OF this] show ?thesis using False by auto
  qed simp
qed simp

lemma load_width: "unat (load m a n) < 2 ^ (8 * n)"
proof -
  have "load m a n = take_bit (8 * n) (load m a n)"
    using bit_le_word [of "mem_bytes m a n", where 'a = 64]
    by (intro bit_word_eqI) (auto simp: load_def bit_take_bit_iff)
  then have "unat (load m a n) = take_bit (8 * n) (unat (load m a n))"
    by (metis unsigned_take_bit_eq)
  also have "\<dots> < 2 ^ (8 * n)" by simp
  finally show ?thesis .
qed

lemma follow_load: "ns \<noteq> [] \<Longrightarrow> \<exists>p. follow m a ns k = load m p k"
  by (induction m a ns k rule: follow.induct) auto

section \<open>Cells of eight bytes\<close>

text \<open>A memory given by the little endian words at the addresses that are multiples of eight.\<close>

definition cells :: "(u64 \<Rightarrow> u64) \<Rightarrow> memory" where
  "cells w a = ucast (drop_bit (8 * unat (take_bit 3 a)) (w (a - take_bit 3 a)))"

lemma cells_byte:
  assumes "take_bit 3 b = 0" "i < 8"
  shows "cells w (b + of_nat i) = ucast (drop_bit (8 * i) (w b))"
proof -
  have i: "unat (of_nat i :: u64) = i" using assms(2) by (simp add: unsigned_of_nat take_bit_nat_eq_self)
  have i': "take_bit 3 (of_nat i :: u64) = of_nat i"
    using assms(2) by (simp add: take_bit_of_nat take_bit_nat_eq_self)
  have "b AND of_nat i = 0"
  proof (rule bit_word_eqI)
    fix n
    show "bit (b AND of_nat i) n \<longleftrightarrow> bit (0 :: u64) n"
      using arg_cong [OF assms(1), of "\<lambda>x. bit x n"] arg_cong [OF i', of "\<lambda>x. bit x n"]
      by (auto simp: bit_and_iff bit_take_bit_iff)
  qed
  then have "b + of_nat i = b OR of_nat i" by (rule disjunctive_add_eq_or)
  then have "take_bit 3 (b + of_nat i) = of_nat i"
    using assms(1) i' by simp
  then show ?thesis using i by (simp add: cells_def)
qed

lemma load_cells:
  assumes "unat (take_bit 3 a) + n \<le> 8"
  shows "load (cells w) a n =
    take_bit (8 * n) (drop_bit (8 * unat (take_bit 3 a)) (w (a - take_bit 3 a)))"
proof -
  define j b where "j = unat (take_bit 3 a)" and "b = a - take_bit 3 a"
  have b: "b = push_bit 3 (drop_bit 3 a)" using bits_ident [of 3 a] by (simp add: b_def algebra_simps)
  then have "take_bit 3 b = 0" by (simp add: take_bit_push_bit)
  moreover have "a + of_nat i = b + of_nat (j + i)" for i by (simp add: j_def b_def)
  moreover have "j + n \<le> 8" using assms by (simp add: j_def)
  ultimately have "m \<in> {0..<n} \<Longrightarrow> cells w (a + of_nat m) = ucast (drop_bit (8 * m) (drop_bit (8 * j) (w b)))" for m
    using cells_byte [of b "j + m" w] by (simp add: algebra_simps)
  then have "mem_bytes (cells w) a n = le_bytes n (drop_bit (8 * j) (w b))"
    by (simp add: mem_bytes_def le_bytes_def)
  then show ?thesis
    by (intro bit_word_eqI) (auto simp: load_def bit_le_word_le_bytes bit_take_bit_iff j_def b_def)
qed

end
