(* ===== verification/Enricher.thy ===== *)
theory Enricher
  imports Filters
begin

text \<open>
  The AppArmor audit source: the program \<^verbatim>\<open>enricher.bpf.c\<close>, a probe on \<^verbatim>\<open>aa_audit\<close> that sends an
  event for every denied or complained access, and its decoder in \<^verbatim>\<open>bpfevent.go\<close>. The event has
  a fixed header and three strings of variable length.
\<close>

section \<open>The environment\<close>

abbreviation (input) AUDIT_APPARMOR_HINT :: int where "AUDIT_APPARMOR_HINT \<equiv> 3"
abbreviation (input) AUDIT_APPARMOR_STATUS :: int where "AUDIT_APPARMOR_STATUS \<equiv> 4"
abbreviation (input) APPARMOR_COMPLAIN :: int where "APPARMOR_COMPLAIN \<equiv> 1"

text \<open>
  The kernel memory the probe reads, by address, and the helpers. \<open>log_stale\<close> is what the
  reserved ring buffer memory holds, \<open>stack_junk\<close> what the uninitialised buffers hold.
\<close>

record audit_kernel =
  common_exists :: bool
  common_audit_data :: "u64 \<Rightarrow> u64"
  ad_error :: "u64 \<Rightarrow> int"
  ad_request :: "u64 \<Rightarrow> u32"
  ad_name :: "u64 \<Rightarrow> u64"
  ad_op :: "u64 \<Rightarrow> u64"
  profile_mode :: "u64 \<Rightarrow> int"
  read_str :: "u64 \<Rightarrow> nat \<Rightarrow> u8 list option"
  log_room :: "u8 list list \<Rightarrow> nat \<Rightarrow> bool"
  log_stale :: "u8 list list \<Rightarrow> nat \<Rightarrow> u8 list"
  stack_junk :: "nat \<Rightarrow> u8 list"

locale audit_env =
  fixes A :: audit_kernel
  assumes read_str: "0 < n \<Longrightarrow> read_str A p n = Some bs \<Longrightarrow> c_string_of_size n bs"
    and reserve_size: "length (log_stale A q n) = n"
    and junk_size: "length (stack_junk A n) = n"

record estate =
  audit_log :: "u8 list list"
  audit_lost :: "nat \<Rightarrow> u64 list"

section \<open>The probe\<close>

definition enricher_get_mntns :: "task \<Rightarrow> u32" where
  "enricher_get_mntns t = t_mntns_inum t"

text \<open>The result is the length and the buffer.\<close>

definition read_kernel_str :: "audit_kernel \<Rightarrow> u8 list \<Rightarrow> u64 \<Rightarrow> int \<times> u8 list" where
  "read_kernel_str A stack kernel_ptr =
     (let r = (if kernel_ptr \<noteq> 0
               then case read_str A kernel_ptr (length stack) of
                      None \<Rightarrow> (- 14, stack)
                    | Some bs \<Rightarrow> (int (length bs), bs @ drop (length bs) stack)
               else (0, stack))
      in if fst r < 1 then (1, (snd r)[0 := 0]) else r)"

definition get_audit_data :: "audit_kernel \<Rightarrow> u64 \<Rightarrow> u64" where
  "get_audit_data A data = (if common_exists A then data else common_audit_data A data)"

text \<open>The loop for the length of the task name.\<close>

primrec comm_len_loop :: "u8 list \<Rightarrow> nat list \<Rightarrow> int" where
  "comm_len_loop comm [] = int TASK_COMM_LEN"
| "comm_len_loop comm (i # is) = (if comm ! i = 0 then int i + 1 else comm_len_loop comm is)"

text \<open>A write that does not fit the reserved memory fails and changes nothing.\<close>

definition bpf_dynptr_write :: "u8 list \<Rightarrow> nat \<Rightarrow> u8 list \<Rightarrow> u8 list" where
  "bpf_dynptr_write buf off bs = (case write_at buf off bs of None \<Rightarrow> buf | Some buf' \<Rightarrow> buf')"

definition count_audit_lost :: "task \<Rightarrow> estate \<Rightarrow> estate" where
  "count_audit_lost t s =
     (case nth_opt (audit_lost s (t_cpu t)) 0 of
        None \<Rightarrow> s
      | Some lost \<Rightarrow> s\<lparr>audit_lost := (audit_lost s)(t_cpu t := (audit_lost s (t_cpu t))[0 := lost + 1])\<rparr>)"

definition kprobe_aa_audit ::
  "audit_kernel \<Rightarrow> task \<Rightarrow> int \<Rightarrow> u64 \<Rightarrow> u64 \<Rightarrow> estate \<Rightarrow> int \<times> estate" where
  "kprobe_aa_audit A t typ profile data s =
     (let ad = get_audit_data A data in
      if ad = 0 then (0, s)
      else if ad_error A ad = 0 then (0, s)
      else if typ = AUDIT_APPARMOR_HINT \<or> typ = AUDIT_APPARMOR_STATUS then (0, s)
      else let mntns = enricher_get_mntns t;
               pid = current_pid t;
               request = ad_request A ad;
               complain = (if profile_mode A profile = APPARMOR_COMPLAIN then 1 else 0 :: u8);
               op = read_kernel_str A (stack_junk A 16) (ad_op A ad);
               op_len = nat (fst op);
               comm = t_comm t;
               comm_len = nat (comm_len_loop comm [0..<TASK_COMM_LEN]);
               name = read_kernel_str A (stack_junk A 256) (ad_name A ad);
               name_len = nat (fst name);
               sz = unat (of_nat (4 + 4 + 4 + 1 + op_len + comm_len + name_len) :: u32)
           in if \<not> log_room A (audit_log s) sz then (0, count_audit_lost t s)
              else let ev = log_stale A (audit_log s) sz;
                       ev = bpf_dynptr_write ev 0 (le_bytes 4 mntns);
                       ev = bpf_dynptr_write ev 4 (le_bytes 4 pid);
                       ev = bpf_dynptr_write ev 8 (le_bytes 4 request);
                       ev = bpf_dynptr_write ev 12 [complain];
                       offset = 13;
                       ev = bpf_dynptr_write ev offset (take op_len (snd op));
                       offset = offset + op_len;
                       ev = bpf_dynptr_write ev offset (take comm_len comm);
                       offset = offset + comm_len;
                       ev = bpf_dynptr_write ev offset (take name_len (snd name))
                   in (0, s\<lparr>audit_log := audit_log s @ [ev]\<rparr>))"

section \<open>The decoder\<close>

record AuditLine =
  ProcessID :: nat
  TimestampID :: "u8 list"
  Apparmor :: "u8 list"
  Operation :: "u8 list"
  Executable :: "u8 list"
  Name :: "u8 list"
  ExtraInfo :: "u8 list"

fun decimal :: "nat \<Rightarrow> u8 list" where
  "decimal n = (if n < 10 then [of_nat (48 + n)] else decimal (n div 10) @ [of_nat (48 + n mod 10)])"

declare decimal.simps [simp del]

definition decimal3 :: "nat \<Rightarrow> u8 list" where
  "decimal3 n = replicate (3 - length (decimal n)) 48 @ decimal n"

text \<open>\<^verbatim>\<open>bytes.Split(s, []byte{0})\<close>.\<close>

fun split_NUL :: "u8 list \<Rightarrow> u8 list list" where
  "split_NUL [] = [[]]"
| "split_NUL (b # bs) =
     (if b = 0 then [] # split_NUL bs
      else case split_NUL bs of [] \<Rightarrow> [[b]] | w # ws \<Rightarrow> (b # w) # ws)"

definition slice :: "u8 list \<Rightarrow> nat \<Rightarrow> nat \<Rightarrow> u8 list" where
  "slice raw i j = take (j - i) (drop i raw)"

abbreviation (input) bpfAuditHeaderSize :: nat where "bpfAuditHeaderSize \<equiv> 4 + 4 + 4 + 1"

datatype audit_error = Short_event nat | Few_strings nat

definition parseBpfAuditEvent :: "u8 list \<Rightarrow> nat \<Rightarrow> audit_error + (AuditLine \<times> u32)" where
  "parseBpfAuditEvent raw ts =
     (if length raw \<le> bpfAuditHeaderSize then Inl (Short_event (length raw))
      else let mntns = le_word (slice raw 0 4);
               pid = unat (le_word (slice raw 4 8) :: u32);
               request = unat (le_word (slice raw 8 12) :: u32);
               complain = raw ! 12;
               strs = split_NUL (drop bpfAuditHeaderSize raw)
           in if length strs < 3 then Inl (Few_strings (length strs))
              else Inr (\<lparr>ProcessID = pid,
                        TimestampID = decimal (ts div 1000) @ [0x2E] @ decimal3 (ts mod 1000),
                        Apparmor = bytes_of (if complain > 0 then ''ALLOW'' else ''DENIED''),
                        Operation = strs ! 0, Executable = strs ! 1, Name = strs ! 2,
                        ExtraInfo = bytes_of ''request:'' @ decimal request\<rparr>, mntns))"

section \<open>The event\<close>

text \<open>The string a kernel pointer stands for: empty if there is none or it cannot be read.\<close>

definition kernel_string :: "audit_kernel \<Rightarrow> nat \<Rightarrow> u64 \<Rightarrow> u8 list" where
  "kernel_string A n p =
     (if p = 0 then [] else case read_str A p n of None \<Rightarrow> [] | Some bs \<Rightarrow> butlast bs)"

lemma read_kernel_str_string:
  assumes "audit_env A" "length stack = n" "0 < n"
  shows "nat (fst (read_kernel_str A stack p)) = Suc (length (kernel_string A n p)) \<and>
    take (Suc (length (kernel_string A n p))) (snd (read_kernel_str A stack p)) = kernel_string A n p @ [0] \<and>
    0 \<notin> set (kernel_string A n p) \<and> length (kernel_string A n p) < n"
proof -
  have none: "take (Suc 0) (stack[0 := 0]) = [0]" using assms(2,3) by (cases stack) auto
  show ?thesis
  proof (cases "p = 0 \<or> read_str A p n = None")
    case True
    then show ?thesis
      using none assms(2,3) by (auto simp: read_kernel_str_def kernel_string_def)
  next
    case False
    then obtain bs where bs: "p \<noteq> 0" "read_str A p n = Some bs" by auto
    then have str: "c_string_of_size n bs" using audit_env.read_str [OF assms(1,3)] by blast
    then have split: "bs = butlast bs @ [0]"
      using append_butlast_last_id [of bs] by (auto simp: c_string_of_size_def)
    then have len: "length bs = Suc (length (butlast bs))" by (metis length_append_singleton)
    have "read_kernel_str A stack p = (int (length bs), bs @ drop (length bs) stack)"
      using bs assms(2) len by (auto simp: read_kernel_str_def Let_def)
    moreover have "kernel_string A n p = butlast bs" using bs by (simp add: kernel_string_def)
    moreover have "take (length bs) (bs @ drop (length bs) stack) = butlast bs @ [0]"
      by (rule trans [OF _ split]) simp
    moreover have "0 \<notin> set (butlast bs)" using str by (simp add: c_string_of_size_def)
    moreover have "length (butlast bs) < n" using str len unfolding c_string_of_size_def by linarith
    ultimately show ?thesis by (simp only: len [symmetric] fst_conv snd_conv nat_int) simp
  qed
qed

lemma comm_len_loop_range:
  assumes "length comm = TASK_COMM_LEN" "0 \<in> set (drop i comm)" "i \<le> TASK_COMM_LEN"
  shows "comm_len_loop comm [i..<TASK_COMM_LEN] = int (i + length (cstr (drop i comm)) + 1)"
  using assms(2,3)
proof (induction "TASK_COMM_LEN - i" arbitrary: i)
  case 0
  then show ?case using assms(1) by simp
next
  case (Suc d)
  then have i: "i < TASK_COMM_LEN" by simp
  then have c: "drop i comm = comm ! i # drop (Suc i) comm" using assms(1) by (simp add: Cons_nth_drop_Suc)
  have upt: "[i..<TASK_COMM_LEN] = i # [Suc i..<TASK_COMM_LEN]" using i by (simp add: upt_conv_Cons)
  show ?case
  proof (cases "comm ! i = 0")
    case True
    then show ?thesis by (simp add: upt c cstr_Cons)
  next
    case False
    then have "0 \<in> set (drop (Suc i) comm)" using Suc.prems(1) c by auto
    then show ?thesis using Suc.hyps(1) [of "Suc i"] Suc.hyps(2) i False by (simp only: upt) (simp add: c cstr_Cons)
  qed
qed

lemma comm_string:
  assumes "task_ok t"
  shows "nat (comm_len_loop (t_comm t) [0..<TASK_COMM_LEN]) = Suc (length (cstr (t_comm t)))"
    "take (Suc (length (cstr (t_comm t)))) (t_comm t) = cstr (t_comm t) @ [0]"
    "length (cstr (t_comm t)) < TASK_COMM_LEN"
proof -
  have len: "length (t_comm t) = TASK_COMM_LEN" and zero: "0 \<in> set (t_comm t)"
    using assms last_in_set [of "t_comm t"] by (auto simp: task_ok_def length_greater_0_conv [symmetric]
        simp del: length_greater_0_conv)
  show "nat (comm_len_loop (t_comm t) [0..<TASK_COMM_LEN]) = Suc (length (cstr (t_comm t)))"
    using comm_len_loop_range [OF len, of 0] zero by simp
  have "take (Suc (length (cstr bs))) bs = cstr bs @ [0]" if "0 \<in> set bs" for bs
    using that by (induction bs) (auto simp: cstr_Cons)
  then show "take (Suc (length (cstr (t_comm t)))) (t_comm t) = cstr (t_comm t) @ [0]" using zero by blast
  show "length (cstr (t_comm t)) < TASK_COMM_LEN" using cstr_length_less [OF zero] len by simp
qed

text \<open>Writing piece after piece fills the reserved memory.\<close>

lemma dynptr_fill:
  "off = length pre \<Longrightarrow> length bs \<le> length rest \<Longrightarrow>
     bpf_dynptr_write (pre @ rest) off bs = (pre @ bs) @ drop (length bs) rest"
  by (simp add: bpf_dynptr_write_def write_at_def)

definition audit_record :: "audit_kernel \<Rightarrow> task \<Rightarrow> u64 \<Rightarrow> u64 \<Rightarrow> u8 list" where
  "audit_record A t profile ad =
     le_bytes 4 (t_mntns_inum t) @ le_bytes 4 (current_pid t) @ le_bytes 4 (ad_request A ad) @
     [if profile_mode A profile = APPARMOR_COMPLAIN then 1 else 0] @
     kernel_string A 16 (ad_op A ad) @ [0] @ cstr (t_comm t) @ [0] @ kernel_string A 256 (ad_name A ad) @ [0]"

lemma fill_record:
  assumes "length ev = 13 + length op + length comm + length name"
    "length a = 4" "length b = 4" "length c = 4"
    "offs = 13 + length op" "offs' = offs + length comm"
  shows "bpf_dynptr_write (bpf_dynptr_write (bpf_dynptr_write (bpf_dynptr_write (bpf_dynptr_write
      (bpf_dynptr_write (bpf_dynptr_write ev 0 a) 4 b) 8 c) 12 [d]) 13 op) offs comm) offs' name =
    a @ b @ c @ [d] @ op @ comm @ name"
proof -
  note assms(6) [simp]
  have "bpf_dynptr_write ev 0 a = a @ drop 4 ev"
    using dynptr_fill [of 0 "[]" a ev] assms by simp
  moreover have "bpf_dynptr_write (a @ drop 4 ev) 4 b = (a @ b) @ drop 8 ev"
    using dynptr_fill [of 4 a b "drop 4 ev"] assms by simp
  moreover have "bpf_dynptr_write ((a @ b) @ drop 8 ev) 8 c = (a @ b @ c) @ drop 12 ev"
    using dynptr_fill [of 8 "a @ b" c "drop 8 ev"] assms by simp
  moreover have "bpf_dynptr_write ((a @ b @ c) @ drop 12 ev) 12 [d] = (a @ b @ c @ [d]) @ drop 13 ev"
    using dynptr_fill [of 12 "a @ b @ c" "[d]" "drop 12 ev"] assms by simp
  moreover have "bpf_dynptr_write ((a @ b @ c @ [d]) @ drop 13 ev) 13 op = (a @ b @ c @ [d] @ op) @ drop offs ev"
    using dynptr_fill [of 13 "a @ b @ c @ [d]" op "drop 13 ev"] assms by (simp add: add.commute)
  moreover have "bpf_dynptr_write ((a @ b @ c @ [d] @ op) @ drop offs ev) offs comm =
      (a @ b @ c @ [d] @ op @ comm) @ drop (offs + length comm) ev"
    using dynptr_fill [of offs "a @ b @ c @ [d] @ op" comm "drop offs ev"] assms by (simp add: add.commute)
  moreover have "bpf_dynptr_write ((a @ b @ c @ [d] @ op @ comm) @ drop (offs + length comm) ev) (offs + length comm) name =
      a @ b @ c @ [d] @ op @ comm @ name"
    using dynptr_fill [of "offs + length comm" "a @ b @ c @ [d] @ op @ comm" name "drop (offs + length comm) ev"] assms
    by simp
  ultimately show ?thesis by simp
qed

definition audited :: "audit_kernel \<Rightarrow> int \<Rightarrow> u64 \<Rightarrow> bool" where
  "audited A typ data \<longleftrightarrow> get_audit_data A data \<noteq> 0 \<and> ad_error A (get_audit_data A data) \<noteq> 0 \<and>
     typ \<noteq> AUDIT_APPARMOR_HINT \<and> typ \<noteq> AUDIT_APPARMOR_STATUS"

lemma kprobe_record:
  assumes A: "audit_env A" and t: "task_ok t" and au: "audited A typ data"
  shows "kprobe_aa_audit A t typ profile data s =
    (0, if log_room A (audit_log s) (length (audit_record A t profile (get_audit_data A data)))
        then s\<lparr>audit_log := audit_log s @ [audit_record A t profile (get_audit_data A data)]\<rparr>
        else count_audit_lost t s)"
proof -
  let ?ad = "get_audit_data A data"
  define op name where "op = kernel_string A 16 (ad_op A ?ad)" and "name = kernel_string A 256 (ad_name A ?ad)"
  have o: "nat (fst (read_kernel_str A (stack_junk A 16) (ad_op A ?ad))) = Suc (length op)"
      "take (Suc (length op)) (snd (read_kernel_str A (stack_junk A 16) (ad_op A ?ad))) = op @ [0]" "length op < 16"
    using read_kernel_str_string [OF A, of "stack_junk A 16" 16 "ad_op A ?ad"] audit_env.junk_size [OF A]
    by (simp_all add: op_def)
  have n: "nat (fst (read_kernel_str A (stack_junk A 256) (ad_name A ?ad))) = Suc (length name)"
      "take (Suc (length name)) (snd (read_kernel_str A (stack_junk A 256) (ad_name A ?ad))) = name @ [0]" "length name < 256"
    using read_kernel_str_string [OF A, of "stack_junk A 256" 256 "ad_name A ?ad"] audit_env.junk_size [OF A]
    by (simp_all add: name_def)
  note c = comm_string [OF t]
  define total where "total = 4 + 4 + 4 + 1 + Suc (length op) + Suc (length (cstr (t_comm t))) + Suc (length name)"
  have "total < 2 ^ 32" using o(3) n(3) c(3) by (simp add: total_def)
  then have tot: "unat (of_nat total :: u32) = total" by (simp add: unsigned_of_nat take_bit_nat_eq_self)
  have rec: "audit_record A t profile ?ad = le_bytes 4 (t_mntns_inum t) @ le_bytes 4 (current_pid t) @
      le_bytes 4 (ad_request A ?ad) @ [if profile_mode A profile = APPARMOR_COMPLAIN then 1 else 0] @
      (op @ [0]) @ (cstr (t_comm t) @ [0]) @ (name @ [0])"
    by (simp add: audit_record_def op_def name_def)
  have len: "length (audit_record A t profile ?ad) = total" by (simp add: rec total_def)
  have fill: "bpf_dynptr_write (bpf_dynptr_write (bpf_dynptr_write (bpf_dynptr_write (bpf_dynptr_write
      (bpf_dynptr_write (bpf_dynptr_write (log_stale A (audit_log s) total) 0 (le_bytes 4 (t_mntns_inum t)))
        4 (le_bytes 4 (current_pid t))) 8 (le_bytes 4 (ad_request A ?ad)))
        12 [if profile_mode A profile = APPARMOR_COMPLAIN then 1 else 0]) 13 (op @ [0]))
        (13 + Suc (length op)) (cstr (t_comm t) @ [0])) (13 + Suc (length op) + Suc (length (cstr (t_comm t)))) (name @ [0]) =
      audit_record A t profile ?ad"
    unfolding rec
    by (rule fill_record) (simp_all add: audit_env.reserve_size [OF A] total_def)
  show ?thesis
    using au unfolding audited_def kprobe_aa_audit_def Let_def enricher_get_mntns_def o n c
      total_def [symmetric] tot len fill
    by simp
qed

section \<open>The event as the userspace sees it\<close>

lemma split_NUL_append: "0 \<notin> set bs \<Longrightarrow> split_NUL (bs @ 0 # cs) = bs # split_NUL cs"
  by (induction bs) auto

lemma slice_parts:
  assumes "length a = 4" "length b = 4" "length c = 4"
  shows "slice (a @ b @ c @ d # rest) 0 4 = a" "slice (a @ b @ c @ d # rest) 4 8 = b"
    "slice (a @ b @ c @ d # rest) 8 12 = c" "(a @ b @ c @ d # rest) ! 12 = d"
    "drop 13 (a @ b @ c @ d # rest) = rest"
  using assms by (simp_all add: slice_def nth_append)

lemma parse_record:
  assumes A: "audit_env A" and t: "task_ok t"
  shows "parseBpfAuditEvent (audit_record A t profile ad) ts =
    Inr (\<lparr>ProcessID = unat (current_pid t),
          TimestampID = decimal (ts div 1000) @ [0x2E] @ decimal3 (ts mod 1000),
          Apparmor = bytes_of (if profile_mode A profile = APPARMOR_COMPLAIN then ''ALLOW'' else ''DENIED''),
          Operation = kernel_string A 16 (ad_op A ad), Executable = cstr (t_comm t),
          Name = kernel_string A 256 (ad_name A ad),
          ExtraInfo = bytes_of ''request:'' @ decimal (unat (ad_request A ad))\<rparr>, t_mntns_inum t)"
proof -
  define rest where "rest = kernel_string A 16 (ad_op A ad) @ 0 # cstr (t_comm t) @ 0 #
      kernel_string A 256 (ad_name A ad) @ 0 # []"
  have rec: "audit_record A t profile ad = le_bytes 4 (t_mntns_inum t) @ le_bytes 4 (current_pid t) @
      le_bytes 4 (ad_request A ad) @ (if profile_mode A profile = APPARMOR_COMPLAIN then 1 else 0) # rest"
    by (simp add: audit_record_def rest_def)
  have "0 \<notin> set (kernel_string A 16 p)" "0 \<notin> set (kernel_string A 256 p)" for p
    using read_kernel_str_string [OF A, of "stack_junk A 16" 16 p] audit_env.junk_size [OF A]
      read_kernel_str_string [OF A, of "stack_junk A 256" 256 p]
    by simp_all
  then have strs: "split_NUL rest = [kernel_string A 16 (ad_op A ad), cstr (t_comm t), kernel_string A 256 (ad_name A ad), []]"
    by (simp add: rest_def split_NUL_append cstr_no_NUL)
  have "rest \<noteq> []" by (simp add: rest_def)
  then show ?thesis
    unfolding parseBpfAuditEvent_def rec Let_def
    by (simp add: slice_parts strs)
qed

text \<open>
  (C32) An audited access reaches the userspace as it happened. If the ring buffer has room, the
  probe sends one record, and the decoder gets the process, its mount namespace and name, the
  request, whether the profile is in complain mode, and the operation and the object name, cut
  to 15 and 255 bytes and empty if the kernel has none. Otherwise the record is counted as
  lost. Accesses that are no denials, hints and status messages do nothing.
\<close>

theorem audit_event_end_to_end:
  assumes A: "audit_env A" and t: "task_ok t"
  shows "if \<not> audited A typ data then kprobe_aa_audit A t typ profile data s = (0, s)
    else let ad = get_audit_data A data in
      \<exists>raw. parseBpfAuditEvent raw ts =
          Inr (\<lparr>ProcessID = unat (current_pid t),
                TimestampID = decimal (ts div 1000) @ [0x2E] @ decimal3 (ts mod 1000),
                Apparmor = bytes_of (if profile_mode A profile = APPARMOR_COMPLAIN then ''ALLOW'' else ''DENIED''),
                Operation = kernel_string A 16 (ad_op A ad), Executable = cstr (t_comm t),
                Name = kernel_string A 256 (ad_name A ad),
                ExtraInfo = bytes_of ''request:'' @ decimal (unat (ad_request A ad))\<rparr>, t_mntns_inum t) \<and>
        kprobe_aa_audit A t typ profile data s =
          (0, if log_room A (audit_log s) (length raw) then s\<lparr>audit_log := audit_log s @ [raw]\<rparr>
              else count_audit_lost t s)"
proof (cases "audited A typ data")
  case True
  then show ?thesis
    using kprobe_record [OF A t True] parse_record [OF A t, of profile "get_audit_data A data" ts]
    by (simp only: Let_def not_True_eq_False if_False) blast
next
  case False
  then show ?thesis by (auto simp: audited_def kprobe_aa_audit_def Let_def)
qed

text \<open>A denied write to a file, audited on a kernel before Linux 6.7.\<close>

definition ref_audit :: audit_kernel where
  "ref_audit =
     \<lparr>common_exists = False, common_audit_data = (\<lambda>d. d + 8), ad_error = (\<lambda>ad. - 13), ad_request = (\<lambda>ad. 2),
      ad_name = (\<lambda>ad. 200), ad_op = (\<lambda>ad. 100), profile_mode = (\<lambda>p. 0),
      read_str = (\<lambda>p n. if p = 100 \<and> 8 < n then Some (bytes_of ''open'' @ [0]) else
        if p = 200 \<and> 8 < n then Some (bytes_of ''/etc/x'' @ [0]) else None),
      log_room = (\<lambda>q n. True), log_stale = (\<lambda>q n. replicate n 0xAA), stack_junk = (\<lambda>n. replicate n 0xBB)\<rparr>"

interpretation ref_aa: audit_env ref_audit
  by unfold_locales (auto simp: ref_audit_def c_string_of_size_def bytes_of_def split: if_splits)

theorem audit_event_end_to_end_witness:
  "\<exists>raw line. kprobe_aa_audit ref_audit ref_task 2 0 1000 \<lparr>audit_log = [], audit_lost = \<lambda>_. [0]\<rparr> =
       (0, \<lparr>audit_log = [raw], audit_lost = \<lambda>_. [0]\<rparr>) \<and>
     parseBpfAuditEvent raw 1500 = Inr (line, 7) \<and> ProcessID line = 100 \<and> Operation line = bytes_of ''open'' \<and>
     Name line = bytes_of ''/etc/x'' \<and> Apparmor line = bytes_of ''DENIED''"
proof -
  have t: "task_ok ref_task" by (simp add: task_ok_def ref_task_def)
  have "audited ref_audit 2 1000" "kernel_string ref_audit 16 100 = bytes_of ''open''"
    "kernel_string ref_audit 256 200 = bytes_of ''/etc/x''" "ad_op ref_audit ad = 100" "ad_name ref_audit ad = 200"
    "profile_mode ref_audit 0 = 0" "log_room ref_audit q n" "current_pid ref_task = 100" "t_mntns_inum ref_task = 7" for ad q n
    by (simp_all add: audited_def get_audit_data_def kernel_string_def ref_audit_def bytes_of_def current_pid_def ref_task_def)
  then show ?thesis
    using audit_event_end_to_end [OF ref_aa.audit_env_axioms t, of 2 1000 0 "\<lparr>audit_log = [], audit_lost = \<lambda>_. [0]\<rparr>" 1500]
    by (auto simp: Let_def)
qed

end
