(* ===== verification/Kernel_Memory.thy ===== *)
theory Kernel_Memory
  imports Core_Read Path_Correct Processes Enricher
begin

text \<open>
  What the programs read of the kernel, read from its memory. The hooks of the other theories
  take the values of the fields as functions of addresses and as records; here each of them
  is the field access of the source, resolved against the structures of a kernel and
  carried out on its memory.
\<close>

section \<open>The reads of the recorder\<close>

definition mem_kernel :: "btf \<Rightarrow> memory \<Rightarrow> kernel \<Rightarrow> kernel" where
  "mem_kernel B m K = K\<lparr>
     seq_exists := bpf_core_field_exists B ''mnt_namespace'' [Fld ''seq''],
     ns_id_exists := bpf_core_field_exists B ''mnt_namespace'' [Fld ''ns'', Fld ''ns_id''],
     probe_read := mem_bytes m,
     d_parent := (\<lambda>a. core_read B m ''dentry'' a [[Fld ''d_parent'']]),
     d_name := (\<lambda>a. (core_read B m ''dentry'' a [[Fld ''d_name'', Fld ''name'']],
                     ucast (core_read B m ''dentry'' a [[Fld ''d_name'', Fld ''len'']]))),
     d_hash_pprev := (\<lambda>a. core_read B m ''dentry'' a [[Fld ''d_hash'', Fld ''pprev'']]),
     d_inode := (\<lambda>a. core_read B m ''dentry'' a [[Fld ''d_inode'']]),
     i_ino := (\<lambda>a. core_read B m ''inode'' a [[Fld ''i_ino'']]),
     i_sb := (\<lambda>a. core_read B m ''inode'' a [[Fld ''i_sb'']]),
     s_dev := (\<lambda>a. ucast (core_read B m ''super_block'' a [[Fld ''s_dev'']])),
     s_magic := (\<lambda>a. core_read B m ''super_block'' a [[Fld ''s_magic'']]),
     mnt_root := (\<lambda>a. core_read B m ''vfsmount'' a [[Fld ''mnt_root'']]),
     mnt_parent := (\<lambda>a. core_read B m ''mount'' a [[Fld ''mnt_parent'']]),
     mnt_mountpoint := (\<lambda>a. core_read B m ''mount'' a [[Fld ''mnt_mountpoint'']]),
     mount_mnt_offset := of_nat (bpf_core_offset B ''mount'' [Fld ''mnt''])\<rparr>"

definition mem_path :: "btf \<Rightarrow> memory \<Rightarrow> u64 \<Rightarrow> path" where
  "mem_path B m a =
     \<lparr>p_mnt = core_read B m ''path'' a [[Fld ''mnt'']],
      p_dentry = core_read B m ''path'' a [[Fld ''dentry'']]\<rparr>"

text \<open>The root of a task is the member \<^verbatim>\<open>root\<close> of its file system structure.\<close>

definition mem_task :: "btf \<Rightarrow> memory \<Rightarrow> u64 \<Rightarrow> task \<Rightarrow> task" where
  "mem_task B m a t =
     (let rd = core_read B m ''task_struct'' a;
          mnt_ns = [[Fld ''nsproxy''], [Fld ''mnt_ns'']]
      in t\<lparr>t_mntns_inum := ucast (rd (mnt_ns @ [[Fld ''ns'', Fld ''inum'']])),
           t_mntns_seq := rd (mnt_ns @ [[Fld ''seq'']]),
           t_mntns_ns_id := rd (mnt_ns @ [[Fld ''ns'', Fld ''ns_id'']]),
           t_real_parent_tgid := ucast (rd [[Fld ''real_parent''], [Fld ''tgid'']]),
           t_signal_live := ucast (rd [[Fld ''signal''], [Fld ''live'', Fld ''counter'']]),
           t_thread_status := ucast (rd [[Fld ''thread_info'', Fld ''status'']]),
           t_thread_flags := rd [[Fld ''thread_info'', Fld ''flags'']],
           t_exe_name := rd [[Fld ''mm''], [Fld ''exe_file''], [Fld ''f_path'', Fld ''dentry''],
                             [Fld ''d_name'', Fld ''name'']],
           t_fs_root :=
             mem_path B m (rd [[Fld ''fs'']] + of_nat (bpf_core_offset B ''fs_struct'' [Fld ''root'']))\<rparr>)"

definition mem_file :: "btf \<Rightarrow> memory \<Rightarrow> u64 \<Rightarrow> kfile option" where
  "mem_file B m a =
     (if a = 0 then None
      else Some \<lparr>f_path = mem_path B m (a + of_nat (bpf_core_offset B ''file'' [Fld ''f_path''])),
                 f_inode_mode = ucast (core_read B m ''file'' a [[Fld ''f_inode''], [Fld ''i_mode'']]),
                 f_mode = ucast (core_read B m ''file'' a [[Fld ''f_mode'']])\<rparr>)"

definition mem_bprm_file :: "btf \<Rightarrow> memory \<Rightarrow> u64 \<Rightarrow> kfile option" where
  "mem_bprm_file B m a = mem_file B m (core_read B m ''linux_binprm'' a [[Fld ''file'']])"

definition mem_fork :: "btf \<Rightarrow> memory \<Rightarrow> u64 \<Rightarrow> u64 \<Rightarrow> fork_tasks" where
  "mem_fork B m parent child =
     \<lparr>fk_parent_tgid = ucast (core_read B m ''task_struct'' parent [[Fld ''tgid'']]),
      fk_child_pid = ucast (core_read B m ''task_struct'' child [[Fld ''pid'']]),
      fk_child_tgid = ucast (core_read B m ''task_struct'' child [[Fld ''tgid'']])\<rparr>"

text \<open>The contexts of the raw and of the single syscall tracepoints, with their six arguments.\<close>

definition mem_raw_sys_enter :: "btf \<Rightarrow> memory \<Rightarrow> u64 \<Rightarrow> raw_sys_enter" where
  "mem_raw_sys_enter B m a =
     \<lparr>se_id = core_read B m ''trace_event_raw_sys_enter'' a [[Fld ''id'']],
      se_args = map (\<lambda>i. core_read B m ''trace_event_raw_sys_enter'' a [[Fld ''args'', Idx i]]) [0..<6]\<rparr>"

definition mem_syscall_trace_enter :: "btf \<Rightarrow> memory \<Rightarrow> u64 \<Rightarrow> syscall_trace_enter" where
  "mem_syscall_trace_enter B m a =
     \<lparr>sc_args = map (\<lambda>i. core_read B m ''syscall_trace_enter'' a [[Fld ''args'', Idx i]]) [0..<6],
      sc_readable = (\<lambda>i. True)\<rparr>"

section \<open>The reads of the audit probe\<close>

definition mem_audit :: "btf \<Rightarrow> memory \<Rightarrow> audit_kernel \<Rightarrow> audit_kernel" where
  "mem_audit B m A = A\<lparr>
     common_exists := bpf_core_field_exists B ''apparmor_audit_data'' [Fld ''common''],
     common_audit_data := (\<lambda>a. core_read B m ''common_audit_data'' a [[Fld ''apparmor_audit_data'']]),
     ad_error := (\<lambda>a. sint (ucast (core_read B m ''apparmor_audit_data'' a [[Fld ''error'']]) :: u32)),
     ad_request := (\<lambda>a. ucast (core_read B m ''apparmor_audit_data'' a [[Fld ''request'']])),
     ad_name := (\<lambda>a. core_read B m ''apparmor_audit_data'' a [[Fld ''name'']]),
     ad_op := (\<lambda>a. core_read B m ''apparmor_audit_data'' a [[Fld ''op'']]),
     profile_mode := (\<lambda>a. sint (core_read B m ''aa_profile'' a [[Fld ''mode'']]))\<rparr>"

section \<open>What the programs rely on\<close>

text \<open>
  The accesses of the two programs, with the number of bytes the program takes the result for.
  Only the test for tasks of the 32 bit ABI depends on the target.
\<close>

definition vfs_accesses :: "(string \<times> cstep list list \<times> nat) list" where
  "vfs_accesses =
     [(''path'', [[Fld ''mnt'']], 8), (''path'', [[Fld ''dentry'']], 8),
      (''dentry'', [[Fld ''d_parent'']], 8), (''dentry'', [[Fld ''d_name'', Fld ''name'']], 8),
      (''dentry'', [[Fld ''d_name'', Fld ''len'']], 4), (''dentry'', [[Fld ''d_hash'', Fld ''pprev'']], 8),
      (''dentry'', [[Fld ''d_inode'']], 8), (''inode'', [[Fld ''i_ino'']], 8),
      (''inode'', [[Fld ''i_sb'']], 8), (''super_block'', [[Fld ''s_dev'']], 4),
      (''super_block'', [[Fld ''s_magic'']], 8), (''vfsmount'', [[Fld ''mnt_root'']], 8),
      (''mount'', [[Fld ''mnt_parent'']], 8), (''mount'', [[Fld ''mnt_mountpoint'']], 8),
      (''file'', [[Fld ''f_inode''], [Fld ''i_mode'']], 2), (''file'', [[Fld ''f_mode'']], 4),
      (''linux_binprm'', [[Fld ''file'']], 8)]"

definition task_accesses :: "(string \<times> cstep list list \<times> nat) list" where
  "task_accesses =
     [(''task_struct'', [[Fld ''nsproxy''], [Fld ''mnt_ns''], [Fld ''ns'', Fld ''inum'']], 4),
      (''task_struct'', [[Fld ''nsproxy''], [Fld ''mnt_ns''], [Fld ''seq'']], 8),
      (''task_struct'', [[Fld ''real_parent''], [Fld ''tgid'']], 4),
      (''task_struct'', [[Fld ''signal''], [Fld ''live'', Fld ''counter'']], 4),
      (''task_struct'', [[Fld ''mm''], [Fld ''exe_file''], [Fld ''f_path'', Fld ''dentry''],
                         [Fld ''d_name'', Fld ''name'']], 8),
      (''task_struct'', [[Fld ''fs'']], 8), (''task_struct'', [[Fld ''pid'']], 4),
      (''task_struct'', [[Fld ''tgid'']], 4)]"

fun compat_accesses :: "arch \<Rightarrow> (string \<times> cstep list list \<times> nat) list" where
  "compat_accesses X86 = [(''task_struct'', [[Fld ''thread_info'', Fld ''status'']], 4)]"
| "compat_accesses Arm64 = [(''task_struct'', [[Fld ''thread_info'', Fld ''flags'']], 8)]"
| "compat_accesses Other_arch = []"

definition event_accesses :: "(string \<times> cstep list list \<times> nat) list" where
  "event_accesses =
     (''trace_event_raw_sys_enter'', [[Fld ''id'']], 8) #
     map (\<lambda>i. (''trace_event_raw_sys_enter'', [[Fld ''args'', Idx i]], 8)) [0, 1, 2] @
     map (\<lambda>i. (''syscall_trace_enter'', [[Fld ''args'', Idx i]], 8)) [0, 1, 2, 3] @
     [(''apparmor_audit_data'', [[Fld ''error'']], 4), (''apparmor_audit_data'', [[Fld ''request'']], 4),
      (''apparmor_audit_data'', [[Fld ''name'']], 8), (''apparmor_audit_data'', [[Fld ''op'']], 8),
      (''common_audit_data'', [[Fld ''apparmor_audit_data'']], 8), (''aa_profile'', [[Fld ''mode'']], 8)]"

definition program_accesses :: "arch \<Rightarrow> (string \<times> cstep list list \<times> nat) list" where
  "program_accesses A = vfs_accesses @ task_accesses @ compat_accesses A @ event_accesses"

definition access_ok :: "btf \<Rightarrow> string \<times> cstep list list \<times> nat \<Rightarrow> bool" where
  "access_ok B x = (case x of (S, chain, n) \<Rightarrow>
     (case resolve B S chain of None \<Rightarrow> False | Some (ns, k) \<Rightarrow> k = n \<and> length ns = length chain))"

text \<open>
  The contract of the structures: every access of the programs resolves to a field of the size
  the program takes it for, and a mount holds its \<^verbatim>\<open>vfsmount\<close>.
\<close>

locale program_btf =
  fixes B :: btf and A :: arch
  assumes accesses: "list_all (access_ok B) (program_accesses A)"
    and mount_mnt: "bpf_core_field_exists B ''mount'' [Fld ''mnt'']"
begin

lemma access_resolves:
  assumes "(S, chain, n) \<in> set (program_accesses A)"
  obtains ns where "resolve B S chain = Some (ns, n)" "length ns = length chain" "chain \<noteq> []"
proof -
  have "access_ok B (S, chain, n)" using accesses assms by (auto simp: list_all_iff)
  then obtain ns where "resolve B S chain = Some (ns, n)" "length ns = length chain"
    by (auto simp: access_ok_def split: option.splits)
  then show thesis using that by (cases chain) auto
qed

lemma core_read_exact:
  assumes "(S, chain, n) \<in> set (program_accesses A)"
  shows "\<exists>p. core_read B m S a chain = load m p n"
proof -
  obtain ns where r: "resolve B S chain = Some (ns, n)" "length ns = length chain" "chain \<noteq> []"
    using assms by (rule access_resolves)
  then have "ns \<noteq> []" by auto
  then show ?thesis using follow_load [of ns m a n] r(1) by (simp add: core_read_def)
qed

lemma core_read_width:
  "(S, chain, n) \<in> set (program_accesses A) \<Longrightarrow> unat (core_read B m S a chain) < 2 ^ (8 * n)"
  using core_read_exact [of S chain n m a] load_width [of m _ n] by auto

lemma real_mount_inverse:
  "real_mount (mem_kernel B m K) (a + mount_mnt_offset (mem_kernel B m K)) = a"
  by (simp add: real_mount_def)

end

text \<open>The laws of the helpers do not depend on the fields, so a kernel with a memory satisfies them.\<close>

lemma mem_kernel_bpf_kernel: "bpf_kernel K \<Longrightarrow> bpf_kernel (mem_kernel B m K)"
  by (simp add: bpf_kernel_def mem_kernel_def)

end
