(* ===== verification/X86_Btf.thy ===== *)
theory X86_Btf
  imports X86_Trace Kernel_Memory
begin

text \<open>
  The structures of \<^verbatim>\<open>vmlinux/x86/vmlinux.h\<close> by their names, as the loader looks them up, and the
  offsets of the fields the programs read, computed from the structures.
\<close>

definition x86_btf :: btf where
  "x86_btf = map_of
    [(''path'', x86_path),
     (''dentry'', x86_dentry),
     (''inode'', x86_inode),
     (''super_block'', x86_super_block),
     (''vfsmount'', x86_vfsmount),
     (''mount'', x86_mount),
     (''file'', x86_file),
     (''linux_binprm'', x86_linux_binprm),
     (''nsproxy'', x86_nsproxy),
     (''mnt_namespace'', x86_mnt_namespace),
     (''signal_struct'', x86_signal_struct),
     (''mm_struct'', x86_mm_struct),
     (''fs_struct'', x86_fs_struct),
     (''task_struct'', x86_task_struct),
     (''trace_event_raw_sys_enter'', x86_trace_event_raw_sys_enter),
     (''syscall_trace_enter'', x86_syscall_trace_enter),
     (''apparmor_audit_data'', x86_apparmor_audit_data),
     (''common_audit_data'', x86_common_audit_data),
     (''aa_profile'', x86_aa_profile),
     (''pt_regs'', x86_pt_regs)]"

lemma x86_btf_lookup [layout]:
  "x86_btf ''path'' = Some x86_path"
  "x86_btf ''dentry'' = Some x86_dentry"
  "x86_btf ''inode'' = Some x86_inode"
  "x86_btf ''super_block'' = Some x86_super_block"
  "x86_btf ''vfsmount'' = Some x86_vfsmount"
  "x86_btf ''mount'' = Some x86_mount"
  "x86_btf ''file'' = Some x86_file"
  "x86_btf ''linux_binprm'' = Some x86_linux_binprm"
  "x86_btf ''nsproxy'' = Some x86_nsproxy"
  "x86_btf ''mnt_namespace'' = Some x86_mnt_namespace"
  "x86_btf ''signal_struct'' = Some x86_signal_struct"
  "x86_btf ''mm_struct'' = Some x86_mm_struct"
  "x86_btf ''fs_struct'' = Some x86_fs_struct"
  "x86_btf ''task_struct'' = Some x86_task_struct"
  "x86_btf ''trace_event_raw_sys_enter'' = Some x86_trace_event_raw_sys_enter"
  "x86_btf ''syscall_trace_enter'' = Some x86_syscall_trace_enter"
  "x86_btf ''apparmor_audit_data'' = Some x86_apparmor_audit_data"
  "x86_btf ''common_audit_data'' = Some x86_common_audit_data"
  "x86_btf ''aa_profile'' = Some x86_aa_profile"
  "x86_btf ''pt_regs'' = Some x86_pt_regs"
  by (simp_all add: x86_btf_def)

section \<open>Fields\<close>

lemma x86_path_fields [layout]:
  "find_field x86_path ''mnt'' = Some (0, (CPtr ''vfsmount''))"
  "find_field x86_path ''dentry'' = Some (64, (CPtr ''dentry''))"
  by (simp_all add: x86_path_def layout)

lemma x86_dentry_fields [layout]:
  "find_field x86_dentry ''d_parent'' = Some (192, (CPtr ''dentry''))"
  "find_field x86_dentry ''d_name'' = Some (256, x86_qstr)"
  "find_field x86_dentry ''d_hash'' = Some (64, x86_hlist_bl_node)"
  "find_field x86_dentry ''d_inode'' = Some (384, (CPtr ''inode''))"
  by (simp_all add: x86_dentry_def layout)

lemma x86_qstr_fields [layout]:
  "find_field x86_qstr ''name'' = Some (64, (CPtr ''unsigned char''))"
  "find_field x86_qstr ''len'' = Some (32, c_uint)"
  by (simp_all add: x86_qstr_def layout)

lemma x86_hlist_bl_node_fields [layout]:
  "find_field x86_hlist_bl_node ''pprev'' = Some (64, (CPtr ''ptr''))"
  by (simp_all add: x86_hlist_bl_node_def layout)

lemma x86_inode_fields [layout]:
  "find_field x86_inode ''i_ino'' = Some (512, c_ulong)"
  "find_field x86_inode ''i_sb'' = Some (320, (CPtr ''super_block''))"
  "find_field x86_inode ''i_mode'' = Some (0, c_ushort)"
  by (simp_all add: x86_inode_def layout)

lemma x86_super_block_fields [layout]:
  "find_field x86_super_block ''s_dev'' = Some (128, c_uint)"
  "find_field x86_super_block ''s_magic'' = Some (768, c_ulong)"
  by (simp_all add: x86_super_block_def layout)

lemma x86_vfsmount_fields [layout]:
  "find_field x86_vfsmount ''mnt_root'' = Some (0, (CPtr ''dentry''))"
  by (simp_all add: x86_vfsmount_def layout)

lemma x86_mount_fields [layout]:
  "find_field x86_mount ''mnt_parent'' = Some (128, (CPtr ''mount''))"
  "find_field x86_mount ''mnt_mountpoint'' = Some (192, (CPtr ''dentry''))"
  "find_field x86_mount ''mnt'' = Some (256, x86_vfsmount)"
  by (simp_all add: x86_mount_def layout)

lemma x86_file_fields [layout]:
  "find_field x86_file ''f_inode'' = Some (320, (CPtr ''inode''))"
  "find_field x86_file ''f_mode'' = Some (96, c_uint)"
  "find_field x86_file ''f_path'' = Some (512, x86_path)"
  by (simp_all add: x86_file_def layout)

lemma x86_linux_binprm_fields [layout]:
  "find_field x86_linux_binprm ''file'' = Some (512, (CPtr ''file''))"
  by (simp_all add: x86_linux_binprm_def layout)

lemma x86_nsproxy_fields [layout]:
  "find_field x86_nsproxy ''mnt_ns'' = Some (192, (CPtr ''mnt_namespace''))"
  by (simp_all add: x86_nsproxy_def layout)

lemma x86_mnt_namespace_fields [layout]:
  "find_field x86_mnt_namespace ''ns'' = Some (0, x86_ns_common)"
  "find_field x86_mnt_namespace ''seq'' = Some (448, c_ullong)"
  by (simp_all add: x86_mnt_namespace_def layout)

lemma x86_ns_common_fields [layout]:
  "find_field x86_ns_common ''inum'' = Some (128, c_uint)"
  "find_field x86_ns_common ''ns_id'' = None"
  by (simp_all add: x86_ns_common_def layout)

lemma x86_signal_struct_fields [layout]:
  "find_field x86_signal_struct ''live'' = Some (32, x86_atomic_t)"
  by (simp_all add: x86_signal_struct_def layout)

lemma x86_mm_struct_fields [layout]:
  "find_field x86_mm_struct ''exe_file'' = Some (9280, (CPtr ''file''))"
  by (simp_all add: x86_mm_struct_def layout)

lemma x86_fs_struct_fields [layout]:
  "find_field x86_fs_struct ''root'' = Some (192, x86_path)"
  by (simp_all add: x86_fs_struct_def layout)

lemma x86_thread_info_fields [layout]:
  "find_field x86_thread_info ''flags'' = Some (0, c_ulong)"
  "find_field x86_thread_info ''status'' = Some (128, c_uint)"
  by (simp_all add: x86_thread_info_def layout)

lemma x86_task_struct_fields [layout]:
  "find_field x86_task_struct ''nsproxy'' = Some (24512, (CPtr ''nsproxy''))"
  "find_field x86_task_struct ''real_parent'' = Some (19584, (CPtr ''task_struct''))"
  "find_field x86_task_struct ''tgid'' = Some (19488, c_int)"
  "find_field x86_task_struct ''signal'' = Some (24576, (CPtr ''signal_struct''))"
  "find_field x86_task_struct ''mm'' = Some (18432, (CPtr ''mm_struct''))"
  "find_field x86_task_struct ''fs'' = Some (24320, (CPtr ''fs_struct''))"
  "find_field x86_task_struct ''pid'' = Some (19456, c_int)"
  "find_field x86_task_struct ''thread_info'' = Some (0, x86_thread_info)"
  by (simp_all add: x86_task_struct_def layout)

lemma x86_trace_event_raw_sys_enter_fields [layout]:
  "find_field x86_trace_event_raw_sys_enter ''id'' = Some (64, c_long)"
  "find_field x86_trace_event_raw_sys_enter ''args'' = Some (128, (CArr c_ulong 6))"
  by (simp_all add: x86_trace_event_raw_sys_enter_def layout)

lemma x86_syscall_trace_enter_fields [layout]:
  "find_field x86_syscall_trace_enter ''args'' = Some (128, (CArr c_ulong 0))"
  by (simp_all add: x86_syscall_trace_enter_def layout)

lemma x86_apparmor_audit_data_fields [layout]:
  "find_field x86_apparmor_audit_data ''error'' = Some (0, c_int)"
  "find_field x86_apparmor_audit_data ''request'' = Some (448, c_uint)"
  "find_field x86_apparmor_audit_data ''name'' = Some (320, (CPtr ''char''))"
  "find_field x86_apparmor_audit_data ''op'' = Some (128, (CPtr ''char''))"
  "find_field x86_apparmor_audit_data ''common'' = Some (832, x86_common_audit_data)"
  by (simp_all add: x86_apparmor_audit_data_def layout)

lemma x86_common_audit_data_fields [layout]:
  "find_field x86_common_audit_data ''apparmor_audit_data'' = Some (192, (CPtr ''apparmor_audit_data''))"
  by (simp_all add: x86_common_audit_data_def layout)

lemma x86_aa_profile_fields [layout]:
  "find_field x86_aa_profile ''mode'' = Some (640, c_long)"
  by (simp_all add: x86_aa_profile_def layout)

lemma x86_atomic_t_fields [layout]:
  "find_field x86_atomic_t ''counter'' = Some (0, c_int)"
  by (simp_all add: x86_atomic_t_def layout)

section \<open>Accesses\<close>

lemma x86_plain: "x86_btf S = Some t \<Longrightarrow> plain t"
  by (auto simp: x86_btf_def split: if_splits)
    (simp_all add: x86_path_def x86_dentry_def x86_inode_def x86_super_block_def x86_vfsmount_def x86_mount_def x86_file_def x86_linux_binprm_def x86_nsproxy_def x86_mnt_namespace_def x86_signal_struct_def x86_mm_struct_def x86_fs_struct_def x86_task_struct_def x86_trace_event_raw_sys_enter_def x86_syscall_trace_enter_def x86_apparmor_audit_data_def x86_common_audit_data_def x86_aa_profile_def x86_pt_regs_def)

interpretation x86_program: program_btf x86_btf X86
  by unfold_locales
    (simp_all add: program_accesses_def vfs_accesses_def task_accesses_def event_accesses_def access_ok_def
      bpf_core_field_exists_def layout)

lemma x86_mem_kernel:
  "mem_kernel x86_btf m K = K\<lparr>seq_exists := True, ns_id_exists := False, probe_read := mem_bytes m,
     d_parent := (\<lambda>a. load m (a + 24) 8), d_name := (\<lambda>a. (load m (a + 40) 8, ucast (load m (a + 36) 4))),
     d_hash_pprev := (\<lambda>a. load m (a + 16) 8), d_inode := (\<lambda>a. load m (a + 48) 8),
     i_ino := (\<lambda>a. load m (a + 64) 8), i_sb := (\<lambda>a. load m (a + 40) 8),
     s_dev := (\<lambda>a. ucast (load m (a + 16) 4)), s_magic := (\<lambda>a. load m (a + 96) 8),
     mnt_root := (\<lambda>a. load m a 8), mnt_parent := (\<lambda>a. load m (a + 16) 8),
     mnt_mountpoint := (\<lambda>a. load m (a + 24) 8), mount_mnt_offset := 32\<rparr>"
  by (simp add: mem_kernel_def bpf_core_field_exists_def bpf_core_offset_def core_read_def layout)

end
