(* ===== verification/Arm64_Vfs.thy ===== *)
theory Arm64_Vfs
  imports Vmlinux_Scalars
begin

text \<open>
  The kernel structures of \<^verbatim>\<open>vmlinux/arm64/vmlinux.h\<close>: the structures of the virtual file system: directory entries, paths, mounts, files, inodes and super blocks, with everything embedded in them.
  Every structure is defined as the header declares it, member by member, followed by its size and
  alignment in bytes; a structure of a few lines that only one other structure embeds is written
  out in its place.
\<close>

definition arm64_seqcount :: ctype where
  "arm64_seqcount = CStruct False
    [Mem ''sequence'' c_uint]"

lemma arm64_seqcount_layout [layout]: "csize arm64_seqcount = 4" "calign arm64_seqcount = 4"
  by (simp_all add: arm64_seqcount_def layout)

definition arm64_seqcount_spinlock :: ctype where
  "arm64_seqcount_spinlock = CStruct False
    [Mem ''seqcount'' arm64_seqcount]"

lemma arm64_seqcount_spinlock_layout [layout]: "csize arm64_seqcount_spinlock = 4" "calign arm64_seqcount_spinlock = 4"
  by (simp_all add: arm64_seqcount_spinlock_def layout)

definition arm64_hlist_bl_node :: ctype where
  "arm64_hlist_bl_node = CStruct False
    [Mem ''next'' (CPtr ''hlist_bl_node''),
     Mem ''pprev'' (CPtr ''ptr'')]"

lemma arm64_hlist_bl_node_layout [layout]: "csize arm64_hlist_bl_node = 16" "calign arm64_hlist_bl_node = 8"
  by (simp_all add: arm64_hlist_bl_node_def layout)

definition arm64_qstr :: ctype where
  "arm64_qstr = CStruct False
    [Mem '''' (CUnion False
       [Mem '''' (CStruct False
          [Mem ''hash'' c_uint,
           Mem ''len'' c_uint]),
        Mem ''hash_len'' c_ullong]),
     Mem ''name'' (CPtr ''unsigned char'')]"

lemma arm64_qstr_layout [layout]: "csize arm64_qstr = 16" "calign arm64_qstr = 8"
  by (simp_all add: arm64_qstr_def layout)

definition arm64_atomic_t :: ctype where
  "arm64_atomic_t = CStruct False
    [Mem ''counter'' c_int]"

lemma arm64_atomic_t_layout [layout]: "csize arm64_atomic_t = 4" "calign arm64_atomic_t = 4"
  by (simp_all add: arm64_atomic_t_def layout)

definition arm64_qspinlock :: ctype where
  "arm64_qspinlock = CStruct False
    [Mem '''' (CUnion False
       [Mem ''val'' arm64_atomic_t,
        Mem '''' (CStruct False
          [Mem ''locked'' c_uchar,
           Mem ''pending'' c_uchar]),
        Mem '''' (CStruct False
          [Mem ''locked_pending'' c_ushort,
           Mem ''tail'' c_ushort])])]"

lemma arm64_qspinlock_layout [layout]: "csize arm64_qspinlock = 4" "calign arm64_qspinlock = 4"
  by (simp_all add: arm64_qspinlock_def layout)

definition arm64_raw_spinlock :: ctype where
  "arm64_raw_spinlock = CStruct False
    [Mem ''raw_lock'' arm64_qspinlock]"

lemma arm64_raw_spinlock_layout [layout]: "csize arm64_raw_spinlock = 4" "calign arm64_raw_spinlock = 4"
  by (simp_all add: arm64_raw_spinlock_def layout)

definition arm64_spinlock :: ctype where
  "arm64_spinlock = CStruct False
    [Mem '''' (CUnion False
       [Mem ''rlock'' arm64_raw_spinlock])]"

lemma arm64_spinlock_layout [layout]: "csize arm64_spinlock = 4" "calign arm64_spinlock = 4"
  by (simp_all add: arm64_spinlock_def layout)

definition arm64_lockref :: ctype where
  "arm64_lockref = CStruct False
    [Mem '''' (CUnion False
       [Mem ''lock_count'' c_ullong,
        Mem '''' (CStruct False
          [Mem ''lock'' arm64_spinlock,
           Mem ''count'' c_int])])]"

lemma arm64_lockref_layout [layout]: "csize arm64_lockref = 8" "calign arm64_lockref = 8"
  by (simp_all add: arm64_lockref_def layout)

definition arm64_list_head :: ctype where
  "arm64_list_head = CStruct False
    [Mem ''next'' (CPtr ''list_head''),
     Mem ''prev'' (CPtr ''list_head'')]"

lemma arm64_list_head_layout [layout]: "csize arm64_list_head = 16" "calign arm64_list_head = 8"
  by (simp_all add: arm64_list_head_def layout)

definition arm64_hlist_node :: ctype where
  "arm64_hlist_node = CStruct False
    [Mem ''next'' (CPtr ''hlist_node''),
     Mem ''pprev'' (CPtr ''ptr'')]"

lemma arm64_hlist_node_layout [layout]: "csize arm64_hlist_node = 16" "calign arm64_hlist_node = 8"
  by (simp_all add: arm64_hlist_node_def layout)

definition arm64_hlist_head :: ctype where
  "arm64_hlist_head = CStruct False
    [Mem ''first'' (CPtr ''hlist_node'')]"

lemma arm64_hlist_head_layout [layout]: "csize arm64_hlist_head = 8" "calign arm64_hlist_head = 8"
  by (simp_all add: arm64_hlist_head_def layout)

definition arm64_callback_head :: ctype where
  "arm64_callback_head = CStruct False
    [Mem ''next'' (CPtr ''callback_head''),
     Mem ''func'' (CPtr ''fn'')]"

lemma arm64_callback_head_layout [layout]: "csize arm64_callback_head = 16" "calign arm64_callback_head = 8"
  by (simp_all add: arm64_callback_head_def layout)

definition arm64_dentry :: ctype where
  "arm64_dentry = CStruct False
    [Mem ''d_flags'' c_uint,
     Mem ''d_seq'' arm64_seqcount_spinlock,
     Mem ''d_hash'' arm64_hlist_bl_node,
     Mem ''d_parent'' (CPtr ''dentry''),
     Mem ''d_name'' arm64_qstr,
     Mem ''d_inode'' (CPtr ''inode''),
     Mem ''d_iname'' (CArr c_uchar 40),
     Mem ''d_op'' (CPtr ''dentry_operations''),
     Mem ''d_sb'' (CPtr ''super_block''),
     Mem ''d_time'' c_ulong,
     Mem ''d_fsdata'' (CPtr ''void''),
     Mem ''d_lockref'' arm64_lockref,
     Mem '''' (CUnion False
       [Mem ''d_lru'' arm64_list_head,
        Mem ''d_wait'' (CPtr ''wait_queue_head_t'')]),
     Mem ''d_sib'' arm64_hlist_node,
     Mem ''d_children'' arm64_hlist_head,
     Mem ''d_u'' (CUnion False
       [Mem ''d_alias'' arm64_hlist_node,
        Mem ''d_in_lookup_hash'' arm64_hlist_bl_node,
        Mem ''d_rcu'' arm64_callback_head])]"

lemma arm64_dentry_layout [layout]: "csize arm64_dentry = 192" "calign arm64_dentry = 8"
  by (simp_all add: arm64_dentry_def layout)

definition arm64_path :: ctype where
  "arm64_path = CStruct False
    [Mem ''mnt'' (CPtr ''vfsmount''),
     Mem ''dentry'' (CPtr ''dentry'')]"

lemma arm64_path_layout [layout]: "csize arm64_path = 16" "calign arm64_path = 8"
  by (simp_all add: arm64_path_def layout)

definition arm64_vfsmount :: ctype where
  "arm64_vfsmount = CStruct False
    [Mem ''mnt_root'' (CPtr ''dentry''),
     Mem ''mnt_sb'' (CPtr ''super_block''),
     Mem ''mnt_flags'' c_int,
     Mem ''mnt_idmap'' (CPtr ''mnt_idmap'')]"

lemma arm64_vfsmount_layout [layout]: "csize arm64_vfsmount = 32" "calign arm64_vfsmount = 8"
  by (simp_all add: arm64_vfsmount_def layout)

definition arm64_rb_node :: ctype where
  "arm64_rb_node = CStruct False
    [Mem ''__rb_parent_color'' c_ulong,
     Mem ''rb_right'' (CPtr ''rb_node''),
     Mem ''rb_left'' (CPtr ''rb_node'')]"

lemma arm64_rb_node_layout [layout]: "csize arm64_rb_node = 24" "calign arm64_rb_node = 8"
  by (simp_all add: arm64_rb_node_def layout)

definition arm64_llist_node :: ctype where
  "arm64_llist_node = CStruct False
    [Mem ''next'' (CPtr ''llist_node'')]"

lemma arm64_llist_node_layout [layout]: "csize arm64_llist_node = 8" "calign arm64_llist_node = 8"
  by (simp_all add: arm64_llist_node_def layout)

definition arm64_mount :: ctype where
  "arm64_mount = CStruct False
    [Mem ''mnt_hash'' arm64_hlist_node,
     Mem ''mnt_parent'' (CPtr ''mount''),
     Mem ''mnt_mountpoint'' (CPtr ''dentry''),
     Mem ''mnt'' arm64_vfsmount,
     Mem '''' (CUnion False
       [Mem ''mnt_node'' arm64_rb_node,
        Mem ''mnt_rcu'' arm64_callback_head,
        Mem ''mnt_llist'' arm64_llist_node]),
     Mem ''mnt_pcp'' (CPtr ''mnt_pcp''),
     Mem ''mnt_mounts'' arm64_list_head,
     Mem ''mnt_child'' arm64_list_head,
     Mem ''mnt_instance'' arm64_list_head,
     Mem ''mnt_devname'' (CPtr ''char''),
     Mem ''mnt_list'' arm64_list_head,
     Mem ''mnt_expire'' arm64_list_head,
     Mem ''mnt_share'' arm64_list_head,
     Mem ''mnt_slave_list'' arm64_list_head,
     Mem ''mnt_slave'' arm64_list_head,
     Mem ''mnt_master'' (CPtr ''mount''),
     Mem ''mnt_ns'' (CPtr ''mnt_namespace''),
     Mem ''mnt_mp'' (CPtr ''mountpoint''),
     Mem '''' (CUnion False
       [Mem ''mnt_mp_list'' arm64_hlist_node,
        Mem ''mnt_umount'' arm64_hlist_node]),
     Mem ''mnt_umounting'' arm64_list_head,
     Mem ''mnt_fsnotify_marks'' (CPtr ''fsnotify_mark_connector''),
     Mem ''mnt_fsnotify_mask'' c_uint,
     Mem ''mnt_id'' c_int,
     Mem ''mnt_id_unique'' c_ullong,
     Mem ''mnt_group_id'' c_int,
     Mem ''mnt_expiry_mark'' c_int,
     Mem ''mnt_pins'' arm64_hlist_head,
     Mem ''mnt_stuck_children'' arm64_hlist_head]"

lemma arm64_mount_layout [layout]: "csize arm64_mount = 336" "calign arm64_mount = 8"
  by (simp_all add: arm64_mount_def layout)

definition arm64_atomic64_t :: ctype where
  "arm64_atomic64_t = CStruct False
    [Mem ''counter'' c_llong]"

lemma arm64_atomic64_t_layout [layout]: "csize arm64_atomic64_t = 8" "calign arm64_atomic64_t = 8"
  by (simp_all add: arm64_atomic64_t_def layout)

definition arm64_optimistic_spin_queue :: ctype where
  "arm64_optimistic_spin_queue = CStruct False
    [Mem ''tail'' arm64_atomic_t]"

lemma arm64_optimistic_spin_queue_layout [layout]: "csize arm64_optimistic_spin_queue = 4" "calign arm64_optimistic_spin_queue = 4"
  by (simp_all add: arm64_optimistic_spin_queue_def layout)

definition arm64_mutex :: ctype where
  "arm64_mutex = CStruct False
    [Mem ''owner'' arm64_atomic64_t,
     Mem ''wait_lock'' arm64_raw_spinlock,
     Mem ''osq'' arm64_optimistic_spin_queue,
     Mem ''wait_list'' arm64_list_head]"

lemma arm64_mutex_layout [layout]: "csize arm64_mutex = 32" "calign arm64_mutex = 8"
  by (simp_all add: arm64_mutex_def layout)

definition arm64_file_ra_state :: ctype where
  "arm64_file_ra_state = CStruct False
    [Mem ''start'' c_ulong,
     Mem ''size'' c_uint,
     Mem ''async_size'' c_uint,
     Mem ''ra_pages'' c_uint,
     Mem ''mmap_miss'' c_uint,
     Mem ''prev_pos'' c_llong]"

lemma arm64_file_ra_state_layout [layout]: "csize arm64_file_ra_state = 32" "calign arm64_file_ra_state = 8"
  by (simp_all add: arm64_file_ra_state_def layout)

definition arm64_file :: ctype where
  "arm64_file = CStruct False
    [Mem ''f_count'' arm64_atomic64_t,
     Mem ''f_lock'' arm64_spinlock,
     Mem ''f_mode'' c_uint,
     Mem ''f_op'' (CPtr ''file_operations''),
     Mem ''f_mapping'' (CPtr ''address_space''),
     Mem ''private_data'' (CPtr ''void''),
     Mem ''f_inode'' (CPtr ''inode''),
     Mem ''f_flags'' c_uint,
     Mem ''f_iocb_flags'' c_uint,
     Mem ''f_cred'' (CPtr ''cred''),
     Mem ''f_path'' arm64_path,
     Mem '''' (CUnion False
       [Mem ''f_pos_lock'' arm64_mutex,
        Mem ''f_pipe'' c_ullong]),
     Mem ''f_pos'' c_llong,
     Mem ''f_security'' (CPtr ''void''),
     Mem ''f_owner'' (CPtr ''fown_struct''),
     Mem ''f_wb_err'' c_uint,
     Mem ''f_sb_err'' c_uint,
     Mem ''f_ep'' (CPtr ''hlist_head''),
     Mem '''' (CUnion False
       [Mem ''f_task_work'' arm64_callback_head,
        Mem ''f_llist'' arm64_llist_node,
        Mem ''f_ra'' arm64_file_ra_state,
        Mem ''f_freeptr'' (CStruct False
          [Mem ''v'' c_ulong])])]"

lemma arm64_file_layout [layout]: "csize arm64_file = 184" "calign arm64_file = 8"
  by (simp_all add: arm64_file_def layout)

definition arm64_kuid_t :: ctype where
  "arm64_kuid_t = CStruct False
    [Mem ''val'' c_uint]"

lemma arm64_kuid_t_layout [layout]: "csize arm64_kuid_t = 4" "calign arm64_kuid_t = 4"
  by (simp_all add: arm64_kuid_t_def layout)

definition arm64_rw_hint :: ctype where
  "arm64_rw_hint = CEnum Uchar_k
    [(''WRITE_LIFE_NOT_SET'', 0),
     (''WRITE_LIFE_NONE'', 1),
     (''WRITE_LIFE_SHORT'', 2),
     (''WRITE_LIFE_MEDIUM'', 3),
     (''WRITE_LIFE_LONG'', 4),
     (''WRITE_LIFE_EXTREME'', 5)]"

lemma arm64_rw_hint_layout [layout]: "csize arm64_rw_hint = 1" "calign arm64_rw_hint = 1"
  by (simp_all add: arm64_rw_hint_def layout)

definition arm64_rw_semaphore :: ctype where
  "arm64_rw_semaphore = CStruct False
    [Mem ''count'' arm64_atomic64_t,
     Mem ''owner'' arm64_atomic64_t,
     Mem ''osq'' arm64_optimistic_spin_queue,
     Mem ''wait_lock'' arm64_raw_spinlock,
     Mem ''wait_list'' arm64_list_head]"

lemma arm64_rw_semaphore_layout [layout]: "csize arm64_rw_semaphore = 40" "calign arm64_rw_semaphore = 8"
  by (simp_all add: arm64_rw_semaphore_def layout)

definition arm64_xarray :: ctype where
  "arm64_xarray = CStruct False
    [Mem ''xa_lock'' arm64_spinlock,
     Mem ''xa_flags'' c_uint,
     Mem ''xa_head'' (CPtr ''void'')]"

lemma arm64_xarray_layout [layout]: "csize arm64_xarray = 16" "calign arm64_xarray = 8"
  by (simp_all add: arm64_xarray_def layout)

definition arm64_rb_root :: ctype where
  "arm64_rb_root = CStruct False
    [Mem ''rb_node'' (CPtr ''rb_node'')]"

lemma arm64_rb_root_layout [layout]: "csize arm64_rb_root = 8" "calign arm64_rb_root = 8"
  by (simp_all add: arm64_rb_root_def layout)

definition arm64_rb_root_cached :: ctype where
  "arm64_rb_root_cached = CStruct False
    [Mem ''rb_root'' arm64_rb_root,
     Mem ''rb_leftmost'' (CPtr ''rb_node'')]"

lemma arm64_rb_root_cached_layout [layout]: "csize arm64_rb_root_cached = 16" "calign arm64_rb_root_cached = 8"
  by (simp_all add: arm64_rb_root_cached_def layout)

definition arm64_address_space :: ctype where
  "arm64_address_space = CStruct False
    [Mem ''host'' (CPtr ''inode''),
     Mem ''i_pages'' arm64_xarray,
     Mem ''invalidate_lock'' arm64_rw_semaphore,
     Mem ''gfp_mask'' c_uint,
     Mem ''i_mmap_writable'' arm64_atomic_t,
     Mem ''i_mmap'' arm64_rb_root_cached,
     Mem ''nrpages'' c_ulong,
     Mem ''writeback_index'' c_ulong,
     Mem ''a_ops'' (CPtr ''address_space_operations''),
     Mem ''flags'' c_ulong,
     Mem ''wb_err'' c_uint,
     Mem ''i_private_lock'' arm64_spinlock,
     Mem ''i_private_list'' arm64_list_head,
     Mem ''i_mmap_rwsem'' arm64_rw_semaphore,
     Mem ''i_private_data'' (CPtr ''void'')]"

lemma arm64_address_space_layout [layout]: "csize arm64_address_space = 192" "calign arm64_address_space = 8"
  by (simp_all add: arm64_address_space_def layout)

definition arm64_inode :: ctype where
  "arm64_inode = CStruct False
    [Mem ''i_mode'' c_ushort,
     Mem ''i_opflags'' c_ushort,
     Mem ''i_uid'' arm64_kuid_t,
     Mem ''i_gid'' (CStruct False
       [Mem ''val'' c_uint]),
     Mem ''i_flags'' c_uint,
     Mem ''i_acl'' (CPtr ''posix_acl''),
     Mem ''i_default_acl'' (CPtr ''posix_acl''),
     Mem ''i_op'' (CPtr ''inode_operations''),
     Mem ''i_sb'' (CPtr ''super_block''),
     Mem ''i_mapping'' (CPtr ''address_space''),
     Mem ''i_security'' (CPtr ''void''),
     Mem ''i_ino'' c_ulong,
     Mem '''' (CUnion False
       [Mem ''i_nlink'' c_uint,
        Mem ''__i_nlink'' c_uint]),
     Mem ''i_rdev'' c_uint,
     Mem ''i_size'' c_llong,
     Mem ''i_atime_sec'' c_llong,
     Mem ''i_mtime_sec'' c_llong,
     Mem ''i_ctime_sec'' c_llong,
     Mem ''i_atime_nsec'' c_uint,
     Mem ''i_mtime_nsec'' c_uint,
     Mem ''i_ctime_nsec'' c_uint,
     Mem ''i_generation'' c_uint,
     Mem ''i_lock'' arm64_spinlock,
     Mem ''i_bytes'' c_ushort,
     Mem ''i_blkbits'' c_uchar,
     Mem ''i_write_hint'' arm64_rw_hint,
     Mem ''i_blocks'' c_ullong,
     Mem ''i_state'' c_uint,
     Mem ''i_rwsem'' arm64_rw_semaphore,
     Mem ''dirtied_when'' c_ulong,
     Mem ''dirtied_time_when'' c_ulong,
     Mem ''i_hash'' arm64_hlist_node,
     Mem ''i_io_list'' arm64_list_head,
     Mem ''i_wb'' (CPtr ''bdi_writeback''),
     Mem ''i_wb_frn_winner'' c_int,
     Mem ''i_wb_frn_avg_time'' c_ushort,
     Mem ''i_wb_frn_history'' c_ushort,
     Mem ''i_lru'' arm64_list_head,
     Mem ''i_sb_list'' arm64_list_head,
     Mem ''i_wb_list'' arm64_list_head,
     Mem '''' (CUnion False
       [Mem ''i_dentry'' arm64_hlist_head,
        Mem ''i_rcu'' arm64_callback_head]),
     Mem ''i_version'' arm64_atomic64_t,
     Mem ''i_sequence'' arm64_atomic64_t,
     Mem ''i_count'' arm64_atomic_t,
     Mem ''i_dio_count'' arm64_atomic_t,
     Mem ''i_writecount'' arm64_atomic_t,
     Mem ''i_readcount'' arm64_atomic_t,
     Mem '''' (CUnion False
       [Mem ''i_fop'' (CPtr ''file_operations''),
        Mem ''free_inode'' (CPtr ''fn'')]),
     Mem ''i_flctx'' (CPtr ''file_lock_context''),
     Mem ''i_data'' arm64_address_space,
     Mem ''i_devices'' arm64_list_head,
     Mem '''' (CUnion False
       [Mem ''i_pipe'' (CPtr ''pipe_inode_info''),
        Mem ''i_cdev'' (CPtr ''cdev''),
        Mem ''i_link'' (CPtr ''char''),
        Mem ''i_dir_seq'' c_uint]),
     Mem ''i_fsnotify_mask'' c_uint,
     Mem ''i_fsnotify_marks'' (CPtr ''fsnotify_mark_connector''),
     Mem ''i_crypt_info'' (CPtr ''fscrypt_inode_info''),
     Mem ''i_verity_info'' (CPtr ''fsverity_info''),
     Mem ''i_private'' (CPtr ''void'')]"

lemma arm64_inode_layout [layout]: "csize arm64_inode = 624" "calign arm64_inode = 8"
  by (simp_all add: arm64_inode_def layout)

definition arm64_mem_dqinfo :: ctype where
  "arm64_mem_dqinfo = CStruct False
    [Mem ''dqi_format'' (CPtr ''quota_format_type''),
     Mem ''dqi_fmt_id'' c_int,
     Mem ''dqi_dirty_list'' arm64_list_head,
     Mem ''dqi_flags'' c_ulong,
     Mem ''dqi_bgrace'' c_uint,
     Mem ''dqi_igrace'' c_uint,
     Mem ''dqi_max_spc_limit'' c_llong,
     Mem ''dqi_max_ino_limit'' c_llong,
     Mem ''dqi_priv'' (CPtr ''void'')]"

lemma arm64_mem_dqinfo_layout [layout]: "csize arm64_mem_dqinfo = 72" "calign arm64_mem_dqinfo = 8"
  by (simp_all add: arm64_mem_dqinfo_def layout)

definition arm64_wait_queue_head :: ctype where
  "arm64_wait_queue_head = CStruct False
    [Mem ''lock'' arm64_spinlock,
     Mem ''head'' arm64_list_head]"

lemma arm64_wait_queue_head_layout [layout]: "csize arm64_wait_queue_head = 24" "calign arm64_wait_queue_head = 8"
  by (simp_all add: arm64_wait_queue_head_def layout)

definition arm64_list_lru :: ctype where
  "arm64_list_lru = CStruct False
    [Mem ''node'' (CPtr ''list_lru_node''),
     Mem ''list'' arm64_list_head,
     Mem ''shrinker_id'' c_int,
     Mem ''memcg_aware'' c_bool,
     Mem ''xa'' arm64_xarray]"

lemma arm64_list_lru_layout [layout]: "csize arm64_list_lru = 48" "calign arm64_list_lru = 8"
  by (simp_all add: arm64_list_lru_def layout)

definition arm64_work_struct :: ctype where
  "arm64_work_struct = CStruct False
    [Mem ''data'' arm64_atomic64_t,
     Mem ''entry'' arm64_list_head,
     Mem ''func'' (CPtr ''fn'')]"

lemma arm64_work_struct_layout [layout]: "csize arm64_work_struct = 32" "calign arm64_work_struct = 8"
  by (simp_all add: arm64_work_struct_def layout)

definition arm64_super_block :: ctype where
  "arm64_super_block = CStruct False
    [Mem ''s_list'' arm64_list_head,
     Mem ''s_dev'' c_uint,
     Mem ''s_blocksize_bits'' c_uchar,
     Mem ''s_blocksize'' c_ulong,
     Mem ''s_maxbytes'' c_llong,
     Mem ''s_type'' (CPtr ''file_system_type''),
     Mem ''s_op'' (CPtr ''super_operations''),
     Mem ''dq_op'' (CPtr ''dquot_operations''),
     Mem ''s_qcop'' (CPtr ''quotactl_ops''),
     Mem ''s_export_op'' (CPtr ''export_operations''),
     Mem ''s_flags'' c_ulong,
     Mem ''s_iflags'' c_ulong,
     Mem ''s_magic'' c_ulong,
     Mem ''s_root'' (CPtr ''dentry''),
     Mem ''s_umount'' arm64_rw_semaphore,
     Mem ''s_count'' c_int,
     Mem ''s_active'' arm64_atomic_t,
     Mem ''s_security'' (CPtr ''void''),
     Mem ''s_xattr'' (CPtr ''ptr''),
     Mem ''s_cop'' (CPtr ''fscrypt_operations''),
     Mem ''s_master_keys'' (CPtr ''fscrypt_keyring''),
     Mem ''s_vop'' (CPtr ''fsverity_operations''),
     Mem ''s_encoding'' (CPtr ''unicode_map''),
     Mem ''s_encoding_flags'' c_ushort,
     Mem ''s_roots'' (CStruct False
       [Mem ''first'' (CPtr ''hlist_bl_node'')]),
     Mem ''s_mounts'' arm64_list_head,
     Mem ''s_bdev'' (CPtr ''block_device''),
     Mem ''s_bdev_file'' (CPtr ''file''),
     Mem ''s_bdi'' (CPtr ''backing_dev_info''),
     Mem ''s_mtd'' (CPtr ''mtd_info''),
     Mem ''s_instances'' arm64_hlist_node,
     Mem ''s_quota_types'' c_uint,
     Mem ''s_dquot'' (CStruct False
       [Mem ''flags'' c_uint,
        Mem ''dqio_sem'' arm64_rw_semaphore,
        Mem ''files'' (CArr (CPtr ''inode'') 3),
        Mem ''info'' (CArr arm64_mem_dqinfo 3),
        Mem ''ops'' (CArr (CPtr ''quota_format_ops'') 3)]),
     Mem ''s_writers'' (CStruct False
       [Mem ''frozen'' c_ushort,
        Mem ''freeze_kcount'' c_int,
        Mem ''freeze_ucount'' c_int,
        Mem ''rw_sem'' (CArr (CStruct False
          [Mem ''rss'' (CStruct False
             [Mem ''gp_state'' c_int,
              Mem ''gp_count'' c_int,
              Mem ''gp_wait'' arm64_wait_queue_head,
              Mem ''cb_head'' arm64_callback_head]),
           Mem ''read_count'' (CPtr ''unsigned int''),
           Mem ''writer'' (CStruct False
             [Mem ''task'' (CPtr ''task_struct'')]),
           Mem ''waiters'' arm64_wait_queue_head,
           Mem ''block'' arm64_atomic_t]) 3)]),
     Mem ''s_fs_info'' (CPtr ''void''),
     Mem ''s_time_gran'' c_uint,
     Mem ''s_time_min'' c_llong,
     Mem ''s_time_max'' c_llong,
     Mem ''s_fsnotify_mask'' c_uint,
     Mem ''s_fsnotify_info'' (CPtr ''fsnotify_sb_info''),
     Mem ''s_id'' (CArr c_char 32),
     Mem ''s_uuid'' (CStruct False
       [Mem ''b'' (CArr c_uchar 16)]),
     Mem ''s_uuid_len'' c_uchar,
     Mem ''s_sysfs_name'' (CArr c_char 37),
     Mem ''s_max_links'' c_uint,
     Mem ''s_vfs_rename_mutex'' arm64_mutex,
     Mem ''s_subtype'' (CPtr ''char''),
     Mem ''s_d_op'' (CPtr ''dentry_operations''),
     Mem ''s_shrink'' (CPtr ''shrinker''),
     Mem ''s_remove_count'' arm64_atomic64_t,
     Mem ''s_readonly_remount'' c_int,
     Mem ''s_wb_err'' c_uint,
     Mem ''s_dio_done_wq'' (CPtr ''workqueue_struct''),
     Mem ''s_pins'' arm64_hlist_head,
     Mem ''s_user_ns'' (CPtr ''user_namespace''),
     Mem ''s_dentry_lru'' arm64_list_lru,
     Mem ''s_inode_lru'' arm64_list_lru,
     Mem ''rcu'' arm64_callback_head,
     Mem ''destroy_work'' arm64_work_struct,
     Mem ''s_sync_lock'' arm64_mutex,
     Mem ''s_stack_depth'' c_int,
     Bits '''' Long_k 64,
     Mem ''s_inode_list_lock'' arm64_spinlock,
     Mem ''s_inodes'' arm64_list_head,
     Mem ''s_inode_wblist_lock'' arm64_spinlock,
     Mem ''s_inodes_wb'' arm64_list_head,
     Bits '''' Long_k 64,
     Bits '''' Long_k 64]"

lemma arm64_super_block_layout [layout]: "csize arm64_super_block = 1408" "calign arm64_super_block = 8"
  by (simp_all add: arm64_super_block_def layout)

definition arm64_fs_struct :: ctype where
  "arm64_fs_struct = CStruct False
    [Mem ''users'' c_int,
     Mem ''lock'' arm64_spinlock,
     Mem ''seq'' arm64_seqcount_spinlock,
     Mem ''umask'' c_int,
     Mem ''in_exec'' c_int,
     Mem ''root'' arm64_path,
     Mem ''pwd'' arm64_path]"

lemma arm64_fs_struct_layout [layout]: "csize arm64_fs_struct = 56" "calign arm64_fs_struct = 8"
  by (simp_all add: arm64_fs_struct_def layout)

end
