(* ===== verification/Arm64_Trace.thy ===== *)
theory Arm64_Trace
  imports Arm64_Tasks
begin

text \<open>
  The kernel structures of \<^verbatim>\<open>vmlinux/arm64/vmlinux.h\<close>: the contexts of the traced events, the registers of a probe, and the audit data and profiles of AppArmor, with everything embedded in them.
  Every structure is defined as the header declares it, member by member, followed by its size and
  alignment in bytes; a structure of a few lines that only one other structure embeds is written
  out in its place.
\<close>

definition arm64_trace_entry :: ctype where
  "arm64_trace_entry = CStruct False
    [Mem ''type'' c_ushort,
     Mem ''flags'' c_uchar,
     Mem ''preempt_count'' c_uchar,
     Mem ''pid'' c_int]"

lemma arm64_trace_entry_layout [layout]: "csize arm64_trace_entry = 8" "calign arm64_trace_entry = 4"
  by (simp_all add: arm64_trace_entry_def layout)

definition arm64_syscall_trace_enter :: ctype where
  "arm64_syscall_trace_enter = CStruct False
    [Mem ''ent'' arm64_trace_entry,
     Mem ''nr'' c_int,
     Mem ''args'' (CArr c_ulong 0)]"

lemma arm64_syscall_trace_enter_layout [layout]: "csize arm64_syscall_trace_enter = 16" "calign arm64_syscall_trace_enter = 8"
  by (simp_all add: arm64_syscall_trace_enter_def layout)

definition arm64_trace_event_raw_sys_enter :: ctype where
  "arm64_trace_event_raw_sys_enter = CStruct False
    [Mem ''ent'' arm64_trace_entry,
     Mem ''id'' c_long,
     Mem ''args'' (CArr c_ulong 6),
     Mem ''__data'' (CArr c_char 0)]"

lemma arm64_trace_event_raw_sys_enter_layout [layout]: "csize arm64_trace_event_raw_sys_enter = 64" "calign arm64_trace_event_raw_sys_enter = 8"
  by (simp_all add: arm64_trace_event_raw_sys_enter_def layout)

definition arm64_pt_regs :: ctype where
  "arm64_pt_regs = CStruct False
    [Mem '''' (CUnion False
       [Mem ''user_regs'' (CStruct False
          [Mem ''regs'' (CArr c_ullong 31),
           Mem ''sp'' c_ullong,
           Mem ''pc'' c_ullong,
           Mem ''pstate'' c_ullong]),
        Mem '''' (CStruct False
          [Mem ''regs'' (CArr c_ullong 31),
           Mem ''sp'' c_ullong,
           Mem ''pc'' c_ullong,
           Mem ''pstate'' c_ullong])]),
     Mem ''orig_x0'' c_ullong,
     Mem ''syscallno'' c_int,
     Mem ''unused2'' c_uint,
     Mem ''sdei_ttbr1'' c_ullong,
     Mem ''pmr_save'' c_ullong,
     Mem ''stackframe'' (CArr c_ullong 2),
     Mem ''lockdep_hardirqs'' c_ullong,
     Mem ''exit_rcu'' c_ullong]"

lemma arm64_pt_regs_layout [layout]: "csize arm64_pt_regs = 336" "calign arm64_pt_regs = 8"
  by (simp_all add: arm64_pt_regs_def layout)

definition arm64_common_audit_data :: ctype where
  "arm64_common_audit_data = CStruct False
    [Mem ''type'' c_char,
     Mem ''u'' (CUnion False
       [Mem ''path'' arm64_path,
        Mem ''dentry'' (CPtr ''dentry''),
        Mem ''inode'' (CPtr ''inode''),
        Mem ''net'' (CPtr ''lsm_network_audit''),
        Mem ''cap'' c_int,
        Mem ''ipc_id'' c_int,
        Mem ''tsk'' (CPtr ''task_struct''),
        Mem ''key_struct'' (CStruct False
          [Mem ''key'' c_int,
           Mem ''key_desc'' (CPtr ''char'')]),
        Mem ''kmod_name'' (CPtr ''char''),
        Mem ''op'' (CPtr ''lsm_ioctlop_audit''),
        Mem ''file'' (CPtr ''file''),
        Mem ''ibpkey'' (CPtr ''lsm_ibpkey_audit''),
        Mem ''ibendport'' (CPtr ''lsm_ibendport_audit''),
        Mem ''reason'' c_int,
        Mem ''anonclass'' (CPtr ''char'')]),
     Mem '''' (CUnion False
       [Mem ''selinux_audit_data'' (CPtr ''selinux_audit_data''),
        Mem ''apparmor_audit_data'' (CPtr ''apparmor_audit_data'')])]"

lemma arm64_common_audit_data_layout [layout]: "csize arm64_common_audit_data = 32" "calign arm64_common_audit_data = 8"
  by (simp_all add: arm64_common_audit_data_def layout)

definition arm64_apparmor_audit_data :: ctype where
  "arm64_apparmor_audit_data = CStruct False
    [Mem ''error'' c_int,
     Mem ''type'' c_int,
     Mem ''class'' c_ushort,
     Mem ''op'' (CPtr ''char''),
     Mem ''subj_cred'' (CPtr ''cred''),
     Mem ''subj_label'' (CPtr ''aa_label''),
     Mem ''name'' (CPtr ''char''),
     Mem ''info'' (CPtr ''char''),
     Mem ''request'' c_uint,
     Mem ''denied'' c_uint,
     Mem '''' (CUnion False
       [Mem '''' (CStruct False
          [Mem ''peer'' (CPtr ''aa_label''),
           Mem '''' (CUnion False
             [Mem ''fs'' (CStruct False
                [Mem ''target'' (CPtr ''char''),
                 Mem ''ouid'' arm64_kuid_t]),
              Mem ''rlim'' (CStruct False
                [Mem ''rlim'' c_int,
                 Mem ''max'' c_ulong]),
              Mem '''' (CStruct False
                [Mem ''signal'' c_int,
                 Mem ''unmappedsig'' c_int]),
              Mem ''net'' (CStruct False
                [Mem ''type'' c_int,
                 Mem ''protocol'' c_int,
                 Mem ''peer_sk'' (CPtr ''sock''),
                 Mem ''addr'' (CPtr ''void''),
                 Mem ''addrlen'' c_int])])]),
        Mem ''iface'' (CStruct False
          [Mem ''profile'' (CPtr ''aa_profile''),
           Mem ''ns'' (CPtr ''char''),
           Mem ''pos'' c_long]),
        Mem ''mnt'' (CStruct False
          [Mem ''src_name'' (CPtr ''char''),
           Mem ''type'' (CPtr ''char''),
           Mem ''trans'' (CPtr ''char''),
           Mem ''data'' (CPtr ''char''),
           Mem ''flags'' c_ulong]),
        Mem ''uring'' (CStruct False
          [Mem ''target'' (CPtr ''aa_label'')])]),
     Mem ''common'' arm64_common_audit_data]"

lemma arm64_apparmor_audit_data_layout [layout]: "csize arm64_apparmor_audit_data = 136" "calign arm64_apparmor_audit_data = 8"
  by (simp_all add: arm64_apparmor_audit_data_def layout)

definition arm64_audit_mode :: ctype where
  "arm64_audit_mode = CEnum Uint_k
    [(''AUDIT_NORMAL'', 0),
     (''AUDIT_QUIET_DENIED'', 1),
     (''AUDIT_QUIET'', 2),
     (''AUDIT_NOQUIET'', 3),
     (''AUDIT_ALL'', 4)]"

lemma arm64_audit_mode_layout [layout]: "csize arm64_audit_mode = 4" "calign arm64_audit_mode = 4"
  by (simp_all add: arm64_audit_mode_def layout)

definition arm64_aa_label :: ctype where
  "arm64_aa_label = CStruct False
    [Mem ''count'' (CStruct False
       [Mem ''refcount'' arm64_refcount_struct]),
     Mem ''node'' arm64_rb_node,
     Mem ''rcu'' arm64_callback_head,
     Mem ''proxy'' (CPtr ''aa_proxy''),
     Mem ''hname'' (CPtr ''char''),
     Mem ''flags'' c_long,
     Mem ''secid'' c_uint,
     Mem ''size'' c_int,
     Mem ''vec'' (CArr (CPtr ''aa_profile'') 0)]"

lemma arm64_aa_label_layout [layout]: "csize arm64_aa_label = 80" "calign arm64_aa_label = 8"
  by (simp_all add: arm64_aa_label_def layout)

definition arm64_aa_profile :: ctype where
  "arm64_aa_profile = CStruct False
    [Mem ''base'' (CStruct False
       [Mem ''name'' (CPtr ''char''),
        Mem ''hname'' (CPtr ''char''),
        Mem ''list'' arm64_list_head,
        Mem ''profiles'' arm64_list_head]),
     Mem ''parent'' (CPtr ''aa_profile''),
     Mem ''ns'' (CPtr ''aa_ns''),
     Mem ''rename'' (CPtr ''char''),
     Mem ''audit'' arm64_audit_mode,
     Mem ''mode'' c_long,
     Mem ''path_flags'' c_uint,
     Mem ''disconnected'' (CPtr ''char''),
     Mem ''attach'' (CStruct False
       [Mem ''xmatch_str'' (CPtr ''char''),
        Mem ''xmatch'' (CPtr ''aa_policydb''),
        Mem ''xmatch_len'' c_uint,
        Mem ''xattr_count'' c_int,
        Mem ''xattrs'' (CPtr ''ptr'')]),
     Mem ''rules'' arm64_list_head,
     Mem ''rawdata'' (CPtr ''aa_loaddata''),
     Mem ''hash'' (CPtr ''unsigned char''),
     Mem ''dirname'' (CPtr ''char''),
     Mem ''dents'' (CArr (CPtr ''dentry'') 9),
     Mem ''data'' (CPtr ''rhashtable''),
     Mem ''label'' arm64_aa_label]"

lemma arm64_aa_profile_layout [layout]: "csize arm64_aa_profile = 336" "calign arm64_aa_profile = 8"
  by (simp_all add: arm64_aa_profile_def layout)

definition arm64_audit_type :: ctype where
  "arm64_audit_type = CEnum Uint_k
    [(''AUDIT_APPARMOR_AUDIT'', 0),
     (''AUDIT_APPARMOR_ALLOWED'', 1),
     (''AUDIT_APPARMOR_DENIED'', 2),
     (''AUDIT_APPARMOR_HINT'', 3),
     (''AUDIT_APPARMOR_STATUS'', 4),
     (''AUDIT_APPARMOR_ERROR'', 5),
     (''AUDIT_APPARMOR_KILL'', 6),
     (''AUDIT_APPARMOR_AUTO'', 7)]"

lemma arm64_audit_type_layout [layout]: "csize arm64_audit_type = 4" "calign arm64_audit_type = 4"
  by (simp_all add: arm64_audit_type_def layout)

definition arm64_profile_mode :: ctype where
  "arm64_profile_mode = CEnum Uint_k
    [(''APPARMOR_ENFORCE'', 0),
     (''APPARMOR_COMPLAIN'', 1),
     (''APPARMOR_KILL'', 2),
     (''APPARMOR_UNCONFINED'', 3),
     (''APPARMOR_USER'', 4)]"

lemma arm64_profile_mode_layout [layout]: "csize arm64_profile_mode = 4" "calign arm64_profile_mode = 4"
  by (simp_all add: arm64_profile_mode_def layout)

end
