(* ===== verification/Arm64_Btf.thy ===== *)
theory Arm64_Btf
  imports Arm64_Trace Kernel_Memory
begin

text \<open>
  The structures of \<^verbatim>\<open>vmlinux/arm64/vmlinux.h\<close> by their names, as the loader looks them up, and the
  offsets of the fields the programs read, computed from the structures.
\<close>

definition arm64_btf :: btf where
  "arm64_btf = map_of
    [(''path'', arm64_path),
     (''dentry'', arm64_dentry),
     (''inode'', arm64_inode),
     (''super_block'', arm64_super_block),
     (''vfsmount'', arm64_vfsmount),
     (''mount'', arm64_mount),
     (''file'', arm64_file),
     (''linux_binprm'', arm64_linux_binprm),
     (''nsproxy'', arm64_nsproxy),
     (''mnt_namespace'', arm64_mnt_namespace),
     (''signal_struct'', arm64_signal_struct),
     (''mm_struct'', arm64_mm_struct),
     (''fs_struct'', arm64_fs_struct),
     (''task_struct'', arm64_task_struct),
     (''trace_event_raw_sys_enter'', arm64_trace_event_raw_sys_enter),
     (''syscall_trace_enter'', arm64_syscall_trace_enter),
     (''apparmor_audit_data'', arm64_apparmor_audit_data),
     (''common_audit_data'', arm64_common_audit_data),
     (''aa_profile'', arm64_aa_profile),
     (''pt_regs'', arm64_pt_regs)]"

lemma arm64_btf_lookup [layout]:
  "arm64_btf ''path'' = Some arm64_path"
  "arm64_btf ''dentry'' = Some arm64_dentry"
  "arm64_btf ''inode'' = Some arm64_inode"
  "arm64_btf ''super_block'' = Some arm64_super_block"
  "arm64_btf ''vfsmount'' = Some arm64_vfsmount"
  "arm64_btf ''mount'' = Some arm64_mount"
  "arm64_btf ''file'' = Some arm64_file"
  "arm64_btf ''linux_binprm'' = Some arm64_linux_binprm"
  "arm64_btf ''nsproxy'' = Some arm64_nsproxy"
  "arm64_btf ''mnt_namespace'' = Some arm64_mnt_namespace"
  "arm64_btf ''signal_struct'' = Some arm64_signal_struct"
  "arm64_btf ''mm_struct'' = Some arm64_mm_struct"
  "arm64_btf ''fs_struct'' = Some arm64_fs_struct"
  "arm64_btf ''task_struct'' = Some arm64_task_struct"
  "arm64_btf ''trace_event_raw_sys_enter'' = Some arm64_trace_event_raw_sys_enter"
  "arm64_btf ''syscall_trace_enter'' = Some arm64_syscall_trace_enter"
  "arm64_btf ''apparmor_audit_data'' = Some arm64_apparmor_audit_data"
  "arm64_btf ''common_audit_data'' = Some arm64_common_audit_data"
  "arm64_btf ''aa_profile'' = Some arm64_aa_profile"
  "arm64_btf ''pt_regs'' = Some arm64_pt_regs"
  by (simp_all add: arm64_btf_def)

section \<open>Fields\<close>

lemma arm64_path_fields [layout]:
  "find_field arm64_path ''mnt'' = Some (0, (CPtr ''vfsmount''))"
  "find_field arm64_path ''dentry'' = Some (64, (CPtr ''dentry''))"
  by (simp_all add: arm64_path_def layout)

lemma arm64_dentry_fields [layout]:
  "find_field arm64_dentry ''d_parent'' = Some (192, (CPtr ''dentry''))"
  "find_field arm64_dentry ''d_name'' = Some (256, arm64_qstr)"
  "find_field arm64_dentry ''d_hash'' = Some (64, arm64_hlist_bl_node)"
  "find_field arm64_dentry ''d_inode'' = Some (384, (CPtr ''inode''))"
  by (simp_all add: arm64_dentry_def layout)

lemma arm64_qstr_fields [layout]:
  "find_field arm64_qstr ''name'' = Some (64, (CPtr ''unsigned char''))"
  "find_field arm64_qstr ''len'' = Some (32, c_uint)"
  by (simp_all add: arm64_qstr_def layout)

lemma arm64_hlist_bl_node_fields [layout]:
  "find_field arm64_hlist_bl_node ''pprev'' = Some (64, (CPtr ''ptr''))"
  by (simp_all add: arm64_hlist_bl_node_def layout)

lemma arm64_inode_fields [layout]:
  "find_field arm64_inode ''i_ino'' = Some (512, c_ulong)"
  "find_field arm64_inode ''i_sb'' = Some (320, (CPtr ''super_block''))"
  "find_field arm64_inode ''i_mode'' = Some (0, c_ushort)"
  by (simp_all add: arm64_inode_def layout)

lemma arm64_super_block_fields [layout]:
  "find_field arm64_super_block ''s_dev'' = Some (128, c_uint)"
  "find_field arm64_super_block ''s_magic'' = Some (768, c_ulong)"
  by (simp_all add: arm64_super_block_def layout)

lemma arm64_vfsmount_fields [layout]:
  "find_field arm64_vfsmount ''mnt_root'' = Some (0, (CPtr ''dentry''))"
  by (simp_all add: arm64_vfsmount_def layout)

lemma arm64_mount_fields [layout]:
  "find_field arm64_mount ''mnt_parent'' = Some (128, (CPtr ''mount''))"
  "find_field arm64_mount ''mnt_mountpoint'' = Some (192, (CPtr ''dentry''))"
  "find_field arm64_mount ''mnt'' = Some (256, arm64_vfsmount)"
  by (simp_all add: arm64_mount_def layout)

lemma arm64_file_fields [layout]:
  "find_field arm64_file ''f_inode'' = Some (320, (CPtr ''inode''))"
  "find_field arm64_file ''f_mode'' = Some (96, c_uint)"
  "find_field arm64_file ''f_path'' = Some (512, arm64_path)"
  by (simp_all add: arm64_file_def layout)

lemma arm64_linux_binprm_fields [layout]:
  "find_field arm64_linux_binprm ''file'' = Some (512, (CPtr ''file''))"
  by (simp_all add: arm64_linux_binprm_def layout)

lemma arm64_nsproxy_fields [layout]:
  "find_field arm64_nsproxy ''mnt_ns'' = Some (192, (CPtr ''mnt_namespace''))"
  by (simp_all add: arm64_nsproxy_def layout)

lemma arm64_mnt_namespace_fields [layout]:
  "find_field arm64_mnt_namespace ''ns'' = Some (0, arm64_ns_common)"
  "find_field arm64_mnt_namespace ''seq'' = Some (448, c_ullong)"
  by (simp_all add: arm64_mnt_namespace_def layout)

lemma arm64_ns_common_fields [layout]:
  "find_field arm64_ns_common ''inum'' = Some (128, c_uint)"
  "find_field arm64_ns_common ''ns_id'' = None"
  by (simp_all add: arm64_ns_common_def layout)

lemma arm64_signal_struct_fields [layout]:
  "find_field arm64_signal_struct ''live'' = Some (32, arm64_atomic_t)"
  by (simp_all add: arm64_signal_struct_def layout)

lemma arm64_mm_struct_fields [layout]:
  "find_field arm64_mm_struct ''exe_file'' = Some (8320, (CPtr ''file''))"
  by (simp_all add: arm64_mm_struct_def layout)

lemma arm64_fs_struct_fields [layout]:
  "find_field arm64_fs_struct ''root'' = Some (192, arm64_path)"
  by (simp_all add: arm64_fs_struct_def layout)

lemma arm64_thread_info_fields [layout]:
  "find_field arm64_thread_info ''flags'' = Some (0, c_ulong)"
  "find_field arm64_thread_info ''status'' = None"
  by (simp_all add: arm64_thread_info_def layout)

lemma arm64_task_struct_fields [layout]:
  "find_field arm64_task_struct ''nsproxy'' = Some (16064, (CPtr ''nsproxy''))"
  "find_field arm64_task_struct ''real_parent'' = Some (11136, (CPtr ''task_struct''))"
  "find_field arm64_task_struct ''tgid'' = Some (11040, c_int)"
  "find_field arm64_task_struct ''signal'' = Some (16128, (CPtr ''signal_struct''))"
  "find_field arm64_task_struct ''mm'' = Some (9984, (CPtr ''mm_struct''))"
  "find_field arm64_task_struct ''fs'' = Some (15872, (CPtr ''fs_struct''))"
  "find_field arm64_task_struct ''pid'' = Some (11008, c_int)"
  "find_field arm64_task_struct ''thread_info'' = Some (0, arm64_thread_info)"
  by (simp_all add: arm64_task_struct_def layout)

lemma arm64_trace_event_raw_sys_enter_fields [layout]:
  "find_field arm64_trace_event_raw_sys_enter ''id'' = Some (64, c_long)"
  "find_field arm64_trace_event_raw_sys_enter ''args'' = Some (128, (CArr c_ulong 6))"
  by (simp_all add: arm64_trace_event_raw_sys_enter_def layout)

lemma arm64_syscall_trace_enter_fields [layout]:
  "find_field arm64_syscall_trace_enter ''args'' = Some (128, (CArr c_ulong 0))"
  by (simp_all add: arm64_syscall_trace_enter_def layout)

lemma arm64_apparmor_audit_data_fields [layout]:
  "find_field arm64_apparmor_audit_data ''error'' = Some (0, c_int)"
  "find_field arm64_apparmor_audit_data ''request'' = Some (448, c_uint)"
  "find_field arm64_apparmor_audit_data ''name'' = Some (320, (CPtr ''char''))"
  "find_field arm64_apparmor_audit_data ''op'' = Some (128, (CPtr ''char''))"
  "find_field arm64_apparmor_audit_data ''common'' = Some (832, arm64_common_audit_data)"
  by (simp_all add: arm64_apparmor_audit_data_def layout)

lemma arm64_common_audit_data_fields [layout]:
  "find_field arm64_common_audit_data ''apparmor_audit_data'' = Some (192, (CPtr ''apparmor_audit_data''))"
  by (simp_all add: arm64_common_audit_data_def layout)

lemma arm64_aa_profile_fields [layout]:
  "find_field arm64_aa_profile ''mode'' = Some (640, c_long)"
  by (simp_all add: arm64_aa_profile_def layout)

lemma arm64_atomic_t_fields [layout]:
  "find_field arm64_atomic_t ''counter'' = Some (0, c_int)"
  by (simp_all add: arm64_atomic_t_def layout)

section \<open>Accesses\<close>

lemma arm64_plain: "arm64_btf S = Some t \<Longrightarrow> plain t"
  by (auto simp: arm64_btf_def split: if_splits)
    (simp_all add: arm64_path_def arm64_dentry_def arm64_inode_def arm64_super_block_def arm64_vfsmount_def arm64_mount_def arm64_file_def arm64_linux_binprm_def arm64_nsproxy_def arm64_mnt_namespace_def arm64_signal_struct_def arm64_mm_struct_def arm64_fs_struct_def arm64_task_struct_def arm64_trace_event_raw_sys_enter_def arm64_syscall_trace_enter_def arm64_apparmor_audit_data_def arm64_common_audit_data_def arm64_aa_profile_def arm64_pt_regs_def)

interpretation arm64_program: program_btf arm64_btf Arm64
  by unfold_locales
    (simp_all add: program_accesses_def vfs_accesses_def task_accesses_def event_accesses_def access_ok_def
      bpf_core_field_exists_def layout)

lemma arm64_mem_kernel:
  "mem_kernel arm64_btf m K = K\<lparr>seq_exists := True, ns_id_exists := False, probe_read := mem_bytes m,
     d_parent := (\<lambda>a. load m (a + 24) 8), d_name := (\<lambda>a. (load m (a + 40) 8, ucast (load m (a + 36) 4))),
     d_hash_pprev := (\<lambda>a. load m (a + 16) 8), d_inode := (\<lambda>a. load m (a + 48) 8),
     i_ino := (\<lambda>a. load m (a + 64) 8), i_sb := (\<lambda>a. load m (a + 40) 8),
     s_dev := (\<lambda>a. ucast (load m (a + 16) 4)), s_magic := (\<lambda>a. load m (a + 96) 8),
     mnt_root := (\<lambda>a. load m a 8), mnt_parent := (\<lambda>a. load m (a + 16) 8),
     mnt_mountpoint := (\<lambda>a. load m (a + 24) 8), mount_mnt_offset := 32\<rparr>"
  by (simp add: mem_kernel_def bpf_core_field_exists_def bpf_core_offset_def core_read_def layout)

end
