(* ===== verification/Kernel_Layout.thy ===== *)
theory Kernel_Layout
  imports X86_Btf Arm64_Btf Reports
begin

text \<open>
  The programs against the kernel structures of both targets: their field reads are sound, the
  view the recorder has of the file system is the same on both, and the path of a file comes
  out right of the bytes in the memory.
\<close>

fun btf_of :: "arch \<Rightarrow> btf" where
  "btf_of X86 = x86_btf"
| "btf_of Arm64 = arm64_btf"
| "btf_of Other_arch = Map.empty"

lemma btf_of_program: "A \<noteq> Other_arch \<Longrightarrow> program_btf (btf_of A) A"
  using x86_program.program_btf_axioms arm64_program.program_btf_axioms by (cases A) simp_all

section \<open>Field reads\<close>



text \<open>
  The structures are laid out soundly. A field of a structure of either target is
  aligned for its type and lies within the structure, and two fields that different members
  of it hold have no byte in common.
\<close>

theorem fields_sound:
  assumes "btf_of A S = Some (CStruct packed ms)" "find_field (CStruct packed ms) f = Some (n, u)"
    and "find_field (CStruct packed ms) g = Some (n', u')"
  shows "8 * calign u dvd n \<and> n + 8 * csize u \<le> 8 * csize (CStruct packed ms) \<and>
    (member_index ms f \<noteq> member_index ms g \<longrightarrow> n + 8 * csize u \<le> n' \<or> n' + 8 * csize u' \<le> n)"
proof -
  have "plain (CStruct packed ms)" using assms(1) x86_plain [of S] arm64_plain [of S] by (cases A) simp_all
  then have a: "8 * calign u dvd n" using find_aligned(1) [OF assms(2)] by blast
  obtain i j where ij: "member_index ms f = Some i" "member_index ms g = Some j"
    using find_member_index assms(2,3) by (metis find_field.simps(1) option.distinct(1) not_Some_eq)
  then have "i < j \<Longrightarrow> n + 8 * csize u \<le> n'" "j < i \<Longrightarrow> n' + 8 * csize u' \<le> n"
    using find_disjoint [of ms f i g j packed 0] find_disjoint [of ms g j f i packed 0] assms(2,3) by auto
  then show ?thesis using a find_bounds(1) [OF assms(2)] ij by (auto simp: linorder_neq_iff)
qed

theorem fields_sound_witness:
  "find_field x86_path ''mnt'' = Some (0, CPtr ''vfsmount'') \<and>
   find_field x86_path ''dentry'' = Some (64, CPtr ''dentry'') \<and> 0 + 8 * csize (CPtr ''vfsmount'') \<le> 64"
proof -
  have "btf_of X86 ''path'' = Some (CStruct False [Mem ''mnt'' (CPtr ''vfsmount''), Mem ''dentry'' (CPtr ''dentry'')])"
    by (simp add: layout x86_path_def)
  from fields_sound [OF this, of "''mnt''" 0 "CPtr ''vfsmount''" "''dentry''" 64 "CPtr ''dentry''"]
  show ?thesis by (simp add: layout)
qed

section \<open>The views of the programs\<close>

lemma btf_of_mem_kernel:
  assumes "A \<noteq> Other_arch"
  shows "mem_kernel (btf_of A) m K = K\<lparr>seq_exists := True, ns_id_exists := False, probe_read := mem_bytes m,
     d_parent := (\<lambda>a. load m (a + 24) 8), d_name := (\<lambda>a. (load m (a + 40) 8, ucast (load m (a + 36) 4))),
     d_hash_pprev := (\<lambda>a. load m (a + 16) 8), d_inode := (\<lambda>a. load m (a + 48) 8),
     i_ino := (\<lambda>a. load m (a + 64) 8), i_sb := (\<lambda>a. load m (a + 40) 8),
     s_dev := (\<lambda>a. ucast (load m (a + 16) 4)), s_magic := (\<lambda>a. load m (a + 96) 8),
     mnt_root := (\<lambda>a. load m a 8), mnt_parent := (\<lambda>a. load m (a + 16) 8),
     mnt_mountpoint := (\<lambda>a. load m (a + 24) 8), mount_mnt_offset := 32\<rparr>"
  using assms x86_mem_kernel arm64_mem_kernel by (cases A) simp_all

text \<open>
  The recorder sees the same file system on both targets: it reads the fields of dentries,
  inodes, super blocks and mounts at the same offsets, so the same memory gives the same
  view, and the mount of a \<^verbatim>\<open>vfsmount\<close> is found from the address of that member.
\<close>

theorem kernel_view:
  assumes "A \<noteq> Other_arch" "A' \<noteq> Other_arch" "V = mem_kernel (btf_of A) m K"
  shows "V = mem_kernel (btf_of A') m K \<and> real_mount V (a + 32) = a \<and> mnt_root V (a + 32) = load m (a + 32) 8 \<and>
    mnt_parent V a = load m (a + 16) 8 \<and> mnt_mountpoint V a = load m (a + 24) 8 \<and>
    d_parent V a = load m (a + 24) 8 \<and> d_name V a = (load m (a + 40) 8, ucast (load m (a + 36) 4)) \<and>
    d_hash_pprev V a = load m (a + 16) 8 \<and> d_inode V a = load m (a + 48) 8 \<and>
    i_ino V a = load m (a + 64) 8 \<and> i_sb V a = load m (a + 40) 8 \<and>
    s_dev V a = ucast (load m (a + 16) 4) \<and> s_magic V a = load m (a + 96) 8"
  unfolding assms(3) btf_of_mem_kernel [OF assms(1)] btf_of_mem_kernel [OF assms(2)]
  by (simp add: real_mount_def)

theorem kernel_view_witness:
  "d_parent (mem_kernel x86_btf (cells (\<lambda>a. a)) ref_kernel) 0x1000 = 0x1018 \<and>
   mem_kernel x86_btf (cells (\<lambda>a. a)) ref_kernel = mem_kernel arm64_btf (cells (\<lambda>a. a)) ref_kernel"
  using kernel_view [OF _ _ refl, of X86 Arm64 "cells (\<lambda>a. a)" ref_kernel "0x1000"]
  by (auto simp: load_cells)

text \<open>
  The audit probe takes the data it gets passed as the AppArmor audit data on both
  targets, and reads the error, the request, the operation, the name and the mode of the profile
  at the offsets they have there.
\<close>

theorem audit_view:
  assumes "A \<noteq> Other_arch"
  shows "get_audit_data (mem_audit (btf_of A) m U) a = a \<and>
    ad_error (mem_audit (btf_of A) m U) a = sint (ucast (load m a 4) :: u32) \<and>
    ad_request (mem_audit (btf_of A) m U) a = ucast (load m (a + 56) 4) \<and>
    ad_op (mem_audit (btf_of A) m U) a = load m (a + 16) 8 \<and>
    ad_name (mem_audit (btf_of A) m U) a = load m (a + 40) 8 \<and>
    profile_mode (mem_audit (btf_of A) m U) a = sint (load m (a + 80) 8)"
  using assms
  by (cases A) (simp_all add: mem_audit_def get_audit_data_def bpf_core_field_exists_def core_read_def layout)

theorem audit_view_witness:
  "ad_request (mem_audit arm64_btf (cells (\<lambda>a. a)) ref_audit) 0x1000 = 0x1038"
  using audit_view [of Arm64 "cells (\<lambda>a. a)" ref_audit "0x1000"] by (simp add: load_cells)

text \<open>
  The arguments of a syscall are read from the contexts of the tracepoints on both targets:
  the number 8 bytes and the arguments 16 bytes behind the start, in their order.
\<close>

theorem context_view:
  assumes "A \<noteq> Other_arch" "i < 6"
  shows "se_id (mem_raw_sys_enter (btf_of A) m a) = load m (a + 8) 8 \<and>
    nth_opt (se_args (mem_raw_sys_enter (btf_of A) m a)) i = Some (load m (a + 16 + 8 * of_nat i) 8) \<and>
    core_read_arg (mem_syscall_trace_enter (btf_of A) m a) i = Some (load m (a + 16 + 8 * of_nat i) 8)"
  using assms
  by (cases A) (simp_all add: mem_raw_sys_enter_def mem_syscall_trace_enter_def core_read_arg_def nth_opt_def
      core_read_def layout algebra_simps)

theorem context_view_witness:
  "se_id (mem_raw_sys_enter x86_btf (cells (\<lambda>a. a)) 0x1000) = 0x1008 \<and>
   core_read_arg (mem_syscall_trace_enter x86_btf (cells (\<lambda>a. a)) 0x1000) 2 = Some 0x1020"
  using context_view [of X86 2 "cells (\<lambda>a. a)" "0x1000"] by (simp add: load_cells)

text \<open>
  What the recorder knows of the current task, with the offsets in the task structure that
  differ between the targets: the mount namespace and its sequence number, the parent, the
  threads that are left, the name of the executable and the root directory.
\<close>

theorem task_view:
  assumes "A \<noteq> Other_arch"
    and "(nsproxy, real_parent, tgid, signal, mm, fs, exe_file) =
      (if A = X86 then (3064, 2448, 2436, 3072, 2304, 3040, 1160)
       else (2008, 1392, 1380, 2016, 1248, 1984, 1040))"
  shows "mem_task (btf_of A) m a t = t\<lparr>
      t_mntns_inum := ucast (load m (load m (load m (a + nsproxy) 8 + 24) 8 + 16) 4),
      t_mntns_seq := load m (load m (load m (a + nsproxy) 8 + 24) 8 + 56) 8,
      t_mntns_ns_id := 0,
      t_real_parent_tgid := ucast (load m (load m (a + real_parent) 8 + tgid) 4),
      t_signal_live := ucast (load m (load m (a + signal) 8 + 4) 4),
      t_thread_status := (if A = X86 then ucast (load m (a + 16) 4) else 0),
      t_thread_flags := load m a 8,
      t_exe_name := load m (load m (load m (load m (a + mm) 8 + exe_file) 8 + 72) 8 + 40) 8,
      t_fs_root := \<lparr>p_mnt = load m (load m (a + fs) 8 + 24) 8, p_dentry = load m (load m (a + fs) 8 + 32) 8\<rparr>\<rparr>"
  using assms
  by (cases A) (simp_all add: mem_task_def mem_path_def core_read_def bpf_core_offset_def layout Let_def algebra_simps)

theorem task_view_witness:
  "t_mntns_inum (mem_task x86_btf (cells (\<lambda>a. a)) 0x10000 ref_task) = 0x10C20 \<and>
   t_mntns_inum (mem_task arm64_btf (cells (\<lambda>a. a)) 0x10000 ref_task) = 0x10800"
  using task_view [of X86 3064 2448 2436 3072 2304 3040 1160 "cells (\<lambda>a. a)" "0x10000" ref_task]
    task_view [of Arm64 2008 1392 1380 2016 1248 1984 1040 "cells (\<lambda>a. a)" "0x10000" ref_task]
  by (simp add: load_cells)

section \<open>Paths in memory\<close>

text \<open>
  A dentry in memory, below the root with the dentry \<open>rd\<close> in the mount of \<open>rv\<close>: the name of a
  dentry is at its offset 36 and 40, its parent at 24, and the root dentry of a mount is the
  first word of the \<^verbatim>\<open>vfsmount\<close>, with the parent mount and the mount point in the words before it.
\<close>

inductive mem_tree :: "memory \<Rightarrow> u64 \<Rightarrow> u64 \<Rightarrow> nat \<Rightarrow> u64 \<Rightarrow> u64 \<Rightarrow> u8 list list \<Rightarrow> bool" for m rd rv where
  at_root: "mem_tree m rd rv 0 rd rv []"
| below: "(d, v) \<noteq> (rd, rv) \<Longrightarrow> load m v 8 \<noteq> d \<Longrightarrow> load m (d + 24) 8 = p \<Longrightarrow> p \<noteq> d \<Longrightarrow>
    mem_tree m rd rv k p v ns \<Longrightarrow>
    mem_tree m rd rv (Suc k) d v
      (ns @ [mem_bytes m (load m (d + 40) 8) (unat (load m (d + 36) 4))])"
| mounted: "(d, v) \<noteq> (rd, rv) \<Longrightarrow> load m v 8 = d \<Longrightarrow> load m (v - 16) 8 = p \<Longrightarrow> p + 32 \<noteq> v \<Longrightarrow>
    mem_tree m rd rv k (load m (v - 8) 8) (p + 32) ns \<Longrightarrow> mem_tree m rd rv (Suc k) d v ns"

lemma unat_ucast_load: "unat (ucast (load m a 4) :: u32) = unat (load m a 4)"
  using load_width [of m a 4] by (simp add: unsigned_ucast_eq take_bit_nat_eq_self)

lemma mem_tree_resolves:
  assumes "A \<noteq> Other_arch" "mem_tree m rd rv k d v ns"
  shows "resolves (mem_kernel (btf_of A) m K) \<lparr>p_mnt = rv, p_dentry = rd\<rparr> k d v (v - 32) ns"
  using assms(2)
proof (induction rule: mem_tree.induct)
  case at_root
  then show ?case by (intro resolves.process_root) simp_all
next
  case (below d v p k ns)
  have "mem_bytes m (load m (d + 40) 8) (unat (load m (d + 36) 4)) = name_of (mem_kernel (btf_of A) m K) d"
    by (simp add: name_of_def btf_of_mem_kernel [OF assms(1)] unat_ucast_load)
  then show ?case
    using below resolves.component [of d "\<lparr>p_mnt = rv, p_dentry = rd\<rparr>" v "mem_kernel (btf_of A) m K"]
    by (simp add: btf_of_mem_kernel [OF assms(1)])
next
  case (mounted d v p k ns)
  have "v - 32 + 16 = v - 16" "v - 32 + 24 = v - 8" by simp_all
  then show ?case
    using mounted resolves.mount_point [of d "\<lparr>p_mnt = rv, p_dentry = rd\<rparr>" v "mem_kernel (btf_of A) m K" "v - 32"]
    by (simp add: btf_of_mem_kernel [OF assms(1)] eq_diff_eq)
qed

text \<open>
  (C33) The path comes out right of the memory, on both targets. For a file whose dentries and
  mounts are in memory below the root of the current task, the resolution that works on the
  bytes of the kernel gives the names on the way to it, each after a slash, and the mark of
  a deleted file if its dentry is not hashed.
\<close>

theorem d_path_of_memory:
  assumes "A \<noteq> Other_arch" "bpf_kernel K" "length buf = PATH_MAX"
    and "nth_opt (buffer_heap_map s (t_cpu t)) 0 = Some heap" "MAX_BUF_LEN \<le> length heap"
    and fs: "fs = load m (cur + (if A = X86 then 3040 else 1984)) 8"
    and tree: "mem_tree m (load m (fs + 32) 8) (load m (fs + 24) 8) k d v ns"
    and "k < PROBE_CWD_READ_ITERATIONS" "ns \<noteq> []" "names_ok ns"
    and q: "q = concat (map (\<lambda>n. 0x2F # n) ns) @
           (if load m (d + 16) 8 = 0 \<and> d \<noteq> load m (d + 24) 8 then deleted_suffix else [])"
    and "length q < MAX_BUF_LEN"
  shows "\<exists>heap'. bpf_d_path_tetragon (mem_kernel (btf_of A) m K) (mem_task (btf_of A) m cur t)
      \<lparr>p_mnt = v, p_dentry = d\<rparr> buf s =
    Some (int (length q) + 1, q @ 0 # drop (Suc (length q)) buf, s\<lparr>buffer_heap_map := heap'\<rparr>)"
proof -
  let ?K = "mem_kernel (btf_of A) m K" and ?t = "mem_task (btf_of A) m cur t"
  have root: "t_fs_root ?t = \<lparr>p_mnt = load m (fs + 24) 8, p_dentry = load m (fs + 32) 8\<rparr>" "t_cpu ?t = t_cpu t"
    using assms(1) by (cases A; simp add: fs mem_task_def mem_path_def core_read_def bpf_core_offset_def layout
        Let_def algebra_simps)+
  have mnt: "real_mount ?K v = v - 32"
    by (simp add: real_mount_def btf_of_mem_kernel [OF assms(1)])
  have "resolves ?K (t_fs_root ?t) k d v (v - 32) ns"
    unfolding root by (rule mem_tree_resolves [OF assms(1) tree])
  moreover have "d_unlinked ?K d \<longleftrightarrow> load m (d + 16) 8 = 0 \<and> d \<noteq> load m (d + 24) 8"
    by (simp add: d_unlinked_def d_unhashed_def hlist_bl_unhashed_def IS_ROOT_def btf_of_mem_kernel [OF assms(1)])
  ultimately have p: "resolved_path ?K ?t \<lparr>p_mnt = v, p_dentry = d\<rparr> = q"
    "names_ok (path_names ?K ?t \<lparr>p_mnt = v, p_dentry = d\<rparr>)"
    using resolved_path_resolves [of ?K ?t k "\<lparr>p_mnt = v, p_dentry = d\<rparr>" ns q] assms(8-10,12) mnt q by simp_all
  have "nth_opt (buffer_heap_map s (t_cpu ?t)) 0 = Some heap" using assms(4) root(2) by simp
  from bpf_d_path_tetragon_resolved [OF mem_kernel_bpf_kernel [OF assms(2)] p(2) assms(3) this assms(5)]
  show ?thesis unfolding p(1) .
qed

text \<open>
  The memory of a kernel for x86 with the file \<^verbatim>\<open>/etc/motd\<close> at 0x6000. Its parent 0x9000 is the root of
  the mount 0x8000, which is mounted on the directory \<^verbatim>\<open>etc\<close> at 0x5000 of the root mount 0x3000. The
  current task is at 0x10000 and its file system structure at 0x2000. The names are at 0x7000.
\<close>

definition motd_words :: "(u64 \<times> u64) list" where
  "motd_words =
     [(0x10BE0, 0x2000), (0x2018, 0x3020), (0x2020, 0x4000),
      (0x3010, 0x3000), (0x3020, 0x4000),
      (0x8010, 0x3000), (0x8018, 0x5000), (0x8020, 0x9000),
      (0x5010, 1), (0x5018, 0x4000), (0x5020, 0x300000000), (0x5028, 0x7000),
      (0x6010, 1), (0x6018, 0x9000), (0x6020, 0x400000000), (0x6028, 0x7008),
      (0x7000, 0x637465), (0x7008, 0x64746F6D)]"

definition motd_memory :: memory where
  "motd_memory = cells (\<lambda>a. case map_of motd_words a of None \<Rightarrow> 0 | Some x \<Rightarrow> x)"

lemma motd_loads:
  "load motd_memory 0x10BE0 8 = 0x2000" "load motd_memory 0x2018 8 = 0x3020" "load motd_memory 0x2020 8 = 0x4000"
  "load motd_memory 0x3020 8 = 0x4000" "load motd_memory 0x8010 8 = 0x3000" "load motd_memory 0x8018 8 = 0x5000"
  "load motd_memory 0x8020 8 = 0x9000" "load motd_memory 0x5018 8 = 0x4000" "load motd_memory 0x5028 8 = 0x7000"
  "load motd_memory 0x5024 4 = 3" "load motd_memory 0x6010 8 = 1" "load motd_memory 0x6018 8 = 0x9000"
  "load motd_memory 0x6028 8 = 0x7008" "load motd_memory 0x6024 4 = 4"
  by (simp_all add: motd_memory_def motd_words_def load_cells)

lemma motd_names_bytes:
  "mem_bytes motd_memory 0x7000 3 = bytes_of ''etc''" "mem_bytes motd_memory 0x7008 4 = bytes_of ''motd''"
  by (simp_all add: mem_bytes_def motd_memory_def motd_words_def cells_def bytes_of_def upt_rec)

lemma motd_tree:
  "mem_tree motd_memory 0x4000 0x3020 3 0x6000 0x8020 [bytes_of ''etc'', bytes_of ''motd'']"
proof -
  have etc: "mem_tree motd_memory 0x4000 0x3020 (Suc 0) 0x5000 0x3020 [bytes_of ''etc'']"
    using mem_tree.below [OF _ _ _ _ mem_tree.at_root [of motd_memory "0x4000" "0x3020"], of "0x5000"]
    by (simp add: motd_loads motd_names_bytes)
  have "mem_tree motd_memory 0x4000 0x3020 (Suc (Suc 0)) 0x9000 0x8020 [bytes_of ''etc'']"
    by (rule mem_tree.mounted [where p = "0x3000"]) (use etc in \<open>simp_all add: motd_loads\<close>)
  from mem_tree.below [OF _ _ _ _ this, of "0x6000"] show ?thesis
    by (simp add: motd_loads motd_names_bytes numeral_3_eq_3)
qed

theorem d_path_of_memory_witness:
  "\<exists>heap'. bpf_d_path_tetragon (mem_kernel x86_btf motd_memory ref_kernel)
       (mem_task x86_btf motd_memory 0x10000 ref_task) \<lparr>p_mnt = 0x8020, p_dentry = 0x6000\<rparr>
       (replicate PATH_MAX 0) init_state =
     Some (10, bytes_of ''/etc/motd'' @ 0 # drop 10 (replicate PATH_MAX 0),
           init_state\<lparr>buffer_heap_map := heap'\<rparr>)"
  using d_path_of_memory [of X86 ref_kernel "replicate PATH_MAX 0" init_state ref_task "replicate (4096 + 256) 0"
      "0x2000" motd_memory "0x10000" 3 "0x6000" "0x8020" "[bytes_of ''etc'', bytes_of ''motd'']" "bytes_of ''/etc/motd''"]
    ref.bpf_kernel_axioms motd_tree
  by (simp add: motd_loads init_state_def ref_task_def bytes_of_def)

end
