(* ===== verification/Maintenance.thy ===== *)
theory Maintenance
  imports Pid_Handlers
begin

text \<open>
  The periodic maintenance of \<^verbatim>\<open>maintenance.go\<close>: data that nobody is going to collect is dropped, and a
  recording that nobody needs any more is stopped. What the system tells about processes, cgroups,
  pods and the time is a parameter.
\<close>

section \<open>Keys that nobody collects\<close>

text \<open>
  What one sweep sees: the keys of \<^verbatim>\<open>recorded_syscalls\<close> and \<^verbatim>\<open>active_pids\<close> as bytes, which the second
  read may fail to get, whether a process exists, and whether a cgroup does.
\<close>

record sweep_env =
  se_inCluster :: bool
  se_syscall_keys :: "u8 list list"
  se_active_pids :: "u8 list list option"
  se_proc :: "u32 \<Rightarrow> bool"
  se_cgroup :: "u64 \<Rightarrow> bool"
  se_clear_error :: "u64 \<Rightarrow> bool"

definition staleKeySweeps :: nat where
  "staleKeySweeps = 2"

definition GetKnownKeys :: "AppArmorRecorder \<Rightarrow> u64 set" where
  "GetKnownKeys b = dom (ar_recordedFiles b) \<union> dom (ar_recordedCapabilities b) \<union> dom (ar_recordedSocketsUse b)"

definition recordedKeys :: "sweep_env \<Rightarrow> BpfRecorder \<Rightarrow> u64 list" where
  "recordedKeys env r =
     remdups_adj (sort
       ((if br_Seccomp r \<noteq> None then map le_word (filter (\<lambda>key. length key = 8) (se_syscall_keys env)) else []) @
        (case br_AppArmor r of None \<Rightarrow> [] | Some b \<Rightarrow> sorted_list_of_set (GetKnownKeys b))))"

fun keysWithProcesses :: "sweep_env \<Rightarrow> u8 list list \<Rightarrow> u64 set \<Rightarrow> u64 set" where
  "keysWithProcesses env [] alive = alive"
| "keysWithProcesses env (e # pids) alive =
     (if length e \<noteq> 16 then keysWithProcesses env pids alive
      else let pid = le_word (take 4 e); key = le_word (take 8 (drop 8 e))
           in if key \<in> alive then keysWithProcesses env pids alive
              else keysWithProcesses env pids (if se_proc env pid then insert key alive else alive))"

definition isStaleKey :: "sweep_env \<Rightarrow> u64 \<Rightarrow> u64 set \<Rightarrow> BpfRecorder \<Rightarrow> bool" where
  "isStaleKey env key alive r =
     (if profileOfKey key r \<noteq> None then False
      else if key \<in> alive then False
      else if br_cgroupKeys r \<and> se_cgroup env key then False
      else True)"

text \<open>The counts after the loop over the recorded keys, and the keys to drop.\<close>

definition count_stale ::
  "(u64 \<Rightarrow> bool) \<Rightarrow> (u64 \<Rightarrow> nat) \<Rightarrow> u64 \<Rightarrow> (u64 \<Rightarrow> nat) \<times> u64 list \<Rightarrow> (u64 \<Rightarrow> nat) \<times> u64 list" where
  "count_stale isStale old key = (\<lambda>(stale, dropped).
     if \<not> isStale key then (stale, dropped)
     else let sweeps = old key + 1
          in if sweeps < staleKeySweeps then (stale(key := sweeps), dropped) else (stale, dropped @ [key]))"

definition sweep_scan :: "sweep_env \<Rightarrow> BpfRecorder \<Rightarrow> BpfRecorder \<times> u64 list" where
  "sweep_scan env r =
     (if \<not> se_inCluster env \<or> br_startRequests r = 0 then (r\<lparr>br_staleKeys := (\<lambda>_. 0)\<rparr>, [])
      else case se_active_pids env of
        None \<Rightarrow> (r, [])
      | Some pids \<Rightarrow>
          let alive = keysWithProcesses env pids {}
          in case fold (count_stale (\<lambda>key. isStaleKey env key alive r) (br_staleKeys r)) (recordedKeys env r) (\<lambda>_. 0, []) of
               (stale, dropped) \<Rightarrow> (r\<lparr>br_staleKeys := stale\<rparr>, dropped))"

definition sweep_key :: "sweep_env \<Rightarrow> u64 \<Rightarrow> service \<Rightarrow> service" where
  "sweep_key env key = (\<lambda>(r, s).
     if profileOfKey key r \<noteq> None then (r, s)
     else let s1 = (if br_Seccomp r \<noteq> None then seccomp_Clear (se_clear_error env) [key] s else s)
          in apparmor_data_Clear [key] (r, s1))"

definition sweep_drop :: "sweep_env \<Rightarrow> u64 list \<Rightarrow> u64 \<Rightarrow> service \<Rightarrow> service" where
  "sweep_drop env dropped generation w =
     (if dropped = [] \<or> br_recordingGeneration (fst w) \<noteq> generation then w else fold (sweep_key env) dropped w)"

text \<open>Between the scan and the deletions the lock is not held: \<open>other\<close> is what happens there.\<close>

definition sweepStaleKeys :: "sweep_env \<Rightarrow> (service \<Rightarrow> service) \<Rightarrow> service \<Rightarrow> service" where
  "sweepStaleKeys env other w =
     (case sweep_scan env (fst w) of (r, dropped) \<Rightarrow>
        sweep_drop env dropped (br_recordingGeneration (fst w)) (other (r, snd w)))"

section \<open>Who is dropped\<close>

lemma fold_count_stale:
  assumes "distinct keys"
  shows "fold (count_stale isStale old) keys (stale, dropped) =
    ((\<lambda>k. if k \<in> set keys \<and> isStale k \<and> old k + 1 < staleKeySweeps then old k + 1 else stale k),
     dropped @ filter (\<lambda>k. isStale k \<and> old k + 1 \<ge> staleKeySweeps) keys)"
  using assms
proof (induction keys arbitrary: stale dropped)
  case (Cons k keys)
  then have "k \<notin> set keys" "distinct keys" by auto
  then show ?case using Cons.IH by (auto simp: count_stale_def Let_def fun_eq_iff)
qed simp

text \<open>What a scan finds, as a predicate on keys.\<close>

definition stale_now :: "sweep_env \<Rightarrow> BpfRecorder \<Rightarrow> u64 \<Rightarrow> bool" where
  "stale_now env r k \<longleftrightarrow> se_inCluster env \<and> br_startRequests r \<noteq> 0 \<and> k \<in> set (recordedKeys env r) \<and>
     (\<exists>pids. se_active_pids env = Some pids \<and> isStaleKey env k (keysWithProcesses env pids {}) r)"

definition scanned :: "sweep_env \<Rightarrow> BpfRecorder \<Rightarrow> bool" where
  "scanned env r \<longleftrightarrow> se_inCluster env \<and> br_startRequests r \<noteq> 0 \<and> se_active_pids env \<noteq> None"

lemma sweep_scan_eq:
  assumes "scanned env r"
  shows "sweep_scan env r = (r\<lparr>br_staleKeys := (\<lambda>k. if stale_now env r k \<and> br_staleKeys r k = 0 then 1 else 0)\<rparr>,
    filter (\<lambda>k. stale_now env r k \<and> br_staleKeys r k > 0) (recordedKeys env r))"
proof -
  obtain pids where p: "se_inCluster env" "br_startRequests r \<noteq> 0" "se_active_pids env = Some pids"
    using assms by (auto simp: scanned_def)
  have d: "distinct (recordedKeys env r)" by (simp add: recordedKeys_def distinct_compact)
  have st: "stale_now env r k \<longleftrightarrow> k \<in> set (recordedKeys env r) \<and> isStaleKey env k (keysWithProcesses env pids {}) r" for k
    using p by (simp add: stale_now_def)
  have f: "filter (\<lambda>k. isStaleKey env k (keysWithProcesses env pids {}) r \<and> br_staleKeys r k + 1 \<ge> 2) (recordedKeys env r) =
      filter (\<lambda>k. stale_now env r k \<and> br_staleKeys r k > 0) (recordedKeys env r)"
    by (rule filter_cong) (auto simp: st)
  show ?thesis
    using p f by (auto simp: sweep_scan_def Let_def fold_count_stale [OF d] staleKeySweeps_def st fun_eq_iff)
qed

text \<open>
  A sequence of scans, with the changes of the recorder in between. The answer is what every scan
  saw, and the keys it hands over to be dropped.
\<close>

fun scans :: "(sweep_env \<times> (BpfRecorder \<Rightarrow> BpfRecorder)) list \<Rightarrow> BpfRecorder \<Rightarrow> ((u64 \<Rightarrow> bool) \<times> u64 list) list" where
  "scans [] r = []"
| "scans ((env, betw) # rest) r =
     (case sweep_scan env r of (r1, dropped) \<Rightarrow> (stale_now env r, dropped) # scans rest (betw r1))"

definition keeps_stale :: "(BpfRecorder \<Rightarrow> BpfRecorder) \<Rightarrow> bool" where
  "keeps_stale f \<longleftrightarrow> (\<forall>r. br_staleKeys (f r) = br_staleKeys r)"

fun all_scanned :: "(sweep_env \<times> (BpfRecorder \<Rightarrow> BpfRecorder)) list \<Rightarrow> BpfRecorder \<Rightarrow> bool" where
  "all_scanned [] r \<longleftrightarrow> True"
| "all_scanned ((env, betw) # rest) r \<longleftrightarrow>
     scanned env r \<and> keeps_stale betw \<and> all_scanned rest (betw (fst (sweep_scan env r)))"

text \<open>After a scan exactly the keys that are stale and were not dropped have a count.\<close>

lemma scan_counts:
  assumes "scanned env r"
  shows "br_staleKeys (fst (sweep_scan env r)) k > 0 \<longleftrightarrow> stale_now env r k \<and> k \<notin> set (snd (sweep_scan env r))"
    and "k \<in> set (snd (sweep_scan env r)) \<longleftrightarrow> stale_now env r k \<and> br_staleKeys r k > 0"
  by (auto simp: sweep_scan_eq [OF assms] stale_now_def)

lemma scans_nth:
  assumes "all_scanned envs r" "n < length envs"
  shows "k \<in> set (snd (scans envs r ! n)) \<longleftrightarrow> fst (scans envs r ! n) k \<and>
    (if n = 0 then br_staleKeys r k > 0
     else fst (scans envs r ! (n - 1)) k \<and> k \<notin> set (snd (scans envs r ! (n - 1))))"
  using assms
proof (induction envs arbitrary: r n)
  case (Cons x envs)
  obtain env betw where x: "x = (env, betw)" by (cases x)
  let ?r = "betw (fst (sweep_scan env r))"
  have sc: "scanned env r" "keeps_stale betw" "all_scanned envs ?r" using Cons.prems(1) by (simp_all add: x)
  have eq: "scans (x # envs) r = (stale_now env r, snd (sweep_scan env r)) # scans envs ?r" by (simp add: x case_prod_beta)
  have count: "br_staleKeys ?r k > 0 \<longleftrightarrow> stale_now env r k \<and> k \<notin> set (snd (sweep_scan env r))"
    using scan_counts(1) [OF sc(1)] sc(2) by (simp add: keeps_stale_def)
  show ?case
  proof (cases n)
    case 0
    then show ?thesis unfolding eq using scan_counts(2) [OF sc(1), of k] by simp
  next
    case (Suc m)
    have "m < length envs" using Cons.prems(2) Suc by simp
    from Cons.IH [OF sc(3) this] show ?thesis unfolding eq Suc using count by (cases m) simp_all
  qed
qed simp


definition idle_env :: sweep_env where
  "idle_env = \<lparr>se_inCluster = True, se_syscall_keys = [le_bytes 8 (7 :: u64)], se_active_pids = Some [],
     se_proc = (\<lambda>_. False), se_cgroup = (\<lambda>_. False), se_clear_error = (\<lambda>_. False)\<rparr>"


section \<open>Recordings that nobody needs\<close>

text \<open>Times are in seconds. A pod that is done is not recorded any more.\<close>

definition abandonedRecordingTimeout :: nat where
  "abandonedRecordingTimeout = 10 * 60"

definition uncollectedRecordingTimeout :: nat where
  "uncollectedRecordingTimeout = 60 * 60"

datatype pod_phase = PodSucceeded | PodFailed | Pod_other

definition recordsBpf :: "pod_phase \<Rightarrow> (string \<times> string) list \<Rightarrow> bool" where
  "recordsBpf phase annotations =
     (if phase = PodSucceeded \<or> phase = PodFailed then False
      else list_ex (\<lambda>(key, val). val \<noteq> '''' \<and>
        (take (length SeccompProfileRecordBpfAnnotationKey) key = SeccompProfileRecordBpfAnnotationKey \<or>
         take (length ApparmorProfileRecordBpfAnnotationKey) key = ApparmorProfileRecordBpfAnnotationKey)) annotations)"

text \<open>\<open>pods\<close> is the list of the pods of the node, \<open>None\<close> before the first one got known.\<close>

definition releaseAbandonedRecording ::
  "(pod_phase \<times> (string \<times> string) list) list option \<Rightarrow> nat \<Rightarrow> map_io \<Rightarrow> service \<Rightarrow> service" where
  "releaseAbandonedRecording pods now io = (\<lambda>(r, s).
     case pods of
       None \<Rightarrow> (r, s)
     | Some ps \<Rightarrow>
         if br_startRequests r = 0 then (r\<lparr>br_idleSince := None\<rparr>, s)
         else if list_ex (\<lambda>(phase, annotations). recordsBpf phase annotations) ps then (r\<lparr>br_idleSince := None\<rparr>, s)
         else case br_idleSince r of
           None \<Rightarrow> (r\<lparr>br_idleSince := Some now\<rparr>, s)
         | Some idleSince \<Rightarrow>
             if br_lastStart r > idleSince then (r\<lparr>br_idleSince := Some now\<rparr>, s)
             else let timeout = (if cp_Size (br_containerIDToProfileMap r) > 0
                                 then uncollectedRecordingTimeout else abandonedRecordingTimeout)
                  in if now - idleSince < timeout then (r, s)
                     else case br_StopRecording io (r\<lparr>br_idleSince := None\<rparr>, s) of
                       (Some e, w) \<Rightarrow> w
                     | (None, (r1, s1)) \<Rightarrow> (r1\<lparr>br_startRequests := 0\<rparr>, s1))"

datatype maintenance_op =
    Tick "(pod_phase \<times> (string \<times> string) list) list option" nat map_io
  | Request session_op

fun maintain :: "maintenance_op \<Rightarrow> service \<Rightarrow> service" where
  "maintain (Tick pods now io) w = releaseAbandonedRecording pods now io w"
| "maintain (Request p) w = snd (session_step p w)"

text \<open>A tick that finds no recorded pod, and one that finds some.\<close>

fun finds_none :: "maintenance_op \<Rightarrow> bool" where
  "finds_none (Tick (Some ps) now io) = (\<not> list_ex (\<lambda>(phase, annotations). recordsBpf phase annotations) ps)"
| "finds_none _ = False"

fun finds_recorded :: "maintenance_op \<Rightarrow> bool" where
  "finds_recorded (Tick (Some ps) now io) = list_ex (\<lambda>(phase, annotations). recordsBpf phase annotations) ps"
| "finds_recorded _ = False"

text \<open>The time of the last start request.\<close>

fun last_start :: "maintenance_op list \<Rightarrow> nat \<Rightarrow> nat" where
  "last_start [] t = t"
| "last_start (Request (Start_op now io) # ops) t = last_start ops now"
| "last_start (_ # ops) t = last_start ops t"

lemma last_start_append [simp]: "last_start (a @ b) t = last_start b (last_start a t)"
  by (induction a t rule: last_start.induct) simp_all

lemma stop_recording_idle:
  "br_idleSince (fst (snd (br_StopRecording io (r, s)))) = br_idleSince r"
  "br_lastStart (fst (snd (br_StopRecording io (r, s)))) = br_lastStart r"
proof -
  define same where "same = (\<lambda>(a :: service) (b :: service). br_idleSince (fst b) = br_idleSince (fst a) \<and>
      br_lastStart (fst b) = br_lastStart (fst a))"
  let ?fs = "[stop_seccomp io, stop_apparmor io, \<lambda>(r, s). case clearPidMaps io s of (ok, s1) \<Rightarrow> (ok, (r, s1))]"
  have "same (r, set_recording False s) (snd (run_all ?fs (r, set_recording False s)))"
    by (rule run_all_inv [where P = same])
      (auto simp: same_def stop_seccomp_def stop_apparmor_def case_prod_beta split: option.split)
  then show "br_idleSince (fst (snd (br_StopRecording io (r, s)))) = br_idleSince r"
    "br_lastStart (fst (snd (br_StopRecording io (r, s)))) = br_lastStart r"
    by (auto simp: br_StopRecording_def same_def end_session_def case_prod_beta simp del: run_all.simps)
qed

lemma session_idle:
  "br_idleSince (fst (snd (session_step p w))) = br_idleSince (fst w)"
  "br_lastStart (fst (snd (session_step p w))) = last_start [Request p] (br_lastStart (fst w))"
  by (cases p; cases w; auto simp: Start_def Stop_def Let_def start_recording_cases stop_recording_idle split: if_splits)+

lemma release_last_start [simp]: "br_lastStart (fst (releaseAbandonedRecording pods now io w)) = br_lastStart (fst w)"
proof -
  obtain e r1 s1 where "br_StopRecording io ((fst w)\<lparr>br_idleSince := None\<rparr>, snd w) = (e, (r1, s1))" by (metis surj_pair)
  moreover from this have "br_lastStart r1 = br_lastStart (fst w)"
    using stop_recording_idle(2) [of io "(fst w)\<lparr>br_idleSince := None\<rparr>" "snd w"] by simp
  ultimately show ?thesis
    by (cases w) (auto simp: releaseAbandonedRecording_def Let_def split: option.split)
qed

lemma maintain_last_start: "br_lastStart (fst (fold maintain ops w)) = last_start ops (br_lastStart (fst w))"
proof (induction ops arbitrary: w)
  case (Cons p ops)
  have "br_lastStart (fst (maintain p w)) = last_start [p] (br_lastStart (fst w))"
    by (cases p) (simp_all add: session_idle)
  then show ?case using Cons last_start_append [of "[p]" ops] by simp
qed simp

text \<open>Since a tick at time \<open>t\<close> nobody was found to be recorded.\<close>

definition idle_since :: "nat \<Rightarrow> maintenance_op list \<Rightarrow> bool" where
  "idle_since t ops \<longleftrightarrow> (\<exists>pre pods io post. ops = pre @ Tick pods t io # post \<and> finds_none (Tick pods t io) \<and>
     (\<forall>op \<in> set post. \<not> finds_recorded op))"

lemma idle_since_snoc: "idle_since t ops \<Longrightarrow> \<not> finds_recorded op \<Longrightarrow> idle_since t (ops @ [op])"
  unfolding idle_since_def
proof (elim exE conjE)
  fix pre pods io post
  assume "ops = pre @ Tick pods t io # post" "finds_none (Tick pods t io)" "\<forall>op \<in> set post. \<not> finds_recorded op" "\<not> finds_recorded op"
  then show "\<exists>pre pods io post. ops @ [op] = pre @ Tick pods t io # post \<and> finds_none (Tick pods t io) \<and>
      (\<forall>op \<in> set post. \<not> finds_recorded op)"
    by (intro exI [of _ pre] exI [of _ pods] exI [of _ io] exI [of _ "post @ [op]"]) auto
qed

lemma idle_since_now: "finds_none (Tick pods now io) \<Longrightarrow> idle_since now (ops @ [Tick pods now io])"
  unfolding idle_since_def by (rule exI [of _ ops], rule exI [of _ pods], rule exI [of _ io], rule exI [of _ "[]"]) simp

text \<open>What a tick does to the idle time.\<close>

lemma release_idle:
  "br_idleSince (fst (releaseAbandonedRecording pods now io w)) \<in>
     {None} \<union> (if finds_none (Tick pods now io) then {Some now} else {}) \<union>
     (if finds_recorded (Tick pods now io) then {} else {br_idleSince (fst w)})"
proof -
  obtain r s where w: "w = (r, s)" by (cases w)
  obtain e r1 s1 where st: "br_StopRecording io (r\<lparr>br_idleSince := None\<rparr>, s) = (e, (r1, s1))" by (metis surj_pair)
  then have none: "br_idleSince r1 = None" using stop_recording_idle(1) [of io "r\<lparr>br_idleSince := None\<rparr>" s] by simp
  show ?thesis
    using st none by (auto simp: w releaseAbandonedRecording_def Let_def split: option.splits)
qed

lemma maintain_idle:
  assumes "br_idleSince (fst w) = None" "br_idleSince (fst (fold maintain ops w)) = Some t"
  shows "idle_since t ops"
  using assms(2)
proof (induction ops arbitrary: t rule: rev_induct)
  case (snoc p ops)
  show ?case
  proof (cases p)
    case (Tick pods now io)
    then have "t = now \<and> finds_none p \<or> \<not> finds_recorded p \<and> br_idleSince (fst (fold maintain ops w)) = Some t"
      using release_idle [of pods now io "fold maintain ops w"] snoc.prems by (auto split: if_splits)
    then show ?thesis using snoc.IH idle_since_snoc idle_since_now Tick by blast
  next
    case (Request q)
    then show ?thesis using snoc session_idle(1) idle_since_snoc by simp
  qed
qed (use assms(1) in simp)

text \<open>
  (C28) A recording is stopped as abandoned only if it is. Whatever requests and runs of the
  maintenance came before, if a run of the maintenance takes all requests of a recording back, then
  an earlier run found no recorded pod on the node, no run since then found one, nobody asked for a
  recording after that, and at least ten minutes passed, or an hour if there are profiles that were
  not collected yet.
\<close>

theorem abandoned_only_if_idle:
  assumes "br_idleSince (fst w) = None" "fold maintain ops w = (r, s)" "br_startRequests r \<noteq> 0"
    "br_startRequests (fst (maintain (Tick pods now io) (r, s))) = 0"
  shows "\<exists>t. idle_since t ops \<and> finds_none (Tick pods now io) \<and> last_start ops (br_lastStart (fst w)) \<le> t \<and>
    now - t \<ge> (if cp_Size (br_containerIDToProfileMap r) > 0 then 60 * 60 else 10 * 60)"
proof -
  have ls: "br_lastStart r = last_start ops (br_lastStart (fst w))" using maintain_last_start [of ops w] assms(2) by simp
  have idle: "br_idleSince r = Some t \<Longrightarrow> idle_since t ops" for t using maintain_idle [OF assms(1), of ops] assms(2) by simp
  obtain ps where ps: "pods = Some ps" using assms(3,4) by (cases pods) (auto simp: releaseAbandonedRecording_def)
  have none: "finds_none (Tick pods now io)"
    using assms(3,4) ps by (auto simp: releaseAbandonedRecording_def)
  then obtain t where t: "br_idleSince r = Some t"
    using assms(3,4) ps by (cases "br_idleSince r") (auto simp: releaseAbandonedRecording_def)
  have "br_lastStart r \<le> t \<and> now - t \<ge> (if cp_Size (br_containerIDToProfileMap r) > 0 then 60 * 60 else 10 * 60)"
    using assms(3,4) ps none t
    by (auto simp: releaseAbandonedRecording_def Let_def uncollectedRecordingTimeout_def abandonedRecordingTimeout_def
        split: if_splits)
  then show ?thesis using idle [OF t] none ls by auto
qed

lemma good_stop:
  assumes "br_AppArmor r = None" "br_Seccomp r = Some c"
  shows "fst (br_StopRecording good_io (r, s)) = None"
  using assms by (simp add: br_StopRecording_def good_io_def stop_seccomp_def stop_apparmor_def clearBpfMap_def
      clearPidMaps_def clear_active_def clear_child_def)

theorem abandoned_only_if_idle_witness:
  "let ops = [Request (Start_op 5 good_io), Tick (Some []) 10 good_io]; w = fold maintain ops new_service
   in br_startRequests (fst w) = 1 \<and> br_startRequests (fst (maintain (Tick (Some []) 700 good_io) w)) = 0 \<and>
      (\<exists>t. idle_since t ops \<and> 5 \<le> t \<and> t \<le> 100)"
proof -
  let ?ops = "[Request (Start_op 5 good_io), Tick (Some []) 10 good_io]"
  have start: "Start 5 good_io new_service = (None, ((fst new_service)\<lparr>br_lastStart := 5, br_startRequests := 1\<rparr>,
      set_recording True (snd (clearPidMaps good_io init_state))))"
    using good_io_clears by (simp add: Start_def new_service_def Let_def start_recording_cases clearPidMaps_empty clears_maps_def)
  let ?r = "(fst new_service)\<lparr>br_lastStart := 5, br_startRequests := 1, br_idleSince := Some 10\<rparr>"
  let ?s = "set_recording True (snd (clearPidMaps good_io init_state))"
  have run: "fold maintain ?ops new_service = (?r, ?s)"
    by (simp add: start releaseAbandonedRecording_def) (simp add: new_service_def)
  obtain r1 s1 where stop: "br_StopRecording good_io (?r\<lparr>br_idleSince := None\<rparr>, ?s) = (None, (r1, s1))"
    using good_stop [of "?r\<lparr>br_idleSince := None\<rparr>" newSeccompRecorder ?s]
    by (cases "br_StopRecording good_io (?r\<lparr>br_idleSince := None\<rparr>, ?s)") (auto simp: new_service_def)
  have size: "cp_Size (br_containerIDToProfileMap ?r) = 0"
    by (simp add: new_service_def cp_Size_def newContainerProfiles_def)
  have zero: "br_startRequests (fst (maintain (Tick (Some []) 700 good_io) (?r, ?s))) = 0"
    using stop size by (simp add: releaseAbandonedRecording_def abandonedRecordingTimeout_def)
  have idle: "br_idleSince (fst new_service) = None" "br_lastStart (fst new_service) = 0" by (simp_all add: new_service_def)
  have "\<exists>t. idle_since t ?ops \<and> finds_none (Tick (Some []) 700 good_io) \<and> last_start ?ops (br_lastStart (fst new_service)) \<le> t \<and>
      700 - t \<ge> (if cp_Size (br_containerIDToProfileMap ?r) > 0 then 60 * 60 else 10 * 60)"
    by (rule abandoned_only_if_idle [OF idle(1) run _ zero]) simp
  then show ?thesis using zero size unfolding Let_def run by auto
qed

end
