(* ===== verification/Reg_Exp.thy ===== *)
theory Reg_Exp
  imports Prelude
begin

text \<open>
  The regular expressions of the Go library as far as the validation of profiles uses them: classes
  of bytes, concatenation, alternatives and repetition, anchored at both ends. Matching computes
  derivatives of the expression, and is the same as membership in the language of the expression.
  All classes only contain ASCII, so that matching the bytes of a text is matching its characters.
\<close>

section \<open>Expressions and matching\<close>

datatype rexp = Fail | Eps | Cls "u8 \<Rightarrow> bool" | Seq rexp rexp | Alt rexp rexp | Star rexp

fun nullable :: "rexp \<Rightarrow> bool" where
  "nullable Fail \<longleftrightarrow> False"
| "nullable Eps \<longleftrightarrow> True"
| "nullable (Cls p) \<longleftrightarrow> False"
| "nullable (Seq r s) \<longleftrightarrow> nullable r \<and> nullable s"
| "nullable (Alt r s) \<longleftrightarrow> nullable r \<or> nullable s"
| "nullable (Star r) \<longleftrightarrow> True"

fun deriv :: "u8 \<Rightarrow> rexp \<Rightarrow> rexp" where
  "deriv c Fail = Fail"
| "deriv c Eps = Fail"
| "deriv c (Cls p) = (if p c then Eps else Fail)"
| "deriv c (Seq r s) = (if nullable r then Alt (Seq (deriv c r) s) (deriv c s) else Seq (deriv c r) s)"
| "deriv c (Alt r s) = Alt (deriv c r) (deriv c s)"
| "deriv c (Star r) = Seq (deriv c r) (Star r)"

definition MatchString :: "rexp \<Rightarrow> u8 list \<Rightarrow> bool" where
  "MatchString r s = nullable (fold deriv s r)"

fun re_lit :: "u8 list \<Rightarrow> rexp" where
  "re_lit [] = Eps"
| "re_lit (c # cs) = Seq (Cls ((=) c)) (re_lit cs)"

definition re_plus :: "rexp \<Rightarrow> rexp" where
  "re_plus r = Seq r (Star r)"

definition re_opt :: "rexp \<Rightarrow> rexp" where
  "re_opt r = Alt Eps r"

section \<open>The language of an expression\<close>

inductive in_lang :: "rexp \<Rightarrow> u8 list \<Rightarrow> bool" where
  lang_Eps: "in_lang Eps []"
| lang_Cls: "p c \<Longrightarrow> in_lang (Cls p) [c]"
| lang_Seq: "in_lang r u \<Longrightarrow> in_lang s v \<Longrightarrow> in_lang (Seq r s) (u @ v)"
| lang_Left: "in_lang r u \<Longrightarrow> in_lang (Alt r s) u"
| lang_Right: "in_lang s u \<Longrightarrow> in_lang (Alt r s) u"
| lang_Star_Nil: "in_lang (Star r) []"
| lang_Star_step: "in_lang r u \<Longrightarrow> in_lang (Star r) v \<Longrightarrow> in_lang (Star r) (u @ v)"

inductive_simps lang_simps [simp]: "in_lang Fail s" "in_lang Eps s" "in_lang (Cls p) s" "in_lang (Alt q r) s"
inductive_simps lang_Seq_iff: "in_lang (Seq q r) s"

lemma nullable_lang: "nullable r \<longleftrightarrow> in_lang r []"
  by (induction r) (auto simp: lang_Seq_iff intro: lang_Star_Nil)

lemma lang_Star_Cons:
  assumes "in_lang (Star r) (c # s)"
  shows "\<exists>u v. s = u @ v \<and> in_lang r (c # u) \<and> in_lang (Star r) v"
  using assms
proof (induction "Star r" "c # s" arbitrary: c s rule: in_lang.induct)
  case (lang_Star_step u v)
  then show ?case by (cases u) auto
qed

lemma deriv_lang: "in_lang (deriv c r) s \<longleftrightarrow> in_lang r (c # s)"
proof (induction r arbitrary: s)
  case (Seq q r)
  have split: "in_lang (Seq q r) (c # s) \<longleftrightarrow>
      (nullable q \<and> in_lang r (c # s)) \<or> (\<exists>u v. s = u @ v \<and> in_lang q (c # u) \<and> in_lang r v)"
    unfolding lang_Seq_iff nullable_lang by (auto simp: Cons_eq_append_conv)
  show ?case unfolding split by (auto simp: Seq lang_Seq_iff)
next
  case (Star r)
  show ?case
    using lang_Star_Cons [of r c s] lang_Star_step [of r "c # u" v for u v] by (auto simp: lang_Seq_iff Star)
qed auto

text \<open>Matching decides the language.\<close>

lemma MatchString_lang: "MatchString r s \<longleftrightarrow> in_lang r s"
  unfolding MatchString_def by (induction s arbitrary: r) (simp_all add: nullable_lang deriv_lang)

section \<open>Reasoning about languages\<close>

lemma lang_lit [simp]: "in_lang (re_lit w) s \<longleftrightarrow> s = w"
  by (induction w arbitrary: s) (auto simp: lang_Seq_iff)

lemma lang_Star_append: "in_lang (Star r) u \<Longrightarrow> in_lang (Star r) v \<Longrightarrow> in_lang (Star r) (u @ v)"
proof (induction "Star r" u arbitrary: v rule: in_lang.induct)
  case (lang_Star_step u w)
  then show ?case using in_lang.lang_Star_step [of r u "w @ v"] by simp
qed simp

lemma lang_Star_single: "in_lang r u \<Longrightarrow> in_lang (Star r) u"
  using lang_Star_step [OF _ lang_Star_Nil, of r u] by simp

lemma lang_Star_class: "list_all p s \<Longrightarrow> in_lang (Star (Cls p)) s"
proof (induction s)
  case (Cons c s)
  then show ?case using lang_Star_step [of "Cls p" "[c]" s] by simp
qed (simp add: lang_Star_Nil)

lemma lang_Star_mono: "in_lang (Star q) s \<Longrightarrow> (\<And>u. in_lang q u \<Longrightarrow> in_lang r u) \<Longrightarrow> in_lang (Star r) s"
  by (induction "Star q" s rule: in_lang.induct) (auto intro: lang_Star_Nil lang_Star_step)

text \<open>The bytes that can occur in a match.\<close>

fun re_bytes :: "rexp \<Rightarrow> u8 \<Rightarrow> bool" where
  "re_bytes Fail c \<longleftrightarrow> False"
| "re_bytes Eps c \<longleftrightarrow> False"
| "re_bytes (Cls p) c \<longleftrightarrow> p c"
| "re_bytes (Seq r s) c \<longleftrightarrow> re_bytes r c \<or> re_bytes s c"
| "re_bytes (Alt r s) c \<longleftrightarrow> re_bytes r c \<or> re_bytes s c"
| "re_bytes (Star r) c \<longleftrightarrow> re_bytes r c"

lemma lang_bytes: "in_lang r s \<Longrightarrow> c \<in> set s \<Longrightarrow> re_bytes r c"
  by (induction rule: in_lang.induct) auto

lemma MatchString_bytes: "MatchString r s \<Longrightarrow> c \<in> set s \<Longrightarrow> re_bytes r c"
  unfolding MatchString_lang by (rule lang_bytes)

end
