(* ===== verification/Profile_Data.thy ===== *)
theory Profile_Data
  imports Reg_Exp Path_Rules "HOL-Library.List_Lexorder"
begin

text \<open>
  The abstract AppArmor profile of the API and its validation: \<^verbatim>\<open>api/apparmorprofile/v1\<close> and
  the part of \<^verbatim>\<open>crd2armor.go\<close> that turns a profile into the data of the template. Texts are lists of
  bytes. A slice that may be \<^verbatim>\<open>nil\<close> and a pointer are options, with \<open>None\<close> for \<^verbatim>\<open>nil\<close>.

  Lowering and trimming a text is written out for ASCII. What the Go library makes of a text with
  other characters is the parameter \<open>uni\<close>.
\<close>

section \<open>Texts of the Go library\<close>

definition contains :: "u8 list \<Rightarrow> u8 list \<Rightarrow> bool" where
  "contains sub s = list_ex (\<lambda>k. has_prefix sub (drop k s)) [0..<Suc (length s)]"

definition letter :: "u8 \<Rightarrow> bool" where
  "letter c \<longleftrightarrow> between 0x61 0x7A c \<or> between 0x41 0x5A c"

definition lower :: "u8 \<Rightarrow> u8" where
  "lower c = (if between 0x41 0x5A c then c + 0x20 else c)"

definition space :: "u8 \<Rightarrow> bool" where
  "space c \<longleftrightarrow> between 0x09 0x0D c \<or> c = 0x20"

definition trim :: "u8 list \<Rightarrow> u8 list" where
  "trim s = rev (dropWhile space (rev (dropWhile space s)))"

definition lower_trim :: "(u8 list \<Rightarrow> u8 list) \<Rightarrow> u8 list \<Rightarrow> u8 list" where
  "lower_trim uni s = (if list_all (\<lambda>c. c < 0x80) s then map lower (trim s) else uni s)"

text \<open>Lowering and trimming a second time changes nothing.\<close>

definition lower_stable :: "(u8 list \<Rightarrow> u8 list) \<Rightarrow> bool" where
  "lower_stable uni \<longleftrightarrow> (\<forall>s. \<not> list_all (\<lambda>c. c < 0x80) s \<longrightarrow> lower_trim uni (uni s) = uni s)"

text \<open>Sorting and removing equal neighbours, as \<^verbatim>\<open>slices.Sort\<close> and \<^verbatim>\<open>slices.Compact\<close> do.\<close>

definition sort_compact :: "u8 list list \<Rightarrow> u8 list list" where
  "sort_compact xs = remdups_adj (sort xs)"

lemma set_sort_compact [simp]: "set (sort_compact xs) = set xs"
  by (simp add: sort_compact_def)

section \<open>The API\<close>

type_synonym slice = "u8 list list option"

record AppArmorExecutablesRules =
  xr_AllowedExecutables :: slice
  xr_AllowedLibraries :: slice

record AppArmorFsRules =
  fs_ReadOnlyPaths :: slice
  fs_WriteOnlyPaths :: slice
  fs_ReadWritePaths :: slice

record AppArmorAllowedProtocols =
  pr_AllowTCP :: "bool option"
  pr_AllowUDP :: "bool option"

record AppArmorNetworkRules =
  nr_AllowRaw :: "bool option"
  nr_Protocols :: "AppArmorAllowedProtocols option"

record AppArmorCapabilityRules =
  cr_AllowedCapabilities :: slice

record AppArmorPtraceRules =
  pt_AllowedAccess :: "u8 list list"
  pt_Peer :: "u8 list"

record AppArmorAbstract =
  ab_Executable :: "AppArmorExecutablesRules option"
  ab_Filesystem :: "AppArmorFsRules option"
  ab_Network :: "AppArmorNetworkRules option"
  ab_Capability :: "AppArmorCapabilityRules option"
  ab_Ptrace :: "AppArmorPtraceRules option"

text \<open>The mode is a text. Everything but the two modes of the API is treated like enforcing.\<close>

datatype AppArmorMode = AppArmorModeEnforce | AppArmorModeComplain | Other_mode "u8 list"

section \<open>The data of the template\<close>

text \<open>The structures of the executables, paths and capabilities repeat those of the API.\<close>

record Network =
  nw_AllowRaw :: bool
  nw_AllowTCP :: bool
  nw_AllowUDP :: bool

record PtraceRule =
  pu_Access :: "u8 list list"
  pu_Peer :: "u8 list"

record ApparmorData =
  ad_Name :: "u8 list"
  ad_Executable :: "AppArmorExecutablesRules option"
  ad_Filesystem :: "AppArmorFsRules option"
  ad_Capability :: "AppArmorCapabilityRules option"
  ad_Network :: "Network option"
  ad_Ptrace :: "PtraceRule list"

definition ptraceRuleRegex :: rexp where
  "ptraceRuleRegex =
     Seq (re_lit (bytes_of ''ptrace'')) (Seq (Star (Cls (\<lambda>c. c \<in> {0x09, 0x0A, 0x0C, 0x0D, 0x20})))
       (Seq (re_lit [0x28]) (Seq (re_plus (Cls letter)) (Seq (re_lit [0x29, 0x2C])
         (re_opt (Seq (Star (Cls (\<lambda>c. c \<in> {0x09, 0x0A, 0x0C, 0x0D, 0x20})))
           (Seq (re_lit [0x23]) (Star (Cls (\<lambda>c. c \<noteq> 0x0A))))))))))"

text \<open>The group of the expression is what stands between the first opening bracket and the next character that is no letter.\<close>

definition ptraceRule :: "u8 list \<Rightarrow> u8 list option" where
  "ptraceRule entry =
     (if MatchString ptraceRuleRegex entry
      then Some (map lower (takeWhile letter (tl (dropWhile (\<lambda>c. c \<noteq> 0x28) entry)))) else None)"

definition slice_list :: "slice \<Rightarrow> u8 list list" where
  "slice_list s = (case s of None \<Rightarrow> [] | Some xs \<Rightarrow> xs)"

definition UsesDeprecatedPtraceRules :: "AppArmorAbstract option \<Rightarrow> bool" where
  "UsesDeprecatedPtraceRules abstract =
     (case abstract of
        None \<Rightarrow> False
      | Some a \<Rightarrow>
          list_ex (\<lambda>entry. ptraceRule entry \<noteq> None)
            ((case ab_Filesystem a of None \<Rightarrow> [] | Some f \<Rightarrow>
                slice_list (fs_ReadOnlyPaths f) @ slice_list (fs_WriteOnlyPaths f) @ slice_list (fs_ReadWritePaths f)) @
             (case ab_Executable a of None \<Rightarrow> [] | Some x \<Rightarrow>
                slice_list (xr_AllowedExecutables x) @ slice_list (xr_AllowedLibraries x))))"

definition newPtraceRules :: "AppArmorPtraceRules option \<Rightarrow> u8 list list \<Rightarrow> PtraceRule list" where
  "newPtraceRules rules legacyAccess =
     (case rules of
        None \<Rightarrow> []
      | Some r \<Rightarrow> if pt_AllowedAccess r \<noteq> [] \<or> pt_Peer r \<noteq> []
          then [\<lparr>pu_Access = sort_compact (pt_AllowedAccess r), pu_Peer = pt_Peer r\<rparr>] else []) @
     map (\<lambda>access. \<lparr>pu_Access = [access], pu_Peer = []\<rparr>) (sort_compact legacyAccess)"

definition splitPtraceRules :: "slice \<Rightarrow> slice \<times> u8 list list" where
  "splitPtraceRules entries =
     (case entries of
        None \<Rightarrow> (None, [])
      | Some es \<Rightarrow> (Some (filter (\<lambda>e. ptraceRule e = None) es), List.map_filter ptraceRule es))"

definition normalizeCapabilities :: "(u8 list \<Rightarrow> u8 list) \<Rightarrow> slice \<Rightarrow> slice" where
  "normalizeCapabilities uni = map_option (map (lower_trim uni))"

definition newNetwork :: "AppArmorNetworkRules \<Rightarrow> Network" where
  "newNetwork n =
     \<lparr>nw_AllowRaw = (case nr_AllowRaw n of None \<Rightarrow> False | Some v \<Rightarrow> v),
      nw_AllowTCP = (case nr_Protocols n of None \<Rightarrow> False | Some p \<Rightarrow> (case pr_AllowTCP p of None \<Rightarrow> False | Some v \<Rightarrow> v)),
      nw_AllowUDP = (case nr_Protocols n of None \<Rightarrow> False | Some p \<Rightarrow> (case pr_AllowUDP p of None \<Rightarrow> False | Some v \<Rightarrow> v))\<rparr>"

definition newApparmorData :: "(u8 list \<Rightarrow> u8 list) \<Rightarrow> u8 list \<Rightarrow> AppArmorAbstract \<Rightarrow> ApparmorData" where
  "newApparmorData uni name a =
     (let (executable, legacy1) =
            (case ab_Executable a of
               None \<Rightarrow> (None, [])
             | Some x \<Rightarrow>
                 (case splitPtraceRules (xr_AllowedExecutables x) of (executables, p1) \<Rightarrow>
                  case splitPtraceRules (xr_AllowedLibraries x) of (libraries, p2) \<Rightarrow>
                    (Some \<lparr>xr_AllowedExecutables = executables, xr_AllowedLibraries = libraries\<rparr>, p1 @ p2)));
          (filesystem, legacy2) =
            (case ab_Filesystem a of
               None \<Rightarrow> (None, legacy1)
             | Some f \<Rightarrow>
                 (case splitPtraceRules (fs_ReadOnlyPaths f) of (readOnly, p1) \<Rightarrow>
                  case splitPtraceRules (fs_WriteOnlyPaths f) of (writeOnly, p2) \<Rightarrow>
                  case splitPtraceRules (fs_ReadWritePaths f) of (readWrite, p3) \<Rightarrow>
                    (Some \<lparr>fs_ReadOnlyPaths = readOnly, fs_WriteOnlyPaths = writeOnly, fs_ReadWritePaths = readWrite\<rparr>,
                     legacy1 @ p1 @ p2 @ p3)))
      in \<lparr>ad_Name = name, ad_Executable = executable, ad_Filesystem = filesystem,
          ad_Capability = map_option (\<lambda>c. \<lparr>cr_AllowedCapabilities = normalizeCapabilities uni (cr_AllowedCapabilities c)\<rparr>)
            (ab_Capability a),
          ad_Network = map_option newNetwork (ab_Network a),
          ad_Ptrace = newPtraceRules (ab_Ptrace a) legacy2\<rparr>)"

section \<open>Validation\<close>

datatype profile_error =
  Nil_abstract
| Invalid_profile_name "u8 list"
| Invalid_path "u8 list"
| Invalid_capability "u8 list"
| Ptrace_without_access
| Invalid_ptrace_access "u8 list"
| Invalid_ptrace_peer "u8 list"
| Directory_traversal "u8 list"

definition alnum :: "u8 \<Rightarrow> bool" where
  "alnum c \<longleftrightarrow> letter c \<or> digit c"

definition profileNameChars :: rexp where
  "profileNameChars = re_plus (Cls (\<lambda>c. alnum c \<or> c \<in> {0x5F, 0x2E, 0x2F, 0x2D}))"

definition path_byte :: "u8 \<Rightarrow> bool" where
  "path_byte c \<longleftrightarrow> alnum c \<or> c \<in> {0x5F, 0x2E, 0x2F, 0x2A, 0x3F, 0x2B, 0x40, 0x20, 0x2D}"

definition strict_item :: rexp where
  "strict_item = Alt (Cls path_byte)
     (Seq (re_lit [0x40, 0x7B]) (Seq (re_plus (Cls (\<lambda>c. alnum c \<or> c = 0x5F))) (re_lit [0x7D])))"

definition strictPathRegex :: rexp where
  "strictPathRegex = Seq (re_lit [0x2F]) (Star strict_item)"

definition ptracePeerRegex :: rexp where
  "ptracePeerRegex = re_plus (Alt (Cls (\<lambda>c. alnum c \<or> c \<in> {0x5F, 0x2E, 0x2F, 0x2A, 0x3F, 0x2D}))
     (re_lit ([0x40, 0x7B] @ bytes_of ''profile_name'' @ [0x7D])))"

definition ptraceAccess :: "u8 list list" where
  "ptraceAccess = map bytes_of [''r'', ''w'', ''rw'', ''read'', ''readby'', ''trace'', ''tracedby'']"

definition validPath :: "u8 list \<Rightarrow> profile_error option" where
  "validPath path = (if \<not> MatchString strictPathRegex path then Some (Invalid_path path) else None)"

definition validCapabilities :: "u8 list list" where
  "validCapabilities = map bytes_of
     [''chown'', ''dac_override'', ''dac_read_search'', ''fowner'', ''fsetid'', ''kill'', ''setgid'',
      ''setuid'', ''setpcap'', ''linux_immutable'', ''net_bind_service'', ''net_broadcast'', ''net_admin'',
      ''net_raw'', ''ipc_lock'', ''ipc_owner'', ''sys_module'', ''sys_rawio'', ''sys_chroot'', ''sys_ptrace'',
      ''sys_pacct'', ''sys_admin'', ''sys_boot'', ''sys_nice'', ''sys_resource'', ''sys_time'',
      ''sys_tty_config'', ''mknod'', ''lease'', ''audit_write'', ''audit_control'', ''setfcap'',
      ''mac_override'', ''mac_admin'', ''syslog'', ''wake_alarm'', ''block_suspend'', ''audit_read'',
      ''perfmon'', ''bpf'', ''checkpoint_restore'']"

definition validateCapability :: "(u8 list \<Rightarrow> u8 list) \<Rightarrow> u8 list \<Rightarrow> profile_error option" where
  "validateCapability uni capability =
     (if lower_trim uni capability \<in> set validCapabilities then None else Some (Invalid_capability capability))"

definition validateExecutableOrLibrary :: "u8 list \<Rightarrow> profile_error option" where
  "validateExecutableOrLibrary path =
     (if \<not> MatchString strictPathRegex path then Some (Invalid_path path)
      else if contains (bytes_of ''/../'') path \<or> has_prefix (bytes_of ''/..'') path
      then Some (Directory_traversal path) else None)"

text \<open>The first error of a loop that returns it.\<close>

fun first_error :: "('a \<Rightarrow> profile_error option) \<Rightarrow> 'a list \<Rightarrow> profile_error option" where
  "first_error f [] = None"
| "first_error f (x # xs) = (case f x of Some e \<Rightarrow> Some e | None \<Rightarrow> first_error f xs)"

definition validatePtraceRule :: "PtraceRule \<Rightarrow> profile_error option" where
  "validatePtraceRule rule =
     (if pu_Access rule = [] then Some Ptrace_without_access
      else case first_error (\<lambda>a. if a \<in> set ptraceAccess then None else Some (Invalid_ptrace_access a)) (pu_Access rule) of
        Some e \<Rightarrow> Some e
      | None \<Rightarrow> if pu_Peer rule \<noteq> [] \<and> \<not> MatchString ptracePeerRegex (pu_Peer rule)
          then Some (Invalid_ptrace_peer (pu_Peer rule)) else None)"

fun or_else :: "profile_error option \<Rightarrow> profile_error option \<Rightarrow> profile_error option" where
  "or_else (Some e) _ = Some e"
| "or_else None r = r"

definition Validate :: "(u8 list \<Rightarrow> u8 list) \<Rightarrow> ApparmorData \<Rightarrow> profile_error option" where
  "Validate uni d =
     or_else (if ad_Name d \<noteq> [] \<and> \<not> MatchString profileNameChars (ad_Name d)
              then Some (Invalid_profile_name (ad_Name d)) else None)
     (or_else (case ad_Filesystem d of None \<Rightarrow> None | Some f \<Rightarrow>
        first_error validPath (slice_list (fs_ReadOnlyPaths f) @ slice_list (fs_WriteOnlyPaths f) @
          slice_list (fs_ReadWritePaths f)))
     (or_else (case ad_Capability d of None \<Rightarrow> None | Some c \<Rightarrow>
        first_error (validateCapability uni) (slice_list (cr_AllowedCapabilities c)))
     (or_else (first_error validatePtraceRule (ad_Ptrace d))
       (case ad_Executable d of None \<Rightarrow> None | Some x \<Rightarrow>
          first_error validateExecutableOrLibrary
            (slice_list (xr_AllowedExecutables x) @ slice_list (xr_AllowedLibraries x))))))"

end
