(* ===== verification/Profile_Text.thy ===== *)
theory Profile_Text
  imports Profile_Data
begin

text \<open>
  The text of an AppArmor profile: the template of \<^verbatim>\<open>crd2armor.go\<close> piece by piece, and
  \<^verbatim>\<open>GenerateProfile\<close>, which fills it in. A reader of the lines of the text gives back the statements
  of the profile, which are exactly the ones the validated data asks for.
\<close>

section \<open>The template\<close>

abbreviation (input) newline :: u8 where "newline \<equiv> 0x0A"

definition line :: "string \<Rightarrow> u8 list" where
  "line s = bytes_of s @ [newline]"

definition quotePath :: "u8 list \<Rightarrow> u8 list" where
  "quotePath path =
     (if has_prefix [0x2F] path \<and> contains [0x20] path then [0x22] @ path @ [0x22] else path)"

definition path_lines :: "string \<Rightarrow> string \<Rightarrow> u8 list list \<Rightarrow> u8 list" where
  "path_lines before after paths =
     concat (map (\<lambda>p. bytes_of before @ quotePath p @ bytes_of after @ [newline]) paths)"

definition if_set :: "slice \<Rightarrow> (u8 list list \<Rightarrow> u8 list) \<Rightarrow> u8 list" where
  "if_set s body = (case s of None \<Rightarrow> [] | Some xs \<Rightarrow> body xs)"

definition executable_text :: "ApparmorData \<Rightarrow> u8 list" where
  "executable_text d =
     (case ad_Executable d of
        None \<Rightarrow> []
      | Some x \<Rightarrow>
          if_set (xr_AllowedExecutables x) (\<lambda>ps. [newline] @ path_lines ''  '' '' ixr,'' ps) @ [newline] @
          if_set (xr_AllowedLibraries x) (\<lambda>ps. [newline] @ path_lines ''  '' '' mr,'' ps))"

definition filesystem_text :: "bool \<Rightarrow> ApparmorData \<Rightarrow> u8 list" where
  "filesystem_text complain d =
     (case ad_Filesystem d of
        None \<Rightarrow> []
      | Some f \<Rightarrow>
          if_set (fs_ReadOnlyPaths f) (\<lambda>ps. [newline] @ path_lines ''  '' '' r,'' ps @ [newline] @
            (if \<not> complain then path_lines ''  deny '' '' wlk,'' ps else [])) @ [newline] @
          if_set (fs_WriteOnlyPaths f) (\<lambda>ps. [newline] @ path_lines ''  '' '' wlk,'' ps @ [newline] @
            (if \<not> complain then path_lines ''  deny '' '' r,'' ps else [])) @ [newline] @
          if_set (fs_ReadWritePaths f) (\<lambda>ps. [newline] @ path_lines ''  '' '' rwlk,'' ps))"

fun strings_Join :: "u8 list list \<Rightarrow> u8 list \<Rightarrow> u8 list" where
  "strings_Join [] sep = []"
| "strings_Join [a] sep = a"
| "strings_Join (a # as) sep = a @ sep @ strings_Join as sep"

definition ptrace_body :: "PtraceRule \<Rightarrow> u8 list" where
  "ptrace_body rule =
     bytes_of ''ptrace ('' @ strings_Join (pu_Access rule) (bytes_of '', '') @ bytes_of '')'' @
     (if pu_Peer rule \<noteq> [] then bytes_of '' peer='' @ pu_Peer rule else []) @ bytes_of '',''"

definition ptrace_text :: "ApparmorData \<Rightarrow> u8 list" where
  "ptrace_text d =
     (if ad_Ptrace d = [] then []
      else [newline, newline] @ bytes_of ''  # Ptrace rules'' @
        concat (map (\<lambda>rule. [newline] @ bytes_of ''  '' @ ptrace_body rule) (ad_Ptrace d)))"

text \<open>A truth value never equals \<^verbatim>\<open>nil\<close>, so the comparisons of the template hold for every network.\<close>

definition network_text :: "bool \<Rightarrow> ApparmorData \<Rightarrow> u8 list" where
  "network_text complain d =
     (case ad_Network d of
        None \<Rightarrow> []
      | Some n \<Rightarrow>
          [newline] @
          (if nw_AllowRaw n then bytes_of ''  network raw,''
           else (if \<not> complain then bytes_of ''  deny network raw,'' else []) @ [newline]) @
          [newline] @
          [newline] @ (if nw_AllowTCP n then line ''  network tcp,'' else []) @
          [newline] @ (if nw_AllowUDP n then line ''  network udp,'' else []))"

definition capability_text :: "ApparmorData \<Rightarrow> u8 list" where
  "capability_text d =
     (case ad_Capability d of
        None \<Rightarrow> []
      | Some c \<Rightarrow> concat (map (\<lambda>cap. bytes_of ''  capability '' @ cap @ bytes_of '','' @ [newline])
          (slice_list (cr_AllowedCapabilities c))))"

definition proc_var :: "u8 list" where
  "proc_var = [0x40, 0x7B] @ bytes_of ''PROC'' @ [0x7D]"

definition proc_line :: "string \<Rightarrow> u8 list" where
  "proc_line s = bytes_of ''  deny '' @ proc_var @ line s"

definition default_deny :: "u8 list" where
  "default_deny =
     proc_line ''/* w,   # deny write for all files directly in /proc (not in a subdir)'' @
     proc_line ''/{[^1-9],[^1-9][^0-9],[^1-9s][^0-9y][^0-9s],[^1-9][^0-9][^0-9][^0-9]*}/** w,'' @
     proc_line ''/sys/[^k]** w,  # deny /proc/sys except /proc/sys/k* (effectively /proc/sys/kernel)'' @
     proc_line ''/sys/kernel/{?,??,[^s][^h][^m]**} w,  # deny everything except shm* in /proc/sys/kernel/'' @
     proc_line ''/sysrq-trigger rwklx,'' @
     proc_line ''/mem rwklx,'' @
     proc_line ''/kmem rwklx,'' @
     proc_line ''/kcore rwklx,'' @
     line ''  deny /sys/firmware/efi/efivars/** rwklx,''"

record apparmorTemplateArgs =
  ta_Name :: "u8 list"
  ta_ProfileMode :: "u8 list"
  ta_ComplainMode :: bool
  ta_AllowMount :: bool
  ta_Data :: ApparmorData

definition appArmorTemplate :: "apparmorTemplateArgs \<Rightarrow> u8 list" where
  "appArmorTemplate args =
     [newline] @
     line ''# Generated by https://github.com/kubernetes-sigs/security-profiles-operator, do not edit by hand.'' @
     line ''#include <tunables/global>'' @
     bytes_of ''profile '' @ ta_Name args @ bytes_of '' flags=('' @ ta_ProfileMode args @
     line '',attach_disconnected,mediate_deleted) {'' @
     line ''  #include <abstractions/base>'' @
     [newline] @
     line ''  # Executable rules'' @
     executable_text (ta_Data args) @ [newline] @
     bytes_of ''  '' @
     (if ta_AllowMount args
      then [newline] @ line ''  /sbin/fsck ixr,'' @ line ''  /sbin/fsck.ext4 ixr,'' @ bytes_of ''  '' else []) @ [newline] @
     [newline] @
     line ''  # Filesystem rules'' @
     filesystem_text (ta_ComplainMode args) (ta_Data args) @ ptrace_text (ta_Data args) @ [newline] @
     [newline] @
     line ''  # Network rules'' @
     network_text (ta_ComplainMode args) (ta_Data args) @ [newline] @
     [newline] @
     line ''  # Capabilities rules'' @
     capability_text (ta_Data args) @ [newline] @
     [newline] @
     bytes_of ''  '' @
     (if ta_AllowMount args
      then [newline] @ line ''  mount,'' @ line ''  remount,'' @ line ''  umount,'' @ bytes_of ''  '' else []) @ [newline] @
     [newline] @
     line ''  # Raw rules placeholder'' @
     [newline] @
     line ''  # Add default deny for known information leak/priv esc paths'' @
     (if \<not> ta_ComplainMode args then [newline] @ default_deny else []) @ [newline] @
     line ''}''"

definition profileMode :: "AppArmorMode \<Rightarrow> u8 list" where
  "profileMode mode = (if mode = AppArmorModeComplain then bytes_of ''complain'' else bytes_of ''enforce'')"

definition allow_mount :: "(u8 list \<Rightarrow> u8 list) \<Rightarrow> AppArmorAbstract \<Rightarrow> bool" where
  "allow_mount uni a =
     (case ab_Capability a of
        None \<Rightarrow> False
      | Some c \<Rightarrow> bytes_of ''sys_rawio'' \<in> set (slice_list (normalizeCapabilities uni (cr_AllowedCapabilities c))))"

definition GenerateProfile ::
  "(u8 list \<Rightarrow> u8 list) \<Rightarrow> u8 list \<Rightarrow> AppArmorMode \<Rightarrow> AppArmorAbstract option \<Rightarrow> profile_error + u8 list" where
  "GenerateProfile uni name mode abstract =
     (case abstract of
        None \<Rightarrow> Inl Nil_abstract
      | Some a \<Rightarrow>
          (let data = newApparmorData uni name a in
           case Validate uni data of
             Some e \<Rightarrow> Inl e
           | None \<Rightarrow> Inr (appArmorTemplate
               \<lparr>ta_Name = name, ta_ProfileMode = profileMode mode, ta_ComplainMode = (mode = AppArmorModeComplain),
                ta_AllowMount = allow_mount uni a, ta_Data = data\<rparr>)))"

end
