(* ===== verification/Profile_Statements.thy ===== *)
theory Profile_Statements
  imports Profile_Text
begin

text \<open>
  What the text of a profile says. A statement stands on a line of its own, indented by two spaces:
  an optional \<^verbatim>\<open>deny\<close> followed by a path, quoted or not, and its permissions, or by another
  rule. The statements read from a generated text are the ones the data of the profile asks for, in
  that order and no others, so that no entry of a profile can bring in a rule of its own.
\<close>

section \<open>Reading a profile\<close>

fun lines :: "u8 list \<Rightarrow> u8 list list" where
  "lines [] = [[]]"
| "lines (c # cs) = (if c = newline then [] # lines cs else case lines cs of [] \<Rightarrow> [[c]] | l # ls \<Rightarrow> (c # l) # ls)"

datatype statement =
  File bool "u8 list" "u8 list"
| Rule bool "u8 list"

definition read_path :: "u8 list \<Rightarrow> u8 list \<times> u8 list" where
  "read_path s =
     (if has_prefix [0x22] s then (takeWhile (\<lambda>c. c \<noteq> 0x22) (tl s), tl (dropWhile (\<lambda>c. c \<noteq> 0x22) (tl s)))
      else (takeWhile (\<lambda>c. c \<noteq> 0x20) s, dropWhile (\<lambda>c. c \<noteq> 0x20) s))"

definition read_rule :: "bool \<Rightarrow> u8 list \<Rightarrow> statement" where
  "read_rule deny s =
     (if s \<noteq> [] \<and> hd s \<in> {0x2F, 0x22, 0x40}
      then case read_path s of (p, r) \<Rightarrow> File deny p (takeWhile (\<lambda>c. c \<noteq> 0x2C) (tl r))
      else Rule deny s)"

definition read_line :: "u8 list \<Rightarrow> statement option" where
  "read_line l =
     (if \<not> has_prefix (bytes_of ''  '') l \<or> drop 2 l = [] \<or> has_prefix (bytes_of ''#'') (drop 2 l) then None
      else if has_prefix (bytes_of ''deny '') (drop 2 l) then Some (read_rule True (drop 7 l))
      else Some (read_rule False (drop 2 l)))"

definition statements :: "u8 list \<Rightarrow> statement list" where
  "statements s = List.map_filter read_line (lines s)"

section \<open>The statements a profile stands for\<close>

definition file_statements :: "bool \<Rightarrow> string \<Rightarrow> slice \<Rightarrow> statement list" where
  "file_statements deny perms ps = map (\<lambda>p. File deny p (bytes_of perms)) (slice_list ps)"

definition executable_statements :: "ApparmorData \<Rightarrow> statement list" where
  "executable_statements d =
     (case ad_Executable d of None \<Rightarrow> [] | Some x \<Rightarrow>
        file_statements False ''ixr'' (xr_AllowedExecutables x) @ file_statements False ''mr'' (xr_AllowedLibraries x))"

definition filesystem_statements :: "bool \<Rightarrow> ApparmorData \<Rightarrow> statement list" where
  "filesystem_statements complain d =
     (case ad_Filesystem d of None \<Rightarrow> [] | Some f \<Rightarrow>
        file_statements False ''r'' (fs_ReadOnlyPaths f) @
        (if complain then [] else file_statements True ''wlk'' (fs_ReadOnlyPaths f)) @
        file_statements False ''wlk'' (fs_WriteOnlyPaths f) @
        (if complain then [] else file_statements True ''r'' (fs_WriteOnlyPaths f)) @
        file_statements False ''rwlk'' (fs_ReadWritePaths f))"

definition network_statements :: "bool \<Rightarrow> ApparmorData \<Rightarrow> statement list" where
  "network_statements complain d =
     (case ad_Network d of None \<Rightarrow> [] | Some n \<Rightarrow>
        (if nw_AllowRaw n then [Rule False (bytes_of ''network raw,'')]
         else if complain then [] else [Rule True (bytes_of ''network raw,'')]) @
        (if nw_AllowTCP n then [Rule False (bytes_of ''network tcp,'')] else []) @
        (if nw_AllowUDP n then [Rule False (bytes_of ''network udp,'')] else []))"

definition capability_statements :: "ApparmorData \<Rightarrow> statement list" where
  "capability_statements d =
     (case ad_Capability d of None \<Rightarrow> [] | Some c \<Rightarrow>
        map (\<lambda>cap. Rule False (bytes_of ''capability '' @ cap @ bytes_of '','')) (slice_list (cr_AllowedCapabilities c)))"

definition default_statements :: "statement list" where
  "default_statements =
     [File True (proc_var @ bytes_of ''/*'') (bytes_of ''w''),
      File True (proc_var @ bytes_of ''/{[^1-9],[^1-9][^0-9],[^1-9s][^0-9y][^0-9s],[^1-9][^0-9][^0-9][^0-9]*}/**'') (bytes_of ''w''),
      File True (proc_var @ bytes_of ''/sys/[^k]**'') (bytes_of ''w''),
      File True (proc_var @ bytes_of ''/sys/kernel/{?,??,[^s][^h][^m]**}'') (bytes_of ''w''),
      File True (proc_var @ bytes_of ''/sysrq-trigger'') (bytes_of ''rwklx''),
      File True (proc_var @ bytes_of ''/mem'') (bytes_of ''rwklx''),
      File True (proc_var @ bytes_of ''/kmem'') (bytes_of ''rwklx''),
      File True (proc_var @ bytes_of ''/kcore'') (bytes_of ''rwklx''),
      File True (bytes_of ''/sys/firmware/efi/efivars/**'') (bytes_of ''rwklx'')]"

definition profile_statements :: "bool \<Rightarrow> bool \<Rightarrow> ApparmorData \<Rightarrow> statement list" where
  "profile_statements complain mount d =
     executable_statements d @
     (if mount then [File False (bytes_of ''/sbin/fsck'') (bytes_of ''ixr''),
        File False (bytes_of ''/sbin/fsck.ext4'') (bytes_of ''ixr'')] else []) @
     filesystem_statements complain d @
     map (\<lambda>rule. Rule False (ptrace_body rule)) (ad_Ptrace d) @
     network_statements complain d @
     capability_statements d @
     (if mount then map (Rule False) (map bytes_of [''mount,'', ''remount,'', ''umount,'']) else []) @
     (if complain then [] else default_statements)"

section \<open>Lines\<close>

lemma lines_line: "newline \<notin> set a \<Longrightarrow> lines (a @ newline # b) = a # lines b"
  by (induction a) auto

lemma statements_line:
  "newline \<notin> set a \<Longrightarrow> statements (a @ newline # b) =
     (case read_line a of None \<Rightarrow> [] | Some x \<Rightarrow> [x]) @ statements b"
  by (simp add: statements_def lines_line map_filter_simps split: option.split)

lemma statements_newline [simp]: "statements (newline # b) = statements b"
  using statements_line [of "[]" b] by (simp add: read_line_def has_prefix_def bytes_of_def)

lemma statements_end: "statements [] = []"
  by (simp add: statements_def map_filter_simps read_line_def has_prefix_def bytes_of_def)

lemma statements_lines:
  assumes "\<And>x. x \<in> set xs \<Longrightarrow> newline \<notin> set (f x) \<and> read_line (f x) = Some (g x)"
  shows "statements (concat (map (\<lambda>x. f x @ [newline]) xs) @ b) = map g xs @ statements b"
  using assms by (induction xs) (simp_all add: statements_line)

text \<open>The fixed lines of the template.\<close>

lemma no_statement:
  assumes "newline \<notin> set a \<and> read_line a = None"
  shows "statements (a @ newline # b) = statements b"
  using statements_line [of a b] assms by simp

lemma one_statement:
  assumes "newline \<notin> set a \<and> read_line a = Some x"
  shows "statements (a @ newline # b) = x # statements b"
  using statements_line [of a b] assms by simp

lemma comment_lines [simp]:
  "statements (line ''# Generated by https://github.com/kubernetes-sigs/security-profiles-operator, do not edit by hand.'' @ b) = statements b"
  "statements (line ''#include <tunables/global>'' @ b) = statements b"
  "statements (line ''  #include <abstractions/base>'' @ b) = statements b"
  "statements (line ''  # Executable rules'' @ b) = statements b"
  "statements (line ''  # Filesystem rules'' @ b) = statements b"
  "statements (line ''  # Network rules'' @ b) = statements b"
  "statements (line ''  # Capabilities rules'' @ b) = statements b"
  "statements (line ''  # Raw rules placeholder'' @ b) = statements b"
  "statements (line ''  # Add default deny for known information leak/priv esc paths'' @ b) = statements b"
  "statements (line ''}'' @ b) = statements b"
  "statements (bytes_of ''  '' @ newline # b) = statements b"
  unfolding line_def append_assoc append.append_Cons append.append_Nil
  by (rule no_statement, code_simp)+

lemma rule_lines [simp]:
  "statements (line ''  /sbin/fsck ixr,'' @ b) = File False (bytes_of ''/sbin/fsck'') (bytes_of ''ixr'') # statements b"
  "statements (line ''  /sbin/fsck.ext4 ixr,'' @ b) = File False (bytes_of ''/sbin/fsck.ext4'') (bytes_of ''ixr'') # statements b"
  "statements (line ''  mount,'' @ b) = Rule False (bytes_of ''mount,'') # statements b"
  "statements (line ''  remount,'' @ b) = Rule False (bytes_of ''remount,'') # statements b"
  "statements (line ''  umount,'' @ b) = Rule False (bytes_of ''umount,'') # statements b"
  "statements (line ''  network tcp,'' @ b) = Rule False (bytes_of ''network tcp,'') # statements b"
  "statements (line ''  network udp,'' @ b) = Rule False (bytes_of ''network udp,'') # statements b"
  "statements (bytes_of ''  network raw,'' @ newline # b) = Rule False (bytes_of ''network raw,'') # statements b"
  "statements (bytes_of ''  deny network raw,'' @ newline # b) = Rule True (bytes_of ''network raw,'') # statements b"
  unfolding line_def append_assoc append.append_Cons append.append_Nil
  by (rule one_statement, code_simp)+

lemma deny_lines [simp]:
  "statements (proc_line ''/* w,   # deny write for all files directly in /proc (not in a subdir)'' @ b) = File True (proc_var @ bytes_of ''/*'') (bytes_of ''w'') # statements b"
  "statements (proc_line ''/{[^1-9],[^1-9][^0-9],[^1-9s][^0-9y][^0-9s],[^1-9][^0-9][^0-9][^0-9]*}/** w,'' @ b) = File True (proc_var @ bytes_of ''/{[^1-9],[^1-9][^0-9],[^1-9s][^0-9y][^0-9s],[^1-9][^0-9][^0-9][^0-9]*}/**'') (bytes_of ''w'') # statements b"
  "statements (proc_line ''/sys/[^k]** w,  # deny /proc/sys except /proc/sys/k* (effectively /proc/sys/kernel)'' @ b) = File True (proc_var @ bytes_of ''/sys/[^k]**'') (bytes_of ''w'') # statements b"
  "statements (proc_line ''/sys/kernel/{?,??,[^s][^h][^m]**} w,  # deny everything except shm* in /proc/sys/kernel/'' @ b) = File True (proc_var @ bytes_of ''/sys/kernel/{?,??,[^s][^h][^m]**}'') (bytes_of ''w'') # statements b"
  "statements (proc_line ''/sysrq-trigger rwklx,'' @ b) = File True (proc_var @ bytes_of ''/sysrq-trigger'') (bytes_of ''rwklx'') # statements b"
  "statements (proc_line ''/mem rwklx,'' @ b) = File True (proc_var @ bytes_of ''/mem'') (bytes_of ''rwklx'') # statements b"
  "statements (proc_line ''/kmem rwklx,'' @ b) = File True (proc_var @ bytes_of ''/kmem'') (bytes_of ''rwklx'') # statements b"
  "statements (proc_line ''/kcore rwklx,'' @ b) = File True (proc_var @ bytes_of ''/kcore'') (bytes_of ''rwklx'') # statements b"
  "statements (line ''  deny /sys/firmware/efi/efivars/** rwklx,'' @ b) = File True (bytes_of ''/sys/firmware/efi/efivars/**'') (bytes_of ''rwklx'') # statements b"
  by (simp_all add: proc_line_def line_def, ((rule one_statement [where a = "u @ v @ w" for u v w, unfolded append_assoc] | rule one_statement),
      simp add: proc_var_def bytes_of_def read_line_def read_rule_def read_path_def has_prefix_def)+)

lemma default_deny_statements [simp]: "statements (default_deny @ b) = default_statements @ statements b"
  by (simp add: default_deny_def default_statements_def)

section \<open>Validated entries\<close>

lemma strict_bytes:
  assumes "MatchString strictPathRegex p" "c \<in> set p"
  shows "path_byte c \<or> c \<in> {0x7B, 0x7D}"
  using MatchString_bytes [OF assms]
  by (auto simp: strictPathRegex_def strict_item_def re_plus_def path_byte_def)

lemma strict_not: "MatchString strictPathRegex p \<Longrightarrow> newline \<notin> set p \<and> 0x22 \<notin> set p \<and> 0x2C \<notin> set p"
  using strict_bytes [of p newline] strict_bytes [of p "0x22"] strict_bytes [of p "0x2C"]
  by (auto simp: path_byte_def alnum_def letter_def digit_def between_def)

lemma strict_slash: "MatchString strictPathRegex p \<Longrightarrow> \<exists>q. p = 0x2F # q"
  by (auto simp: MatchString_lang strictPathRegex_def lang_Seq_iff)

lemma contains_byte: "contains [c] s \<longleftrightarrow> c \<in> set s"
proof
  assume "c \<in> set s"
  then obtain i where "i < length s" "s ! i = c" by (auto simp: in_set_conv_nth)
  then have "has_prefix [c] (drop i s)" by (simp add: has_prefix_def take_Suc_conv_app_nth [of 0 "drop i s", simplified])
  then show "contains [c] s" using \<open>i < length s\<close> unfolding contains_def list_ex_iff
    by (intro bexI [of _ i]) simp_all
qed (auto simp: contains_def list_ex_iff has_prefix_def dest!: in_set_dropD arg_cong [of _ _ set] in_set_takeD)

lemma read_quoted:
  assumes "MatchString strictPathRegex p" "0x2C \<notin> set perms"
  shows "read_rule deny (quotePath p @ 0x20 # perms @ [0x2C]) = File deny p perms"
proof -
  obtain q where q: "p = 0x2F # q" using strict_slash [OF assms(1)] by blast
  have n: "0x22 \<notin> set p" using strict_not [OF assms(1)] by simp
  have tw: "takeWhile (\<lambda>c. c \<noteq> a) (xs @ a # ys) = xs" "dropWhile (\<lambda>c. c \<noteq> a) (xs @ a # ys) = a # ys"
    if "a \<notin> set xs" for a :: u8 and xs ys using that by (induction xs) auto
  show ?thesis
  proof (cases "0x20 \<in> set p")
    case True
    then have "quotePath p = 0x22 # p @ [0x22]" by (simp add: quotePath_def contains_byte has_prefix_def q)
    then show ?thesis using tw [OF n] tw [OF assms(2), of "[]"] by (simp add: read_rule_def read_path_def has_prefix_def)
  next
    case False
    then have "quotePath p = p" by (simp add: quotePath_def contains_byte)
    then show ?thesis
      using tw [OF False] tw [OF assms(2), of "[]"] n q by (simp add: read_rule_def read_path_def has_prefix_def)
  qed
qed

lemma quotePath_start: "MatchString strictPathRegex p \<Longrightarrow> \<exists>q. quotePath p = 0x2F # q \<or> quotePath p = 0x22 # q"
  using strict_slash [of p] by (auto simp: quotePath_def)

lemma quotePath_newline: "MatchString strictPathRegex p \<Longrightarrow> newline \<notin> set (quotePath p)"
  using strict_not [of p] by (auto simp: quotePath_def)

lemma path_statements:
  assumes "(before, deny) \<in> {(''  '', False), (''  deny '', True)}" "bytes_of after = 0x20 # bytes_of perms @ [0x2C]"
    and "0x2C \<notin> set (bytes_of perms) \<and> newline \<notin> set (bytes_of perms)"
    and "\<And>p. p \<in> set ps \<Longrightarrow> MatchString strictPathRegex p"
  shows "statements (path_lines before after ps @ b) = file_statements deny perms (Some ps) @ statements b"
proof -
  have "newline \<notin> set (bytes_of before @ quotePath p @ bytes_of after) \<and>
      read_line (bytes_of before @ quotePath p @ bytes_of after) = Some (File deny p (bytes_of perms))"
    if "p \<in> set ps" for p
  proof
    note strict = assms(4) [OF that]
    obtain q where q: "quotePath p = 0x2F # q \<or> quotePath p = 0x22 # q" using quotePath_start [OF strict] by blast
    show "newline \<notin> set (bytes_of before @ quotePath p @ bytes_of after)"
      using assms(1-3) quotePath_newline [OF strict] by (auto simp: bytes_of_def)
    show "read_line (bytes_of before @ quotePath p @ bytes_of after) = Some (File deny p (bytes_of perms))"
      using assms(1) read_quoted [OF strict, of "bytes_of perms" deny] q assms(3)
      unfolding assms(2) by (auto simp: read_line_def has_prefix_def bytes_of_def)
  qed
  then show ?thesis
    unfolding path_lines_def file_statements_def slice_list_def
    using statements_lines [of ps "\<lambda>p. bytes_of before @ quotePath p @ bytes_of after" "\<lambda>p. File deny p (bytes_of perms)" b]
    by simp
qed

section \<open>Validated data\<close>

lemma first_error_None: "first_error f xs = None \<longleftrightarrow> (\<forall>x \<in> set xs. f x = None)"
  by (induction xs) (auto split: option.splits)

lemma or_else_None [simp]: "or_else a b = None \<longleftrightarrow> a = None \<and> b = None"
  by (cases a) auto

definition strict_slice :: "slice \<Rightarrow> bool" where
  "strict_slice s \<longleftrightarrow> (\<forall>p \<in> set (slice_list s). MatchString strictPathRegex p)"

lemma strict_slice_Some: "strict_slice (Some ps) \<Longrightarrow> p \<in> set ps \<Longrightarrow> MatchString strictPathRegex p"
  by (simp add: strict_slice_def slice_list_def)

lemma Validate_executable:
  "Validate uni d = None \<Longrightarrow> ad_Executable d = Some x \<Longrightarrow>
   strict_slice (xr_AllowedExecutables x) \<and> strict_slice (xr_AllowedLibraries x)"
  by (auto simp: Validate_def first_error_None strict_slice_def validateExecutableOrLibrary_def split: if_splits)

lemma Validate_filesystem:
  "Validate uni d = None \<Longrightarrow> ad_Filesystem d = Some f \<Longrightarrow>
   strict_slice (fs_ReadOnlyPaths f) \<and> strict_slice (fs_WriteOnlyPaths f) \<and> strict_slice (fs_ReadWritePaths f)"
  by (auto simp: Validate_def first_error_None strict_slice_def validPath_def split: if_splits)

lemma validate_name: "Validate uni d = None \<Longrightarrow> newline \<notin> set (ad_Name d)"
  using MatchString_bytes [of profileNameChars "ad_Name d" newline]
  by (auto simp: Validate_def profileNameChars_def re_plus_def alnum_def letter_def digit_def between_def split: if_splits)

lemma strict_statements:
  assumes "(before, deny) \<in> {(''  '', False), (''  deny '', True)}" "strict_slice (Some ps)"
  shows "statements (path_lines before '' ixr,'' ps @ b) = file_statements deny ''ixr'' (Some ps) @ statements b"
    "statements (path_lines before '' mr,'' ps @ b) = file_statements deny ''mr'' (Some ps) @ statements b"
    "statements (path_lines before '' r,'' ps @ b) = file_statements deny ''r'' (Some ps) @ statements b"
    "statements (path_lines before '' wlk,'' ps @ b) = file_statements deny ''wlk'' (Some ps) @ statements b"
    "statements (path_lines before '' rwlk,'' ps @ b) = file_statements deny ''rwlk'' (Some ps) @ statements b"
  by (rule path_statements [OF assms(1) _ _ strict_slice_Some [OF assms(2)]]; simp add: bytes_of_def)+

lemmas strict_rules = strict_statements [of "''  ''" False, simplified] strict_statements [of "''  deny ''" True, simplified]

lemma no_files: "file_statements deny perms None = []"
  by (simp add: file_statements_def slice_list_def)

lemma executable_read:
  assumes "Validate uni d = None"
  shows "statements (executable_text d @ b) = executable_statements d @ statements b"
proof (cases "ad_Executable d")
  case (Some x)
  show ?thesis
    using Validate_executable [OF assms Some]
    by (cases "xr_AllowedExecutables x"; cases "xr_AllowedLibraries x")
      (simp_all add: executable_text_def executable_statements_def Some if_set_def strict_rules no_files)
qed (simp add: executable_text_def executable_statements_def)

lemma filesystem_read:
  assumes "Validate uni d = None"
  shows "statements (filesystem_text complain d @ b) = filesystem_statements complain d @ statements b"
proof (cases "ad_Filesystem d")
  case (Some f)
  show ?thesis
    using Validate_filesystem [OF assms Some]
    by (cases "fs_ReadOnlyPaths f"; cases "fs_WriteOnlyPaths f"; cases "fs_ReadWritePaths f"; cases complain)
      (simp_all add: filesystem_text_def filesystem_statements_def Some if_set_def strict_rules no_files)
qed (simp add: filesystem_text_def filesystem_statements_def)

lemma network_read:
  "statements (network_text complain d @ newline # b) = network_statements complain d @ statements b"
  by (cases "ad_Network d") (simp_all add: network_text_def network_statements_def)

lemma valid_capability: "cap \<in> set validCapabilities \<Longrightarrow> newline \<notin> set cap"
  by (auto simp: validCapabilities_def bytes_of_def)

lemma capability_read:
  assumes "Validate uni d = None"
    and "\<And>c cap. ad_Capability d = Some c \<Longrightarrow> cap \<in> set (slice_list (cr_AllowedCapabilities c)) \<Longrightarrow> lower_trim uni cap = cap"
  shows "statements (capability_text d @ b) = capability_statements d @ statements b"
proof (cases "ad_Capability d")
  case (Some c)
  have "cap \<in> set validCapabilities" if "cap \<in> set (slice_list (cr_AllowedCapabilities c))" for cap
    using assms that Some
    by (force simp: Validate_def first_error_None validateCapability_def split: if_splits)
  then have "newline \<notin> set (bytes_of ''  capability '' @ cap @ bytes_of '','') \<and>
      read_line (bytes_of ''  capability '' @ cap @ bytes_of '','') = Some (Rule False (bytes_of ''capability '' @ cap @ bytes_of '',''))"
    if "cap \<in> set (slice_list (cr_AllowedCapabilities c))" for cap
    using valid_capability that by (auto simp: read_line_def read_rule_def has_prefix_def bytes_of_def)
  from statements_lines [of "slice_list (cr_AllowedCapabilities c)" "\<lambda>cap. bytes_of ''  capability '' @ cap @ bytes_of '',''", OF this]
  show ?thesis by (simp add: capability_text_def capability_statements_def Some)
qed (simp add: capability_text_def capability_statements_def)

lemma join_newline: "(\<And>a. a \<in> set as \<Longrightarrow> newline \<notin> set a) \<Longrightarrow> newline \<notin> set sep \<Longrightarrow> newline \<notin> set (strings_Join as sep)"
  by (induction as sep rule: strings_Join.induct) auto

lemma ptrace_body_newline:
  assumes "validatePtraceRule rule = None"
  shows "newline \<notin> set (ptrace_body rule)"
proof -
  have "newline \<notin> set a" if "a \<in> set (pu_Access rule)" for a
  proof -
    have "a \<in> set ptraceAccess"
      using assms that by (force simp: validatePtraceRule_def first_error_None split: if_splits option.splits)
    then show ?thesis by (auto simp: ptraceAccess_def bytes_of_def)
  qed
  moreover have "newline \<notin> set (pu_Peer rule)"
  proof (cases "pu_Peer rule = []")
    case False
    then have "MatchString ptracePeerRegex (pu_Peer rule)"
      using assms by (auto simp: validatePtraceRule_def split: if_splits option.splits)
    then show ?thesis
      using MatchString_bytes [of ptracePeerRegex "pu_Peer rule" newline]
      by (auto simp: ptracePeerRegex_def re_plus_def alnum_def letter_def digit_def between_def bytes_of_def)
  qed simp
  ultimately show ?thesis
    using join_newline [of "pu_Access rule" "bytes_of '', ''"] by (auto simp: ptrace_body_def bytes_of_def)
qed

lemma ptrace_lines:
  assumes "\<And>rule. rule \<in> set rules \<Longrightarrow> validatePtraceRule rule = None"
    and "\<And>b. statements (a @ newline # b) = x @ statements b"
  shows "statements (a @ concat (map (\<lambda>rule. [newline] @ bytes_of ''  '' @ ptrace_body rule) rules) @ newline # b) =
    x @ map (\<lambda>rule. Rule False (ptrace_body rule)) rules @ statements b"
  using assms
proof (induction rules arbitrary: a x)
  case (Cons rule rules)
  have "newline \<notin> set (bytes_of ''  '' @ ptrace_body rule) \<and>
      read_line (bytes_of ''  '' @ ptrace_body rule) = Some (Rule False (ptrace_body rule))"
    using ptrace_body_newline [of rule] Cons.prems(1)
    by (auto simp: read_line_def read_rule_def has_prefix_def ptrace_body_def bytes_of_def)
  from one_statement [OF this]
  have "statements ((bytes_of ''  '' @ ptrace_body rule) @ newline # b) = [Rule False (ptrace_body rule)] @ statements b" for b
    by simp
  from Cons.IH [OF Cons.prems(1) this] show ?case by (simp add: Cons.prems(2))
qed simp

lemma ptrace_read:
  assumes "Validate uni d = None"
  shows "statements (ptrace_text d @ newline # b) = map (\<lambda>rule. Rule False (ptrace_body rule)) (ad_Ptrace d) @ statements b"
proof (cases "ad_Ptrace d = []")
  case False
  have "statements (bytes_of ''  # Ptrace rules'' @ newline # b) = [] @ statements b" for b
    using no_statement [of "bytes_of ''  # Ptrace rules''" b] by (simp add: read_line_def has_prefix_def bytes_of_def)
  from ptrace_lines [of "ad_Ptrace d", OF _ this] show ?thesis
    using assms by (simp add: Validate_def first_error_None ptrace_text_def)
qed (simp add: ptrace_text_def)

section \<open>The whole text\<close>

lemma template_read:
  assumes "Validate uni (ta_Data args) = None" "ad_Name (ta_Data args) = ta_Name args"
    and "ta_ProfileMode args \<in> {bytes_of ''complain'', bytes_of ''enforce''}"
    and "\<And>c cap. ad_Capability (ta_Data args) = Some c \<Longrightarrow> cap \<in> set (slice_list (cr_AllowedCapabilities c)) \<Longrightarrow>
      lower_trim uni cap = cap"
  shows "statements (appArmorTemplate args) = profile_statements (ta_ComplainMode args) (ta_AllowMount args) (ta_Data args)"
proof -
  let ?head = "bytes_of ''profile '' @ ta_Name args @ bytes_of '' flags=('' @ ta_ProfileMode args @
      bytes_of '',attach_disconnected,mediate_deleted) {''"
  have "newline \<notin> set ?head \<and> read_line ?head = None"
    using validate_name [OF assms(1)] assms(2,3) by (auto simp: read_line_def has_prefix_def bytes_of_def)
  from no_statement [OF this] have head: "statements (bytes_of ''profile '' @ ta_Name args @ bytes_of '' flags=('' @
      ta_ProfileMode args @ line '',attach_disconnected,mediate_deleted) {'' @ b) = statements b" for b
    by (simp add: line_def)
  note read = head executable_read [OF assms(1)] filesystem_read [OF assms(1)] ptrace_read [OF assms(1)]
    capability_read [OF assms(1,4)] network_read
  have "statements (line ''}'') = []" using comment_lines(10) [of "[]"] by (simp add: statements_end)
  then show ?thesis
    by (cases "ta_AllowMount args"; cases "ta_ComplainMode args")
      (simp_all add: appArmorTemplate_def profile_statements_def read)
qed

lemma lower_facts: "space (lower c) = space c" "lower (lower c) = lower c" "c < 0x80 \<Longrightarrow> lower c < 0x80"
proof -
  have "c + 0x20 \<ge> 0x61 \<and> c + 0x20 \<le> 0x7A" if "0x41 \<le> c" "c \<le> 0x5A"
    using that by (simp add: word_le_nat_alt unat_plus_if')
  then show "space (lower c) = space c" "lower (lower c) = lower c" "c < 0x80 \<Longrightarrow> lower c < 0x80"
    unfolding space_def lower_def between_def by (auto simp: word_le_nat_alt word_less_nat_alt unat_plus_if' split: if_splits)
qed

lemma trim_map_lower: "trim (map lower s) = map lower (trim s)"
  by (simp add: trim_def rev_map dropWhile_map comp_def lower_facts)

lemma trim_trim: "trim (trim s) = trim s"
proof -
  have dw: "dropWhile P (dropWhile P xs) = dropWhile P xs" for P and xs :: "u8 list" by (induction xs) auto
  have "dropWhile P (rev (dropWhile P (rev (dropWhile P xs)))) = rev (dropWhile P (rev (dropWhile P xs)))"
    for P and xs :: "u8 list"
  proof (cases "dropWhile P xs")
    case (Cons y ys)
    then have "\<not> P y" using hd_dropWhile [of P xs] by simp
    then show ?thesis by (simp add: Cons dropWhile_append)
  next
    case Nil
    then show ?thesis by (simp only: Nil) simp
  qed
  then show ?thesis by (simp add: trim_def dw)
qed

lemma lower_trim_idem:
  assumes "lower_stable uni"
  shows "lower_trim uni (lower_trim uni s) = lower_trim uni s"
proof (cases "list_all (\<lambda>c. c < 0x80) s")
  case True
  then have "list_all (\<lambda>c. c < 0x80) (trim s)"
    by (auto simp: list_all_iff trim_def dest!: set_dropWhileD)
  then have "list_all (\<lambda>c. c < 0x80) (map lower (trim s))" by (auto simp: list_all_iff lower_facts)
  then show ?thesis using True by (simp add: lower_trim_def trim_map_lower trim_trim lower_facts comp_def)
qed (use assms in \<open>simp add: lower_trim_def [of uni s] lower_stable_def\<close>)

lemma data_capability:
  "ad_Capability (newApparmorData uni name a) = Some c \<Longrightarrow> cap \<in> set (slice_list (cr_AllowedCapabilities c)) \<Longrightarrow>
   \<exists>s. cap = lower_trim uni s"
  by (cases "ab_Capability a"; cases "cr_AllowedCapabilities (the (ab_Capability a))")
    (auto simp: newApparmorData_def Let_def normalizeCapabilities_def slice_list_def case_prod_beta)

lemma data_name [simp]: "ad_Name (newApparmorData uni name a) = name"
  by (simp add: newApparmorData_def Let_def case_prod_beta)

lemma generated_statements:
  assumes "GenerateProfile uni name mode (Some a) = Inr profile"
    and "lower_stable uni"
  shows "statements profile =
    profile_statements (mode = AppArmorModeComplain) (allow_mount uni a) (newApparmorData uni name a)"
proof -
  let ?d = "newApparmorData uni name a"
  have ok: "Validate uni ?d = None" and profile: "profile = appArmorTemplate
      \<lparr>ta_Name = name, ta_ProfileMode = profileMode mode, ta_ComplainMode = (mode = AppArmorModeComplain),
       ta_AllowMount = allow_mount uni a, ta_Data = ?d\<rparr>"
    using assms(1) by (auto simp: GenerateProfile_def Let_def split: option.splits)
  have "lower_trim uni cap = cap"
    if "ad_Capability ?d = Some c" "cap \<in> set (slice_list (cr_AllowedCapabilities c))" for c cap
    using data_capability [OF that] lower_trim_idem [OF assms(2)] by auto
  then show ?thesis unfolding profile by (subst template_read [of uni]) (simp_all add: ok profileMode_def)
qed


definition sample_abstract :: AppArmorAbstract where
  "sample_abstract =
     \<lparr>ab_Executable = None,
      ab_Filesystem = Some \<lparr>fs_ReadOnlyPaths = Some [bytes_of ''/a b'', bytes_of ''ptrace (READ), # legacy''],
        fs_WriteOnlyPaths = None, fs_ReadWritePaths = None\<rparr>,
      ab_Network = None, ab_Capability = Some \<lparr>cr_AllowedCapabilities = Some [bytes_of '' Kill'']\<rparr>, ab_Ptrace = None\<rparr>"


end
