(* ===== verification/Recorded_Profile.thy ===== *)
theory Recorded_Profile
  imports End_To_End Profile_Statements
begin

text \<open>
  From a recording to the text of a profile: \<^verbatim>\<open>AbstractFromRecording\<close> of \<^verbatim>\<open>recorded.go\<close>
  and the conversion of the recorded data in \<^verbatim>\<open>profilerecorder.go\<close>. The theorems say that
  whatever was recorded, the validation accepts the profile made of it, and which of the recorded
  accesses the text permits.
\<close>

section \<open>The abstract profile of a recording\<close>

record RecordedAccess =
  ra_AllowedExecutables :: "u8 list list"
  ra_AllowedLibraries :: "u8 list list"
  ra_ReadOnlyPaths :: "u8 list list"
  ra_WriteOnlyPaths :: "u8 list list"
  ra_ReadWritePaths :: "u8 list list"
  ra_UseRaw :: bool
  ra_UseTCP :: bool
  ra_UseUDP :: bool
  ra_Capabilities :: "u8 list list"

definition sortedOrNil :: "u8 list list \<Rightarrow> slice" where
  "sortedOrNil paths = (if paths = [] then None else Some (sort paths))"

definition recorded_network :: "RecordedAccess \<Rightarrow> AppArmorNetworkRules option" where
  "recorded_network recorded =
     (if ra_UseRaw recorded \<or> ra_UseTCP recorded \<or> ra_UseUDP recorded
      then Some \<lparr>nr_AllowRaw = (if ra_UseRaw recorded then Some True else None),
        nr_Protocols = (if ra_UseTCP recorded \<or> ra_UseUDP recorded
          then Some \<lparr>pr_AllowTCP = (if ra_UseTCP recorded then Some True else None),
                     pr_AllowUDP = (if ra_UseUDP recorded then Some True else None)\<rparr>
          else None)\<rparr>
      else None)"

definition AbstractFromRecording :: "RecordedAccess \<Rightarrow> AppArmorAbstract" where
  "AbstractFromRecording recorded =
     \<lparr>ab_Executable =
        (if ra_AllowedExecutables recorded \<noteq> [] \<or> ra_AllowedLibraries recorded \<noteq> []
         then Some \<lparr>xr_AllowedExecutables = sortedOrNil (ra_AllowedExecutables recorded),
                    xr_AllowedLibraries = sortedOrNil (ra_AllowedLibraries recorded)\<rparr> else None),
      ab_Filesystem =
        (if ra_ReadOnlyPaths recorded \<noteq> [] \<or> ra_WriteOnlyPaths recorded \<noteq> [] \<or> ra_ReadWritePaths recorded \<noteq> []
         then Some \<lparr>fs_ReadOnlyPaths = sortedOrNil (ra_ReadOnlyPaths recorded),
                    fs_WriteOnlyPaths = sortedOrNil (ra_WriteOnlyPaths recorded),
                    fs_ReadWritePaths = sortedOrNil (ra_ReadWritePaths recorded)\<rparr> else None),
      ab_Network = recorded_network recorded,
      ab_Capability =
        (if ra_Capabilities recorded \<noteq> []
         then Some \<lparr>cr_AllowedCapabilities = Some (ra_Capabilities recorded)\<rparr> else None),
      ab_Ptrace = None\<rparr>"

text \<open>The response of the recorder has the lists of the processed data, and so does the command line.\<close>

definition generateAppArmorProfileAbstract :: "BpfAppArmorProcessed \<Rightarrow> AppArmorAbstract" where
  "generateAppArmorProfileAbstract response =
     AbstractFromRecording
       \<lparr>ra_AllowedExecutables = AllowedExecutables (FileProcessed response),
        ra_AllowedLibraries = AllowedLibraries (FileProcessed response),
        ra_ReadOnlyPaths = ReadOnlyPaths (FileProcessed response),
        ra_WriteOnlyPaths = WriteOnlyPaths (FileProcessed response),
        ra_ReadWritePaths = ReadWritePaths (FileProcessed response),
        ra_UseRaw = UseRaw (Socket response), ra_UseTCP = UseTCP (Socket response), ra_UseUDP = UseUDP (Socket response),
        ra_Capabilities = Capabilities response\<rparr>"

section \<open>Normalized paths are strict\<close>

abbreviation strict :: "u8 list \<Rightarrow> bool" where
  "strict p \<equiv> MatchString strictPathRegex p"

definition strict_body :: "u8 list \<Rightarrow> bool" where
  "strict_body s = in_lang (Star strict_item) s"

lemma strict_iff: "strict p \<longleftrightarrow> (\<exists>q. p = 0x2F # q \<and> strict_body q)"
  by (auto simp: MatchString_lang strictPathRegex_def strict_body_def lang_Seq_iff)

lemma strict_body_append: "strict_body u \<Longrightarrow> strict_body v \<Longrightarrow> strict_body (u @ v)"
  unfolding strict_body_def by (rule lang_Star_append)

lemma strict_body_Nil [simp]: "strict_body []"
  by (simp add: strict_body_def lang_Star_Nil)

lemma strict_body_byte: "path_byte c \<Longrightarrow> strict_body s \<Longrightarrow> strict_body (c # s)"
  using lang_Star_step [of strict_item "[c]" s] by (simp add: strict_body_def strict_item_def)

lemma plain_path_byte: "isPlainPathByte c \<Longrightarrow> path_byte c"
  by (auto simp: isPlainPathByte_def path_byte_def alnum_def letter_def digit_def)

lemma path_byte_glob [simp]: "path_byte 0x3F" "path_byte 0x2A" "path_byte 0x2F"
  by (simp_all add: path_byte_def)

lemma strict_body_bytes: "list_all path_byte s \<Longrightarrow> strict_body s"
  by (induction s) (auto intro: strict_body_byte)

lemma strict_var: "strict_body pid_var" "strict_body tid_var"
proof -
  have "in_lang strict_item ([0x40, 0x7B] @ w @ [0x7D])" if "w \<noteq> []" "list_all (\<lambda>c. alnum c \<or> c = 0x5F) w" for w
  proof -
    have "in_lang (re_plus (Cls (\<lambda>c. alnum c \<or> c = 0x5F))) w"
      using that lang_Seq [of "Cls (\<lambda>c. alnum c \<or> c = 0x5F)" "[hd w]" _ "tl w"]
      by (cases w) (auto simp: re_plus_def lang_Star_class)
    then have "in_lang (Seq (re_lit [0x40, 0x7B]) (Seq (re_plus (Cls (\<lambda>c. alnum c \<or> c = 0x5F))) (re_lit [0x7D])))
        ([0x40, 0x7B] @ w @ [0x7D])"
      by (intro lang_Seq) (simp_all del: re_lit.simps)
    then show ?thesis unfolding strict_item_def by (rule lang_Right)
  qed
  from lang_Star_single [OF this [of "bytes_of ''pid''"]] lang_Star_single [OF this [of "bytes_of ''tid''"]]
  show "strict_body pid_var" "strict_body tid_var"
    by (simp_all add: strict_body_def pid_var_def tid_var_def bytes_of_def alnum_def letter_def between_def)
qed

lemma rule_of_strict: "rule_of N r p \<Longrightarrow> strict_body r"
  by (induction rule: rule_of.induct)
    (auto intro: strict_body_byte plain_path_byte strict_body_append strict_var)

text \<open>No expression matches a space, so the marker of a removed file stays in place.\<close>

definition no_space :: "item list \<Rightarrow> bool" where
  "no_space re \<longleftrightarrow> (\<forall>(P, lo, hi) \<in> set re. \<not> P 0x20)"

lemma match_before_space: "no_space re \<Longrightarrow> match_at re (a @ 0x20 # b) = match_at re a"
proof (induction re arbitrary: a)
  case (Cons i re)
  obtain P lo hi where i: "i = (P, lo, hi)" by (cases i)
  have "\<not> P 0x20" using Cons.prems by (simp add: no_space_def i)
  then have "takeWhile P (a @ 0x20 # b) = takeWhile P a" by (induction a) auto
  then have eq: "match_item i (a @ 0x20 # b) = match_item i a" by (simp add: i)
  have le: "n \<le> length a" if "match_item i a = Some n" for n
    using that length_takeWhile_le [of P a] by (auto simp: i Let_def split: if_splits option.splits)
  have "no_space re" using Cons.prems by (simp add: no_space_def)
  then show ?case using Cons.IH le by (auto simp: eq split: option.split)
qed simp

lemma match_at_le: "match_at re s = Some n \<Longrightarrow> n \<le> length s"
  using match_class [of re s n "\<lambda>_. True"] by auto

lemma replace_start_space:
  assumes "no_space re"
  shows "replace_start re r (a @ 0x20 # b) = replace_start re r a @ 0x20 # b"
  using match_at_le [of re a] by (auto simp: replace_start_def match_before_space [OF assms] split: option.split)

lemma replace_all_space:
  assumes "no_space re"
  shows "replace_all re r (a @ 0x20 # b) = replace_all re r a @ 0x20 # replace_all re r b"
proof (induction "length a" arbitrary: a rule: less_induct)
  case less
  note m = match_before_space [OF assms, of a b]
  show ?case
  proof (cases a)
    case Nil
    then have "match_at re (0x20 # b) = Some n \<Longrightarrow> n = 0" for n
      using m match_at_le [of re "[]" n] by simp
    then show ?thesis using Nil by (auto split: option.split nat.split)
  next
    case (Cons c cs)
    have "drop n (cs @ 0x20 # b) = drop n cs @ 0x20 # b" if "match_at re a = Some (Suc n)" for n
      using match_at_le [OF that] Cons by simp
    then show ?thesis
      using less.hyps [of cs] less.hyps [of "drop n cs" for n] m by (auto simp: Cons split: option.split nat.split)
  qed
qed

lemma no_spaces:
  "no_space reDirectPathWithPid" "no_space reDirectPathWithTid" "no_space rePathWithPid" "no_space rePathWithTid"
  "no_space rePathWithCid" "no_space reUUID" "no_space reHash" "no_space reDigitSequence"
  by (simp_all add: no_space_def reDirectPathWithPid_def reDirectPathWithTid_def rePathWithPid_def rePathWithTid_def
      rePathWithCid_def reUUID_def reHash_def reDigitSequence_def lit_def slash_def pid_var_def task_dir_def proc_dir_def
      overlay_dir_def bytes_of_def digit_def hex_def word_char_def between_def)

definition marker_rests :: "u8 list list" where
  "marker_rests = [bytes_of ''(deleted)'', bytes_of ''(deleted)/'']"

lemma marker_kept:
  assumes "m \<in> set marker_rests"
  shows "replace_all rePathWithCid r m = m" "replace_all reUUID r m = m"
    "replace_all reHash r m = m" "replace_all reDigitSequence r m = m"
  using assms by (auto simp: marker_rests_def bytes_of_def rePathWithCid_def overlay_dir_def lit_def reUUID_def reHash_def
      reDigitSequence_def hex_def digit_def between_def)

lemma deleted_normalized:
  assumes "m \<in> set marker_rests"
  shows "\<exists>r. ReplaceVarianceInFilePath (a @ 0x20 # m) = sys_devices @ [0x2A, 0x2A] \<or>
    ReplaceVarianceInFilePath (a @ 0x20 # m) = r @ 0x20 # m"
  unfolding ReplaceVarianceInFilePath_def Let_def
  by (simp only: replace_start_space [OF no_spaces(1)] replace_start_space [OF no_spaces(2)]
      replace_start_space [OF no_spaces(3)] replace_start_space [OF no_spaces(4)]
      replace_all_space [OF no_spaces(5)] replace_all_space [OF no_spaces(6)]
      replace_all_space [OF no_spaces(7)] replace_all_space [OF no_spaces(8)] marker_kept [OF assms]) auto

lemma deleted_suffixes: "m \<in> set marker_rests \<Longrightarrow> \<not> live_file (r @ 0x20 # m)"
  by (auto simp: marker_rests_def live_file_def has_suffix_def deletedSuffix_def bytes_of_def)

lemma sanitize_deleted:
  assumes "\<not> live_file p"
  shows "\<exists>a m. sanitizeFilePath p = a @ 0x20 # m \<and> m \<in> set marker_rests"
proof -
  have "deletedSuffix = 0x20 # bytes_of ''(deleted)''" "deletedSuffix @ [0x2F] = 0x20 # bytes_of ''(deleted)/''"
    by (simp_all add: deletedSuffix_def bytes_of_def)
  then show ?thesis
    using assms by (auto simp: sanitizeFilePath_def cut_markers_def live_file_def marker_rests_def)
qed

lemma sys_devices_strict: "strict (sys_devices @ [0x2A, 0x2A])"
  using strict_body_bytes [of "tl sys_devices @ [0x2A, 0x2A]"]
  by (auto simp: strict_iff sys_devices_def bytes_of_def path_byte_def alnum_def letter_def between_def)

text \<open>The rule of an absolute path is accepted by the validation, unless it is that of a removed file.\<close>

lemma normalized_strict:
  assumes "has_prefix slash p" "live_file (ReplaceVarianceInFilePath (sanitizeFilePath p))"
  shows "strict (ReplaceVarianceInFilePath (sanitizeFilePath p))"
proof (cases "live_file p")
  case True
  let ?N = "\<lambda>q. q \<noteq> [] \<and> list_all digit q"
  have "list_all ?N (process_numbers p)"
    by (auto simp: process_numbers_def number_after_def list_all_iff Let_def dest: set_takeWhileD split: if_splits)
  with replaced_rule [OF sanitize_rule [of p ?N]] True obtain r where r: "rule_of ?N r p"
    "ReplaceVarianceInFilePath (sanitizeFilePath p) = (if has_prefix sys_devices r then sys_devices @ [0x2A, 0x2A] else r)"
    by (auto simp: live_file_def)
  obtain p' where p: "p = 0x2F # p'" using assms(1) by (cases p) (auto simp: has_prefix_def slash_def)
  obtain r' where r': "r = 0x2F # r'" using rule_of_absolute [of ?N r p'] r(1) p by auto
  have "strict_body r'"
    using rule_of_plainD [of ?N "0x2F" r' p] r(1) r' rule_of_strict by (auto simp: isPlainPathByte_def)
  then show ?thesis using sys_devices_strict r(2) r' by (auto simp: strict_iff)
next
  case False
  from sanitize_deleted [OF this] obtain a m where "sanitizeFilePath p = a @ 0x20 # m" "m \<in> set marker_rests" by blast
  then show ?thesis using deleted_normalized [of m a] deleted_suffixes [of m] assms(2) sys_devices_strict by auto
qed

section \<open>What a recorder holds\<close>

text \<open>The states of a recorder, whatever the kernel sends and whatever the maps of the BPF program hold.\<close>

inductive observed :: "u8 list \<Rightarrow> AppArmorRecorder \<Rightarrow> bool" for programName where
  observed_new: "observed programName ((newAppArmorRecorder programName)\<lparr>ar_loaded := l\<rparr>)"
| observed_event: "observed programName b \<Longrightarrow> observed programName (fst (handleEvent raw (b, s)))"
| observed_clear: "observed programName b \<Longrightarrow> observed programName (fst (Clear keys (b, s)))"
| observed_exclude: "observed programName b \<Longrightarrow> observed programName (fst (Exclude key (b, s)))"
| observed_stop: "observed programName b \<Longrightarrow> observed programName (fst (StopRecording (b, s)))"

definition normalized :: "u8 list \<Rightarrow> bool" where
  "normalized f \<longleftrightarrow> (\<exists>p. has_prefix slash p \<and> f = ReplaceVarianceInFilePath (sanitizeFilePath p))"

definition all_normalized :: "(u8 list \<times> fileAccess) list \<Rightarrow> bool" where
  "all_normalized files \<longleftrightarrow> (\<forall>f \<in> fst ` set files. normalized f)"

definition recorded_normalized :: "AppArmorRecorder \<Rightarrow> bool" where
  "recorded_normalized b \<longleftrightarrow>
     (\<forall>k files. ar_recordedFiles b k = Some files \<longrightarrow> all_normalized files) \<and>
     list_all (\<lambda>(p, n). np_path n = ReplaceVarianceInFilePath (sanitizeFilePath p)) (ar_normalizedPaths b)"

lemma recorded_normalized_cong:
  assumes "ar_recordedFiles b' \<subseteq>\<^sub>m ar_recordedFiles b" "ar_normalizedPaths b' = ar_normalizedPaths b" "recorded_normalized b"
  shows "recorded_normalized b'"
proof -
  have "ar_recordedFiles b k = Some files" if "ar_recordedFiles b' k = Some files" for k files
    using assms(1) that by (metis domI map_le_def)
  then show ?thesis using assms(2,3) unfolding recorded_normalized_def by metis
qed

lemma fold_clear_files: "ar_recordedFiles (fold clear_data keys b) \<subseteq>\<^sub>m ar_recordedFiles b"
  "ar_normalizedPaths (fold clear_data keys b) = ar_normalizedPaths b"
proof (induction keys arbitrary: b)
  case (Cons k keys)
  case 1
  have "ar_recordedFiles (clear_data k b) \<subseteq>\<^sub>m ar_recordedFiles b" by (auto simp: clear_data_def map_le_def)
  then show ?case using Cons(1) [of "clear_data k b"] map_le_trans by fastforce
  case 2
  show ?case using Cons(2) [of "clear_data k b"] by (simp add: clear_data_def)
qed simp_all

lemma fst_forgetReported [simp]: "fst (forgetReported keys (b, s)) = b"
  by (simp add: forgetReported_def)

lemma recorded_normalized_Clear: "recorded_normalized b \<Longrightarrow> recorded_normalized (fst (Clear keys (b, s)))"
  using recorded_normalized_cong [of "fold clear_data keys b" b] fold_clear_files [where b = b and keys = keys]
  by (simp add: Clear_def)

lemma normalizePath_normalized:
  assumes "recorded_normalized b" "normalizePath p b = (n, b')"
  shows "recorded_normalized b' \<and> np_path n = ReplaceVarianceInFilePath (sanitizeFilePath p)"
proof (cases "map_of (ar_normalizedPaths b) p")
  case None
  then show ?thesis using assms by (auto simp: normalizePath_def recorded_normalized_def Let_def)
next
  case (Some m)
  then show ?thesis
    using assms by (auto simp: normalizePath_def recorded_normalized_def list_all_iff dest: map_of_SomeD)
qed

lemma trackKey_files:
  "ar_recordedFiles (snd (trackKey k b)) = ar_recordedFiles b" "ar_normalizedPaths (snd (trackKey k b)) = ar_normalizedPaths b"
  by (simp_all add: trackKey_def)

lemma recorded_normalized_same:
  "ar_recordedFiles b' = ar_recordedFiles b \<Longrightarrow> ar_normalizedPaths b' = ar_normalizedPaths b \<Longrightarrow>
   recorded_normalized b' = recorded_normalized b"
  by (simp add: recorded_normalized_def)

lemma all_normalized_update: "all_normalized files \<Longrightarrow> normalized f \<Longrightarrow> all_normalized (AList.update f v files)"
  using dom_update [of f v files] by (simp add: all_normalized_def)

lemma record_file_normalized:
  assumes "recorded_normalized b" "normalized f"
  shows "recorded_normalized (record_file k f flags b)"
proof -
  have "all_normalized []" by (simp add: all_normalized_def)
  moreover note all_normalized_update [OF _ assms(2)] this [THEN all_normalized_update [OF _ assms(2)]]
  ultimately show ?thesis
    using assms unfolding record_file_def Let_def recorded_normalized_def
    by (cases "ar_recordedFiles b k") (auto split: if_splits)
qed

lemma trackKey_normalized: "recorded_normalized (snd (trackKey k b)) = recorded_normalized b"
  by (rule recorded_normalized_same) (simp_all add: trackKey_files)

lemma handleFileEvent_normalized:
  assumes "recorded_normalized b"
  shows "recorded_normalized (fst (handleFileEvent e (b, s)))"
proof -
  obtain n b1 where n: "normalizePath (fileDataToString (Data e)) b = (n, b1)" by force
  obtain t b2 where t: "trackKey (Key e) b1 = (t, b2)" by force
  have b1: "recorded_normalized b1" "np_path n = ReplaceVarianceInFilePath (sanitizeFilePath (fileDataToString (Data e)))"
    using normalizePath_normalized [OF assms n] by simp_all
  have b2: "recorded_normalized b2" using b1(1) trackKey_normalized [of "Key e" b1] t by simp
  have "normalized (np_path n)" if "has_prefix [0x2F] (fileDataToString (Data e))"
    using that b1(2) by (auto simp: normalized_def slash_def)
  then show ?thesis using assms b1(1) b2 by (simp add: handleFileEvent_def n t record_file_normalized Let_def)
qed

lemma handleEvent_normalized:
  assumes "recorded_normalized b"
  shows "recorded_normalized (fst (handleEvent raw (b, s)))"
proof -
  have files: "ar_recordedFiles (fst (handleSocketEvent e (b, s))) = ar_recordedFiles b"
    "ar_normalizedPaths (fst (handleSocketEvent e (b, s))) = ar_normalizedPaths b"
    "ar_recordedFiles (fst (handleCapabilityEvent e (b, s))) = ar_recordedFiles b"
    "ar_normalizedPaths (fst (handleCapabilityEvent e (b, s))) = ar_normalizedPaths b" for e
    by (simp_all add: handleSocketEvent_def handleCapabilityEvent_def case_prod_beta Let_def trackKey_files)
  have "recorded_normalized (fst (handleSocketEvent e (b, s)))" "recorded_normalized (fst (handleCapabilityEvent e (b, s)))" for e
    using assms recorded_normalized_same [OF files(1,2)] recorded_normalized_same [OF files(3,4)] by simp_all
  then show ?thesis
    using assms by (simp add: handleEvent_def handleFileEvent_normalized clearKey_def recorded_normalized_Clear split: option.split)
qed

lemma observed_normalized: "observed programName b \<Longrightarrow> recorded_normalized b"
proof (induction rule: observed.induct)
  case (observed_exclude b key s)
  then have "recorded_normalized (b\<lparr>ar_excluded := insert key (ar_excluded b)\<rparr>)" by (simp add: recorded_normalized_def)
  then show ?case using recorded_normalized_Clear by (simp add: Exclude_def)
qed (simp_all add: handleEvent_normalized recorded_normalized_Clear, simp_all add: recorded_normalized_def newAppArmorRecorder_def StopRecording_def)

section \<open>The paths of a profile\<close>

text \<open>A path is strict if all its components are.\<close>

lemma split_slash_not_Nil [simp]: "split_slash s \<noteq> []"
  by (induction s) (auto split: list.split)

lemma split_slash_append: "split_slash (a @ 0x2F # b) = split_slash a @ split_slash b"
proof (induction a)
  case (Cons c a)
  then show ?case by (cases "split_slash a") auto
qed simp

lemma split_slash_no_slash: "0x2F \<notin> set u \<Longrightarrow> split_slash (u @ v) = (u @ hd (split_slash v)) # tl (split_slash v)"
  by (induction u) auto

lemma item_slash:
  assumes "in_lang strict_item u"
  shows "u = [0x2F] \<or> 0x2F \<notin> set u"
proof -
  let ?var = "Seq (re_lit [0x40, 0x7B]) (Seq (re_plus (Cls (\<lambda>c. alnum c \<or> c = 0x5F))) (re_lit [0x7D]))"
  have "\<not> re_bytes ?var 0x2F" by (simp add: re_plus_def alnum_def letter_def digit_def between_def)
  then have "0x2F \<notin> set u" if "in_lang ?var u" using lang_bytes [OF that] by blast
  then show ?thesis using assms unfolding strict_item_def by (auto simp del: re_lit.simps)
qed

lemma strict_words: "strict_body s \<Longrightarrow> w \<in> set (split_slash s) \<Longrightarrow> strict_body w"
  unfolding strict_body_def
proof (induction "Star strict_item" s arbitrary: w rule: in_lang.induct)
  case lang_Star_Nil
  then show ?case by (simp add: in_lang.lang_Star_Nil)
next
  case (lang_Star_step u v)
  show ?case
  proof (cases "u = [0x2F]")
    case True
    then show ?thesis using lang_Star_step by (auto intro: in_lang.lang_Star_Nil)
  next
    case False
    then have "0x2F \<notin> set u" using item_slash [OF lang_Star_step(1)] by simp
    then have "w = u @ hd (split_slash v) \<or> w \<in> set (tl (split_slash v))"
      using lang_Star_step.prems by (simp add: split_slash_no_slash)
    then show ?thesis
      using lang_Star_step(4) in_lang.lang_Star_step [OF lang_Star_step(1)] list.set_sel [of "split_slash v"] by auto
  qed
qed

lemma words_strict: "\<forall>w \<in> set ws. strict_body w \<Longrightarrow> strict_body (join_slash ws)"
  by (induction ws rule: join_slash.induct) (auto intro!: strict_body_append strict_body_byte)

lemma clean_words:
  "w \<in> set (fold (clean_step rooted) ws stack) \<Longrightarrow> w \<in> set ws \<union> set stack"
proof (induction ws arbitrary: stack)
  case (Cons x ws)
  have "set (clean_step rooted x stack) \<subseteq> insert x (set stack)"
    by (auto simp: clean_step_def dest: in_set_butlastD)
  then show ?case using Cons.IH [of "clean_step rooted x stack"] Cons.prems by auto
qed simp

lemma path_clean_strict:
  assumes "strict_body s" "has_prefix [0x2F] s"
  shows "strict (path_clean s)"
proof -
  have "\<forall>w \<in> set (fold (clean_step True) (split_slash s) []). strict_body w"
    using clean_words [of _ True "split_slash s" "[]"] strict_words [OF assms(1)] by auto
  from words_strict [OF this] show ?thesis using assms(2) by (simp add: path_clean_def strict_iff)
qed

lemma strict_body_strict: "strict p \<Longrightarrow> strict_body p \<and> has_prefix [0x2F] p"
  by (auto simp: strict_iff has_prefix_def intro: strict_body_byte)

lemma strict_prefix:
  assumes "strict_body (a @ 0x2F # b)"
  shows "strict_body (a @ [0x2F])"
proof -
  have "\<forall>w \<in> set (split_slash a). strict_body w" using strict_words [OF assms] by (auto simp: split_slash_append)
  moreover have "join_slash (split_slash a) = a"
  proof (induction a)
    case (Cons c a)
    then show ?case by (cases "split_slash a"; cases "tl (split_slash a)") auto
  qed simp
  ultimately have "strict_body a" using words_strict by metis
  then show ?thesis by (intro strict_body_append strict_body_byte) simp_all
qed

lemma path_dir_strict:
  assumes "strict p"
  shows "strict (path_dir p)"
proof -
  obtain a b where ab: "p = a @ 0x2F # b" "0x2F \<notin> set b"
    using assms split_list_last [of "0x2F" p] by (auto simp: strict_iff)
  have "dropWhile (\<lambda>c. c \<noteq> 0x2F) (rev b @ 0x2F # rev a) = 0x2F # rev a"
    using ab(2) by (subst dropWhile_append2) auto
  then have "path_dir p = path_clean (a @ [0x2F])" by (simp add: path_dir_def ab(1))
  moreover have "has_prefix [0x2F] (a @ [0x2F])" using assms ab(1) by (cases a) (auto simp: strict_iff has_prefix_def)
  ultimately show ?thesis
    using path_clean_strict strict_prefix [of a b] strict_body_strict [OF assms] ab(1) by simp
qed

lemma glob_strict: "strict p \<Longrightarrow> strict (path_join (path_dir p) [0x2A])"
  using path_clean_strict [of "path_dir p @ [0x2F, 0x2A]"] path_dir_strict [of p] strict_body_strict [of "path_dir p"]
    strict_body_append [of "path_dir p" "[0x2F, 0x2A]"] strict_body_bytes [of "[0x2F, 0x2A]"]
  by (auto simp: path_join_def strict_iff has_prefix_def)

lemma allow_loop_paths: "x \<in> set (allow_loop fps dup) \<Longrightarrow> x \<in> set fps \<or> (\<exists>f \<in> set fps. x = path_join (path_dir f) [0x2A])"
  by (induction fps dup rule: allow_loop.induct) (auto simp: Let_def split: if_splits)

text \<open>What holds of the recorded paths of the keys holds of the rules made of them.\<close>

definition rules_ok :: "(u8 list \<Rightarrow> bool) \<Rightarrow> (u8 list \<Rightarrow> bool) \<Rightarrow> rules_state \<Rightarrow> bool" where
  "rules_ok Q P st \<longleftrightarrow> set (fst st) \<subseteq> {[0x2F]} \<and>
     (\<forall>(f, r) \<in> set (fst (snd st)). live_file f \<and> Q f \<and> (fr_execute r \<or> fr_library r \<longrightarrow> P f))"

lemma set_AList_update: "x \<in> set (AList.update k v al) \<Longrightarrow> x = (k, v) \<or> x \<in> set al"
  by (induction al) (auto split: if_splits)

lemma processDeletedFiles_cases:
  "processDeletedFiles f rw = (d, rw') \<Longrightarrow> set rw' \<subseteq> insert [0x2F] (set rw) \<and> (\<not> d \<longrightarrow> live_file f)"
  by (auto simp: processDeletedFiles_def live_file_def split: if_splits)

lemma process_file_ok:
  assumes "rules_ok Q P st" "map_of files f = Some a" "Q f" "fa_spawn a \<or> fa_exec a \<longrightarrow> P f"
  shows "rules_ok Q P (process_file b files f st)"
proof -
  obtain rw rules n where st: "st = (rw, rules, n)" by (cases st)
  obtain d rw' where d: "processDeletedFiles f rw = (d, rw')" by force
  note cases = processDeletedFiles_cases [OF d]
  have rw: "set rw' \<subseteq> {[0x2F]}" using assms(1) cases by (auto simp: rules_ok_def st)
  have old: "rules_ok Q P (rw', rules, n)" using assms(1) rw by (simp add: rules_ok_def st)
  have cls: "fr_execute (classifyFileAccess b f a) \<or> fr_library (classifyFileAccess b f a) \<longrightarrow> P f"
    using assms(4) by (simp add: classifyFileAccess_def Let_def no_rule_def)
  have "rules_ok Q P (rw', AList.update f (merge_rules m (classifyFileAccess b f a)) rules, n')"
    if "\<not> d" "m = (case map_of rules f of None \<Rightarrow> no_rule | Some m \<Rightarrow> m)" for m n'
  proof -
    have "fr_execute m \<or> fr_library m \<longrightarrow> P f"
      using that(2) old by (auto simp: rules_ok_def no_rule_def dest!: map_of_SomeD split: option.splits)
    then have "fr_execute r \<or> fr_library r \<longrightarrow> P f" if "r = merge_rules m (classifyFileAccess b f a)" for r
      using that cls by (auto simp: merge_rules_def)
    then show ?thesis
      using old assms(3) cases that(1) unfolding rules_ok_def by (auto dest!: set_AList_update)
  qed
  then show ?thesis using old assms(2) by (auto simp: process_file_def st d Let_def)
qed

lemma process_key_ok:
  assumes "rules_ok Q P st"
    and "\<And>files f a. ar_recordedFiles b k = Some files \<Longrightarrow> map_of files f = Some a \<Longrightarrow> Q f \<and> (fa_spawn a \<or> fa_exec a \<longrightarrow> P f)"
  shows "rules_ok Q P (process_key b k st)"
proof (cases "ar_recordedFiles b k")
  case (Some files)
  have "rules_ok Q P (fold (process_file b files) ns st)" if "set ns \<subseteq> fst ` set files" for ns
    using that assms(1)
  proof (induction ns arbitrary: st)
    case (Cons f ns)
    then obtain a where "map_of files f = Some a" by (auto simp: weak_map_of_SomeI dest: weak_map_of_SomeI)
    then have "rules_ok Q P (process_file b files f st)"
      using Cons.prems(2) assms(2) [OF Some, of f a] by (intro process_file_ok) auto
    then show ?case using Cons.IH Cons.prems(1) by simp
  qed simp
  then show ?thesis by (simp add: process_key_def Some)
qed (simp add: process_key_def assms(1))

lemma process_keys_ok:
  assumes "\<And>k files f a. k \<in> set keys \<Longrightarrow> ar_recordedFiles b k = Some files \<Longrightarrow> map_of files f = Some a \<Longrightarrow>
    Q f \<and> (fa_spawn a \<or> fa_exec a \<longrightarrow> P f)"
  shows "rules_ok Q P (fold (process_key b) keys ([], [], 0))"
proof -
  have "rules_ok Q P (fold (process_key b) ks st)" if "set ks \<subseteq> set keys" "rules_ok Q P st" for ks st
    using that
  proof (induction ks arbitrary: st)
    case (Cons k ks)
    have "rules_ok Q P (process_key b k st)" using Cons.prems assms by (intro process_key_ok) auto
    then show ?case using Cons by simp
  qed simp
  moreover have "rules_ok Q P ([], [], 0)" by (simp add: rules_ok_def)
  ultimately show ?thesis by blast
qed

lemma profile_paths:
  assumes "\<And>k files f a. k \<in> set keys \<Longrightarrow> ar_recordedFiles b k = Some files \<Longrightarrow> map_of files f = Some a \<Longrightarrow>
      normalized f \<and> (fa_spawn a \<or> fa_exec a \<longrightarrow> P f)"
    and "R = FileProcessed (fst (GetAppArmorProcessed b keys))"
  shows "\<forall>f \<in> set (AllowedExecutables R) \<union> set (AllowedLibraries R). strict f \<and> P f"
    "\<forall>f \<in> set (ReadOnlyPaths R) \<union> set (WriteOnlyPaths R) \<union> set (ReadWritePaths R). strict f"
proof -
  obtain rw rules n where st: "fold (process_key b) keys ([], [], 0) = (rw, rules, n)" by (cases rule: prod_cases3)
  have R: "R = fst (processExecFsEvents b keys)" by (simp add: assms(2) GetAppArmorProcessed_def case_prod_beta)
  have "rules_ok normalized P (rw, rules, n)" using process_keys_ok [of keys b normalized P] assms(1) st by simp
  then have rw: "set rw \<subseteq> {[0x2F]}" and rules: "\<And>f r. (f, r) \<in> set rules \<Longrightarrow> strict f \<and> (fr_execute r \<or> fr_library r \<longrightarrow> P f)"
    using normalized_strict by (auto simp: rules_ok_def normalized_def)
  have root: "strict [0x2F]" by (simp add: strict_iff)
  show "\<forall>f \<in> set (AllowedExecutables R) \<union> set (AllowedLibraries R). strict f \<and> P f"
    using rules by (auto simp: R processExecFsEvents_def st rule_paths_def)
  have "strict f" if "f \<in> set (ReadWritePaths R)" for f
  proof -
    have "strict g" if "g \<in> set (remdups_adj (sort (rw @ rule_paths (\<lambda>r. fr_write r \<and> fr_readable r) rules)))" for g
      using that rw rules root by (auto simp: rule_paths_def)
    moreover have "f \<in> set (allowAnyFiles (remdups_adj (sort (rw @ rule_paths (\<lambda>r. fr_write r \<and> fr_readable r) rules))))"
      using that by (simp add: R processExecFsEvents_def st)
    ultimately show ?thesis unfolding allowAnyFiles_def using allow_loop_paths glob_strict by blast
  qed
  then show "\<forall>f \<in> set (ReadOnlyPaths R) \<union> set (WriteOnlyPaths R) \<union> set (ReadWritePaths R). strict f"
    using rules by (auto simp: R processExecFsEvents_def st rule_paths_def)
qed

section \<open>The validation of a recorded profile\<close>

lemma strict_no_ptrace: "strict p \<Longrightarrow> ptraceRule p = None"
proof -
  assume "strict p"
  then obtain q where "p = 0x2F # q" by (auto simp: strict_iff)
  then have "\<not> in_lang ptraceRuleRegex p" by (auto simp: ptraceRuleRegex_def lang_Seq_iff bytes_of_def)
  then show ?thesis by (simp add: ptraceRule_def MatchString_lang)
qed

lemma split_strict: "\<forall>p \<in> set (slice_list s). strict p \<Longrightarrow> splitPtraceRules s = (s, [])"
  by (cases s) (auto simp: splitPtraceRules_def slice_list_def strict_no_ptrace map_filter_def filter_id_conv)

lemma slice_list_sorted [simp]: "set (slice_list (sortedOrNil xs)) = set xs"
  by (simp add: sortedOrNil_def slice_list_def)

lemma capability_lower: "c \<in> set validCapabilities \<Longrightarrow> lower_trim uni c = c"
proof -
  have "list_all (\<lambda>c. list_all (\<lambda>x. x < 0x80) c \<and> map lower (trim c) = c) validCapabilities" by code_simp
  then show "c \<in> set validCapabilities \<Longrightarrow> lower_trim uni c = c" by (auto simp: list_all_iff lower_trim_def)
qed

lemma capability_valid: "0 \<le> n \<Longrightarrow> n \<le> 40 \<Longrightarrow> capabilityToString n \<in> set validCapabilities"
proof -
  have "length capabilities = 41" by (simp add: capabilities_def)
  moreover have "capabilities = validCapabilities" by (simp add: capabilities_def validCapabilities_def)
  moreover have "0 \<le> n \<Longrightarrow> n \<le> 40 \<Longrightarrow> nat n < 41" by simp
  ultimately show "0 \<le> n \<Longrightarrow> n \<le> 40 \<Longrightarrow> capabilityToString n \<in> set validCapabilities"
    by (simp add: capabilityToString_def)
qed

definition no_traversal :: "u8 list \<Rightarrow> bool" where
  "no_traversal p \<longleftrightarrow> \<not> contains (bytes_of ''/../'') p \<and> \<not> has_prefix (bytes_of ''/..'') p"

text \<open>The data of the template for strict paths.\<close>

lemma data_executable:
  "ad_Executable (newApparmorData uni name a) =
     map_option (\<lambda>x. \<lparr>xr_AllowedExecutables = fst (splitPtraceRules (xr_AllowedExecutables x)),
       xr_AllowedLibraries = fst (splitPtraceRules (xr_AllowedLibraries x))\<rparr>) (ab_Executable a)"
  by (cases "ab_Executable a") (simp_all add: newApparmorData_def Let_def case_prod_beta)

lemma data_filesystem:
  "ad_Filesystem (newApparmorData uni name a) =
     map_option (\<lambda>f. \<lparr>fs_ReadOnlyPaths = fst (splitPtraceRules (fs_ReadOnlyPaths f)),
       fs_WriteOnlyPaths = fst (splitPtraceRules (fs_WriteOnlyPaths f)),
       fs_ReadWritePaths = fst (splitPtraceRules (fs_ReadWritePaths f))\<rparr>) (ab_Filesystem a)"
  by (cases "ab_Filesystem a") (simp_all add: newApparmorData_def Let_def case_prod_beta)

definition strict_files :: "BpfAppArmorFileProcessed \<Rightarrow> bool" where
  "strict_files R \<longleftrightarrow>
     (\<forall>f \<in> set (AllowedExecutables R) \<union> set (AllowedLibraries R) \<union> set (ReadOnlyPaths R) \<union> set (WriteOnlyPaths R) \<union>
        set (ReadWritePaths R). strict f)"

lemma split_recorded:
  assumes "strict_files R" "g \<in> {AllowedExecutables, AllowedLibraries, ReadOnlyPaths, WriteOnlyPaths, ReadWritePaths}"
  shows "splitPtraceRules (sortedOrNil (g R)) = (sortedOrNil (g R), [])"
  using assms by (intro split_strict) (auto simp: strict_files_def)

abbreviation recorded_abstract :: "BpfAppArmorProcessed \<Rightarrow> AppArmorAbstract" where
  "recorded_abstract \<equiv> generateAppArmorProfileAbstract"

lemma recorded_executable:
  assumes "strict_files (FileProcessed P)"
  shows "ad_Executable (newApparmorData uni name (recorded_abstract P)) =
    (if AllowedExecutables (FileProcessed P) = [] \<and> AllowedLibraries (FileProcessed P) = [] then None
     else Some \<lparr>xr_AllowedExecutables = sortedOrNil (AllowedExecutables (FileProcessed P)),
       xr_AllowedLibraries = sortedOrNil (AllowedLibraries (FileProcessed P))\<rparr>)"
  by (simp add: data_executable generateAppArmorProfileAbstract_def AbstractFromRecording_def split_recorded [OF assms])

lemma recorded_filesystem:
  assumes "strict_files (FileProcessed P)"
  shows "ad_Filesystem (newApparmorData uni name (recorded_abstract P)) =
    (if ReadOnlyPaths (FileProcessed P) = [] \<and> WriteOnlyPaths (FileProcessed P) = [] \<and> ReadWritePaths (FileProcessed P) = [] then None
     else Some \<lparr>fs_ReadOnlyPaths = sortedOrNil (ReadOnlyPaths (FileProcessed P)),
       fs_WriteOnlyPaths = sortedOrNil (WriteOnlyPaths (FileProcessed P)),
       fs_ReadWritePaths = sortedOrNil (ReadWritePaths (FileProcessed P))\<rparr>)"
  by (simp add: data_filesystem generateAppArmorProfileAbstract_def AbstractFromRecording_def split_recorded [OF assms])

lemma recorded_capability:
  "ad_Capability (newApparmorData uni name (recorded_abstract P)) =
    (if Capabilities P = [] then None else Some \<lparr>cr_AllowedCapabilities = Some (map (lower_trim uni) (Capabilities P))\<rparr>)"
  by (simp add: newApparmorData_def Let_def case_prod_beta generateAppArmorProfileAbstract_def AbstractFromRecording_def
      normalizeCapabilities_def)

lemma recorded_ptrace:
  assumes "strict_files (FileProcessed P)"
  shows "ad_Ptrace (newApparmorData uni name (recorded_abstract P)) = []"
  by (simp add: newApparmorData_def Let_def generateAppArmorProfileAbstract_def AbstractFromRecording_def
      newPtraceRules_def sort_compact_def split_recorded [OF assms])

lemma recorded_validate:
  assumes "strict_files (FileProcessed P)" "\<forall>c \<in> set (Capabilities P). c \<in> set validCapabilities"
    and "name = [] \<or> MatchString profileNameChars name"
  shows "Validate uni (newApparmorData uni name (recorded_abstract P)) = None \<longleftrightarrow>
    (\<forall>f \<in> set (AllowedExecutables (FileProcessed P)) \<union> set (AllowedLibraries (FileProcessed P)). no_traversal f)"
proof -
  have "\<forall>f \<in> set (AllowedExecutables (FileProcessed P)) \<union> set (AllowedLibraries (FileProcessed P)).
      validateExecutableOrLibrary f = None \<longleftrightarrow> no_traversal f"
    using assms(1) by (auto simp: strict_files_def validateExecutableOrLibrary_def no_traversal_def)
  moreover have "\<forall>f \<in> set (ReadOnlyPaths (FileProcessed P)) \<union> set (WriteOnlyPaths (FileProcessed P)) \<union>
      set (ReadWritePaths (FileProcessed P)). validPath f = None"
    using assms(1) by (auto simp: strict_files_def validPath_def)
  moreover have "\<forall>c \<in> set (Capabilities P). validateCapability uni (lower_trim uni c) = None"
    using assms(2) by (auto simp: validateCapability_def capability_lower)
  ultimately show ?thesis
    using assms(3) unfolding Validate_def recorded_executable [OF assms(1)] recorded_filesystem [OF assms(1)]
      recorded_capability recorded_ptrace [OF assms(1)]
    by (simp add: first_error_None slice_list_def [of "Some _"] ball_Un) blast
qed

lemma observed_strict:
  assumes "observed programName b"
  shows "strict_files (FileProcessed (fst (GetAppArmorProcessed b keys)))"
proof -
  have "normalized f \<and> (fa_spawn a \<or> fa_exec a \<longrightarrow> True)"
    if "ar_recordedFiles b k = Some files" "map_of files f = Some a" for k files f a
    using observed_normalized [OF assms] that
    by (force simp: recorded_normalized_def all_normalized_def dest: map_of_SomeD)
  from profile_paths [of keys b "\<lambda>_. True", OF this refl] show ?thesis by (simp add: strict_files_def ball_Un)
qed

text \<open>
  (C19) A recorded profile passes the validation. Whatever events a recorder handled and however
  its data was cleared in between, the profile made of any keys is generated, with the single
  exception of executables and libraries whose path the validation takes for directory traversal,
  like an executable in a directory of the root whose name starts with two dots. Paths with any bytes
  in them, removed files, globs for directories and the variables of AppArmor are all accepted. The
  name of the profile has to be valid, and the recorded capabilities are ones that exist.
\<close>

theorem recorded_profile_accepted:
  assumes "observed programName b" "name = [] \<or> MatchString profileNameChars name"
    and "\<And>k caps c. k \<in> set keys \<Longrightarrow> ar_recordedCapabilities b k = Some caps \<Longrightarrow> c \<in> set caps \<Longrightarrow> 0 \<le> c \<and> c \<le> 40"
    and "P = fst (GetAppArmorProcessed b keys)"
  shows "(\<exists>profile. GenerateProfile uni name mode (Some (generateAppArmorProfileAbstract P)) = Inr profile) \<longleftrightarrow>
    (\<forall>f \<in> set (AllowedExecutables (FileProcessed P)) \<union> set (AllowedLibraries (FileProcessed P)). no_traversal f)"
proof -
  have "\<forall>c \<in> set (Capabilities P). c \<in> set validCapabilities"
    using assms(3) capability_valid
    by (simp add: assms(4) GetAppArmorProcessed_def processCapabilities_def case_prod_beta Let_def split: option.split) (metis imageE)
  from recorded_validate [OF _ this assms(2), of uni] observed_strict [OF assms(1), of keys]
  show ?thesis by (auto simp: assms(4) GenerateProfile_def Let_def split: option.splits)
qed

text \<open>Recording one access.\<close>

definition file_event :: "u64 \<Rightarrow> u64 \<Rightarrow> u8 list \<Rightarrow> u8 list" where
  "file_event key flags p =
     wire_header \<lparr>ev_pid = 1, ev_mntns = 7, ev_key = key, ev_type = EVENT_TYPE_APPARMOR_FILE, ev_flags = flags\<rparr> @ p @ [0]"

definition recorded_after :: "u64 \<Rightarrow> u64 \<Rightarrow> u8 list \<Rightarrow> AppArmorRecorder \<Rightarrow> AppArmorRecorder" where
  "recorded_after key flags p b = fst (handleEvent (file_event key flags p) (b, init_state))"

lemma recorded_after_files:
  assumes "has_prefix [0x2F] p" "key \<notin> ar_excluded b" "map_of (ar_normalizedPaths b) p = None"
    and "\<not> shouldExcludeFile n" "n = ReplaceVarianceInFilePath (sanitizeFilePath p)"
    and "card (ar_trackedKeys b) < maxTrackedKeys" "finite (ar_trackedKeys b)"
    and "files = (case ar_recordedFiles b key of None \<Rightarrow> [] | Some files \<Rightarrow> files)" "length files < maxTrackedPaths"
  shows "ar_recordedFiles (recorded_after key flags p b) = (ar_recordedFiles b)(key \<mapsto>
      AList.update n (merge_access flags (case map_of files n of None \<Rightarrow> no_access | Some a \<Rightarrow> a)) files)"
    "ar_excluded (recorded_after key flags p b) = ar_excluded b"
    "ar_normalizedPaths (recorded_after key flags p b) =
       (p, \<lparr>np_path = n, np_excluded = False\<rparr>) # (if length (ar_normalizedPaths b) \<ge> maxNormalizedPaths then [] else ar_normalizedPaths b)"
    "ar_trackedKeys (recorded_after key flags p b) = insert key (ar_trackedKeys b)"
    "ar_recordedCapabilities (recorded_after key flags p b) = ar_recordedCapabilities b"
    "ar_recordedSocketsUse (recorded_after key flags p b) = ar_recordedSocketsUse b"
    "ar_programName (recorded_after key flags p b) = ar_programName b"
  using assms
  by (simp_all add: recorded_after_def file_event_def handleEvent_def unmarshal_def
      handleFileEvent_def isExcluded_def normalizePath_def trackKey_def record_file_def Let_def insert_absorb)

lemma merge_no_rule [simp]: "merge_rules no_rule r = r"
  by (simp add: merge_rules_def no_rule_def)

lemma update_fresh: "k \<notin> fst ` set al \<Longrightarrow> AList.update k v al = al @ [(k, v)]"
  by (induction al) auto

lemma process_new_files:
  assumes "\<And>f a. (f, a) \<in> set new \<Longrightarrow> map_of files f = Some a \<and> live_file f" "distinct (map fst new)"
    and "fst ` set rules \<inter> fst ` set new = {}" "n + sum_list (map (length \<circ> fst) new) \<le> maxProfilePathBytes"
  shows "fold (process_file b files) (map fst new) (rw, rules, n) =
    (rw, rules @ map (\<lambda>(f, a). (f, classifyFileAccess b f a)) new, n + sum_list (map (length \<circ> fst) new))"
  using assms
proof (induction new arbitrary: rules n)
  case (Cons x new)
  obtain f a where x: "x = (f, a)" by (cases x)
  have f: "map_of files f = Some a" "live_file f" "f \<notin> fst ` set rules" "map_of rules f = None"
    using Cons.prems(1,3) by (auto simp: x map_of_eq_None_iff)
  have "process_file b files f (rw, rules, n) = (rw, rules @ [(f, classifyFileAccess b f a)], n + length f)"
    using f Cons.prems(4) by (simp add: process_file_def deleted_live x update_fresh)
  moreover have "map_of files g = Some c \<and> live_file g" if "(g, c) \<in> set new" for g c
    using Cons.prems(1) [of g c] that by simp
  then have "fold (process_file b files) (map fst new) (rw, rules @ [(f, classifyFileAccess b f a)], n + length f) =
      (rw, (rules @ [(f, classifyFileAccess b f a)]) @ map (\<lambda>(f, a). (f, classifyFileAccess b f a)) new,
       n + length f + sum_list (map (length \<circ> fst) new))"
    by (rule Cons.IH) (use Cons.prems in \<open>auto simp: x\<close>)
  ultimately show ?case by (simp add: x comp_def)
qed simp

lemma process_one_key:
  assumes "ar_recordedFiles b k = Some files" "sort (map fst files) = map fst files" "distinct (map fst files)"
    and "list_all (live_file \<circ> fst) files" "sum_list (map (length \<circ> fst) files) \<le> maxProfilePathBytes"
  shows "fst (snd (fold (process_key b) [k] ([], [], 0))) = map (\<lambda>(f, a). (f, classifyFileAccess b f a)) files"
    "fst (fold (process_key b) [k] ([], [], 0)) = []"
  using process_new_files [of files files "[]" 0 b "[]"] assms by (force simp: process_key_def list_all_iff)+

theorem recorded_profile_accepted_witness:
  "let b = recorded_after 1 8 (bytes_of ''/opt/a:b'') (newAppArmorRecorder []);
       P = fst (GetAppArmorProcessed b [1])
   in AllowedExecutables (FileProcessed P) = [bytes_of ''/opt/a?b''] \<and>
      (\<exists>profile. GenerateProfile id (bytes_of ''web'') AppArmorModeEnforce (Some (generateAppArmorProfileAbstract P)) = Inr profile)"
proof -
  let ?p = "bytes_of ''/opt/a:b''" and ?n = "bytes_of ''/opt/a?b''" and ?new = "newAppArmorRecorder []"
  let ?b = "recorded_after 1 8 ?p ?new"
  have n: "has_prefix [0x2F] ?p" "\<not> shouldExcludeFile ?n" "?n = ReplaceVarianceInFilePath (sanitizeFilePath ?p)"
    "live_file ?n" "no_traversal ?n" "MatchString profileNameChars (bytes_of ''web'')" "length ?n = 8"
    by code_simp+
  have "0 < maxTrackedKeys" "0 < maxTrackedPaths" "8 \<le> maxProfilePathBytes"
    by (simp_all add: maxTrackedKeys_def maxTrackedPaths_def maxProfilePathBytes_def)
  then have files: "ar_recordedFiles ?b = [1 \<mapsto> [(?n, merge_access 8 no_access)]]" "ar_recordedCapabilities ?b = Map.empty"
    using recorded_after_files [of ?p 1 ?new ?n "[]" 8] n by (simp_all add: newAppArmorRecorder_def)
  have "fa_spawn (merge_access 8 no_access)" by (simp add: merge_access_def)
  then have cls: "classifyFileAccess ?b ?n (merge_access 8 no_access) = no_rule\<lparr>fr_execute := True\<rparr>"
    by (simp add: classifyFileAccess_def Let_def)
  let ?P = "fst (GetAppArmorProcessed ?b [1])"
  have ex: "AllowedExecutables (FileProcessed ?P) = [?n]" "AllowedLibraries (FileProcessed ?P) = []"
    using process_one_key [of ?b 1 "[(?n, merge_access 8 no_access)]"] files(1) n(4,7) \<open>8 \<le> maxProfilePathBytes\<close> cls
    by (simp_all add: GetAppArmorProcessed_def processExecFsEvents_def case_prod_beta rule_paths_def no_rule_def)
  have "observed [] (?new\<lparr>ar_loaded := False\<rparr>)" by (rule observed_new)
  then have "observed [] ?new" by (simp add: newAppArmorRecorder_def)
  then have "observed [] ?b" unfolding recorded_after_def by (rule observed_event)
  from recorded_profile_accepted [OF this, of "bytes_of ''web''" "[1]" ?P id AppArmorModeEnforce] show ?thesis
    using files(2) n ex by (simp add: Let_def)
qed

end
