(* ===== verification/Permitted_Access.thy ===== *)
theory Permitted_Access
  imports Recorded_Profile
begin

text \<open>
  What a generated profile permits. AppArmor permits an access if a rule grants it and no rule
  denies it. A glob matcher with the documented meaning of the characters is a parameter.
\<close>

section \<open>Rules that grant and rules that deny\<close>

definition granted :: "(u8 list \<Rightarrow> u8 list \<Rightarrow> bool) \<Rightarrow> statement list \<Rightarrow> u8 \<Rightarrow> u8 list \<Rightarrow> bool" where
  "granted covers sts m p \<longleftrightarrow> (\<exists>r perms. File False r perms \<in> set sts \<and> m \<in> set perms \<and> covers r p)"

definition denied :: "(u8 list \<Rightarrow> u8 list \<Rightarrow> bool) \<Rightarrow> statement list \<Rightarrow> u8 \<Rightarrow> u8 list \<Rightarrow> bool" where
  "denied covers sts m p \<longleftrightarrow> (\<exists>r perms. File True r perms \<in> set sts \<and> m \<in> set perms \<and> covers r p)"

definition permits :: "(u8 list \<Rightarrow> u8 list \<Rightarrow> bool) \<Rightarrow> statement list \<Rightarrow> u8 \<Rightarrow> u8 list \<Rightarrow> bool" where
  "permits covers sts m p \<longleftrightarrow> granted covers sts m p \<and> \<not> denied covers sts m p"

abbreviation (input) perm_r :: u8 where "perm_r \<equiv> 0x72"
abbreviation (input) perm_w :: u8 where "perm_w \<equiv> 0x77"
abbreviation (input) perm_x :: u8 where "perm_x \<equiv> 0x78"
abbreviation (input) perm_m :: u8 where "perm_m \<equiv> 0x6D"

section \<open>The statements of a recorded profile\<close>

lemma file_statements_mem:
  "File d r q \<in> set (file_statements d' perms ps) \<longleftrightarrow> d = d' \<and> q = bytes_of perms \<and> r \<in> set (slice_list ps)"
  by (auto simp: file_statements_def)

lemma recorded_statements:
  assumes "GenerateProfile uni name mode (Some (recorded_abstract P)) = Inr profile" "strict_files (FileProcessed P)"
    and "lower_stable uni"
  shows "statements profile = profile_statements (mode = AppArmorModeComplain) (allow_mount uni (recorded_abstract P))
      (newApparmorData uni name (recorded_abstract P))"
    "executable_statements (newApparmorData uni name (recorded_abstract P)) =
       file_statements False ''ixr'' (sortedOrNil (AllowedExecutables (FileProcessed P))) @
       file_statements False ''mr'' (sortedOrNil (AllowedLibraries (FileProcessed P)))"
    "filesystem_statements c (newApparmorData uni name (recorded_abstract P)) =
       file_statements False ''r'' (sortedOrNil (ReadOnlyPaths (FileProcessed P))) @
       (if c then [] else file_statements True ''wlk'' (sortedOrNil (ReadOnlyPaths (FileProcessed P)))) @
       file_statements False ''wlk'' (sortedOrNil (WriteOnlyPaths (FileProcessed P))) @
       (if c then [] else file_statements True ''r'' (sortedOrNil (WriteOnlyPaths (FileProcessed P)))) @
       file_statements False ''rwlk'' (sortedOrNil (ReadWritePaths (FileProcessed P)))"
  using generated_statements [OF assms(1,3)]
  by (auto simp: executable_statements_def filesystem_statements_def recorded_executable [OF assms(2)]
      recorded_filesystem [OF assms(2)] sortedOrNil_def file_statements_def slice_list_def)

lemma granted_lists:
  assumes "GenerateProfile uni name mode (Some (recorded_abstract P)) = Inr profile" "strict_files (FileProcessed P)"
    and "lower_stable uni"
  shows "f \<in> set (AllowedExecutables (FileProcessed P)) \<Longrightarrow> File False f (bytes_of ''ixr'') \<in> set (statements profile)"
    "f \<in> set (AllowedLibraries (FileProcessed P)) \<Longrightarrow> File False f (bytes_of ''mr'') \<in> set (statements profile)"
    "f \<in> set (ReadOnlyPaths (FileProcessed P)) \<Longrightarrow> File False f (bytes_of ''r'') \<in> set (statements profile)"
    "f \<in> set (WriteOnlyPaths (FileProcessed P)) \<Longrightarrow> File False f (bytes_of ''wlk'') \<in> set (statements profile)"
    "f \<in> set (ReadWritePaths (FileProcessed P)) \<Longrightarrow> File False f (bytes_of ''rwlk'') \<in> set (statements profile)"
  unfolding recorded_statements(1) [OF assms] profile_statements_def recorded_statements(2,3) [OF assms]
  by (simp_all add: file_statements_mem)

lemma no_File_True:
  "File True r q \<notin> set (network_statements c d)" "File True r q \<notin> set (capability_statements d)"
  "File True r q \<notin> set (file_statements False perms ps)"
  by (auto simp: network_statements_def capability_statements_def file_statements_def split: option.splits if_splits)

lemma denied_lists:
  assumes "GenerateProfile uni name mode (Some (recorded_abstract P)) = Inr profile" "strict_files (FileProcessed P)"
    and "lower_stable uni"
    and "File True r q \<in> set (statements profile)"
  shows "mode \<noteq> AppArmorModeComplain \<and>
    (r \<in> set (ReadOnlyPaths (FileProcessed P)) \<and> q = bytes_of ''wlk'' \<or>
     r \<in> set (WriteOnlyPaths (FileProcessed P)) \<and> q = bytes_of ''r'' \<or> File True r q \<in> set default_statements)"
  using assms(4)
  unfolding recorded_statements(1) [OF assms(1-3)] profile_statements_def recorded_statements(2,3) [OF assms(1-3)]
  by (auto simp: file_statements_mem no_File_True split: if_splits)

section \<open>The rule of a recorded path\<close>

lemma process_file_distinct:
  "distinct (map fst (fst (snd st))) \<Longrightarrow> distinct (map fst (fst (snd (process_file b files f st))))"
  by (cases st) (auto simp: process_file_def Let_def distinct_update split: prod.split)

lemma process_keys_distinct:
  "distinct (map fst (fst (snd st))) \<Longrightarrow> distinct (map fst (fst (snd (fold (process_key b) keys st))))"
proof (induction keys arbitrary: st)
  case (Cons k keys)
  have "distinct (map fst (fst (snd (fold (process_file b files) ns st'))))"
    if "distinct (map fst (fst (snd st')))" for files ns st'
    using that by (induction ns arbitrary: st') (simp_all add: process_file_distinct)
  then have "distinct (map fst (fst (snd (process_key b k st))))"
    using Cons.prems by (simp add: process_key_def split: option.split)
  then show ?case using Cons.IH by simp
qed simp

lemma rule_paths_iff:
  assumes "distinct (map fst rules)" "map_of rules f = Some r"
  shows "f \<in> set (rule_paths P rules) \<longleftrightarrow> P r"
proof -
  have "(f, x) \<in> set rules \<longleftrightarrow> x = r" for x using assms by (metis map_of_eq_Some_iff option.inject)
  then show ?thesis by (auto simp: rule_paths_def image_iff)
qed

lemma recorded_rule:
  assumes "k \<in> set keys" "ar_recordedFiles b k = Some files" "map_of files f = Some a" "live_file f"
    and "sum_list (map (key_bytes b) keys) \<le> maxProfilePathBytes" "R = FileProcessed (fst (GetAppArmorProcessed b keys))"
  shows "\<exists>r. rule_le (classifyFileAccess b f a) r \<and>
    (f \<in> set (AllowedExecutables R) \<longleftrightarrow> fr_execute r) \<and>
    (f \<in> set (AllowedLibraries R) \<longleftrightarrow> \<not> fr_execute r \<and> fr_library r) \<and>
    (f \<in> set (ReadOnlyPaths R) \<longleftrightarrow> \<not> fr_write r \<and> fr_read r \<and> \<not> fr_execute r \<and> \<not> fr_library r) \<and>
    (f \<in> set (WriteOnlyPaths R) \<longleftrightarrow> fr_write r \<and> \<not> fr_readable r) \<and>
    (fr_write r \<and> fr_readable r \<longrightarrow> path_or_dir f (ReadWritePaths R))"
proof -
  obtain rw rules n where st: "fold (process_key b) keys ([], [], 0) = (rw, rules, n)" by (cases rule: prod_cases3)
  have R: "R = fst (processExecFsEvents b keys)" by (simp add: assms(6) GetAppArmorProcessed_def case_prod_beta)
  have "has_rule f (classifyFileAccess b f a) (fold (process_key b) keys ([], [], 0))"
    using assms by (intro fold_key_adds [OF assms(4,2,3,1)]) simp
  then obtain r where r: "map_of rules f = Some r" "rule_le (classifyFileAccess b f a) r"
    by (auto simp: has_rule_def st)
  have "distinct (map fst rules)" using process_keys_distinct [of "([], [], 0)" b keys] st by simp
  note mem = rule_paths_iff [OF this r(1)]
  have "path_or_dir f (ReadWritePaths R)" if "fr_write r \<and> fr_readable r"
    using allowAnyFiles_covers [of f "remdups_adj (sort (rw @ rule_paths (\<lambda>r. fr_write r \<and> fr_readable r) rules))"]
      mem [of "\<lambda>r. fr_write r \<and> fr_readable r"] that
    by (simp add: R st processExecFsEvents_def path_or_dir_def)
  then show ?thesis using r(2) mem by (intro exI [of _ r]) (simp add: R st processExecFsEvents_def)
qed

section \<open>Recorded accesses\<close>

text \<open>
  A permission the text gives to a path recorded as \<open>f\<close>: a rule grants it, and what may deny it is
  in enforcing mode the rule of another path, or one of the fixed rules of the template.
\<close>

definition gives :: "(u8 list \<Rightarrow> u8 list \<Rightarrow> bool) \<Rightarrow> AppArmorMode \<Rightarrow> statement list \<Rightarrow> u8 list \<Rightarrow> u8 list \<Rightarrow> u8 \<Rightarrow> bool" where
  "gives covers mode sts f p m \<longleftrightarrow> granted covers sts m p \<and>
     (\<forall>r q. File True r q \<in> set sts \<longrightarrow> m \<in> set q \<longrightarrow>
        mode \<noteq> AppArmorModeComplain \<and> (r \<noteq> f \<or> File True r q \<in> set default_statements))"

lemma gives_complain: "gives covers AppArmorModeComplain sts f p m \<Longrightarrow> permits covers sts m p"
  by (auto simp: gives_def permits_def denied_def)

text \<open>What the lists with a rule \<open>r\<close> of a path give to the files it matches.\<close>

lemma rule_gives:
  assumes "GenerateProfile uni name mode (Some (generateAppArmorProfileAbstract P)) = Inr profile"
    and "strict_files (FileProcessed P)" "lower_stable uni"
    and lists: "f \<in> set (AllowedExecutables (FileProcessed P)) \<longleftrightarrow> fr_execute r"
      "f \<in> set (AllowedLibraries (FileProcessed P)) \<longleftrightarrow> \<not> fr_execute r \<and> fr_library r"
      "f \<in> set (ReadOnlyPaths (FileProcessed P)) \<longleftrightarrow> \<not> fr_write r \<and> fr_read r \<and> \<not> fr_execute r \<and> \<not> fr_library r"
      "f \<in> set (WriteOnlyPaths (FileProcessed P)) \<longleftrightarrow> fr_write r \<and> \<not> fr_readable r"
      "fr_write r \<and> fr_readable r \<longrightarrow> path_or_dir f (ReadWritePaths (FileProcessed P))"
    and "covers f p" "covers (path_join (path_dir f) [0x2A]) p"
  shows "fr_execute r \<Longrightarrow> gives covers mode (statements profile) f p perm_x \<and> gives covers mode (statements profile) f p perm_r"
    and "\<not> fr_execute r \<Longrightarrow> fr_library r \<Longrightarrow> gives covers mode (statements profile) f p perm_m"
    and "fr_write r \<Longrightarrow> gives covers mode (statements profile) f p perm_w"
    and "fr_read r \<Longrightarrow> gives covers mode (statements profile) f p perm_r"
proof -
  note grants = granted_lists [OF assms(1-3)] and denies = denied_lists [OF assms(1-3)]
  have deny: "mode \<noteq> AppArmorModeComplain \<and> (d \<noteq> f \<or> File True d q \<in> set default_statements)"
    if "File True d q \<in> set (statements profile)" "m \<in> set q" "m \<in> {perm_r, perm_w, perm_x, perm_m}"
      "m = perm_w \<longrightarrow> fr_write r" "m = perm_r \<longrightarrow> fr_readable r" for d q m
    using denies [OF that(1)] that(2-5) lists(3,4) by (auto simp: bytes_of_def)
  have give: "gives covers mode (statements profile) f p m"
    if "File False g q \<in> set (statements profile)" "m \<in> set q" "covers g p" "m \<in> {perm_r, perm_w, perm_x, perm_m}"
      "m = perm_w \<longrightarrow> fr_write r" "m = perm_r \<longrightarrow> fr_readable r" for g q m
    unfolding gives_def granted_def using that deny [of _ _ m] by blast
  have x: "gives covers mode (statements profile) f p perm_x" "gives covers mode (statements profile) f p perm_r" if "fr_execute r"
    using give [OF grants(1) _ assms(9)] that lists(1) by (simp_all add: bytes_of_def fr_readable_def)
  have l: "gives covers mode (statements profile) f p perm_m" "gives covers mode (statements profile) f p perm_r"
    if "\<not> fr_execute r" "fr_library r"
    using give [OF grants(2) _ assms(9)] that lists(2) by (simp_all add: bytes_of_def fr_readable_def)
  have rw: "\<exists>g. g \<in> set (ReadWritePaths (FileProcessed P)) \<and> covers g p" if "fr_write r" "fr_readable r"
    using lists(5) that assms(9,10) by (auto simp: path_or_dir_def)
  have w: "gives covers mode (statements profile) f p perm_w" if "fr_write r"
  proof (cases "fr_readable r")
    case True
    then obtain g where "g \<in> set (ReadWritePaths (FileProcessed P))" "covers g p" using rw \<open>fr_write r\<close> by blast
    from give [OF grants(5) [OF this(1)] _ this(2), of perm_w] show ?thesis using that by (simp add: bytes_of_def)
  next
    case False
    then show ?thesis using give [OF grants(4) _ assms(9), of perm_w] that lists(4) by (simp add: bytes_of_def)
  qed
  have rd: "gives covers mode (statements profile) f p perm_r" if "fr_read r"
  proof (cases "fr_execute r \<or> fr_library r")
    case True
    then show ?thesis using x l by blast
  next
    case False
    have ok: "fr_readable r" using that by (simp add: fr_readable_def)
    show ?thesis
    proof (cases "fr_write r")
      case True
      then obtain g where "g \<in> set (ReadWritePaths (FileProcessed P))" "covers g p" using rw ok by blast
      from give [OF grants(5) [OF this(1)] _ this(2), of perm_r] show ?thesis using ok by (simp add: bytes_of_def)
    next
      case no_write: False
      then show ?thesis using give [OF grants(3) _ assms(9), of perm_r] that False ok lists(3) by (simp add: bytes_of_def)
    qed
  qed
  show "fr_execute r \<Longrightarrow> gives covers mode (statements profile) f p perm_x \<and> gives covers mode (statements profile) f p perm_r"
    "\<not> fr_execute r \<Longrightarrow> fr_library r \<Longrightarrow> gives covers mode (statements profile) f p perm_m"
    "fr_write r \<Longrightarrow> gives covers mode (statements profile) f p perm_w"
    "fr_read r \<Longrightarrow> gives covers mode (statements profile) f p perm_r"
    using x l w rd by blast+
qed



section \<open>A recorded access that is denied\<close>

text \<open>A workload that read \<^verbatim>\<open>/d/1234567\<close> and wrote \<^verbatim>\<open>/d/out\<close>.\<close>

definition mixed_recorder :: AppArmorRecorder where
  "mixed_recorder = recorded_after 1 2 (bytes_of ''/d/out'') (recorded_after 1 1 (bytes_of ''/d/1234567'') (newAppArmorRecorder []))"

lemma mixed_processed:
  "let P = fst (GetAppArmorProcessed mixed_recorder [1]) in
   ReadOnlyPaths (FileProcessed P) = [bytes_of ''/d/*''] \<and> WriteOnlyPaths (FileProcessed P) = [bytes_of ''/d/out''] \<and>
   AllowedExecutables (FileProcessed P) = [] \<and> AllowedLibraries (FileProcessed P) = [] \<and> Capabilities P = []"
proof -
  let ?p1 = "bytes_of ''/d/1234567''" and ?p2 = "bytes_of ''/d/out''" and ?n1 = "bytes_of ''/d/*''" and ?new = "newAppArmorRecorder []"
  let ?b1 = "recorded_after 1 1 ?p1 ?new"
  let ?r = "merge_access 1 no_access" and ?w = "merge_access 2 no_access"
  have n: "has_prefix [0x2F] ?p1" "\<not> shouldExcludeFile ?n1" "?n1 = ReplaceVarianceInFilePath (sanitizeFilePath ?p1)"
    "has_prefix [0x2F] ?p2" "\<not> shouldExcludeFile ?p2" "?p2 = ReplaceVarianceInFilePath (sanitizeFilePath ?p2)"
    "live_file ?n1" "live_file ?p2" "length ?n1 = 4" "length ?p2 = 6" "?n1 \<noteq> ?p2" "?p2 \<noteq> ?p1" "sort [?n1, ?p2] = [?n1, ?p2]"
    by code_simp+
  have known: "\<not> isKnownFile f knownReadPrefixes" "\<not> isKnownFile f knownLibrariesPrefixes" "\<not> isKnownFile f knownWritePrefixes"
    "f \<noteq> sanitizeFilePath []" if "f \<in> {?n1, ?p2}" for f
    using that by (auto; code_simp)+
  have small: "1 < maxTrackedKeys" "1 < maxTrackedPaths" "10 \<le> maxProfilePathBytes" "1 < maxNormalizedPaths"
    by (simp_all add: maxTrackedKeys_def maxTrackedPaths_def maxProfilePathBytes_def maxNormalizedPaths_def)
  note b1 = recorded_after_files [of ?p1 1 ?new ?n1 "[]" 1]
  have "ar_recordedFiles ?b1 = [1 \<mapsto> [(?n1, ?r)]]" "ar_excluded ?b1 = {}" "ar_recordedCapabilities ?b1 = Map.empty"
    "ar_normalizedPaths ?b1 = [(?p1, \<lparr>np_path = ?n1, np_excluded = False\<rparr>)]" "ar_trackedKeys ?b1 = {1}"
    "ar_programName ?b1 = sanitizeFilePath []"
    using b1 n small by (simp_all add: newAppArmorRecorder_def)
  then have files: "ar_recordedFiles mixed_recorder = [1 \<mapsto> [(?n1, ?r), (?p2, ?w)]]"
    "ar_recordedCapabilities mixed_recorder = Map.empty" "ar_programName mixed_recorder = sanitizeFilePath []"
    using recorded_after_files [of ?p2 1 ?b1 ?p2 "[(?n1, ?r)]" 2] n small by (simp_all add: mixed_recorder_def)
  have "classifyFileAccess mixed_recorder ?n1 ?r = no_rule\<lparr>fr_read := True\<rparr>"
    "classifyFileAccess mixed_recorder ?p2 ?w = no_rule\<lparr>fr_write := True\<rparr>"
    using known files(3) by (simp_all add: classifyFileAccess_def Let_def no_rule_def merge_access_def no_access_def)
  then show ?thesis
    using process_one_key [of mixed_recorder 1 "[(?n1, ?r), (?p2, ?w)]"] files n(7-13) small(3)
    by (auto simp: Let_def GetAppArmorProcessed_def processExecFsEvents_def processCapabilities_def case_prod_beta
        rule_paths_def no_rule_def fr_readable_def)
qed

text \<open>
  (C37) In enforcing mode, the rule of one recorded path can deny the recorded access to another
  one. A long number in a path becomes a star, and a path that was only read gets a rule that
  denies writing. A workload that reads \<^verbatim>\<open>/d/1234567\<close> and writes \<^verbatim>\<open>/d/out\<close> therefore gets a
  profile that grants writing to \<^verbatim>\<open>/d/out\<close> and denies it by the rule of the number, whatever
  matcher AppArmor uses, as long as it has the documented meaning.
\<close>

theorem recorded_write_denied:
  assumes "path_glob covers process_number"
  shows "\<exists>profile. GenerateProfile id [] AppArmorModeEnforce
        (Some (generateAppArmorProfileAbstract (fst (GetAppArmorProcessed mixed_recorder [1])))) = Inr profile \<and>
      granted covers (statements profile) perm_w (bytes_of ''/d/out'') \<and>
      \<not> permits covers (statements profile) perm_w (bytes_of ''/d/out'')"
proof -
  let ?P = "fst (GetAppArmorProcessed mixed_recorder [1])"
  have lists: "ReadOnlyPaths (FileProcessed ?P) = [bytes_of ''/d/*'']" "WriteOnlyPaths (FileProcessed ?P) = [bytes_of ''/d/out'']"
    "AllowedExecutables (FileProcessed ?P) = []" "AllowedLibraries (FileProcessed ?P) = []" "Capabilities ?P = []"
    using mixed_processed by (simp_all add: Let_def)
  have "observed [] (newAppArmorRecorder [])"
    using observed_new [of "[]" False] by (simp add: newAppArmorRecorder_def)
  then have obs: "observed [] mixed_recorder"
    unfolding mixed_recorder_def recorded_after_def by (intro observed_event)
  note strict = observed_strict [OF obs, of "[1]"]
  have "Validate id (newApparmorData id [] (recorded_abstract ?P)) = None"
    using recorded_validate [OF strict, of "[]" id] lists by simp
  then obtain profile where g: "GenerateProfile id [] AppArmorModeEnforce (Some (recorded_abstract ?P)) = Inr profile"
    by (simp add: GenerateProfile_def Let_def)
  have stable: "lower_stable id" by (simp add: lower_stable_def lower_trim_def)
  note sts = recorded_statements [OF g strict stable]
  have deny: "File True (bytes_of ''/d/*'') (bytes_of ''wlk'') \<in> set (statements profile)"
    unfolding sts(1) profile_statements_def sts(3) by (simp add: file_statements_mem lists)
  have plain: "covers (bytes_of ''/d/'' @ r) (bytes_of ''/d/'' @ p)" "covers (bytes_of ''out'') (bytes_of ''out'')"
    if "covers r p" for r p
    using path_glob.plains_cover [OF assms, of "bytes_of ''/d/''" r p]
      path_glob.plains_cover [OF assms, of "bytes_of ''out''" "[]" "[]"] path_glob.covers_end [OF assms] that
    by (simp_all add: bytes_of_def isPlainPathByte_def between_def)
  have star: "covers [0x2A] (bytes_of ''out'')"
    using path_glob.covers_star [OF assms, of "bytes_of ''out''" "[]" "[]"] path_glob.covers_end [OF assms]
    by (simp add: bytes_of_def)
  have "covers (bytes_of ''/d/*'') (bytes_of ''/d/out'')" "covers (bytes_of ''/d/out'') (bytes_of ''/d/out'')"
    using plain(1) [OF star] plain(1) [OF plain(2) [OF star]] by (simp_all add: bytes_of_def)
  moreover have "perm_w \<in> set (bytes_of ''wlk'')" by (simp add: bytes_of_def)
  ultimately show ?thesis
    using g deny granted_lists(4) [OF g strict stable, of "bytes_of ''/d/out''"] lists(2)
    unfolding permits_def granted_def denied_def by (intro exI [of _ profile]) auto
qed

theorem recorded_write_denied_witness:
  "\<exists>profile. GenerateProfile id [] AppArmorModeEnforce
      (Some (generateAppArmorProfileAbstract (fst (GetAppArmorProcessed mixed_recorder [1])))) = Inr profile \<and>
    granted ref_covers (statements profile) perm_w (bytes_of ''/d/out'') \<and>
    \<not> permits ref_covers (statements profile) perm_w (bytes_of ''/d/out'')"
  by (rule recorded_write_denied [OF ref_glob.path_glob_axioms])

end
