(* ===== verification/Pid_Queue.thy ===== *)
theory Pid_Queue
  imports Recorder_System Pid_Handlers
begin

text \<open>
  The way of a new process from the BPF program to its handler in \<^verbatim>\<open>bpfrecorder.go\<close>. The BPF program
  reports a process once and marks it in \<^verbatim>\<open>active_pids\<close>. The event loop puts the event into a bounded
  queue, from which a fixed number of workers take it. If the queue is full, the event is dropped
  and the process remembered; a worker removes the marks of such processes once the queue is
  at most half full, so that the BPF program reports them again. Hooks, the event loop and the
  workers run interleaved.
\<close>

section \<open>The queue\<close>

record droppedPid =
  dp_pid :: u32
  dp_key :: u64

definition newPidQueueSize :: nat where
  "newPidQueueSize = 1024"

definition maxNewPidHandlers :: nat where
  "maxNewPidHandlers = 32"

definition eventTypeNewPid :: u8 where
  "eventTypeNewPid = 0"

definition pid_entry :: "u32 \<Rightarrow> u64 \<Rightarrow> pid_key" where
  "pid_entry pid key = \<lparr>pk_pid = pid, pk_pad = 0, pk_key = key\<rparr>"

text \<open>The result tells whether the process was neither queued nor remembered.\<close>

definition scheduleNewPidEvent ::
  "newPidEvent \<Rightarrow> newPidEvent list \<times> droppedPid list \<Rightarrow> bool \<times> newPidEvent list \<times> droppedPid list" where
  "scheduleNewPidEvent ev = (\<lambda>(newPidEvents, droppedPids).
     if length newPidEvents < newPidQueueSize then (False, newPidEvents @ [ev], droppedPids)
     else let d = \<lparr>dp_pid = np_pid ev, dp_key = np_key ev\<rparr>
          in if length droppedPids < newPidQueueSize then (False, newPidEvents, List.insert d droppedPids)
             else (d \<notin> set droppedPids, newPidEvents, droppedPids))"

text \<open>\<open>err\<close> tells the entries whose deletion fails for another reason than that they are missing.\<close>

definition DeleteActivePid :: "(droppedPid \<Rightarrow> bool) \<Rightarrow> droppedPid \<Rightarrow> rstate \<Rightarrow> rstate" where
  "DeleteActivePid err d s =
     (if err d then s else s\<lparr>active_pids := (active_pids s)(pid_entry (dp_pid d) (dp_key d) := None)\<rparr>)"

text \<open>
  A worker handles an event, looks at the length of the queue, takes the dropped processes over, and
  deletes their entries one by one.
\<close>

datatype worker =
    Handling newPidEvent
  | Looking
  | Taking
  | Deleting "droppedPid list"

text \<open>
  The last two fields are not part of the program: the marked processes a handler ran for, and those
  that are lost because the remembered processes are too many or because a deletion failed.
\<close>

record pid_queue =
  pq_maps :: rstate
  pq_newPidEvents :: "newPidEvent list"
  pq_droppedPids :: "droppedPid list"
  pq_workers :: "worker list"
  pq_handled :: "pid_key set"
  pq_missed :: "pid_key set"

definition marked :: "rstate \<Rightarrow> pid_key set" where
  "marked s = dom (active_pids s)"

definition with_maps :: "rstate \<Rightarrow> pid_queue \<Rightarrow> pid_queue" where
  "with_maps s q = q\<lparr>pq_maps := s, pq_handled := pq_handled q \<inter> marked s, pq_missed := pq_missed q \<inter> marked s\<rparr>"

definition drop_worker :: "nat \<Rightarrow> worker list \<Rightarrow> worker list" where
  "drop_worker i ws = take i ws @ drop (Suc i) ws"

definition deliver :: "u64 \<Rightarrow> nat \<Rightarrow> pid_queue \<Rightarrow> pid_queue" where
  "deliver generation seenAt q =
     (case events (pq_maps q) of
        [] \<Rightarrow> q
      | raw # rest \<Rightarrow>
          let q1 = q\<lparr>pq_maps := (pq_maps q)\<lparr>events := rest\<rparr>\<rparr>
          in case unmarshal raw of
               None \<Rightarrow> q1
             | Some e \<Rightarrow>
                 if Type e \<noteq> eventTypeNewPid then q1
                 else (case scheduleNewPidEvent \<lparr>np_pid = Pid e, np_mntns = Mntns e, np_key = Key e,
                              np_generation = generation, np_seenAt = seenAt\<rparr>
                            (pq_newPidEvents q1, pq_droppedPids q1) of
                         (lost, evs, dropped) \<Rightarrow>
                           q1\<lparr>pq_newPidEvents := evs, pq_droppedPids := dropped,
                              pq_missed := (if lost then insert (pid_entry (Pid e) (Key e)) (pq_missed q1) \<inter> marked (pq_maps q1)
                                            else pq_missed q1)\<rparr>))"

definition worker_step :: "(droppedPid \<Rightarrow> bool) \<Rightarrow> nat \<Rightarrow> pid_queue \<Rightarrow> pid_queue" where
  "worker_step err i q =
     (case pq_workers q ! i of
        Handling ev \<Rightarrow>
          q\<lparr>pq_workers := (pq_workers q)[i := Looking],
            pq_handled := insert (pid_entry (np_pid ev) (np_key ev)) (pq_handled q) \<inter> marked (pq_maps q)\<rparr>
      | Looking \<Rightarrow>
          if length (pq_newPidEvents q) > newPidQueueSize div 2 then q\<lparr>pq_workers := drop_worker i (pq_workers q)\<rparr>
          else q\<lparr>pq_workers := (pq_workers q)[i := Taking]\<rparr>
      | Taking \<Rightarrow> q\<lparr>pq_workers := (pq_workers q)[i := Deleting (pq_droppedPids q)], pq_droppedPids := []\<rparr>
      | Deleting [] \<Rightarrow> q\<lparr>pq_workers := drop_worker i (pq_workers q)\<rparr>
      | Deleting (d # ds) \<Rightarrow>
          let q1 = with_maps (DeleteActivePid err d (pq_maps q)) (q\<lparr>pq_workers := (pq_workers q)[i := Deleting ds]\<rparr>)
          in if err d then q1\<lparr>pq_missed := insert (pid_entry (dp_pid d) (dp_key d)) (pq_missed q1) \<inter> marked (pq_maps q1)\<rparr> else q1)"

text \<open>
  The steps of the event loop and of the workers, and all steps. \<open>clear\<close> stands for the other
  operations of the userspace on \<^verbatim>\<open>active_pids\<close>, like the end of a session, which only remove entries.
\<close>

inductive work_step :: "pid_queue \<Rightarrow> pid_queue \<Rightarrow> bool" where
  deliver: "events (pq_maps q) \<noteq> [] \<Longrightarrow> work_step q (deliver generation seenAt q)"
| take_event: "pq_newPidEvents q = ev # evs \<Longrightarrow> length (pq_workers q) < maxNewPidHandlers \<Longrightarrow>
    work_step q (q\<lparr>pq_newPidEvents := evs, pq_workers := pq_workers q @ [Handling ev]\<rparr>)"
| worker: "i < length (pq_workers q) \<Longrightarrow> work_step q (worker_step err i q)"

inductive pid_step :: "config \<Rightarrow> pid_queue \<Rightarrow> pid_queue \<Rightarrow> bool" for C where
  hook: "bpf_kernel K \<Longrightarrow> run_hook C K t h (pq_maps q) = Some (r, s) \<Longrightarrow> pid_step C q (with_maps s q)"
| clear: "events s = events (pq_maps q) \<Longrightarrow> marked s \<subseteq> marked (pq_maps q) \<Longrightarrow> pid_step C q (with_maps s q)"
| work: "work_step q q' \<Longrightarrow> pid_step C q q'"

definition pid_init :: "rstate \<Rightarrow> pid_queue" where
  "pid_init s = \<lparr>pq_maps = s, pq_newPidEvents = [], pq_droppedPids = [], pq_workers = [], pq_handled = {}, pq_missed = {}\<rparr>"

section \<open>What the hooks do\<close>

definition announces :: "pid_key \<Rightarrow> u8 list \<Rightarrow> bool" where
  "announces a raw \<longleftrightarrow>
     (case unmarshal raw of None \<Rightarrow> False | Some e \<Rightarrow> Type e = eventTypeNewPid \<and> a = pid_entry (Pid e) (Key e))"

text \<open>Every entry after a call was there before or has its record in the ring buffer.\<close>

definition reports_pids :: "rstate \<Rightarrow> rstate \<Rightarrow> bool" where
  "reports_pids s s' \<longleftrightarrow>
     (\<exists>new. events s' = events s @ new \<and> (\<forall>a \<in> marked s'. a \<in> marked s \<or> list_ex (announces a) new))"

lemma reports_refl [simp]: "reports_pids s s"
  by (simp add: reports_pids_def)

lemma reports_same: "events s' = events s \<Longrightarrow> active_pids s' = active_pids s \<Longrightarrow> reports_pids s s'"
  by (simp add: reports_pids_def marked_def)

lemma reports_trans: "reports_pids s s1 \<Longrightarrow> reports_pids s1 s2 \<Longrightarrow> reports_pids s s2"
  unfolding reports_pids_def
proof (elim exE conjE)
  fix new new'
  assume "events s1 = events s @ new" "events s2 = events s1 @ new'"
    "\<forall>a \<in> marked s1. a \<in> marked s \<or> list_ex (announces a) new"
    "\<forall>a \<in> marked s2. a \<in> marked s1 \<or> list_ex (announces a) new'"
  then show "\<exists>new. events s2 = events s @ new \<and> (\<forall>a \<in> marked s2. a \<in> marked s \<or> list_ex (announces a) new)"
    by (intro exI [of _ "new @ new'"]) auto
qed

lemma reports_upd [simp]:
  "reports_pids s (s'\<lparr>child_pids := b\<rparr>) = reports_pids s s'"
  "reports_pids s (s'\<lparr>recorded_syscalls := c\<rparr>) = reports_pids s s'" "reports_pids s (s'\<lparr>recorded_caps := d\<rparr>) = reports_pids s s'"
  "reports_pids s (s'\<lparr>recorded_sockets := d\<rparr>) = reports_pids s s'"
  "reports_pids s (s'\<lparr>seccomp_initialized := f\<rparr>) = reports_pids s s'"
  "reports_pids s (s'\<lparr>apparmor_initialized := f\<rparr>) = reports_pids s s'"
  "reports_pids s (s'\<lparr>is_recording_cached := g\<rparr>) = reports_pids s s'"
  by (simp_all add: reports_pids_def marked_def)

lemma reports_lost [simp]: "reports_pids s (count_lost r t s') = reports_pids s s'"
  by (simp add: reports_pids_def marked_def)

lemma reports_delete: "reports_pids s s' \<Longrightarrow> reports_pids s (s'\<lparr>active_pids := (active_pids s')(k := None)\<rparr>)"
  by (auto simp: reports_pids_def marked_def)

lemma reports_append: "reports_pids s s' \<Longrightarrow> reports_pids s (s'\<lparr>events := events s' @ new\<rparr>)"
  unfolding reports_pids_def marked_def by (force simp: list_ex_iff)

lemma reports_submit: "reports_pids s s' \<Longrightarrow> reports_pids s (snd (submit_event K t typ mntns key flags s'))"
  by (simp add: submit_event_def reports_append)

lemma announces_wire [simp]:
  "announces a (wire_header h) \<longleftrightarrow> ev_type h = eventTypeNewPid \<and> a = pid_entry (ev_pid h) (ev_key h)"
  using unmarshalHeader_wire [of h "[]"] by (simp add: announces_def unmarshal_def)

lemma reports_report:
  assumes "bpf_kernel K"
  shows "reports_pids s (snd (report_pid K t mntns key s))"
proof -
  let ?a = "active_key t key"
  let ?u = "upd_active_pids K (active_pids s) ?a 1 BPF_NOEXIST"
  let ?s1 = "s\<lparr>active_pids := snd ?u\<rparr>"
  have dom: "marked ?s1 \<subseteq> insert ?a (marked s)"
    using bpf_map.upd_dom [OF bpf_kernel.map_active_pids [OF assms]] by (simp add: marked_def)
  have "active_pids s ?a = None \<Longrightarrow> fst ?u \<noteq> 0 \<Longrightarrow> ?a \<notin> marked ?s1"
    using bpf_map.refused [OF bpf_kernel.map_active_pids [OF assms]] by (simp add: marked_def domIff)
  then have refused: "active_pids s ?a = None \<Longrightarrow> fst ?u \<noteq> 0 \<Longrightarrow> reports_pids s ?s1"
    using dom by (auto simp: reports_pids_def)
  show ?thesis
  proof (cases "rb_room K (events s) sizeof_event_header")
    case True
    have "reports_pids s (snd (submit_event K t EVENT_TYPE_NEWPID mntns key 0 ?s1))"
      using dom True unfolding reports_pids_def
      by (auto simp: submit_event_def marked_def active_key_def pid_entry_def eventTypeNewPid_def)
    then show ?thesis using refused True by (simp add: report_pid_def Let_def submit_status)
  next
    case False
    have "reports_pids s ((count_lost LOST_RINGBUF t ?s1)\<lparr>active_pids := snd (bpf_map_delete_elem (snd ?u) ?a)\<rparr>)"
      using dom by (auto simp: reports_pids_def marked_def bpf_map_delete_elem_def dom_def split: if_splits)
    then show ?thesis using refused False by (simp add: report_pid_def Let_def submit_event_lost)
  qed
qed

lemma reports_start: "reports_pids s (container_start C K t n args mntns key s)"
  by (auto simp: container_start_def clear_apparmor_def clear_seccomp_def Let_def intro!: reports_submit)

lemma reports_record: "reports_pids s (record_syscall K t mntns key n r s)"
  by (auto simp: record_syscall_def mark_syscall_def Let_def intro!: reports_submit split: option.split)

lemma reports_sys_enter:
  assumes "bpf_kernel K"
  shows "reports_pids s (snd (sys_enter C K t ctx s))"
proof (cases "syscall_relevant C K t ctx s")
  case True
  show ?thesis unfolding sys_enter_relevant [OF True] stage2_def snd_conv
    by (rule reports_trans [OF reports_trans [OF reports_report [OF assms] reports_start] reports_record])
next
  case False
  then show ?thesis by (auto simp: sys_enter_def syscall_relevant_def Let_def not_less reports_report [OF assms])
qed

lemma reports_hooks:
  "reports_pids s (snd (sys_enter_getgid s))" "reports_pids s (snd (sys_enter_socket C K t c s))"
  "reports_pids s (snd (sys_enter_execve C K t c s))" "reports_pids s (snd (sys_enter_execveat C K t c s))"
  "reports_pids s (snd (cap_capable C K t cap opt s))" "reports_pids s (snd (sched_process_exec C K t s))"
  "reports_pids s (snd (sched_process_exit C K t s))" "reports_pids s (snd (sched_process_fork C K fk s))"
  by (auto simp: sys_enter_getgid_def sys_enter_socket_def sys_enter_execve_def sys_enter_execveat_def submit_exec_event_def
      cap_capable_def sched_process_exec_def sched_process_exit_def sched_process_fork_def Let_def
      bpf_map_delete_elem_def intro!: reports_submit reports_append reports_delete split: option.split)

lemma locked_active:
  assumes "register_fs_event_locked C K t f i_mode flags custom mntns pid inode dev overlay event s = Some s'"
  shows "active_pids s' = active_pids s"
proof (cases "event_path K t f custom (ed_data event) s")
  case None
  then show ?thesis using assms by (auto simp: register_fs_event_locked_def split: if_splits)
next
  case (Some x)
  obtain pathlen data s1 where x: "x = (pathlen, data, s1)" by (cases x)
  obtain heap' where s1: "s1 = s\<lparr>buffer_heap_map := heap'\<rparr>" using event_path_state [OF Some [unfolded x]] by blast
  show ?thesis
    using assms Some unfolding register_fs_event_locked_def x s1
    by (auto simp: Let_def put_scratch_def split: if_splits option.splits)
qed

lemma register_fs_event_active:
  "register_fs_event C K t f i_mode flags custom s = Some (r, s') \<Longrightarrow> active_pids s' = active_pids s"
  by (auto simp: register_fs_event_def Let_def busy_add_def dest!: locked_active split: if_splits option.splits)

lemma file_hook_active: "run_file_hook C K t h s = Some (r, s') \<Longrightarrow> active_pids s' = active_pids s"
  by (cases h) (auto simp: file_hook_defs register_file_event_def Let_def dest: register_fs_event_active
      split: if_splits option.splits)

lemma reports_file_hook: "run_file_hook C K t h s = Some (r, s') \<Longrightarrow> reports_pids s s'"
  using file_hook_quiet file_hook_active unfolding reports_pids_def quiet_def marked_def by metis

lemma reports_run_hook:
  assumes "bpf_kernel K" "run_hook C K t h s = Some (r, s')"
  shows "reports_pids s s'"
proof -
  have snd: "x = (r, s') \<Longrightarrow> s' = snd x" for x by simp
  show ?thesis
    using assms(2) by (cases h) (auto dest!: snd simp: reports_sys_enter [OF assms(1)] reports_hooks dest: reports_file_hook)
qed

section \<open>No process is forgotten\<close>

text \<open>A process on its way: in the ring buffer, in the queue, with a worker, or remembered as dropped.\<close>

definition event_entry :: "newPidEvent \<Rightarrow> pid_key" where
  "event_entry ev = pid_entry (np_pid ev) (np_key ev)"

definition dropped_entry :: "droppedPid \<Rightarrow> pid_key" where
  "dropped_entry d = pid_entry (dp_pid d) (dp_key d)"

fun worker_entries :: "worker \<Rightarrow> pid_key set" where
  "worker_entries (Handling ev) = {event_entry ev}"
| "worker_entries (Deleting ds) = dropped_entry ` set ds"
| "worker_entries _ = {}"

definition pending :: "pid_queue \<Rightarrow> pid_key set" where
  "pending q = {a. list_ex (announces a) (events (pq_maps q))} \<union> event_entry ` set (pq_newPidEvents q) \<union>
     dropped_entry ` set (pq_droppedPids q) \<union> (\<Union>w \<in> set (pq_workers q). worker_entries w)"

fun will_take :: "worker \<Rightarrow> bool" where
  "will_take (Deleting _) = False"
| "will_take _ = True"

definition pid_inv :: "pid_queue \<Rightarrow> bool" where
  "pid_inv q \<longleftrightarrow> marked (pq_maps q) \<subseteq> pending q \<union> pq_handled q \<union> pq_missed q \<and>
     (pq_droppedPids q \<noteq> [] \<longrightarrow> pq_newPidEvents q \<noteq> [] \<or> list_ex will_take (pq_workers q))"

lemma set_workers:
  assumes "i < length ws"
  shows "set ws = insert (ws ! i) (set (drop_worker i ws))" "set (ws[i := x]) = insert x (set (drop_worker i ws))"
  using arg_cong [where f = set, OF id_take_nth_drop [OF assms]] upd_conv_take_nth_drop [OF assms, of x]
  by (auto simp: drop_worker_def)

lemma pid_inv_init: "active_pids s = Map.empty \<Longrightarrow> pid_inv (pid_init s)"
  by (simp add: pid_inv_def pid_init_def marked_def)

lemma pid_inv_maps:
  assumes "pid_inv q" "events s = events (pq_maps q) @ new" "\<forall>a \<in> marked s. a \<in> marked (pq_maps q) \<or> list_ex (announces a) new"
  shows "pid_inv (with_maps s q)"
  using assms unfolding pid_inv_def with_maps_def pending_def by auto

lemma schedule_entry:
  assumes "scheduleNewPidEvent ev (evs, dropped) = (lost, evs', dropped')"
  shows "\<not> lost \<Longrightarrow> event_entry ev \<in> event_entry ` set evs' \<union> dropped_entry ` set dropped'"
    and "set evs \<subseteq> set evs'" "set dropped \<subseteq> set dropped'" "dropped' \<noteq> [] \<Longrightarrow> dropped \<noteq> [] \<or> evs' \<noteq> []"
proof -
  have "dropped_entry \<lparr>dp_pid = np_pid ev, dp_key = np_key ev\<rparr> = event_entry ev"
    by (simp add: dropped_entry_def event_entry_def)
  then show "\<not> lost \<Longrightarrow> event_entry ev \<in> event_entry ` set evs' \<union> dropped_entry ` set dropped'"
    using assms by (force simp: scheduleNewPidEvent_def Let_def split: if_splits)
qed (use assms in \<open>auto simp: scheduleNewPidEvent_def Let_def newPidQueueSize_def split: if_splits\<close>)

lemma pid_inv_deliver:
  assumes "pid_inv q"
  shows "pid_inv (deliver generation seenAt q)"
proof (cases "events (pq_maps q)")
  case Nil
  then show ?thesis using assms by (simp add: deliver_def)
next
  case (Cons raw rest)
  show ?thesis
  proof (cases "\<exists>a. announces a raw")
    case False
    then have "pending (q\<lparr>pq_maps := (pq_maps q)\<lparr>events := rest\<rparr>\<rparr>) = pending q" by (auto simp: pending_def Cons)
    moreover have "deliver generation seenAt q = q\<lparr>pq_maps := (pq_maps q)\<lparr>events := rest\<rparr>\<rparr>"
      using False Cons by (auto simp: deliver_def announces_def Let_def split: option.splits)
    ultimately show ?thesis using assms by (simp add: pid_inv_def marked_def)
  next
    case True
    then obtain e where e: "unmarshal raw = Some e" "Type e = eventTypeNewPid" by (auto simp: announces_def split: option.splits)
    let ?ev = "\<lparr>np_pid = Pid e, np_mntns = Mntns e, np_key = Key e, np_generation = generation, np_seenAt = seenAt\<rparr>"
    obtain lost evs dropped where sch: "scheduleNewPidEvent ?ev (pq_newPidEvents q, pq_droppedPids q) = (lost, evs, dropped)"
      by (cases "scheduleNewPidEvent ?ev (pq_newPidEvents q, pq_droppedPids q)")
    let ?a = "event_entry ?ev"
    let ?q = "q\<lparr>pq_maps := (pq_maps q)\<lparr>events := rest\<rparr>, pq_newPidEvents := evs, pq_droppedPids := dropped,
      pq_missed := if lost then insert ?a (pq_missed q) \<inter> marked (pq_maps q) else pq_missed q\<rparr>"
    have q: "deliver generation seenAt q = ?q" by (simp add: deliver_def Cons e sch Let_def marked_def event_entry_def)
    have ann: "announces a raw \<longleftrightarrow> a = ?a" for a using e by (simp add: announces_def event_entry_def)
    have "pending q - {?a} \<subseteq> pending ?q" using schedule_entry(2,3) [OF sch] by (auto simp: pending_def Cons ann)
    moreover have "\<not> lost \<Longrightarrow> ?a \<in> pending ?q" using schedule_entry(1) [OF sch] by (auto simp: pending_def)
    ultimately have "marked (pq_maps q) \<subseteq> pending ?q \<union> pq_handled q \<union> pq_missed ?q"
      using assms unfolding pid_inv_def by (cases lost) auto
    then show ?thesis
      using assms schedule_entry(2,4) [OF sch] unfolding q pid_inv_def by (auto simp: marked_def)
  qed
qed

lemma pid_inv_worker:
  assumes "pid_inv q" "i < length (pq_workers q)"
  shows "pid_inv (worker_step err i q)"
proof -
  note ws = set_workers [OF assms(2)]
  have pend: "pending q = {a. list_ex (announces a) (events (pq_maps q))} \<union> event_entry ` set (pq_newPidEvents q) \<union>
     dropped_entry ` set (pq_droppedPids q) \<union> worker_entries (pq_workers q ! i) \<union>
     (\<Union>w \<in> set (drop_worker i (pq_workers q)). worker_entries w)"
    unfolding pending_def ws(1) by auto
  have inv: "marked (pq_maps q) \<subseteq> pending q \<union> pq_handled q \<union> pq_missed q"
    "pq_droppedPids q \<noteq> [] \<Longrightarrow> pq_newPidEvents q \<noteq> [] \<or> will_take (pq_workers q ! i) \<or>
      (\<exists>w \<in> set (drop_worker i (pq_workers q)). will_take w)"
    using assms(1) unfolding pid_inv_def list_ex_iff ws(1) by auto
  show ?thesis
  proof (cases "pq_workers q ! i")
    case (Handling ev)
    then show ?thesis using inv unfolding pend
      by (auto simp: worker_step_def pid_inv_def pending_def ws list_ex_iff event_entry_def)
  next
    case Looking
    then show ?thesis using inv unfolding pend
      by (auto simp: worker_step_def pid_inv_def pending_def ws list_ex_iff)
  next
    case Taking
    then show ?thesis using inv unfolding pend
      by (auto simp: worker_step_def pid_inv_def pending_def ws list_ex_iff)
  next
    case (Deleting ds)
    then show ?thesis using inv unfolding pend
      by (cases ds) (auto simp: worker_step_def pid_inv_def pending_def ws list_ex_iff with_maps_def DeleteActivePid_def
          marked_def dropped_entry_def Let_def)
  qed
qed

lemma pid_inv_work: "work_step q q' \<Longrightarrow> pid_inv q \<Longrightarrow> pid_inv q'"
proof (induction rule: work_step.induct)
  case (take_event q ev evs)
  then show ?case by (auto simp: pid_inv_def pending_def)
qed (simp_all add: pid_inv_deliver pid_inv_worker)

lemma pid_inv_step: "pid_step C q q' \<Longrightarrow> pid_inv q \<Longrightarrow> pid_inv q'"
proof (induction rule: pid_step.induct)
  case (hook K t h q r s)
  then show ?case using reports_run_hook [OF hook(1,2)] pid_inv_maps unfolding reports_pids_def by blast
next
  case (clear s q)
  then show ?case by (intro pid_inv_maps [where new = "[]"]) auto
qed (simp add: pid_inv_work)

lemma pid_inv_reach: "(pid_step C)\<^sup>*\<^sup>* q q' \<Longrightarrow> pid_inv q \<Longrightarrow> pid_inv q'"
  by (induction rule: rtranclp_induct) (auto intro: pid_inv_step)

section \<open>The work ends\<close>

text \<open>What is left to do: an event may have to be queued, taken, handled and cleaned up after.\<close>

fun worker_work :: "worker \<Rightarrow> nat" where
  "worker_work (Handling _) = 4"
| "worker_work Looking = 3"
| "worker_work Taking = 2"
| "worker_work (Deleting ds) = 1 + length ds"

definition pid_work :: "pid_queue \<Rightarrow> nat" where
  "pid_work q = 6 * length (events (pq_maps q)) + 5 * length (pq_newPidEvents q) + length (pq_droppedPids q) +
     sum_list (map worker_work (pq_workers q))"

definition settled :: "pid_queue \<Rightarrow> bool" where
  "settled q \<longleftrightarrow> events (pq_maps q) = [] \<and> pq_newPidEvents q = [] \<and> pq_workers q = []"

lemma sum_workers:
  assumes "i < length ws"
  shows "sum_list (map worker_work ws) = worker_work (ws ! i) + sum_list (map worker_work (drop_worker i ws))"
    "sum_list (map worker_work (ws[i := x])) = worker_work x + sum_list (map worker_work (drop_worker i ws))"
proof -
  show "sum_list (map worker_work (ws[i := x])) = worker_work x + sum_list (map worker_work (drop_worker i ws))" for x
    using assms by (simp add: upd_conv_take_nth_drop drop_worker_def)
  from this [of "ws ! i"] show "sum_list (map worker_work ws) = worker_work (ws ! i) + sum_list (map worker_work (drop_worker i ws))"
    by simp
qed

lemma schedule_work:
  assumes "scheduleNewPidEvent ev (evs, dropped) = (lost, evs', dropped')"
  shows "5 * length evs' + length dropped' \<le> 5 * length evs + length dropped + 5"
  using assms by (auto simp: scheduleNewPidEvent_def Let_def List.insert_def split: if_splits)

lemma deliver_work:
  assumes "events (pq_maps q) = raw # rest"
  shows "pid_work (deliver generation seenAt q) < pid_work q"
proof (cases "unmarshal raw")
  case None
  then show ?thesis using assms by (simp add: deliver_def pid_work_def)
next
  case (Some e)
  let ?ev = "\<lparr>np_pid = Pid e, np_mntns = Mntns e, np_key = Key e, np_generation = generation, np_seenAt = seenAt\<rparr>"
  obtain lost evs dropped where sch: "scheduleNewPidEvent ?ev (pq_newPidEvents q, pq_droppedPids q) = (lost, evs, dropped)"
    by (cases "scheduleNewPidEvent ?ev (pq_newPidEvents q, pq_droppedPids q)")
  show ?thesis using schedule_work [OF sch] assms Some by (simp add: deliver_def pid_work_def sch Let_def)
qed

lemma work_step_less: "work_step q q' \<Longrightarrow> pid_work q' < pid_work q"
proof (induction rule: work_step.induct)
  case (deliver q generation seenAt)
  then show ?case using deliver_work by (cases "events (pq_maps q)") auto
next
  case (worker i q err)
  note sum_workers [OF worker]
  then show ?case
    by (cases "pq_workers q ! i")
      (auto simp: worker_step_def pid_work_def with_maps_def DeleteActivePid_def Let_def split: list.split)
qed (simp add: pid_work_def)

lemma pid_work_bound: "(work_step ^^ n) q q' \<Longrightarrow> n + pid_work q' \<le> pid_work q"
proof (induction n arbitrary: q')
  case (Suc n)
  then obtain q1 where "(work_step ^^ n) q q1" "work_step q1 q'" by auto
  with Suc.IH [of q1] work_step_less [of q1 q'] show ?case by simp
qed simp

lemma work_reach: "(work_step ^^ n) q q' \<Longrightarrow> (pid_step C)\<^sup>*\<^sup>* q q'"
  by (rule rtranclp_mono [of work_step, THEN predicate2D]) (auto simp: rtranclp_power intro: pid_step.work)

lemma settled_iff: "(\<nexists>q'. work_step q q') \<longleftrightarrow> settled q"
proof
  assume stuck: "\<nexists>q'. work_step q q'"
  have "events (pq_maps q) = []" using stuck work_step.deliver by blast
  moreover have "pq_workers q = []" using stuck work_step.worker [of 0 q] by fastforce
  moreover have "pq_newPidEvents q = []"
    using stuck work_step.take_event [of q] calculation(2) by (cases "pq_newPidEvents q") (auto simp: maxNewPidHandlers_def)
  ultimately show "settled q" by (simp add: settled_def)
qed (auto simp: settled_def elim: work_step.cases)

text \<open>
  (C10) No recorded process is forgotten. However hooks, the event loop, the workers and the ends of
  sessions interleave, the event loop and the workers come to rest after a bounded number of their
  own steps, no matter in which order, and then nothing is left in the ring buffer, in the queue and
  in the set of the dropped processes. Each process that the BPF program still marks as reported was
  handled since it was marked. The only exceptions are processes that were dropped while as many
  others were remembered already as fit into the queue, and those whose mark could not be deleted.
\<close>

theorem no_process_forgotten:
  assumes "active_pids s = Map.empty" "(pid_step C)\<^sup>*\<^sup>* (pid_init s) q" "(work_step ^^ n) q q'"
  shows "n \<le> pid_work q \<and> ((\<nexists>q''. work_step q' q'') \<longleftrightarrow> settled q') \<and>
    (settled q' \<longrightarrow> pq_droppedPids q' = [] \<and> marked (pq_maps q') \<subseteq> pq_handled q' \<union> pq_missed q')"
proof -
  have "pid_inv q'"
    using pid_inv_reach [OF rtranclp_trans [OF assms(2) work_reach [OF assms(3)]]] pid_inv_init [OF assms(1)] by blast
  then have "settled q' \<longrightarrow> pq_droppedPids q' = [] \<and> marked (pq_maps q') \<subseteq> pq_handled q' \<union> pq_missed q'"
    by (auto simp: pid_inv_def settled_def pending_def)
  then show ?thesis using pid_work_bound [OF assms(3)] settled_iff by auto
qed

text \<open>The first syscall of a process reports it, and six steps later it is handled.\<close>

definition ref_getpid :: raw_sys_enter where
  "ref_getpid = \<lparr>se_id = 39, se_args = [0, 0, 0, 0, 0, 0]\<rparr>"

definition ref_reported :: rstate where
  "ref_reported = snd (sys_enter ref_config ref_kernel ref_task ref_getpid recording_state)"

definition ref_record :: "u8 list" where
  "ref_record = wire_header \<lparr>ev_pid = 100, ev_mntns = 7, ev_key = 700, ev_type = eventTypeNewPid, ev_flags = 0\<rparr>"

lemma ref_reported_sel: "events ref_reported = [ref_record]" "active_pids ref_reported = [pid_entry 100 700 \<mapsto> 1]"
proof -
  let ?s = "recording_state\<lparr>active_pids := [pid_entry 100 700 \<mapsto> 1], events := [ref_record]\<rparr>"
  have rel: "syscall_relevant ref_config ref_kernel ref_task ref_getpid recording_state"
    by (simp add: syscall_relevant_def get_mntns_def ref_task_def recording_state_def init_state_def ref_getpid_def
        unique_keys_def ref_config_def has_filter_def)
  have key: "task_key ref_config ref_kernel ref_task = 700" "t_mntns_inum ref_task = 7" "current_pid ref_task = 100"
    "target ref_config = X86" by (simp_all add: task_key_def get_key_def ref_config_def ref_task_def current_pid_def)
  have rep: "report_pid ref_kernel ref_task 7 700 recording_state = (True, ?s)"
    by (simp add: report_pid_def active_key_def key pid_entry_def ref_kernel_def lru_update_def submit_event_def
        recording_state_def init_state_def ref_record_def eventTypeNewPid_def)
  have two: "stage2 ref_config ref_kernel ref_task ref_getpid recording_state = ?s"
    by (simp add: stage2_def key rep container_start_def ref_getpid_def is_exec_syscall_def is_seccomp_install_def)
  have sel: "events (record_syscall K t m k n True s) = events s" "active_pids (record_syscall K t m k n True s) = active_pids s"
    for K t m k n s by (simp_all add: record_syscall_def mark_syscall_def Let_def split: option.split)
  show "events ref_reported = [ref_record]" "active_pids ref_reported = [pid_entry 100 700 \<mapsto> 1]"
    by (simp_all add: ref_reported_def sys_enter_relevant [OF rel] key rep two sel)
qed

lemma ref_run:
  "\<exists>q'. (work_step ^^ 6) (with_maps ref_reported (pid_init recording_state)) q' \<and> settled q' \<and> pq_missed q' = {} \<and>
     marked (pq_maps q') = {pid_entry 100 700}"
proof -
  let ?q0 = "with_maps ref_reported (pid_init recording_state)"
  let ?ev = "\<lparr>np_pid = 100, np_mntns = 7, np_key = 700, np_generation = 0, np_seenAt = 0\<rparr>"
  let ?q1 = "?q0\<lparr>pq_maps := ref_reported\<lparr>events := []\<rparr>, pq_newPidEvents := [?ev]\<rparr>"
  let ?q2 = "?q1\<lparr>pq_newPidEvents := [], pq_workers := [Handling ?ev]\<rparr>"
  let ?q3 = "?q2\<lparr>pq_workers := [Looking], pq_handled := {pid_entry 100 700}\<rparr>"
  let ?q4 = "?q3\<lparr>pq_workers := [Taking]\<rparr>" and ?q5 = "?q3\<lparr>pq_workers := [Deleting []]\<rparr>" and ?q6 = "?q3\<lparr>pq_workers := []\<rparr>"
  have um: "unmarshal ref_record =
      Some \<lparr>Pid = 100, Mntns = 7, Key = 700, Type = eventTypeNewPid, Flags = 0, Data = []\<rparr>"
    using unmarshalHeader_wire [of _ "[]"] by (simp add: unmarshal_def ref_record_def)
  have m: "marked ref_reported = {pid_entry 100 700}" "marked (ref_reported\<lparr>events := []\<rparr>) = {pid_entry 100 700}"
    by (simp_all add: marked_def ref_reported_sel)
  have 1: "work_step ?q0 ?q1"
    using work_step.deliver [of ?q0 0 0]
    by (simp add: deliver_def with_maps_def pid_init_def ref_reported_sel um scheduleNewPidEvent_def newPidQueueSize_def)
  have 2: "work_step ?q1 ?q2"
    using work_step.take_event [of ?q1 ?ev "[]"] by (simp add: with_maps_def pid_init_def maxNewPidHandlers_def)
  have "work_step ?q2 ?q3" "work_step ?q3 ?q4" "work_step ?q4 ?q5" "work_step ?q5 ?q6"
    using work_step.worker [of 0 ?q2 "\<lambda>_. False"] work_step.worker [of 0 ?q3 "\<lambda>_. False"]
      work_step.worker [of 0 ?q4 "\<lambda>_. False"] work_step.worker [of 0 ?q5 "\<lambda>_. False"]
    by (simp_all add: worker_step_def with_maps_def pid_init_def m newPidQueueSize_def drop_worker_def)
  with 1 2 have "(work_step ^^ Suc (Suc (Suc (Suc (Suc (Suc 0)))))) ?q0 ?q6" by (blast intro: relpowp_Suc_I relpowp_0_I)
  moreover have "settled ?q6" "pq_missed ?q6 = {}" "marked (pq_maps ?q6) = {pid_entry 100 700}"
    by (simp_all add: settled_def with_maps_def pid_init_def m)
  moreover have "Suc (Suc (Suc (Suc (Suc (Suc 0))))) = 6" by simp
  ultimately show ?thesis by metis
qed

theorem no_process_forgotten_witness:
  "\<exists>q q'. (pid_step ref_config)\<^sup>*\<^sup>* (pid_init recording_state) q \<and> (work_step ^^ 6) q q' \<and> settled q' \<and>
     pid_entry 100 700 \<in> marked (pq_maps q') \<inter> pq_handled q'"
proof -
  let ?q = "with_maps ref_reported (pid_init recording_state)"
  obtain q' where run: "(work_step ^^ 6) ?q q'" "settled q'" "pq_missed q' = {}" "marked (pq_maps q') = {pid_entry 100 700}"
    using ref_run by blast
  have "pid_step ref_config (pid_init recording_state) ?q"
    using pid_step.hook [OF ref.bpf_kernel_axioms, of ref_config ref_task "Sys_enter ref_getpid" "pid_init recording_state"]
    by (simp add: pid_init_def ref_reported_def prod_eq_iff)
  then have reach: "(pid_step ref_config)\<^sup>*\<^sup>* (pid_init recording_state) ?q" ..
  have "active_pids recording_state = Map.empty" by (simp add: recording_state_def init_state_def)
  from no_process_forgotten [OF this reach run(1)] run have "pid_entry 100 700 \<in> pq_handled q'" by auto
  with reach run show ?thesis by blast
qed

end
