(* ===== verification/Spec2Isabelle.thy ===== *)
theory Spec2Isabelle
  imports Busy_Lock Container_Keys Container_Lookup End_To_End Exit_Wait Hook_Typing Init_Config Kernel_Layout Loss_Report
    Maintenance Path_Safety Permitted_Access Pid_Queue
begin

text \<open>
  The BPF programs of the security profiles operator, and the userspace code they talk to.

  \<^bold>\<open>The program.\<close> The operator records what a workload does and makes a seccomp and an AppArmor
  profile of it. Two BPF programs run in the kernel. The recorder, \<^verbatim>\<open>recorder.bpf.c\<close> with the path
  resolution of \<^verbatim>\<open>bpf_d_path_tetragon.h\<close>, hooks syscalls, LSM events and the life of processes, keeps its
  state in BPF maps, and reports what it sees through a ring buffer. The enricher,
  \<^verbatim>\<open>enricher.bpf.c\<close>, sends the accesses AppArmor audits. Both are compiled against the kernel
  structures of \<^verbatim>\<open>vmlinux.h\<close>, one header per target. In the userspace, \<^verbatim>\<open>bpfrecorder.go\<close> sets the
  constants of the recorder and decodes its events, \<^verbatim>\<open>bpfrecorder_apparmor.go\<close> collects them per key and
  makes a profile of them, \<^verbatim>\<open>containerkeys.go\<close> tells which keys a container has,
  \<^verbatim>\<open>bpfprocesscache.go\<close> keeps the command lines of processes, and \<^verbatim>\<open>bpfevent.go\<close> parses the audited
  accesses. The recorder is a service: requests start and stop a recording and ask for the data of a
  profile, handlers of new processes find out which container a key belongs to and which profiles its
  pod asks for (\<^verbatim>\<open>bpfrecorder.go\<close>, \<^verbatim>\<open>containerprofiles.go\<close>, \<^verbatim>\<open>podindex.go\<close>, \<^verbatim>\<open>containers.go\<close>), \<^verbatim>\<open>bpfrecorder_seccomp.go\<close>
  names the recorded syscalls, and \<^verbatim>\<open>maintenance.go\<close> drops what nobody will collect. The profile
  recorder turns the rules into an abstract profile (\<^verbatim>\<open>recorded.go\<close>), which \<^verbatim>\<open>crd2armor.go\<close>
  validates and writes as the text AppArmor loads. All files are below
  \<^verbatim>\<open>src/internal/pkg\<close>, most of them in its \<^verbatim>\<open>daemon\<close>.

  \<^bold>\<open>The state.\<close> The record \<open>rstate\<close> holds the maps of the recorder: a hash map is a partial
  function, an array a list, a per CPU array a list for each CPU, the ring buffer the list of its
  records as bytes. \<open>config\<close> holds the constants the userspace sets, \<open>task\<close> what the helpers tell
  of the current task, and \<open>kernel\<close> the helpers and the kernel memory as functions. The kernel is not
  part of the sources, so it is a parameter, and the laws the programs rely on are the locale
  \<open>bpf_kernel\<close>: an update of a full map fails or evicts, a string helper gives a terminated
  string that fits, and so on. Each law is the documented behaviour of a helper. A hook is a
  function from the state to its return value and the new state; a hook that writes to a
  buffer gives \<open>None\<close> for an access outside of it, and the safety theorems show that this does
  not happen. Machine integers are words of their width. The record \<open>BpfRecorder\<close> holds the tables
  of the userspace, \<open>AppArmorRecorder\<close> what it recorded, and \<open>handlers\<close> adds the handlers that are
  running. An operation of the userspace on both sides is a function of the pair \<open>service\<close> of the
  recorder and the maps. What fails in the kernel, the pods of the node and the time are arguments.

  \<^bold>\<open>The theories.\<close>
  \<^item> \<open>Prelude\<close>: bytes, C strings, little endian encoding, lists with bounds.
  \<^item> \<open>Bpf_Maps\<close>: the update operations of BPF maps as locales for hash and LRU maps, with
    bounded maps as interpretations.
  \<^item> \<open>Recorder_Types\<close>: the constants, structures and maps of the recorder, the environment and
    its laws, and a reference environment that satisfies them.
  \<^item> \<open>Filters\<close>: which tasks are recorded and under which key, container init processes, tasks of
    the 32 bit ABI. \<open>Init_Config\<close>: how the userspace lays out the names of init processes, and that
    the test in the kernel matches exactly these.
  \<^item> \<open>Events\<close>: the header of an event, the ring buffer and the loss counters, the decoder of the
    userspace and the round trip between them.
  \<^item> \<open>Container_Start\<close>: clearing the data of the container setup, once per container and only
    together with the event for the userspace.
  \<^item> \<open>Reports\<close>: capabilities and sockets are reported once per key, again after a loss, and
    grouping sockets by bits loses nothing.
  \<^item> \<open>Path_Resolution\<close>, \<open>Path_Correct\<close>, \<open>Path_Safety\<close>: the walk from a dentry to the root of the process.
    It gives the path across mounts, and never leaves its buffers whatever the memory holds.
  \<^item> \<open>File_Events\<close>, \<open>File_Correct\<close>, \<open>File_Outcomes\<close>: the LSM hooks. They are safe, the outcome of an
    access is known on every branch, repeated accesses are discarded without a loss, and a new
    directory is recorded end to end. \<open>Busy_Lock\<close>: the lock of the scratch buffer under preemption,
    which excludes others and is always released. \<open>Hook_Typing\<close>: no sequence of hooks gets stuck or
    leaves a well formed state.
  \<^item> \<open>Syscalls\<close>: the hook of all syscalls refines adding to a set of numbers per key.
    \<open>Processes\<close>: exec, exit and fork, and that exactly the named processes and their descendants
    are tracked.
  \<^item> \<open>Exec_Events\<close>: the arguments and the environment of an exec, to the process cache.
    \<open>Enricher\<close>: an audited access, to the audit line.
  \<^item> \<open>Path_Rules\<close>, \<open>Path_Cover\<close>: how the userspace turns a recorded path into the path of a rule, and that
    the rule covers the path. The matcher of AppArmor is not part of the sources, its documented
    glob language is the locale \<open>path_glob\<close>.
  \<^item> \<open>AppArmor_Recorder\<close>: the userspace side of the AppArmor recording, with the handlers of its
    events and their effect on the maps of the kernel. \<open>AppArmor_Profile\<close>: the profile made of the
    recorded data, which allows every recorded file access. \<open>Container_Keys\<close>: the table of the keys of
    containers, which refines a map from keys to containers.
  \<^item> \<open>Recorder_System\<close>: a call of any hook of the recorder, and what it does to the ring buffer and to
    the marks of what was reported. \<open>Recording\<close>: kernel and userspace interleaved, with the locale
    \<open>report_channel\<close> for the protocol of marks and records, interpreted for capabilities and for
    sockets. \<open>End_To_End\<close>: what the kernel marks as reported is in the profile, and two ways in which
    a file access is missing from it.
  \<^item> \<open>Container_Profiles\<close>: the table of the profiles of containers, which refines a list of pairs.
    \<open>Seccomp_Recorder\<close>: the names of the syscalls of a profile. \<open>Loss_Report\<close>: every counted loss is
    reported once. \<open>Recording_Session\<close>: start and stop. The hooks record exactly while a request is
    open, the last stop forgets everything, and a stop that fails cannot be repeated.
  \<^item> \<open>Profile_Service\<close>: reading and resetting the data of a profile. The locale \<open>profile_data\<close> is what a
    kind of data promises to the requests of the other kind, interpreted for syscalls and rules. A
    recorded syscall is in the reply, and collecting one profile takes nothing from another.
    \<open>Pid_Handlers\<close>: the handlers of new processes in steps that interleave with sessions and requests.
    They end, a reply only has data of containers that ask for the profile, and a handler of a
    finished session can remove entries of the next one.
    \<open>Container_Lookup\<close>: the container of a key, which is never that of a process that only got the ID
    of the reported one. \<open>Pid_Queue\<close>: the bounded queue in front of the handlers. No process the hooks report is forgotten.
  \<^item> \<open>Maintenance\<close>: stale keys are dropped after two sweeps, and a recording is stopped only if it is
    abandoned. \<open>Exit_Wait\<close>: waiting for the exit of a process, which a lone waiter never misses and a
    second one can.
  \<^item> \<open>Reg_Exp\<close>: regular expressions with derivatives. \<open>Profile_Data\<close>, \<open>Profile_Text\<close>: the data of an
    AppArmor profile, its validation and its text. \<open>Profile_Statements\<close>: reading the text back gives
    exactly the statements of the data. \<open>Recorded_Profile\<close>: a recorded profile passes the validation.
    \<open>Permitted_Access\<close>: its text permits what was recorded, apart from deny rules of other paths.
  \<^item> \<open>C_Layout\<close>: the layout of C structures and its soundness. \<open>Vmlinux_Scalars\<close>, \<open>X86_Vfs\<close>, \<open>X86_Tasks\<close>,
    \<open>X86_Trace\<close> and the same for \<open>Arm64\<close>: the kernel structures of both headers, member by member.
    \<open>Core_Read\<close>: field accesses that follow pointers, on a byte memory. \<open>Kernel_Memory\<close>: every field
    the programs read, as such an access. \<open>X86_Btf\<close>, \<open>Arm64_Btf\<close>, \<open>Kernel_Layout\<close>: the accesses
    resolve on both targets, their offsets, and paths read from the bytes of the memory.

  \<^bold>\<open>Bounds.\<close> The loops of the programs are bounded, and are modelled as recursion over the range
  of the index (task names of 16 bytes, 4 init names, prefixes of 32 bytes, 20 arguments and 50
  environment variables) or over the number of rounds left, which is 128 for the walk to the root,
  the constant of the source. A handler of a new process is run for five steps, which the rank of its
  phases shows to be enough. No theorem depends on a bound of the model's own. The only
  search without a bound in the sources, the loop over mounts and parents, is the bounded one.

  \<^bold>\<open>What is not modelled.\<close> The verifier and the loader of the kernel, debug output, and concurrent
  changes of one map by several CPUs other than the lock of the scratch buffer: a hook runs to
  its end before the next one starts. An operation of the userspace does so as well, apart from the
  handlers of new processes, their workers and the waiters for an exit, which are modelled in steps; the locks of
  the tables are left out. The loading and attaching of the programs, the transport of gRPC, the
  reading of files of the proc file system, the watch on the pods, the timers and the
  expiry of caches are input and output around the functions
  modelled here. The controllers, webhooks, enrichers of other logs and the command line of the
  operator are glue around libraries that are not part of the sources. The parser of AppArmor is not
  part of the sources either: what a line of a profile means is stated by \<open>Profile_Statements\<close> and
  \<open>Permitted_Access\<close>. Of \<^verbatim>\<open>vmlinux.h\<close>, the structures that the programs neither read nor have embedded
  in what they read are left out, as nothing in the sources depends on them.
\<close>

end
